(* ===== verification/Prelude.thy ===== *)
theory Prelude
  imports Main "HOL-Library.Product_Lexorder" "HOL-Library.Multiset"
begin

text \<open>
  What every component shares: the types of identifiers and instants, results that may be an
  exception, ordered queries, and the table of rows behind each Django model with its interface
  (the locale \<open>row_store\<close>).
\<close>

section \<open>Names of the model's basic types\<close>

text \<open>
  A primary key is a Python int. An instant is a UTC timestamp in microseconds since
  0001-01-01T00:00:00Z, the least value of Python's \<open>datetime\<close>. A \<open>clock\<close> gives, for one
  call of an operation, the values its successive readings of \<open>timezone.now()\<close> return; every
  operation says which reading it uses where, and nothing is assumed of the values.
\<close>

type_synonym row_id = int
type_synonym time = int
type_synonym clock = "nat \<Rightarrow> time"

definition or_now :: "time option \<Rightarrow> time \<Rightarrow> time" where
  "or_now given now = (case given of None \<Rightarrow> now | Some t \<Rightarrow> t)"

lemma or_now_simps [simp]: "or_now None now = now" "or_now (Some t) now = t"
  by (simp_all add: or_now_def)

abbreviation seconds :: "int \<Rightarrow> time" where
  "seconds n \<equiv> n * 1000000"

abbreviation minutes :: "int \<Rightarrow> time" where
  "minutes n \<equiv> seconds (60 * n)"

section \<open>Results: a value or the exception that was raised\<close>

fun bind_res :: "'e + 'a \<Rightarrow> ('a \<Rightarrow> 'e + 'b) \<Rightarrow> 'e + 'b" where
  "bind_res (Inl e) k = Inl e"
| "bind_res (Inr x) k = k x"

definition require :: "bool \<Rightarrow> 'e \<Rightarrow> 'e + unit" where
  "require b e = (if b then Inr () else Inl e)"

definition or_raise :: "'a option \<Rightarrow> 'e \<Rightarrow> 'e + 'a" where
  "or_raise x e = (case x of None \<Rightarrow> Inl e | Some v \<Rightarrow> Inr v)"

lemma bind_res_Inr_iff [simp]: "bind_res r k = Inr y \<longleftrightarrow> (\<exists>x. r = Inr x \<and> k x = Inr y)"
  by (cases r) auto

lemma bind_res_Inl_iff:
  "bind_res r k = Inl e \<longleftrightarrow> r = Inl e \<or> (\<exists>x. r = Inr x \<and> k x = Inl e)"
  by (cases r) auto

lemma require_Inr_iff [simp]: "require b e = Inr u \<longleftrightarrow> b"
  by (simp add: require_def)

lemma require_Inl_iff [simp]: "require b e = Inl e' \<longleftrightarrow> \<not> b \<and> e' = e"
  by (auto simp: require_def)

lemma bind_require: "bind_res (require b e) k = (if b then k () else Inl e)"
  by (simp add: require_def)

lemma or_raise_simps [simp]:
  "or_raise None e = Inl e" "or_raise (Some v) e = Inr v"
  by (simp_all add: or_raise_def)

lemma or_raise_Inr_iff [simp]: "or_raise x e = Inr v \<longleftrightarrow> x = Some v"
  by (cases x) simp_all

lemma or_raise_Inl_iff [simp]: "or_raise x e = Inl e' \<longleftrightarrow> x = None \<and> e' = e"
  by (cases x) auto

section \<open>Ordered queries\<close>

text \<open>
  \<open>order_by\<close> is SQL's ascending sort on a key that is unique in the table, \<open>first\<close> is
  Django's \<open>QuerySet.first\<close>.
\<close>

definition order_by :: "('r \<Rightarrow> 'k::linorder) \<Rightarrow> 'r list \<Rightarrow> 'r list" where
  "order_by k rs = sort_key k rs"

fun first :: "'r list \<Rightarrow> 'r option" where
  "first [] = None"
| "first (r # rs) = Some r"

lemma set_order_by [simp]: "set (order_by k rs) = set rs"
  by (simp add: order_by_def)

lemma mset_order_by [simp]: "mset (order_by k rs) = mset rs"
  by (simp add: order_by_def)

lemma length_order_by [simp]: "length (order_by k rs) = length rs"
  by (simp add: order_by_def)

lemma sorted_order_by [simp]: "sorted (map k (order_by k rs))"
  by (simp add: order_by_def)

lemma order_by_Nil_iff [simp]: "order_by k rs = [] \<longleftrightarrow> rs = []"
  using length_order_by [of k rs] by (metis length_0_conv)

lemma distinct_map_order_by [simp]: "distinct (map f (order_by k rs)) \<longleftrightarrow> distinct (map f rs)"
  by (metis mset_map mset_order_by mset_eq_imp_distinct_iff)

lemma first_None_iff [simp]: "first rs = None \<longleftrightarrow> rs = []"
  by (cases rs) simp_all

lemma first_in_set: "first rs = Some r \<Longrightarrow> r \<in> set rs"
  by (cases rs) simp_all

lemma first_order_by_least:
  assumes "first (order_by k rs) = Some r" and "s \<in> set rs"
  shows "k r \<le> k s"
proof -
  obtain rest where rest: "order_by k rs = r # rest"
    using assms(1) by (cases "order_by k rs") auto
  have "sorted (map k (r # rest))"
    using sorted_order_by [of k rs] by (simp only: rest)
  moreover have "s \<in> set (r # rest)"
    using assms(2) set_order_by [of k rs] by (simp only: rest)
  ultimately show ?thesis by auto
qed

lemma order_by_descending:
  fixes f :: "'r \<Rightarrow> int"
  assumes "sorted_wrt (\<lambda>x y. f x < f y) rs"
  shows "order_by (\<lambda>r. - f r) rs = rev rs"
proof -
  have inj: "inj_on (\<lambda>r. - f r) (set rs)"
    using assms by (induction rs) (force simp: inj_on_insert)+
  have "sorted (map (\<lambda>r. - f r) (rev rs))"
    using assms by (induction rs) (auto simp: sorted_append less_imp_le)
  then show ?thesis
    unfolding order_by_def by (intro sort_key_inj_key_eq inj) simp_all
qed

lemma first_rev: "first (rev xs) = (if xs = [] then None else Some (last xs))"
  by (cases xs rule: rev_cases) simp_all

lemma all_butlast_last:
  assumes "\<forall>x \<in> set (butlast xs). P x" and "P (last xs)"
  shows "\<forall>x \<in> set xs. P x"
  using assms by (cases xs rule: rev_cases) auto

section \<open>Tables\<close>

text \<open>
  A model's table: its rows in insertion order and the identifier the next insert takes
  (\<open>BigAutoField\<close>: an identifier is never used twice). \<open>find_row\<close> is a primary-key
  lookup, \<open>update_row\<close> the effect of an \<open>UPDATE ... WHERE id = i\<close>, \<open>insert_row\<close> of
  an \<open>INSERT\<close>, \<open>delete_rows\<close> of a \<open>DELETE\<close>.
\<close>

record 'r table =
  rows :: "'r list"
  next_id :: row_id

definition empty_table :: "'r table" where
  "empty_table = \<lparr>rows = [], next_id = 1\<rparr>"

definition find_row :: "('r \<Rightarrow> row_id) \<Rightarrow> row_id \<Rightarrow> 'r table \<Rightarrow> 'r option" where
  "find_row key i t = find (\<lambda>r. key r = i) (rows t)"

definition update_row ::
  "('r \<Rightarrow> row_id) \<Rightarrow> row_id \<Rightarrow> ('r \<Rightarrow> 'r) \<Rightarrow> 'r table \<Rightarrow> 'r table" where
  "update_row key i f t = t\<lparr>rows := map (\<lambda>r. if key r = i then f r else r) (rows t)\<rparr>"

definition insert_row :: "(row_id \<Rightarrow> 'r) \<Rightarrow> 'r table \<Rightarrow> 'r \<times> 'r table" where
  "insert_row mk t =
     (let r = mk (next_id t)
      in (r, t\<lparr>rows := rows t @ [r], next_id := next_id t + 1\<rparr>))"

definition delete_rows :: "('r \<Rightarrow> bool) \<Rightarrow> 'r table \<Rightarrow> 'r table" where
  "delete_rows p t = t\<lparr>rows := filter (\<lambda>r. \<not> p r) (rows t)\<rparr>"

definition wf_table :: "('r \<Rightarrow> row_id) \<Rightarrow> 'r table \<Rightarrow> bool" where
  "wf_table key t \<longleftrightarrow>
     distinct (map key (rows t)) \<and>
     (\<forall>k \<in> set (map key (rows t)). 0 < k \<and> k < next_id t) \<and> 0 < next_id t"

lemma wf_empty_table [simp]: "wf_table key empty_table"
  by (simp add: wf_table_def empty_table_def)

lemma find_row_key: "find_row key i t = Some r \<Longrightarrow> key r = i"
  by (auto simp: find_row_def find_Some_iff)

lemma find_row_in_rows: "find_row key i t = Some r \<Longrightarrow> r \<in> set (rows t)"
  by (auto simp: find_row_def find_Some_iff)

lemma find_row_None_iff: "find_row key i t = None \<longleftrightarrow> (\<forall>r \<in> set (rows t). key r \<noteq> i)"
  by (auto simp: find_row_def find_None_iff)

lemma find_row_of_member:
  assumes "wf_table key t" and "r \<in> set (rows t)"
  shows "find_row key (key r) t = Some r"
proof -
  from assms(2) have "find_row key (key r) t \<noteq> None"
    by (auto simp: find_row_None_iff)
  then obtain s where s: "find_row key (key r) t = Some s" by blast
  then have "key s = key r" and "s \<in> set (rows t)"
    by (auto dest: find_row_key find_row_in_rows)
  with assms have "s = r"
    by (auto simp: wf_table_def distinct_map inj_on_def)
  with s show ?thesis by simp
qed

lemma find_map_row:
  assumes "\<And>r. key (f r) = key r"
  shows "find (\<lambda>r. key r = j) (map (\<lambda>r. if key r = i then f r else r) rs) =
    (if j = i then map_option f (find (\<lambda>r. key r = j) rs) else find (\<lambda>r. key r = j) rs)"
  using assms by (induction rs) auto

lemma find_row_update_row:
  assumes "\<And>r. key (f r) = key r"
  shows "find_row key j (update_row key i f t) =
    (if j = i then map_option f (find_row key j t) else find_row key j t)"
  using find_map_row [of key f, OF assms] by (simp add: find_row_def update_row_def)

lemma rows_update_row:
  "rows (update_row key i f t) = map (\<lambda>r. if key r = i then f r else r) (rows t)"
  by (simp add: update_row_def)

lemma next_id_update_row [simp]: "next_id (update_row key i f t) = next_id t"
  by (simp add: update_row_def)

lemma map_key_update_row:
  assumes "\<And>r. key (f r) = key r"
  shows "map key (rows (update_row key i f t)) = map key (rows t)"
  using assms by (simp add: rows_update_row)

lemma wf_update_row [simp]:
  assumes "\<And>r. key (f r) = key r"
  shows "wf_table key (update_row key i f t) \<longleftrightarrow> wf_table key t"
  by (simp only: wf_table_def map_key_update_row [of key f, OF assms] next_id_update_row)

lemma update_row_update_row:
  assumes "\<And>r. key (f r) = key r"
  shows "update_row key i g (update_row key i f t) = update_row key i (\<lambda>r. g (f r)) t"
  using assms by (simp add: update_row_def o_def if_distrib cong: if_cong)

lemma update_row_commute:
  assumes "\<And>r. key (f r) = key r" and "\<And>r. key (g r) = key r" and "i \<noteq> j"
  shows "update_row key i f (update_row key j g t) = update_row key j g (update_row key i f t)"
  using assms by (auto simp: update_row_def)

lemma insert_row_simps:
  "fst (insert_row mk t) = mk (next_id t)"
  "rows (snd (insert_row mk t)) = rows t @ [mk (next_id t)]"
  "next_id (snd (insert_row mk t)) = next_id t + 1"
  by (simp_all add: insert_row_def Let_def)

lemma wf_insert_row:
  assumes "\<And>i. key (mk i) = i" and "wf_table key t"
  shows "wf_table key (snd (insert_row mk t))"
  using assms by (fastforce simp: wf_table_def insert_row_simps)

lemma find_row_insert_row:
  assumes "\<And>i. key (mk i) = i" and "wf_table key t"
  shows "find_row key j (snd (insert_row mk t)) =
    (if j = next_id t then Some (mk (next_id t)) else find_row key j t)"
proof -
  have fresh: "find (\<lambda>r. key r = next_id t) (rows t) = None"
    using assms(2) by (auto simp: wf_table_def find_None_iff)
  have append: "find p (xs @ [x]) = (case find p xs of None \<Rightarrow> if p x then Some x else None | s \<Rightarrow> s)"
    for p :: "'a \<Rightarrow> bool" and xs x
    by (induction xs) auto
  show ?thesis
    using fresh assms(1) by (auto simp: find_row_def insert_row_simps append split: option.splits)
qed

lemma wf_delete_rows: "wf_table key t \<Longrightarrow> wf_table key (delete_rows p t)"
  by (auto simp: wf_table_def delete_rows_def distinct_map_filter)

section \<open>The interface of a table\<close>

text \<open>
  What the services rely on when they read and write rows by primary key: a store \<open>'s\<close> with a
  lookup and an update, both by identifier. Every Django model of the program provides it.
\<close>

locale row_store =
  fixes key :: "'r \<Rightarrow> row_id"
    and get :: "row_id \<Rightarrow> 's \<Rightarrow> 'r option"
    and put :: "row_id \<Rightarrow> ('r \<Rightarrow> 'r) \<Rightarrow> 's \<Rightarrow> 's"
  assumes get_key: "get i s = Some r \<Longrightarrow> key r = i"
    and get_put: "(\<And>r. key (f r) = key r) \<Longrightarrow>
      get j (put i f s) = (if j = i then map_option f (get j s) else get j s)"
    and put_put: "(\<And>r. key (f r) = key r) \<Longrightarrow> put i g (put i f s) = put i (\<lambda>r. g (f r)) s"
    and put_commute: "(\<And>r. key (f r) = key r) \<Longrightarrow> (\<And>r. key (g r) = key r) \<Longrightarrow> i \<noteq> j \<Longrightarrow>
      put i f (put j g s) = put j g (put i f s)"
begin

lemma get_put_same:
  "(\<And>r. key (f r) = key r) \<Longrightarrow> get i s = Some r \<Longrightarrow> get i (put i f s) = Some (f r)"
  by (simp add: get_put)

lemma get_put_other: "(\<And>r. key (f r) = key r) \<Longrightarrow> j \<noteq> i \<Longrightarrow> get j (put i f s) = get j s"
  by (simp add: get_put)

lemma get_put_missing:
  "(\<And>r. key (f r) = key r) \<Longrightarrow> get j (put i f s) = None \<longleftrightarrow> get j s = None"
  by (simp add: get_put)

lemma get_put_cases:
  assumes "\<And>r. key (f r) = key r" and "get j (put i f s) = Some r'"
  obtains r where "j = i" "get i s = Some r" "r' = f r"
    | "j \<noteq> i" "get j s = Some r'"
  using assms by (cases "j = i") (auto simp: get_put)

lemma get_fold_put_frame:
  assumes "\<And>i r. key (f i r) = key r" and "j \<notin> set is"
  shows "get j (fold (\<lambda>i. put i (f i)) is s) = get j s"
  using assms by (induction "is" arbitrary: s) (auto simp: get_put)

end

end
