(* ===== verification/Failures.thy ===== *)
theory Failures
  imports Prelude
begin

text \<open>
  The exceptions the program raises and catches: one datatype per module that declares a
  hierarchy (\<open>apps/delivery/exceptions.py\<close>, \<open>apps/weather/exceptions.py\<close>,
  \<open>apps/accounts/verification_exceptions.py\<close>, \<open>apps/delivery/queueing.py\<close>), their \<open>retryable\<close>
  attribute, their class names, and the value an \<open>except\<close> clause sees.
\<close>

section \<open>Project exception classes\<close>

datatype delivery_error =
    DeliveryError
  | DeliveryConfigurationError
  | DeliveryInputInvalid
  | DeliveryAuthenticationError
  | DeliveryRateLimited
  | DeliveryProviderRejected
  | DeliveryProviderTimeout
  | DeliveryProviderUnavailable
  | DeliveryMalformedResponse
  | MissedDeliveryWindow

fun delivery_retryable :: "delivery_error \<Rightarrow> bool" where
  "delivery_retryable DeliveryRateLimited = True"
| "delivery_retryable DeliveryProviderTimeout = True"
| "delivery_retryable DeliveryProviderUnavailable = True"
| "delivery_retryable DeliveryMalformedResponse = True"
| "delivery_retryable _ = False"

fun delivery_error_name :: "delivery_error \<Rightarrow> string" where
  "delivery_error_name DeliveryError = ''DeliveryError''"
| "delivery_error_name DeliveryConfigurationError = ''DeliveryConfigurationError''"
| "delivery_error_name DeliveryInputInvalid = ''DeliveryInputInvalid''"
| "delivery_error_name DeliveryAuthenticationError = ''DeliveryAuthenticationError''"
| "delivery_error_name DeliveryRateLimited = ''DeliveryRateLimited''"
| "delivery_error_name DeliveryProviderRejected = ''DeliveryProviderRejected''"
| "delivery_error_name DeliveryProviderTimeout = ''DeliveryProviderTimeout''"
| "delivery_error_name DeliveryProviderUnavailable = ''DeliveryProviderUnavailable''"
| "delivery_error_name DeliveryMalformedResponse = ''DeliveryMalformedResponse''"
| "delivery_error_name MissedDeliveryWindow = ''MissedDeliveryWindow''"

datatype weather_error =
    WeatherProviderError
  | WeatherConfigurationError
  | WeatherLocationNotFound
  | WeatherAuthenticationError
  | WeatherRateLimited
  | WeatherProviderTimeout
  | WeatherProviderUnavailable
  | WeatherMalformedResponse

fun weather_retryable :: "weather_error \<Rightarrow> bool" where
  "weather_retryable WeatherRateLimited = True"
| "weather_retryable WeatherProviderTimeout = True"
| "weather_retryable WeatherProviderUnavailable = True"
| "weather_retryable WeatherMalformedResponse = True"
| "weather_retryable _ = False"

fun weather_error_name :: "weather_error \<Rightarrow> string" where
  "weather_error_name WeatherProviderError = ''WeatherProviderError''"
| "weather_error_name WeatherConfigurationError = ''WeatherConfigurationError''"
| "weather_error_name WeatherLocationNotFound = ''WeatherLocationNotFound''"
| "weather_error_name WeatherAuthenticationError = ''WeatherAuthenticationError''"
| "weather_error_name WeatherRateLimited = ''WeatherRateLimited''"
| "weather_error_name WeatherProviderTimeout = ''WeatherProviderTimeout''"
| "weather_error_name WeatherProviderUnavailable = ''WeatherProviderUnavailable''"
| "weather_error_name WeatherMalformedResponse = ''WeatherMalformedResponse''"

datatype verification_error =
    VerificationError
  | VerificationConfigurationError
  | PhoneAlreadyVerified
  | PhoneNumberChanged
  | VerificationInputInvalid
  | VerificationExpired
  | VerificationBlocked
  | VerificationAuthenticationError
  | VerificationRateLimited
  | VerificationProviderTimeout
  | VerificationProviderUnavailable
  | VerificationMalformedResponse

fun verification_retryable :: "verification_error \<Rightarrow> bool" where
  "verification_retryable VerificationRateLimited = True"
| "verification_retryable VerificationProviderTimeout = True"
| "verification_retryable VerificationProviderUnavailable = True"
| "verification_retryable VerificationMalformedResponse = True"
| "verification_retryable _ = False"

fun verification_error_name :: "verification_error \<Rightarrow> string" where
  "verification_error_name VerificationError = ''VerificationError''"
| "verification_error_name VerificationConfigurationError = ''VerificationConfigurationError''"
| "verification_error_name PhoneAlreadyVerified = ''PhoneAlreadyVerified''"
| "verification_error_name PhoneNumberChanged = ''PhoneNumberChanged''"
| "verification_error_name VerificationInputInvalid = ''VerificationInputInvalid''"
| "verification_error_name VerificationExpired = ''VerificationExpired''"
| "verification_error_name VerificationBlocked = ''VerificationBlocked''"
| "verification_error_name VerificationAuthenticationError = ''VerificationAuthenticationError''"
| "verification_error_name VerificationRateLimited = ''VerificationRateLimited''"
| "verification_error_name VerificationProviderTimeout = ''VerificationProviderTimeout''"
| "verification_error_name VerificationProviderUnavailable = ''VerificationProviderUnavailable''"
| "verification_error_name VerificationMalformedResponse = ''VerificationMalformedResponse''"

datatype queue_error =
    QueueError
  | QueueConfigurationError
  | QueueUnavailable
  | MalformedQueueMessage

fun queue_error_name :: "queue_error \<Rightarrow> string" where
  "queue_error_name QueueError = ''QueueError''"
| "queue_error_name QueueConfigurationError = ''QueueConfigurationError''"
| "queue_error_name QueueUnavailable = ''QueueUnavailable''"
| "queue_error_name MalformedQueueMessage = ''MalformedQueueMessage''"

datatype webhook_error =
    InvalidTwilioSignature
  | MalformedVoiceStatusCallback
  | MalformedVoiceActionCallback
  | MalformedInboundSmsCallback

fun webhook_error_name :: "webhook_error \<Rightarrow> string" where
  "webhook_error_name InvalidTwilioSignature = ''InvalidTwilioSignature''"
| "webhook_error_name MalformedVoiceStatusCallback = ''MalformedVoiceStatusCallback''"
| "webhook_error_name MalformedVoiceActionCallback = ''MalformedVoiceActionCallback''"
| "webhook_error_name MalformedInboundSmsCallback = ''MalformedInboundSmsCallback''"

text \<open>
  \<open>exn_class\<close> is the class of an exception: Python's and Django's own, those declared in the
  service modules, the hierarchies above, or any other class, which a provider or a sender may
  raise (its name and the value \<open>getattr(exc, "retryable", False)\<close> has on it).
\<close>

datatype exn_class =
    ValueError
  | TypeError
  | RuntimeError
  | OverflowError
  | KeyError
  | IntegrityError
  | DataError
  | DoesNotExist
  | ValidationError
  | ScheduledEventLifecycleConflict
  | EventNotDue
  | MessageSenderNotConfigured
  | DeliveryAttemptNotFound
  | CommandError
  | DeliveryExn delivery_error
  | WeatherExn weather_error
  | VerificationExn verification_error
  | QueueExn queue_error
  | WebhookExn webhook_error
  | OtherExn string bool

text \<open>
  An exception carries \<open>str(exc)\<close> and, for a \<open>ValidationError\<close> built from a dictionary, its
  field messages.
\<close>

datatype exn = Exn (exn_class: exn_class) (exn_text: string) (exn_fields: "(string \<times> string) list")

abbreviation raise :: "exn_class \<Rightarrow> string \<Rightarrow> exn" where
  "raise c text \<equiv> Exn c text []"

abbreviation field_error :: "exn_class \<Rightarrow> string \<Rightarrow> string \<Rightarrow> exn" where
  "field_error c field text \<equiv> Exn c text [(field, text)]"

text \<open>\<open>except ValidationError\<close> also catches the subclasses the services declare.\<close>

fun is_validation_error :: "exn_class \<Rightarrow> bool" where
  "is_validation_error ValidationError = True"
| "is_validation_error ScheduledEventLifecycleConflict = True"
| "is_validation_error EventNotDue = True"
| "is_validation_error _ = False"

text \<open>\<open>getattr(exc, "retryable", False)\<close>.\<close>

fun retryable :: "exn_class \<Rightarrow> bool" where
  "retryable (DeliveryExn e) = delivery_retryable e"
| "retryable (WeatherExn e) = weather_retryable e"
| "retryable (VerificationExn e) = verification_retryable e"
| "retryable (OtherExn _ r) = r"
| "retryable _ = False"

text \<open>\<open>type(exc).__name__\<close>.\<close>

fun class_name :: "exn_class \<Rightarrow> string" where
  "class_name ValueError = ''ValueError''"
| "class_name TypeError = ''TypeError''"
| "class_name RuntimeError = ''RuntimeError''"
| "class_name OverflowError = ''OverflowError''"
| "class_name KeyError = ''KeyError''"
| "class_name IntegrityError = ''IntegrityError''"
| "class_name DataError = ''DataError''"
| "class_name DoesNotExist = ''DoesNotExist''"
| "class_name ValidationError = ''ValidationError''"
| "class_name ScheduledEventLifecycleConflict = ''ScheduledEventLifecycleConflict''"
| "class_name EventNotDue = ''EventNotDue''"
| "class_name MessageSenderNotConfigured = ''MessageSenderNotConfigured''"
| "class_name DeliveryAttemptNotFound = ''DeliveryAttemptNotFound''"
| "class_name CommandError = ''CommandError''"
| "class_name (DeliveryExn e) = delivery_error_name e"
| "class_name (WeatherExn e) = weather_error_name e"
| "class_name (VerificationExn e) = verification_error_name e"
| "class_name (QueueExn e) = queue_error_name e"
| "class_name (WebhookExn e) = webhook_error_name e"
| "class_name (OtherExn n _) = n"

end
