(* ===== verification/Lifecycle.thy ===== *)
theory Lifecycle
  imports Failures
begin

text \<open>
  The contract of a model's \<open>transition_to\<close> method, shared by \<open>ScheduledEvent\<close> and
  \<open>DeliveryAttempt\<close>: a status field moved only along a finite, acyclic table of transitions.
  A history is a list of attempted transitions, each of which either happens or raises and
  leaves the instance as it was.
\<close>

fun run_history ::
  "('st \<Rightarrow> time \<Rightarrow> 'm \<Rightarrow> exn + 'm) \<Rightarrow> ('st \<times> time) list \<Rightarrow> 'm \<Rightarrow> 'm" where
  "run_history step [] m = m"
| "run_history step ((new, at) # h) m =
     (case step new at m of Inl _ \<Rightarrow> run_history step h m | Inr m' \<Rightarrow> run_history step h m')"

fun accepted ::
  "('st \<Rightarrow> time \<Rightarrow> 'm \<Rightarrow> exn + 'm) \<Rightarrow> ('st \<times> time) list \<Rightarrow> 'm \<Rightarrow> nat" where
  "accepted step [] m = 0"
| "accepted step ((new, at) # h) m =
     (case step new at m of Inl _ \<Rightarrow> accepted step h m | Inr m' \<Rightarrow> Suc (accepted step h m'))"

locale lifecycle =
  fixes status :: "'m \<Rightarrow> 'st"
    and allowed :: "'st \<Rightarrow> 'st set"
    and rank :: "'st \<Rightarrow> nat"
    and step :: "'st \<Rightarrow> time \<Rightarrow> 'm \<Rightarrow> exn + 'm"
  assumes step_Inr: "step new at m = Inr m' \<Longrightarrow> new \<in> allowed (status m) \<and> status m' = new"
    and step_defined: "new \<in> allowed (status m) \<Longrightarrow> \<exists>m'. step new at m = Inr m'"
    and rank_decreases: "new \<in> allowed s \<Longrightarrow> rank new < rank s"
begin

lemma step_iff: "(\<exists>m'. step new at m = Inr m') \<longleftrightarrow> new \<in> allowed (status m)"
  using step_Inr step_defined by blast

lemma terminal_raises: "allowed (status m) = {} \<Longrightarrow> \<exists>e. step new at m = Inl e"
  using step_Inr [of new at m] by (cases "step new at m") auto

lemma run_terminal: "allowed (status m) = {} \<Longrightarrow> run_history step h m = m"
proof (induction h)
  case Nil
  then show ?case by simp
next
  case (Cons x h)
  obtain new at where x: "x = (new, at)" by fastforce
  from Cons.prems obtain e where "step new at m = Inl e"
    using terminal_raises by blast
  with Cons x show ?case by simp
qed

lemma run_follows_table:
  "(status m, status (run_history step h m)) \<in> {(s, t). t \<in> allowed s}\<^sup>*"
proof (induction h arbitrary: m)
  case Nil
  then show ?case by simp
next
  case (Cons x h)
  obtain new at where x: "x = (new, at)" by fastforce
  show ?case
  proof (cases "step new at m")
    case (Inl e)
    with Cons.IH [of m] x show ?thesis by simp
  next
    case (Inr m')
    then have "(status m, status m') \<in> {(s, t). t \<in> allowed s}"
      using step_Inr by blast
    with Cons.IH [of m'] x Inr show ?thesis
      by (simp add: converse_rtrancl_into_rtrancl)
  qed
qed

lemma accepted_bound: "accepted step h m + rank (status (run_history step h m)) \<le> rank (status m)"
proof (induction h arbitrary: m)
  case Nil
  then show ?case by simp
next
  case (Cons x h)
  obtain new at where x: "x = (new, at)" by fastforce
  show ?case
  proof (cases "step new at m")
    case (Inl e)
    with Cons.IH [of m] x show ?thesis by simp
  next
    case (Inr m')
    then have "rank (status m') < rank (status m)"
      using step_Inr rank_decreases by blast
    with Cons.IH [of m'] x Inr show ?thesis by simp
  qed
qed

end

end
