(* ===== verification/Python_Text.thy ===== *)
theory Python_Text
  imports Prelude
begin

text \<open>
  The part of Python's \<open>str\<close>, \<open>re\<close> and \<open>int\<close> the program uses. A \<open>string\<close> is a list of code
  points below 256 (text beyond Latin-1 is outside the model); on those, \<open>str.isspace\<close>,
  \<open>\d\<close> and \<open>str.upper\<close> restricted to the ASCII letters behave as written here.
\<close>

section \<open>Characters\<close>

definition code :: "char \<Rightarrow> nat" where
  "code c = of_char c"

definition newline :: char where
  "newline = CHR 0x0A"

definition is_space :: "char \<Rightarrow> bool" where
  "is_space c \<longleftrightarrow> code c \<in> {9, 10, 11, 12, 13, 28, 29, 30, 31, 32, 133, 160}"

definition is_digit :: "char \<Rightarrow> bool" where
  "is_digit c \<longleftrightarrow> 48 \<le> code c \<and> code c \<le> 57"

definition is_hex :: "char \<Rightarrow> bool" where
  "is_hex c \<longleftrightarrow> is_digit c \<or> (65 \<le> code c \<and> code c \<le> 70) \<or> (97 \<le> code c \<and> code c \<le> 102)"

definition upper_char :: "char \<Rightarrow> char" where
  "upper_char c = (if 97 \<le> code c \<and> code c \<le> 122 then char_of (code c - 32) else c)"

definition digit_value :: "char \<Rightarrow> int" where
  "digit_value c = int (code c) - 48"

section \<open>Strings\<close>

definition upper :: "string \<Rightarrow> string" where
  "upper s = map upper_char s"

definition lstrip :: "string \<Rightarrow> string" where
  "lstrip s = dropWhile is_space s"

definition strip :: "string \<Rightarrow> string" where
  "strip s = rev (dropWhile is_space (rev (lstrip s)))"

definition starts_with :: "string \<Rightarrow> string \<Rightarrow> bool" where
  "starts_with p s \<longleftrightarrow> take (length p) s = p"

text \<open>\<open>s.partition(" ")\<close>: the text before the first space, whether there is one, the text after.\<close>

fun partition_space :: "string \<Rightarrow> string \<times> bool \<times> string" where
  "partition_space [] = ([], False, [])"
| "partition_space (c # s) =
     (if c = CHR '' '' then ([], True, s)
      else (case partition_space s of (a, sep, b) \<Rightarrow> (c # a, sep, b)))"

lemma starts_with_append [simp]: "starts_with p (p @ s)"
  by (simp add: starts_with_def)

lemma starts_with_iff: "starts_with p s \<longleftrightarrow> (\<exists>t. s = p @ t)"
  by (metis append_eq_conv_conj append_take_drop_id starts_with_def)

lemma starts_with_take: "length p \<le> n \<Longrightarrow> starts_with p (take n (p @ s))"
  by (simp add: starts_with_def)

lemma partition_space_no_space: "CHR '' '' \<notin> set s \<Longrightarrow> partition_space s = (s, False, [])"
  by (induction s) auto

lemma partition_space_append:
  "CHR '' '' \<notin> set s \<Longrightarrow> partition_space (s @ CHR '' '' # t) = (s, True, t)"
  by (induction s) auto

lemma partition_space_rejoin:
  "partition_space s = (a, sep, b) \<Longrightarrow>
    s = (if sep then a @ CHR '' '' # b else a) \<and> CHR '' '' \<notin> set a \<and> (\<not> sep \<longrightarrow> b = [])"
  by (induction s arbitrary: a) (auto split: prod.splits if_splits)

lemma strip_no_space_ends:
  assumes "strip s = c # t"
  shows "\<not> is_space c" and "\<not> is_space (last (c # t))"
proof -
  have ends: "dropWhile p xs = y # ys \<Longrightarrow> \<not> p y" for p :: "char \<Rightarrow> bool" and xs y ys
    by (induction xs) (auto split: if_splits)
  have rev: "dropWhile is_space (rev (lstrip s)) = rev (c # t)"
    using assms by (simp add: strip_def rev_swap)
  then have "\<not> is_space (hd (rev (c # t)))"
    using ends [of is_space "rev (lstrip s)"] by (cases "rev (c # t)") auto
  then show last: "\<not> is_space (last (c # t))" by (simp add: hd_rev del: rev.simps)
  have "\<exists>ws. rev (lstrip s) = ws @ rev (c # t)"
    using takeWhile_dropWhile_id [of is_space "rev (lstrip s)"] rev by metis
  then obtain ws where "lstrip s = (c # t) @ rev ws"
    by (metis rev_append rev_rev_ident)
  then show "\<not> is_space c"
    using ends [of is_space s] by (simp add: lstrip_def)
qed

section \<open>Patterns\<close>

text \<open>
  The regular expressions of the program. \<open>fullmatch\<close> needs the whole string; a Django
  \<open>RegexValidator\<close> uses \<open>re.search\<close>, for which \<open>$\<close> also matches before one final newline.
\<close>

definition all_digits :: "string \<Rightarrow> bool" where
  "all_digits s \<longleftrightarrow> (\<forall>c \<in> set s. is_digit c)"

definition dollar_match :: "(string \<Rightarrow> bool) \<Rightarrow> string \<Rightarrow> bool" where
  "dollar_match p s \<longleftrightarrow> p s \<or> (s \<noteq> [] \<and> last s = newline \<and> p (butlast s))"

definition e164 :: "string \<Rightarrow> bool" where
  "e164 s \<longleftrightarrow>
     (case s of
        p # d # ds \<Rightarrow> p = CHR ''+'' \<and> is_digit d \<and> d \<noteq> CHR ''0'' \<and> all_digits ds \<and>
          1 \<le> length ds \<and> length ds \<le> 14
      | _ \<Rightarrow> False)"

definition hex_sid :: "string list \<Rightarrow> string \<Rightarrow> bool" where
  "hex_sid prefixes s \<longleftrightarrow>
     take 2 s \<in> set prefixes \<and> length s = 34 \<and> (\<forall>c \<in> set (drop 2 s). is_hex c)"

lemma e164_length: "e164 s \<Longrightarrow> 3 \<le> length s \<and> length s \<le> 16"
  by (auto simp: e164_def split: list.splits)

lemma newline_not_digit [simp]: "\<not> is_digit newline"
  by (simp add: is_digit_def code_def newline_def)

lemma e164_no_newline: "e164 s \<Longrightarrow> newline \<notin> set s"
  by (auto simp: e164_def all_digits_def newline_def is_digit_def code_def split: list.splits)

section \<open>Numbers\<close>

text \<open>Decimal digits of a number, as \<open>str(n)\<close> writes a non-negative int.\<close>

fun decimal :: "nat \<Rightarrow> string" where
  "decimal n = (if n < 10 then [char_of (48 + n)] else decimal (n div 10) @ [char_of (48 + n mod 10)])"

declare decimal.simps [simp del]

fun digits_value :: "int \<Rightarrow> string \<Rightarrow> int" where
  "digits_value acc [] = acc"
| "digits_value acc (c # s) = digits_value (10 * acc + digit_value c) s"

lemma digits_value_append: "digits_value acc (s @ t) = digits_value (digits_value acc s) t"
  by (induction s arbitrary: acc) simp_all

lemma code_char_of_digit: "n < 10 \<Longrightarrow> code (char_of (48 + n)) = 48 + n"
  by (simp add: code_def)

lemma decimal_digits: "all_digits (decimal n) \<and> decimal n \<noteq> []"
proof (induction n rule: decimal.induct)
  case (1 n)
  show ?case
  proof (cases "n < 10")
    case True
    then show ?thesis
      by (subst (1 2) decimal.simps) (simp add: all_digits_def is_digit_def code_char_of_digit)
  next
    case False
    with 1 show ?thesis
      by (subst (1 2) decimal.simps) (simp add: all_digits_def is_digit_def code_char_of_digit)
  qed
qed

lemma digits_value_decimal: "digits_value 0 (decimal n) = int n"
proof (induction n rule: decimal.induct)
  case (1 n)
  show ?case
  proof (cases "n < 10")
    case True
    then show ?thesis
      by (subst decimal.simps) (simp add: digit_value_def code_char_of_digit)
  next
    case False
    have "int (10 * (n div 10) + n mod 10) = int n" by simp
    then have "10 * int (n div 10) + int (n mod 10) = int n"
      by (simp only: of_nat_add of_nat_mult of_nat_numeral)
    with False 1 show ?thesis
      by (subst decimal.simps) (simp add: digits_value_append digit_value_def code_char_of_digit)
  qed
qed

lemma decimal_nonzero_head: "0 < n \<Longrightarrow> hd (decimal n) \<noteq> CHR ''0''"
proof (induction n rule: decimal.induct)
  case (1 n)
  show ?case
  proof (cases "n < 10")
    case True
    with 1 have "code (char_of (48 + n)) \<noteq> code (CHR ''0'')"
      by (simp only: code_char_of_digit) (simp add: code_def)
    with True show ?thesis by (subst decimal.simps) auto
  next
    case False
    with 1 decimal_digits [of "n div 10"] show ?thesis
      by (subst decimal.simps) simp
  qed
qed

text \<open>
  Python's \<open>int(text)\<close> in base ten: surrounding white space, an optional sign, digits with
  single underscores between them, at most 4300 of them (\<open>sys.int_info\<close>); anything else raises
  \<open>ValueError\<close> (\<open>None\<close>).
\<close>

fun underscored_digits :: "string \<Rightarrow> bool" where
  "underscored_digits [] = False"
| "underscored_digits [c] = is_digit c"
| "underscored_digits (c # d # s) =
     (is_digit c \<and>
      (if d = CHR ''_'' then underscored_digits s else underscored_digits (d # s)))"

definition python_int :: "string \<Rightarrow> int option" where
  "python_int text =
     (let s = strip text;
          neg = starts_with ''-'' s;
          body = (if starts_with ''-'' s \<or> starts_with ''+'' s then tl s else s);
          digits = filter (\<lambda>c. c \<noteq> CHR ''_'') body
      in if underscored_digits body \<and> length digits \<le> 4300
         then Some ((if neg then - 1 else 1) * digits_value 0 digits)
         else None)"

end
