(* ===== verification/Accounts_Model.thy ===== *)
theory Accounts_Model
  imports Failures Python_Text
begin

text \<open>
  \<open>apps/accounts/models.py\<close>: the phone numbers a user owns, and the masking used wherever a
  number is shown or logged. A user is represented by its primary key.
\<close>

record phone_number =
  ph_id :: row_id
  ph_user :: row_id
  ph_number :: string
  ph_verified_at :: "time option"
  ph_created_at :: time
  ph_updated_at :: time

definition is_verified :: "phone_number \<Rightarrow> bool" where
  "is_verified p \<longleftrightarrow> ph_verified_at p \<noteq> None"

text \<open>The model's validator: \<open>re.search\<close> with the pattern \<open>^\+[1-9]\d{1,14}$\<close>.\<close>

definition e164_validator :: "string \<Rightarrow> bool" where
  "e164_validator number \<longleftrightarrow> dollar_match e164 number"

text \<open>
  The field errors \<open>full_clean(validate_unique=False, validate_constraints=False)\<close> reports for
  the column \<open>number\<close>: it is required, matches the validator, and has at most 16 characters.
\<close>

definition clean_phone_number :: "string \<Rightarrow> (string \<times> string) list" where
  "clean_phone_number number =
     (if number = [] then [(''number'', ''This field cannot be blank.'')]
      else (if e164_validator number then []
            else [(''number'', ''Enter a phone number in E.164 format, such as +14155552671.'')])
         @ (if length number \<le> 16 then []
            else [(''number'', ''Ensure this value has at most 16 characters.'')]))"

text \<open>
  \<open>mask_phone_number\<close>, which \<open>apps/accounts/serializers.py\<close> and \<open>apps/delivery/gateways.py\<close>
  each declare.
\<close>

definition serializer_mask_phone_number :: "string \<Rightarrow> string" where
  "serializer_mask_phone_number number =
     (let visible_digits = 4
      in if length number \<le> visible_digits then replicate (length number) (CHR ''*'')
         else replicate (length number - visible_digits) (CHR ''*'')
                @ drop (length number - visible_digits) number)"

definition gateway_mask_phone_number :: "string \<Rightarrow> string" where
  "gateway_mask_phone_number number =
     (if length number \<le> 4 then replicate (length number) (CHR ''*'')
      else replicate (length number - 4) (CHR ''*'') @ drop (length number - 4) number)"

lemma clean_phone_number_Nil_iff:
  "clean_phone_number n = [] \<longleftrightarrow> e164_validator n \<and> length n \<le> 16"
  by (auto simp: clean_phone_number_def e164_validator_def dollar_match_def e164_def)

end
