(* ===== verification/Scheduling_Model.thy ===== *)
theory Scheduling_Model
  imports Lifecycle Accounts_Model
begin

text \<open>
  \<open>apps/scheduling/models.py\<close>: the scheduled event, its status table and \<open>transition_to\<close>,
  its validation, and the partial save Django performs for \<open>save(update_fields=[...])\<close>.
\<close>

section \<open>Data\<close>

datatype channel = SMS | VOICE

datatype event_status =
    E_SCHEDULED
  | E_PROCESSING
  | E_SUBMITTED
  | E_FAILED
  | E_SUPPRESSED
  | E_CANCELLED

fun channel_value :: "channel \<Rightarrow> string" where
  "channel_value SMS = ''sms''"
| "channel_value VOICE = ''voice''"

definition channel_of :: "string \<Rightarrow> channel option" where
  "channel_of s = (if s = ''sms'' then Some SMS else if s = ''voice'' then Some VOICE else None)"

fun event_status_value :: "event_status \<Rightarrow> string" where
  "event_status_value E_SCHEDULED = ''scheduled''"
| "event_status_value E_PROCESSING = ''processing''"
| "event_status_value E_SUBMITTED = ''submitted''"
| "event_status_value E_FAILED = ''failed''"
| "event_status_value E_SUPPRESSED = ''suppressed''"
| "event_status_value E_CANCELLED = ''cancelled''"

record scheduled_event =
  ev_id :: row_id
  ev_user :: row_id
  ev_phone_number :: row_id
  ev_zip_code :: string
  ev_scheduled_for :: time
  ev_channel :: channel
  ev_status :: event_status
  ev_is_demo :: bool
  ev_processing_started_at :: "time option"
  ev_completed_at :: "time option"
  ev_created_at :: time
  ev_updated_at :: time

section \<open>Status transitions\<close>

fun ALLOWED_TRANSITIONS :: "event_status \<Rightarrow> event_status set" where
  "ALLOWED_TRANSITIONS E_SCHEDULED = {E_PROCESSING, E_CANCELLED}"
| "ALLOWED_TRANSITIONS E_PROCESSING = {E_SUBMITTED, E_FAILED, E_SUPPRESSED}"
| "ALLOWED_TRANSITIONS _ = {}"

text \<open>\<open>at_or_now\<close> is the transition time, \<open>at or timezone.now()\<close>; every caller passes one.\<close>

definition transition_event ::
  "event_status \<Rightarrow> time \<Rightarrow> scheduled_event \<Rightarrow> exn + scheduled_event" where
  "transition_event new_status at_or_now e =
     (if new_status \<notin> ALLOWED_TRANSITIONS (ev_status e)
      then Inl (field_error ValidationError ''status''
        (''Cannot transition from '' @ event_status_value (ev_status e) @ '' to ''
          @ event_status_value new_status @ ''.''))
      else let e' = e\<lparr>ev_status := new_status\<rparr>
           in Inr (if new_status = E_PROCESSING
                   then e'\<lparr>ev_processing_started_at := Some at_or_now\<rparr>
                   else if new_status \<in> {E_SUBMITTED, E_FAILED, E_SUPPRESSED, E_CANCELLED}
                   then e'\<lparr>ev_completed_at := Some at_or_now\<rparr>
                   else e'))"

fun event_rank :: "event_status \<Rightarrow> nat" where
  "event_rank E_SCHEDULED = 2"
| "event_rank E_PROCESSING = 1"
| "event_rank _ = 0"

interpretation event_lifecycle: lifecycle ev_status ALLOWED_TRANSITIONS event_rank transition_event
proof unfold_locales
  fix new at and e e' :: scheduled_event
  assume "transition_event new at e = Inr e'"
  then show "new \<in> ALLOWED_TRANSITIONS (ev_status e) \<and> ev_status e' = new"
    by (auto simp: transition_event_def Let_def split: if_splits)
next
  fix new at and e :: scheduled_event
  assume "new \<in> ALLOWED_TRANSITIONS (ev_status e)"
  then show "\<exists>e'. transition_event new at e = Inr e'"
    by (simp add: transition_event_def Let_def)
next
  fix new s
  assume "new \<in> ALLOWED_TRANSITIONS s"
  then show "event_rank new < event_rank s"
    by (cases s) auto
qed

lemma transition_event_scheduled:
  assumes "ev_status e = E_SCHEDULED"
  shows "transition_event E_CANCELLED t e =
      Inr (e\<lparr>ev_status := E_CANCELLED, ev_completed_at := Some t\<rparr>)"
    and "transition_event E_PROCESSING t e =
      Inr (e\<lparr>ev_status := E_PROCESSING, ev_processing_started_at := Some t\<rparr>)"
  using assms by (simp_all add: transition_event_def)

lemma transition_event_processing:
  assumes "ev_status e = E_PROCESSING" and "s \<in> {E_SUBMITTED, E_FAILED, E_SUPPRESSED}"
  shows "transition_event s t e = Inr (e\<lparr>ev_status := s, ev_completed_at := Some t\<rparr>)"
  using assms by (auto simp: transition_event_def)

section \<open>Validation\<close>

text \<open>\<open>zip_code_validator\<close>: \<open>re.search\<close> with \<open>^\d{5}$\<close>.\<close>

definition zip_code_validator :: "string \<Rightarrow> bool" where
  "zip_code_validator z \<longleftrightarrow> dollar_match (\<lambda>s. length s = 5 \<and> all_digits s) z"

text \<open>
  Python's \<open>datetime\<close>: the wall-clock reading and the UTC offset, both in microseconds; a naive
  value has no offset. Wall-clock readings lie between years 1 and 9999.
\<close>

record pydatetime =
  dt_local :: int
  dt_offset :: "int option"

definition MAX_DATETIME :: int where
  "MAX_DATETIME = 315537897599999999"

definition in_datetime_range :: "int \<Rightarrow> bool" where
  "in_datetime_range t \<longleftrightarrow> 0 \<le> t \<and> t \<le> MAX_DATETIME"

definition is_naive :: "pydatetime \<Rightarrow> bool" where
  "is_naive d \<longleftrightarrow> dt_offset d = None"

text \<open>The instant an aware value denotes; comparisons of aware values compare it.\<close>

definition instant :: "pydatetime \<Rightarrow> time" where
  "instant d = dt_local d - (case dt_offset d of None \<Rightarrow> 0 | Some off \<Rightarrow> off)"

text \<open>\<open>astimezone(UTC)\<close> on an aware value raises when the UTC wall-clock has no \<open>datetime\<close>.\<close>

definition astimezone_utc :: "pydatetime \<Rightarrow> exn + time" where
  "astimezone_utc d =
     (if in_datetime_range (instant d) then Inr (instant d)
      else Inl (raise OverflowError ''date value out of range''))"

text \<open>
  \<open>ScheduledEvent.clean\<close>, on the event's owner and time, the phone row it refers to, whether the
  instance is being added, and the current time.
\<close>

definition clean_event ::
  "row_id \<Rightarrow> time \<Rightarrow> phone_number \<Rightarrow> bool \<Rightarrow> time \<Rightarrow> (string \<times> string) list" where
  "clean_event user scheduled_for phone adding now =
     (if ph_user phone \<noteq> user
      then [(''phone_number'', ''The phone number must belong to the event user.'')]
      else if \<not> is_verified phone
      then [(''phone_number'', ''The phone number must be verified.'')]
      else [])
     @ (if adding \<and> scheduled_for \<le> now
        then [(''scheduled_for'', ''The scheduled time must be in the future.'')]
        else [])"

text \<open>The field validation \<open>full_clean\<close> runs first: ZIP code and channel choice.\<close>

definition clean_event_fields :: "string \<Rightarrow> string \<Rightarrow> (string \<times> string) list" where
  "clean_event_fields zip_code chan =
     (if zip_code = [] then [(''zip_code'', ''This field cannot be blank.'')]
      else (if zip_code_validator zip_code then []
            else [(''zip_code'', ''Enter a five-digit US ZIP code.'')])
         @ (if length zip_code \<le> 5 then []
            else [(''zip_code'', ''Ensure this value has at most 5 characters.'')]))
     @ (if channel_of chan = None then [(''channel'', ''Value is not a valid choice.'')] else [])"

lemma clean_event_fields_Nil_iff:
  "clean_event_fields z c = [] \<longleftrightarrow> length z = 5 \<and> all_digits z \<and> channel_of c \<noteq> None"
  by (auto simp: clean_event_fields_def zip_code_validator_def dollar_match_def)

section \<open>Partial saves\<close>

text \<open>
  \<open>event.save(update_fields=[...])\<close> writes the listed columns of the instance over the stored
  row; \<open>updated_at\<close> is an \<open>auto_now\<close> column, set to the current time when it is listed.
\<close>

datatype event_field =
    F_status
  | F_processing_started_at
  | F_completed_at
  | F_updated_at
  | F_scheduled_for
  | F_channel

definition write_event_fields ::
  "event_field list \<Rightarrow> time \<Rightarrow> scheduled_event \<Rightarrow> scheduled_event \<Rightarrow> scheduled_event" where
  "write_event_fields fs now e row = row\<lparr>
     ev_status := (if F_status \<in> set fs then ev_status e else ev_status row),
     ev_processing_started_at :=
       (if F_processing_started_at \<in> set fs then ev_processing_started_at e
        else ev_processing_started_at row),
     ev_completed_at := (if F_completed_at \<in> set fs then ev_completed_at e else ev_completed_at row),
     ev_updated_at := (if F_updated_at \<in> set fs then now else ev_updated_at row),
     ev_scheduled_for :=
       (if F_scheduled_for \<in> set fs then ev_scheduled_for e else ev_scheduled_for row),
     ev_channel := (if F_channel \<in> set fs then ev_channel e else ev_channel row)\<rparr>"

lemma ev_id_write_event_fields [simp]: "ev_id (write_event_fields fs now e row) = ev_id row"
  by (simp add: write_event_fields_def)

end
