(* ===== verification/Delivery_Model.thy ===== *)
theory Delivery_Model
  imports Scheduling_Model Complex_Main
begin

text \<open>
  \<open>apps/delivery/models.py\<close>: the delivery attempt with its local status, the provider status
  that voice callbacks advance, the voice menu action, and the inbound SMS command record.
\<close>

section \<open>Data\<close>

datatype attempt_status = A_PROCESSING | A_SUBMITTED | A_FAILED | A_SUPPRESSED

definition TERMINAL_STATUSES :: "attempt_status set" where
  "TERMINAL_STATUSES = {A_SUBMITTED, A_FAILED, A_SUPPRESSED}"

fun attempt_status_value :: "attempt_status \<Rightarrow> string" where
  "attempt_status_value A_PROCESSING = ''processing''"
| "attempt_status_value A_SUBMITTED = ''submitted''"
| "attempt_status_value A_FAILED = ''failed''"
| "attempt_status_value A_SUPPRESSED = ''suppressed''"

text \<open>
  A delivery outcome is passed as one string to both models' \<open>transition_to\<close>; this is the
  event status with the same value.
\<close>

fun event_status_of :: "attempt_status \<Rightarrow> event_status" where
  "event_status_of A_PROCESSING = E_PROCESSING"
| "event_status_of A_SUBMITTED = E_SUBMITTED"
| "event_status_of A_FAILED = E_FAILED"
| "event_status_of A_SUPPRESSED = E_SUPPRESSED"

lemma event_status_of_value [simp]:
  "event_status_value (event_status_of s) = attempt_status_value s"
  by (cases s) simp_all

datatype provider_status =
    P_QUEUED
  | P_INITIATED
  | P_RINGING
  | P_IN_PROGRESS
  | P_COMPLETED
  | P_BUSY
  | P_NO_ANSWER
  | P_FAILED
  | P_CANCELED

definition TERMINAL_PROVIDER_STATUSES :: "provider_status set" where
  "TERMINAL_PROVIDER_STATUSES = {P_COMPLETED, P_BUSY, P_NO_ANSWER, P_FAILED, P_CANCELED}"

fun provider_status_value :: "provider_status \<Rightarrow> string" where
  "provider_status_value P_QUEUED = ''queued''"
| "provider_status_value P_INITIATED = ''initiated''"
| "provider_status_value P_RINGING = ''ringing''"
| "provider_status_value P_IN_PROGRESS = ''in_progress''"
| "provider_status_value P_COMPLETED = ''completed''"
| "provider_status_value P_BUSY = ''busy''"
| "provider_status_value P_NO_ANSWER = ''no_answer''"
| "provider_status_value P_FAILED = ''failed''"
| "provider_status_value P_CANCELED = ''canceled''"

definition provider_statuses :: "provider_status list" where
  "provider_statuses = [P_QUEUED, P_INITIATED, P_RINGING, P_IN_PROGRESS, P_COMPLETED, P_BUSY,
     P_NO_ANSWER, P_FAILED, P_CANCELED]"

text \<open>Membership in \<open>ProviderStatus.values\<close>, and the status a value names.\<close>

definition provider_status_of :: "string \<Rightarrow> provider_status option" where
  "provider_status_of s = find (\<lambda>p. provider_status_value p = s) provider_statuses"

lemma provider_status_of_value [simp]: "provider_status_of (provider_status_value p) = Some p"
  by (cases p) (simp_all add: provider_status_of_def provider_statuses_def)

datatype voice_action_result = V_CANCELLED | V_SWITCHED_TO_SMS | V_NO_PENDING_EVENT

text \<open>
  The weather snapshot is a JSON object of strings and one number; a Python float is a rational,
  a signed zero, an infinity or NaN.
\<close>

datatype pyfloat = Fin rat | NegZero | PosInf | NegInf | NaN

datatype snapshot_value = SText string | SFloat pyfloat

type_synonym snapshot = "(string \<times> snapshot_value) list"

text \<open>
  A blank \<open>provider_status\<close> or \<open>voice_action_result\<close> (the empty string in the database) is
  \<open>None\<close>.
\<close>

record delivery_attempt =
  at_id :: row_id
  at_event :: row_id
  at_attempt_number :: int
  at_status :: attempt_status
  at_rendered_message :: string
  at_weather_snapshot :: snapshot
  at_provider_sid :: "string option"
  at_provider_status :: "provider_status option"
  at_provider_status_sequence :: "int option"
  at_provider_status_updated_at :: "time option"
  at_voice_action_digit :: string
  at_voice_action_result :: "voice_action_result option"
  at_voice_action_target_event_id :: "row_id option"
  at_voice_action_completed_at :: "time option"
  at_error_code :: string
  at_error_message :: string
  at_started_at :: time
  at_completed_at :: "time option"

text \<open>The defaults of a new row (\<open>DeliveryAttempt.objects.create(event=..., attempt_number=...)\<close>).\<close>

definition new_attempt :: "row_id \<Rightarrow> int \<Rightarrow> time \<Rightarrow> row_id \<Rightarrow> delivery_attempt" where
  "new_attempt event_id attempt_number now i = \<lparr>
     at_id = i, at_event = event_id, at_attempt_number = attempt_number,
     at_status = A_PROCESSING, at_rendered_message = '''', at_weather_snapshot = [],
     at_provider_sid = None, at_provider_status = None, at_provider_status_sequence = None,
     at_provider_status_updated_at = None, at_voice_action_digit = '''',
     at_voice_action_result = None, at_voice_action_target_event_id = None,
     at_voice_action_completed_at = None, at_error_code = '''', at_error_message = '''',
     at_started_at = now, at_completed_at = None\<rparr>"

datatype sms_command = C_STOP | C_SMS | C_TIME | C_INVALID

datatype sms_result =
    R_CANCELLED
  | R_SWITCHED_TO_SMS
  | R_RESCHEDULED
  | R_NO_PENDING_EVENT
  | R_UNKNOWN_SENDER
  | R_INVALID_COMMAND
  | R_INVALID_TIME
  | R_LIFECYCLE_CONFLICT

record inbound_sms_command =
  cmd_id :: row_id
  cmd_provider_sid :: string
  cmd_command :: sms_command
  cmd_result :: sms_result
  cmd_target_event_id :: "row_id option"
  cmd_completed_at :: time

section \<open>Attempt transitions\<close>

definition transition_attempt ::
  "attempt_status \<Rightarrow> time \<Rightarrow> delivery_attempt \<Rightarrow> exn + delivery_attempt" where
  "transition_attempt new_status at_or_now a =
     (if at_status a \<noteq> A_PROCESSING \<or> new_status \<notin> TERMINAL_STATUSES
      then Inl (field_error ValidationError ''status''
        (''Cannot transition from '' @ attempt_status_value (at_status a) @ '' to ''
          @ attempt_status_value new_status @ ''.''))
      else Inr (a\<lparr>at_status := new_status, at_completed_at := Some at_or_now\<rparr>))"

text \<open>The same contract as the event's, with its table read off the guard.\<close>

fun attempt_transitions :: "attempt_status \<Rightarrow> attempt_status set" where
  "attempt_transitions A_PROCESSING = TERMINAL_STATUSES"
| "attempt_transitions _ = {}"

fun attempt_rank :: "attempt_status \<Rightarrow> nat" where
  "attempt_rank A_PROCESSING = 1"
| "attempt_rank _ = 0"

interpretation attempt_lifecycle:
  lifecycle at_status attempt_transitions attempt_rank transition_attempt
proof unfold_locales
  fix new t and a a' :: delivery_attempt
  assume "transition_attempt new t a = Inr a'"
  then show "new \<in> attempt_transitions (at_status a) \<and> at_status a' = new"
    by (auto simp: transition_attempt_def split: if_splits)
next
  fix new t and a :: delivery_attempt
  assume "new \<in> attempt_transitions (at_status a)"
  then show "\<exists>a'. transition_attempt new t a = Inr a'"
    by (cases "at_status a") (simp_all add: transition_attempt_def)
next
  fix new s
  assume "new \<in> attempt_transitions s"
  then show "attempt_rank new < attempt_rank s"
    by (cases s) (auto simp: TERMINAL_STATUSES_def)
qed

lemma transition_attempt_processing:
  assumes "at_status a = A_PROCESSING" and "s \<in> TERMINAL_STATUSES"
  shows "transition_attempt s t a = Inr (a\<lparr>at_status := s, at_completed_at := Some t\<rparr>)"
  using assms by (simp add: transition_attempt_def)

section \<open>Provider status\<close>

text \<open>
  \<open>apply_provider_status\<close>: the updated attempt and whether the update was applied. The new
  status is the string the caller passes.
\<close>

definition apply_provider_status ::
  "string \<Rightarrow> int \<Rightarrow> time \<Rightarrow> delivery_attempt \<Rightarrow> exn + (delivery_attempt \<times> bool)" where
  "apply_provider_status new_status sequence_number at_or_now a =
     (case provider_status_of new_status of
        None \<Rightarrow> Inl (field_error ValidationError ''provider_status'' ''Unknown provider status.'')
      | Some p \<Rightarrow>
          if sequence_number < 0
          then Inl (field_error ValidationError ''provider_status_sequence''
            ''Sequence number cannot be negative.'')
          else if (case at_provider_status a of None \<Rightarrow> False
                   | Some q \<Rightarrow> q \<in> TERMINAL_PROVIDER_STATUSES)
          then Inr (a, False)
          else if (case at_provider_status_sequence a of None \<Rightarrow> False
                   | Some old \<Rightarrow> sequence_number \<le> old)
          then Inr (a, False)
          else Inr (a\<lparr>at_provider_status := Some p,
                      at_provider_status_sequence := Some sequence_number,
                      at_provider_status_updated_at := Some at_or_now\<rparr>, True))"

section \<open>Partial saves\<close>

datatype attempt_field =
    G_status
  | G_rendered_message
  | G_weather_snapshot
  | G_provider_sid
  | G_provider_status
  | G_provider_status_sequence
  | G_provider_status_updated_at
  | G_voice_action_digit
  | G_voice_action_result
  | G_voice_action_target_event_id
  | G_voice_action_completed_at
  | G_error_code
  | G_error_message
  | G_completed_at

definition write_attempt_fields ::
  "attempt_field list \<Rightarrow> delivery_attempt \<Rightarrow> delivery_attempt \<Rightarrow> delivery_attempt" where
  "write_attempt_fields fs a row = row\<lparr>
     at_status := (if G_status \<in> set fs then at_status a else at_status row),
     at_rendered_message :=
       (if G_rendered_message \<in> set fs then at_rendered_message a else at_rendered_message row),
     at_weather_snapshot :=
       (if G_weather_snapshot \<in> set fs then at_weather_snapshot a else at_weather_snapshot row),
     at_provider_sid := (if G_provider_sid \<in> set fs then at_provider_sid a else at_provider_sid row),
     at_provider_status :=
       (if G_provider_status \<in> set fs then at_provider_status a else at_provider_status row),
     at_provider_status_sequence :=
       (if G_provider_status_sequence \<in> set fs then at_provider_status_sequence a
        else at_provider_status_sequence row),
     at_provider_status_updated_at :=
       (if G_provider_status_updated_at \<in> set fs then at_provider_status_updated_at a
        else at_provider_status_updated_at row),
     at_voice_action_digit :=
       (if G_voice_action_digit \<in> set fs then at_voice_action_digit a
        else at_voice_action_digit row),
     at_voice_action_result :=
       (if G_voice_action_result \<in> set fs then at_voice_action_result a
        else at_voice_action_result row),
     at_voice_action_target_event_id :=
       (if G_voice_action_target_event_id \<in> set fs then at_voice_action_target_event_id a
        else at_voice_action_target_event_id row),
     at_voice_action_completed_at :=
       (if G_voice_action_completed_at \<in> set fs then at_voice_action_completed_at a
        else at_voice_action_completed_at row),
     at_error_code := (if G_error_code \<in> set fs then at_error_code a else at_error_code row),
     at_error_message :=
       (if G_error_message \<in> set fs then at_error_message a else at_error_message row),
     at_completed_at := (if G_completed_at \<in> set fs then at_completed_at a else at_completed_at row)\<rparr>"

lemma write_attempt_fields_key [simp]:
  "at_id (write_attempt_fields fs a row) = at_id row"
  "at_event (write_attempt_fields fs a row) = at_event row"
  "at_attempt_number (write_attempt_fields fs a row) = at_attempt_number row"
  by (simp_all add: write_attempt_fields_def)

lemma new_attempt_simps [simp]:
  "at_id (new_attempt e n now i) = i"
  "at_event (new_attempt e n now i) = e"
  "at_attempt_number (new_attempt e n now i) = n"
  "at_status (new_attempt e n now i) = A_PROCESSING"
  "at_provider_sid (new_attempt e n now i) = None"
  "at_error_code (new_attempt e n now i) = ''''"
  "at_completed_at (new_attempt e n now i) = None"
  by (simp_all add: new_attempt_def)

end
