(* ===== verification/Store.thy ===== *)
theory Store
  imports Delivery_Model
begin

text \<open>
  The database: one table per model, the queries the services run on it, and the saves that
  write to it. A function with \<open>@transaction.atomic\<close> is modelled as \<open>db \<Rightarrow> exn + 'a \<times> db\<close>: when
  it raises, the transaction (or the savepoint, if it is nested) is rolled back, so there is no
  new database.
\<close>

record db =
  db_phones :: "phone_number table"
  db_events :: "scheduled_event table"
  db_attempts :: "delivery_attempt table"
  db_commands :: "inbound_sms_command table"

definition empty_db :: db where
  "empty_db = \<lparr>db_phones = empty_table, db_events = empty_table, db_attempts = empty_table,
     db_commands = empty_table\<rparr>"

type_synonym 'a transaction = "db \<Rightarrow> exn + ('a \<times> db)"

section \<open>Reading and writing rows by primary key\<close>

definition get_phone :: "row_id \<Rightarrow> db \<Rightarrow> phone_number option" where
  "get_phone i d = find_row ph_id i (db_phones d)"

definition put_phone :: "row_id \<Rightarrow> (phone_number \<Rightarrow> phone_number) \<Rightarrow> db \<Rightarrow> db" where
  "put_phone i f d = d\<lparr>db_phones := update_row ph_id i f (db_phones d)\<rparr>"

definition get_event :: "row_id \<Rightarrow> db \<Rightarrow> scheduled_event option" where
  "get_event i d = find_row ev_id i (db_events d)"

definition put_event :: "row_id \<Rightarrow> (scheduled_event \<Rightarrow> scheduled_event) \<Rightarrow> db \<Rightarrow> db" where
  "put_event i f d = d\<lparr>db_events := update_row ev_id i f (db_events d)\<rparr>"

definition get_attempt :: "row_id \<Rightarrow> db \<Rightarrow> delivery_attempt option" where
  "get_attempt i d = find_row at_id i (db_attempts d)"

definition put_attempt :: "row_id \<Rightarrow> (delivery_attempt \<Rightarrow> delivery_attempt) \<Rightarrow> db \<Rightarrow> db" where
  "put_attempt i f d = d\<lparr>db_attempts := update_row at_id i f (db_attempts d)\<rparr>"

definition get_command :: "row_id \<Rightarrow> db \<Rightarrow> inbound_sms_command option" where
  "get_command i d = find_row cmd_id i (db_commands d)"

definition put_command ::
  "row_id \<Rightarrow> (inbound_sms_command \<Rightarrow> inbound_sms_command) \<Rightarrow> db \<Rightarrow> db" where
  "put_command i f d = d\<lparr>db_commands := update_row cmd_id i f (db_commands d)\<rparr>"

interpretation phones: row_store ph_id get_phone put_phone
  by unfold_locales
    (auto simp: get_phone_def put_phone_def find_row_update_row update_row_update_row dest: find_row_key,
      simp add: update_row_commute)

interpretation events: row_store ev_id get_event put_event
  by unfold_locales
    (auto simp: get_event_def put_event_def find_row_update_row update_row_update_row dest: find_row_key,
      simp add: update_row_commute)

interpretation attempts: row_store at_id get_attempt put_attempt
  by unfold_locales
    (auto simp: get_attempt_def put_attempt_def find_row_update_row update_row_update_row dest: find_row_key,
      simp add: update_row_commute)

interpretation commands: row_store cmd_id get_command put_command
  by unfold_locales
    (auto simp: get_command_def put_command_def find_row_update_row update_row_update_row dest: find_row_key,
      simp add: update_row_commute)

text \<open>A write to one table is invisible in the others.\<close>

lemma get_put_distinct_tables [simp]:
  "get_phone i (put_event j f d) = get_phone i d"
  "get_phone i (put_attempt j g d) = get_phone i d"
  "get_phone i (put_command j h d) = get_phone i d"
  "get_event i (put_phone j k d) = get_event i d"
  "get_event i (put_attempt j g d) = get_event i d"
  "get_event i (put_command j h d) = get_event i d"
  "get_attempt i (put_phone j k d) = get_attempt i d"
  "get_attempt i (put_event j f d) = get_attempt i d"
  "get_attempt i (put_command j h d) = get_attempt i d"
  "get_command i (put_event j f d) = get_command i d"
  "get_command i (put_attempt j g d) = get_command i d"
  "get_command i (put_phone j k d) = get_command i d"
  by (simp_all add: get_phone_def get_event_def get_attempt_def get_command_def put_phone_def
      put_event_def put_attempt_def put_command_def)

lemma tables_put [simp]:
  "db_phones (put_event j f d) = db_phones d"
  "db_attempts (put_event j f d) = db_attempts d"
  "db_commands (put_event j f d) = db_commands d"
  "db_events (put_event j f d) = update_row ev_id j f (db_events d)"
  "db_phones (put_attempt j g d) = db_phones d"
  "db_events (put_attempt j g d) = db_events d"
  "db_commands (put_attempt j g d) = db_commands d"
  "db_attempts (put_attempt j g d) = update_row at_id j g (db_attempts d)"
  "db_phones (put_command j h d) = db_phones d"
  "db_events (put_command j h d) = db_events d"
  "db_attempts (put_command j h d) = db_attempts d"
  "db_commands (put_command j h d) = update_row cmd_id j h (db_commands d)"
  "db_events (put_phone j k d) = db_events d"
  "db_attempts (put_phone j k d) = db_attempts d"
  "db_commands (put_phone j k d) = db_commands d"
  "db_phones (put_phone j k d) = update_row ph_id j k (db_phones d)"
  by (simp_all add: put_phone_def put_event_def put_attempt_def put_command_def)

section \<open>Saves\<close>

text \<open>
  The instance after the save, and the database. \<open>now\<close> is the reading an \<open>auto_now\<close> column
  takes; Django also sets it on the instance.
\<close>

definition save_event ::
  "event_field list \<Rightarrow> time \<Rightarrow> scheduled_event \<Rightarrow> db \<Rightarrow> scheduled_event \<times> db" where
  "save_event fs now e d =
     (if F_updated_at \<in> set fs then e\<lparr>ev_updated_at := now\<rparr> else e,
      put_event (ev_id e) (write_event_fields fs now e) d)"

definition save_attempt ::
  "attempt_field list \<Rightarrow> delivery_attempt \<Rightarrow> db \<Rightarrow> db" where
  "save_attempt fs a d = put_attempt (at_id a) (write_attempt_fields fs a) d"

section \<open>Queries\<close>

definition event_order :: "scheduled_event \<Rightarrow> time \<times> row_id" where
  "event_order e = (ev_scheduled_for e, ev_id e)"

definition events_where :: "(scheduled_event \<Rightarrow> bool) \<Rightarrow> db \<Rightarrow> scheduled_event list" where
  "events_where p d = filter p (rows (db_events d))"

text \<open>The owner's earliest still-scheduled event.\<close>

definition next_pending_event :: "row_id \<Rightarrow> db \<Rightarrow> scheduled_event option" where
  "next_pending_event user d =
     first (order_by event_order
       (events_where (\<lambda>e. ev_user e = user \<and> ev_status e = E_SCHEDULED) d))"

definition attempts_of :: "row_id \<Rightarrow> db \<Rightarrow> delivery_attempt list" where
  "attempts_of event_id d = filter (\<lambda>a. at_event a = event_id) (rows (db_attempts d))"

text \<open>\<open>order_by("-attempt_number").first()\<close>.\<close>

definition latest_attempt :: "row_id \<Rightarrow> db \<Rightarrow> delivery_attempt option" where
  "latest_attempt event_id d =
     first (order_by (\<lambda>a. - at_attempt_number a) (attempts_of event_id d))"

lemma next_pending_event_SomeD:
  assumes "next_pending_event user d = Some e"
  shows "e \<in> set (rows (db_events d))" and "ev_user e = user" and "ev_status e = E_SCHEDULED"
  using first_in_set [OF assms [unfolded next_pending_event_def]] by (auto simp: events_where_def)

lemma next_pending_event_earliest:
  assumes "next_pending_event user d = Some e" and "e' \<in> set (rows (db_events d))"
    and "ev_user e' = user" and "ev_status e' = E_SCHEDULED"
  shows "event_order e \<le> event_order e'"
  using first_order_by_least [OF assms(1) [unfolded next_pending_event_def], of e'] assms
  by (simp add: events_where_def)

lemma next_pending_event_None_iff:
  "next_pending_event user d = None \<longleftrightarrow>
    (\<forall>e \<in> set (rows (db_events d)). ev_user e = user \<longrightarrow> ev_status e \<noteq> E_SCHEDULED)"
  by (auto simp: next_pending_event_def events_where_def filter_empty_conv)

end
