(* ===== verification/Invariant.thy ===== *)
theory Invariant
  imports Store
begin

text \<open>
  The database invariant: what the services keep true between an event, its attempts, its phone
  and the unique columns. Every operation's theory proves that it preserves \<open>wf_db\<close>; the
  lemmas here reduce that to a statement about the one event an operation touches.
\<close>

section \<open>The invariant\<close>

text \<open>The timestamps an event carries are those its status calls for.\<close>

fun event_times_ok :: "event_status \<Rightarrow> time option \<Rightarrow> time option \<Rightarrow> bool" where
  "event_times_ok E_SCHEDULED started completed = (started = None \<and> completed = None)"
| "event_times_ok E_PROCESSING started completed = (started \<noteq> None \<and> completed = None)"
| "event_times_ok E_CANCELLED started completed = (started = None \<and> completed \<noteq> None)"
| "event_times_ok _ started completed = (started \<noteq> None \<and> completed \<noteq> None)"

definition wf_event :: "scheduled_event \<Rightarrow> bool" where
  "wf_event e \<longleftrightarrow> event_times_ok (ev_status e) (ev_processing_started_at e) (ev_completed_at e)"

definition wf_attempt :: "delivery_attempt \<Rightarrow> bool" where
  "wf_attempt a \<longleftrightarrow> (at_completed_at a = None \<longleftrightarrow> at_status a = A_PROCESSING)"

text \<open>An attempt that failed before the sender boundary and left its event to a queue retry.\<close>

definition retry_marked :: "delivery_attempt \<Rightarrow> bool" where
  "retry_marked a \<longleftrightarrow> at_status a = A_FAILED \<and> starts_with ''QueueRetryable:'' (at_error_code a)"

text \<open>
  The attempts of an event with a given status, oldest first: numbered 1, 2, ..., all but the
  last failed retryably, and the last one agreeing with the event.
\<close>

fun last_attempt_ok :: "event_status \<Rightarrow> delivery_attempt list \<Rightarrow> bool" where
  "last_attempt_ok E_SCHEDULED as = (as = [])"
| "last_attempt_ok E_CANCELLED as = (as = [])"
| "last_attempt_ok E_PROCESSING as =
     (as \<noteq> [] \<and> (at_status (last as) = A_PROCESSING \<or> retry_marked (last as)))"
| "last_attempt_ok s as = (as \<noteq> [] \<and> event_status_of (at_status (last as)) = s)"

definition numbered :: "delivery_attempt list \<Rightarrow> bool" where
  "numbered as \<longleftrightarrow> map at_attempt_number as = map int [1..<Suc (length as)]"

definition attempts_ok :: "event_status \<Rightarrow> delivery_attempt list \<Rightarrow> bool" where
  "attempts_ok s as \<longleftrightarrow>
     numbered as \<and> (\<forall>a \<in> set as. wf_attempt a) \<and> (\<forall>a \<in> set (butlast as). retry_marked a) \<and>
     last_attempt_ok s as"

text \<open>A nullable unique column: no two rows share a value other than null.\<close>

fun unique_on :: "('r \<Rightarrow> 'k option) \<Rightarrow> 'r list \<Rightarrow> bool" where
  "unique_on k [] = True"
| "unique_on k (r # rs) = ((k r = None \<or> (\<forall>s \<in> set rs. k s \<noteq> k r)) \<and> unique_on k rs)"

lemma unique_on_append:
  "unique_on k (xs @ ys) \<longleftrightarrow>
    unique_on k xs \<and> unique_on k ys \<and> (\<forall>x \<in> set xs. \<forall>y \<in> set ys. k x = None \<or> k x \<noteq> k y)"
  by (induction xs) auto

lemma unique_on_map: "unique_on k rs \<longleftrightarrow> unique_on (\<lambda>x. x) (map k rs)"
  by (induction rs) auto

definition event_ok :: "db \<Rightarrow> scheduled_event \<Rightarrow> bool" where
  "event_ok d e \<longleftrightarrow>
     wf_event e \<and> attempts_ok (ev_status e) (attempts_of (ev_id e) d) \<and>
     (\<exists>p \<in> set (rows (db_phones d)).
        ph_id p = ev_phone_number e \<and> ph_user p = ev_user e \<and> is_verified p)"

definition wf_db :: "db \<Rightarrow> bool" where
  "wf_db d \<longleftrightarrow>
     wf_table ph_id (db_phones d) \<and> wf_table ev_id (db_events d) \<and>
     wf_table at_id (db_attempts d) \<and> wf_table cmd_id (db_commands d) \<and>
     distinct (map ph_number (rows (db_phones d))) \<and>
     distinct (map cmd_provider_sid (rows (db_commands d))) \<and>
     unique_on at_provider_sid (rows (db_attempts d)) \<and>
     (\<forall>a \<in> set (rows (db_attempts d)). at_event a \<in> ev_id ` set (rows (db_events d))) \<and>
     (\<forall>e \<in> set (rows (db_events d)). event_ok d e)"

lemma wf_empty_db [simp]: "wf_db empty_db"
  by (simp add: wf_db_def empty_db_def) (simp add: empty_table_def)

section \<open>Consequences for queries\<close>

lemma wf_get_event_of_member:
  "wf_db d \<Longrightarrow> e \<in> set (rows (db_events d)) \<Longrightarrow> get_event (ev_id e) d = Some e"
  by (simp add: wf_db_def get_event_def find_row_of_member)

lemma get_event_member: "get_event i d = Some e \<Longrightarrow> e \<in> set (rows (db_events d))"
  by (auto simp: get_event_def dest: find_row_in_rows)

lemma get_attempt_member: "get_attempt i d = Some a \<Longrightarrow> a \<in> set (rows (db_attempts d))"
  by (auto simp: get_attempt_def dest: find_row_in_rows)

lemma wf_get_attempt_of_member:
  "wf_db d \<Longrightarrow> a \<in> set (rows (db_attempts d)) \<Longrightarrow> get_attempt (at_id a) d = Some a"
  by (simp add: wf_db_def get_attempt_def find_row_of_member)

lemma wf_db_event: "wf_db d \<Longrightarrow> get_event i d = Some e \<Longrightarrow> event_ok d e"
  by (auto simp: wf_db_def dest: get_event_member)

lemma wf_db_attempts_ok:
  "wf_db d \<Longrightarrow> get_event i d = Some e \<Longrightarrow> attempts_ok (ev_status e) (attempts_of i d)"
  using events.get_key wf_db_event by (fastforce simp: event_ok_def)

lemma wf_db_wf_event: "wf_db d \<Longrightarrow> get_event i d = Some e \<Longrightarrow> wf_event e"
  using wf_db_event by (auto simp: event_ok_def)

lemma attempts_of_member:
  "a \<in> set (attempts_of i d) \<longleftrightarrow> a \<in> set (rows (db_attempts d)) \<and> at_event a = i"
  by (auto simp: attempts_of_def)

lemma numbered_sorted: "numbered as \<Longrightarrow> sorted_wrt (\<lambda>x y. at_attempt_number x < at_attempt_number y) as"
proof -
  assume "numbered as"
  then have eq: "map at_attempt_number as = map int [1..<Suc (length as)]"
    by (simp add: numbered_def)
  have "sorted_wrt (<) (map int [1..<Suc (length as)])"
    by (simp only: sorted_wrt_map of_nat_less_iff) (rule sorted_wrt_upt)
  then have "sorted_wrt (<) (map at_attempt_number as)" by (simp only: eq)
  then show ?thesis by (simp add: sorted_wrt_map)
qed

lemma numbered_last:
  assumes "numbered as" and "as \<noteq> []"
  shows "at_attempt_number (last as) = int (length as)"
proof -
  have "at_attempt_number (last as) = last (map at_attempt_number as)"
    using assms(2) by (simp add: last_map)
  also have "\<dots> = last (map int [1..<Suc (length as)])"
    using assms(1) by (simp add: numbered_def)
  also have "\<dots> = int (length as)" using assms(2) by (simp add: Suc_le_eq)
  finally show ?thesis .
qed

text \<open>Under the numbering, the latest attempt is the last one created.\<close>

lemma latest_attempt_last:
  assumes "numbered (attempts_of i d)"
  shows "latest_attempt i d =
    (if attempts_of i d = [] then None else Some (last (attempts_of i d)))"
  using order_by_descending [OF numbered_sorted [OF assms]]
  by (simp add: latest_attempt_def first_rev)

lemma wf_latest_attempt:
  assumes "wf_db d" and "get_event i d = Some e"
  shows "latest_attempt i d =
    (if attempts_of i d = [] then None else Some (last (attempts_of i d)))"
  using wf_db_attempts_ok [OF assms] by (intro latest_attempt_last) (simp add: attempts_ok_def)

lemma wf_attempt_event:
  assumes "wf_db d" and "get_attempt j d = Some a"
  obtains e where "get_event (at_event a) d = Some e"
proof -
  from assms obtain e where "e \<in> set (rows (db_events d))" and "ev_id e = at_event a"
    by (fastforce simp: wf_db_def dest: get_attempt_member)
  with assms(1) that show thesis using wf_get_event_of_member by metis
qed

section \<open>Preservation, one event at a time\<close>

lemma update_row_ident [simp]: "update_row key i (\<lambda>r. r) t = t"
  by (simp add: update_row_def)

lemma put_event_ident [simp]: "put_event i (\<lambda>r. r) d = d"
  by (simp add: put_event_def)

lemma wf_db_change:
  assumes wf: "wf_db d" and e: "get_event i d = Some e"
    and same: "db_phones d' = db_phones d" "db_commands d' = db_commands d"
    and upd: "db_events d' = update_row ev_id i f (db_events d)"
    and key: "\<And>r. ev_id (f r) = ev_id r"
    and fk: "ev_user (f e) = ev_user e" "ev_phone_number (f e) = ev_phone_number e"
    and table: "wf_table at_id (db_attempts d')"
    and sids: "unique_on at_provider_sid (rows (db_attempts d'))"
    and owners: "at_event ` set (rows (db_attempts d')) \<subseteq>
      insert i (at_event ` set (rows (db_attempts d)))"
    and frame: "\<And>k. k \<noteq> i \<Longrightarrow> attempts_of k d' = attempts_of k d"
    and ev: "wf_event (f e)" and atts: "attempts_ok (ev_status (f e)) (attempts_of i d')"
  shows "wf_db d'"
proof -
  have ids: "ev_id ` set (rows (db_events d')) = ev_id ` set (rows (db_events d))"
    using map_key_update_row [of ev_id f, OF key] upd by (metis image_set)
  have "i \<in> ev_id ` set (rows (db_events d))"
    using e events.get_key [OF e] by (auto dest: get_event_member)
  with wf owners ids have owned:
    "\<forall>a \<in> set (rows (db_attempts d')). at_event a \<in> ev_id ` set (rows (db_events d'))"
    by (auto simp: wf_db_def)
  have "event_ok d' r'" if r': "r' \<in> set (rows (db_events d'))" for r'
  proof -
    from r' obtain r where r: "r \<in> set (rows (db_events d))"
      and r'_def: "r' = (if ev_id r = i then f r else r)"
      by (auto simp: upd rows_update_row split: if_splits)
    from wf r have old: "event_ok d r" by (simp add: wf_db_def)
    show ?thesis
    proof (cases "ev_id r = i")
      case True
      with wf r e have "r = e" using wf_get_event_of_member by fastforce
      with True old r'_def fk ev atts key same show ?thesis by (simp add: event_ok_def)
    next
      case False
      with old r'_def frame same show ?thesis by (simp add: event_ok_def)
    qed
  qed
  with wf same table sids owned show ?thesis
    by (simp add: wf_db_def upd key)
qed

lemma attempts_of_put_event [simp]: "attempts_of k (put_event i f d) = attempts_of k d"
  by (simp add: attempts_of_def)

lemma attempts_of_put_command [simp]: "attempts_of k (put_command i f d) = attempts_of k d"
  by (simp add: attempts_of_def)

lemma attempts_of_put_phone [simp]: "attempts_of k (put_phone i f d) = attempts_of k d"
  by (simp add: attempts_of_def)

lemma attempts_of_put_attempt:
  assumes "\<And>a. at_event (g a) = at_event a"
  shows "attempts_of k (put_attempt j g d) =
    map (\<lambda>a. if at_id a = j then g a else a) (attempts_of k d)"
proof -
  have "filter (\<lambda>a. at_event a = k) (map (\<lambda>a. if at_id a = j then g a else a) as) =
      map (\<lambda>a. if at_id a = j then g a else a) (filter (\<lambda>a. at_event a = k) as)" for as
    using assms by (induction as) auto
  then show ?thesis by (simp add: attempts_of_def rows_update_row)
qed

lemma distinct_attempt_ids: "wf_db d \<Longrightarrow> distinct (map at_id (attempts_of i d))"
  by (simp add: wf_db_def wf_table_def attempts_of_def distinct_map_filter)

text \<open>Rewriting the last attempt of an event leaves the others, and every other event's.\<close>

lemma attempts_of_put_last:
  assumes wf: "wf_db d" and key: "\<And>a. at_event (g a) = at_event a"
    and last: "attempts_of i d \<noteq> []" "at_id (last (attempts_of i d)) = j"
  shows "attempts_of i (put_attempt j g d) =
    butlast (attempts_of i d) @ [g (last (attempts_of i d))]"
proof -
  let ?as = "attempts_of i d"
  have split: "?as = butlast ?as @ [last ?as]" using last(1) by simp
  have "distinct (map at_id (butlast ?as @ [last ?as]))"
    using distinct_attempt_ids [OF wf, of i] last(1) by simp
  then have "\<forall>a \<in> set (butlast ?as). at_id a \<noteq> j" using last(2) by (fastforce simp: image_iff)
  then have "map (\<lambda>a. if at_id a = j then g a else a) (butlast ?as) = butlast ?as"
    by (simp add: map_idI)
  moreover have "attempts_of i (put_attempt j g d) =
      map (\<lambda>a. if at_id a = j then g a else a) (butlast ?as @ [last ?as])"
    using attempts_of_put_attempt [of g i j d, OF key] split by simp
  ultimately show ?thesis using last(2) by simp
qed

lemma attempts_of_put_other:
  assumes wf: "wf_db d" and key: "\<And>a. at_event (g a) = at_event a"
    and a: "get_attempt j d = Some a" and k: "k \<noteq> at_event a"
  shows "attempts_of k (put_attempt j g d) = attempts_of k d"
proof -
  have "at_id b \<noteq> j" if "b \<in> set (attempts_of k d)" for b
    using that a k wf_get_attempt_of_member [OF wf, of b] by (auto simp: attempts_of_member)
  then show ?thesis
    using attempts_of_put_attempt [of g k j d, OF key] by (simp add: map_idI)
qed

lemma unique_on_same:
  assumes "map k rs' = map k rs" shows "unique_on k rs' \<longleftrightarrow> unique_on k rs"
  using assms by (metis unique_on_map)

text \<open>
  Giving one row a unique-column value no row has keeps the column unique; so does leaving the
  column alone.
\<close>

lemma unique_on_update:
  assumes "unique_on k (rows t)" and "wf_table key t" and "find_row key j t = Some r"
    and "\<And>r'. k (f r') = v" and "v = None \<or> v = k r \<or> v \<notin> k ` set (rows t)"
  shows "unique_on k (rows (update_row key j f t))"
proof -
  obtain xs ys where split: "rows t = xs @ r # ys"
    using assms(3) by (meson find_row_in_rows split_list)
  have key_r: "key r = j" using assms(3) by (rule find_row_key)
  have "\<forall>r' \<in> set xs \<union> set ys. key r' \<noteq> j"
    using assms(2) split key_r by (fastforce simp: wf_table_def image_iff)
  then have rows: "rows (update_row key j f t) = xs @ f r # ys"
    using key_r split by (simp add: rows_update_row map_idI)
  show ?thesis
    using assms(1,4,5) split unfolding rows by (auto simp: unique_on_append image_iff, (metis UnI2)+)
qed

lemma unique_on_update_same:
  assumes "unique_on k (rows t)" and "\<And>r. r \<in> set (rows t) \<Longrightarrow> key r = j \<Longrightarrow> k (f r) = k r"
  shows "unique_on k (rows (update_row key j f t))"
proof -
  have "map k (rows (update_row key j f t)) = map k (rows t)"
    using assms(2) by (simp add: rows_update_row)
  then show ?thesis using assms(1) unique_on_same by blast
qed

text \<open>An operation that rewrites one event and no attempt.\<close>

lemma wf_put_event:
  assumes "wf_db d" and "get_event i d = Some e" and "\<And>r. ev_id (f r) = ev_id r"
    and "ev_user (f e) = ev_user e" "ev_phone_number (f e) = ev_phone_number e"
    and "wf_event (f e)" and "attempts_ok (ev_status (f e)) (attempts_of i d)"
  shows "wf_db (put_event i f d)"
proof (rule wf_db_change [OF assms(1,2)])
  show "db_events (put_event i f d) = update_row ev_id i f (db_events d)" by simp
qed (use assms in \<open>simp_all add: wf_db_def subset_insertI\<close>)


text \<open>
  An operation that rewrites the last attempt of an event, and perhaps the event. The new
  provider identifier is free, unless it is null or unchanged.
\<close>

definition sid_free :: "string option \<Rightarrow> db \<Rightarrow> bool" where
  "sid_free sid d \<longleftrightarrow> sid = None \<or> sid \<notin> at_provider_sid ` set (rows (db_attempts d))"

lemma wf_db_set_last:
  assumes wf: "wf_db d" and e: "get_event i d = Some e" and a: "get_attempt j d = Some a"
    and last: "attempts_of i d \<noteq> []" "last (attempts_of i d) = a"
    and g: "\<And>r. at_id (g r) = at_id r" "\<And>r. at_event (g r) = at_event r"
      "at_attempt_number (g a) = at_attempt_number a"
    and sid: "at_provider_sid (g a) = at_provider_sid a \<or>
      ((\<forall>r. at_provider_sid (g r) = at_provider_sid (g a)) \<and> sid_free (at_provider_sid (g a)) d)"
    and f: "\<And>r. ev_id (f r) = ev_id r"
      "ev_user (f e) = ev_user e" "ev_phone_number (f e) = ev_phone_number e"
    and new: "wf_event (f e)" "wf_attempt (g a)"
      "last_attempt_ok (ev_status (f e)) [g a]"
  shows "wf_db (put_event i f (put_attempt j g d))"
proof (rule wf_db_change [OF wf e])
  let ?d = "put_event i f (put_attempt j g d)"
  have ja: "at_id a = j" using a by (rule attempts.get_key)
  have ia: "at_event a = i" using last attempts_of_member [of a i d] by auto
  have old: "attempts_ok (ev_status e) (attempts_of i d)" by (rule wf_db_attempts_ok [OF wf e])
  have attempts: "attempts_of i ?d = butlast (attempts_of i d) @ [g a]"
    using attempts_of_put_last [of d g i j, OF wf g(2) last(1)] last(2) ja by simp
  have "numbered (attempts_of i ?d)"
  proof -
    have "map at_attempt_number (attempts_of i ?d) =
        map at_attempt_number (butlast (attempts_of i d) @ [last (attempts_of i d)])"
      using attempts g(3) last(2) by simp
    then show ?thesis using old last(1) attempts by (simp add: attempts_ok_def numbered_def)
  qed
  then show "attempts_ok (ev_status (f e)) (attempts_of i ?d)"
    using old new attempts last_attempt_ok.simps
    by (cases "ev_status (f e)") (auto simp: attempts_ok_def dest: in_set_butlastD)
  show "attempts_of k ?d = attempts_of k d" if "k \<noteq> i" for k
    using attempts_of_put_other [of d g j a k, OF wf g(2) a] that ia by simp
  show "unique_on at_provider_sid (rows (db_attempts ?d))"
  proof (cases "at_provider_sid (g a) = at_provider_sid a")
    case True
    have "at_provider_sid (g r) = at_provider_sid r"
      if "r \<in> set (rows (db_attempts d))" and "at_id r = j" for r
      using that True wf_get_attempt_of_member [OF wf, of r] a by auto
    then show ?thesis using wf by (simp add: wf_db_def unique_on_update_same)
  next
    case False
    with sid wf a show ?thesis
      by (simp add: wf_db_def sid_free_def get_attempt_def,
          intro unique_on_update [where v = "at_provider_sid (g a)"]) auto
  qed
  have "map at_event (rows (db_attempts ?d)) = map at_event (rows (db_attempts d))"
    using g(2) by (simp add: rows_update_row)
  then have "at_event ` set (rows (db_attempts ?d)) = at_event ` set (rows (db_attempts d))"
    by (metis image_set)
  then show "at_event ` set (rows (db_attempts ?d)) \<subseteq>
      insert i (at_event ` set (rows (db_attempts d)))" by blast
qed (use wf f new g in \<open>simp_all add: wf_db_def\<close>)

text \<open>An operation that adds an attempt to an event, and perhaps rewrites the event.\<close>

definition add_attempt :: "(row_id \<Rightarrow> delivery_attempt) \<Rightarrow> db \<Rightarrow> delivery_attempt \<times> db" where
  "add_attempt mk d =
     (case insert_row mk (db_attempts d) of (a, t) \<Rightarrow> (a, d\<lparr>db_attempts := t\<rparr>))"

lemma add_attempt_simps:
  "fst (add_attempt mk d) = mk (next_id (db_attempts d))"
  "db_phones (snd (add_attempt mk d)) = db_phones d"
  "db_events (snd (add_attempt mk d)) = db_events d"
  "db_commands (snd (add_attempt mk d)) = db_commands d"
  "db_attempts (snd (add_attempt mk d)) = snd (insert_row mk (db_attempts d))"
  "get_event k (snd (add_attempt mk d)) = get_event k d"
  by (simp_all add: add_attempt_def insert_row_def Let_def get_event_def)

lemma attempts_of_add_attempt:
  "attempts_of k (snd (add_attempt mk d)) =
    attempts_of k d @ (if at_event (mk (next_id (db_attempts d))) = k
      then [mk (next_id (db_attempts d))] else [])"
  by (simp add: attempts_of_def add_attempt_simps insert_row_simps)

lemma get_attempt_add_attempt:
  assumes "wf_db d" and "\<And>n. at_id (mk n) = n"
  shows "get_attempt j (snd (add_attempt mk d)) =
    (if j = next_id (db_attempts d) then Some (mk (next_id (db_attempts d))) else get_attempt j d)"
  using assms by (simp add: get_attempt_def add_attempt_simps find_row_insert_row wf_db_def)

lemma numbered_snoc:
  "numbered as \<Longrightarrow> at_attempt_number a = int (length as) + 1 \<Longrightarrow> numbered (as @ [a])"
  by (simp add: numbered_def)

lemma wf_db_add_attempt:
  assumes wf: "wf_db d" and e: "get_event i d = Some e"
    and mk: "\<And>n. mk n = new_attempt i (int (length (attempts_of i d)) + 1) t n"
    and prev: "\<forall>a \<in> set (attempts_of i d). retry_marked a"
    and f: "\<And>r. ev_id (f r) = ev_id r" "wf_event (f e)" "ev_status (f e) = E_PROCESSING"
      "ev_user (f e) = ev_user e" "ev_phone_number (f e) = ev_phone_number e"
  shows "wf_db (put_event i f (snd (add_attempt mk d)))"
proof (rule wf_db_change [OF wf e])
  let ?d = "put_event i f (snd (add_attempt mk d))"
  have old: "attempts_ok (ev_status e) (attempts_of i d)" by (rule wf_db_attempts_ok [OF wf e])
  have attempts: "attempts_of i ?d = attempts_of i d @ [mk (next_id (db_attempts d))]"
    by (simp add: attempts_of_add_attempt mk)
  show "attempts_ok (ev_status (f e)) (attempts_of i ?d)"
    unfolding attempts using old prev f(3)
    by (simp add: attempts_ok_def numbered_snoc mk wf_attempt_def)
  show "attempts_of k ?d = attempts_of k d" if "k \<noteq> i" for k
    using that by (simp add: attempts_of_add_attempt mk)
  show "unique_on at_provider_sid (rows (db_attempts ?d))"
    using wf by (simp add: wf_db_def add_attempt_simps insert_row_simps unique_on_append mk)
      (meson option.exhaust)
qed (use wf f in \<open>auto simp: wf_db_def add_attempt_simps insert_row_simps mk intro!: wf_insert_row\<close>)

end
