(* ===== verification/Scheduling_Services.thy ===== *)
theory Scheduling_Services
  imports Invariant
begin

text \<open>
  \<open>apps/scheduling/services.py\<close>: creating, cancelling, rescheduling an event and changing its
  channel, each one transaction that locks and reloads the row. Readings of the clock: 0 is the
  service's own \<open>timezone.now()\<close>, 1 and later those of the \<open>auto_now\<close> columns and of
  \<open>ScheduledEvent.clean\<close>.
\<close>

section \<open>Operations\<close>

definition event_missing :: exn where
  "event_missing = raise DoesNotExist ''ScheduledEvent matching query does not exist.''"

definition require_scheduled :: "scheduled_event \<Rightarrow> string \<Rightarrow> exn + unit" where
  "require_scheduled event action =
     require (ev_status event = E_SCHEDULED)
       (field_error ScheduledEventLifecycleConflict ''status''
         (''Event in '' @ event_status_value (ev_status event) @ '' state cannot be ''
           @ action @ ''.''))"

text \<open>\<open>ScheduledEvent.objects.select_for_update().get(id=event_id, user=user)\<close>.\<close>

definition get_user_event :: "row_id \<Rightarrow> row_id \<Rightarrow> db \<Rightarrow> exn + scheduled_event" where
  "get_user_event event_id user d =
     (case get_event event_id d of
        None \<Rightarrow> Inl event_missing
      | Some e \<Rightarrow> if ev_user e = user then Inr e else Inl event_missing)"

text \<open>\<open>PhoneNumber.objects.select_for_update().get(id=..., user=user, verified_at__isnull=False)\<close>.\<close>

definition get_verified_phone :: "row_id \<Rightarrow> row_id \<Rightarrow> db \<Rightarrow> exn + phone_number" where
  "get_verified_phone phone_number_id user d =
     (case get_phone phone_number_id d of
        None \<Rightarrow> Inl (field_error ValidationError ''phone_number_id''
                  ''Select a verified phone number you own.'')
      | Some p \<Rightarrow> if ph_user p = user \<and> is_verified p then Inr p
                  else Inl (field_error ValidationError ''phone_number_id''
                    ''Select a verified phone number you own.''))"

definition full_clean_event ::
  "row_id \<Rightarrow> phone_number \<Rightarrow> string \<Rightarrow> pydatetime \<Rightarrow> string \<Rightarrow> time \<Rightarrow> exn + channel" where
  "full_clean_event user phone zip_code scheduled_for chan now =
     (if is_naive scheduled_for
      then Inl (raise TypeError ''can't compare offset-naive and offset-aware datetimes'')
      else let errors = clean_event_fields zip_code chan
                 @ clean_event user (instant scheduled_for) phone True now
           in case channel_of chan of
                Some c \<Rightarrow> if errors = [] then Inr c else Inl (Exn ValidationError '''' errors)
              | None \<Rightarrow> Inl (Exn ValidationError '''' errors))"

definition create_scheduled_event ::
  "row_id \<Rightarrow> row_id \<Rightarrow> string \<Rightarrow> pydatetime \<Rightarrow> string \<Rightarrow> clock \<Rightarrow> scheduled_event transaction" where
  "create_scheduled_event user phone_number_id zip_code scheduled_for chan clk d =
     bind_res (get_verified_phone phone_number_id user d) (\<lambda>phone.
     bind_res (full_clean_event user phone zip_code scheduled_for chan (clk 0)) (\<lambda>c.
       case insert_row (\<lambda>i. \<lparr>
           ev_id = i, ev_user = user, ev_phone_number = ph_id phone, ev_zip_code = zip_code,
           ev_scheduled_for = instant scheduled_for, ev_channel = c, ev_status = E_SCHEDULED,
           ev_is_demo = True, ev_processing_started_at = None, ev_completed_at = None,
           ev_created_at = clk 1, ev_updated_at = clk 2\<rparr>) (db_events d)
       of (e, t) \<Rightarrow> Inr (e, d\<lparr>db_events := t\<rparr>)))"

text \<open>The common body of the two cancellation services, once the row is loaded.\<close>

definition cancel_locked_event ::
  "scheduled_event \<Rightarrow> time option \<Rightarrow> clock \<Rightarrow> scheduled_event transaction" where
  "cancel_locked_event event cancelled_at clk d =
     bind_res (require_scheduled event ''cancelled'') (\<lambda>_.
     bind_res (transition_event E_CANCELLED (or_now cancelled_at (clk 0)) event) (\<lambda>event.
       Inr (save_event [F_status, F_completed_at, F_updated_at] (clk 1) event d)))"

definition cancel_scheduled_event ::
  "row_id \<Rightarrow> time option \<Rightarrow> clock \<Rightarrow> scheduled_event transaction" where
  "cancel_scheduled_event event_id cancelled_at clk d =
     bind_res (or_raise (get_event event_id d) event_missing) (\<lambda>event.
       cancel_locked_event event cancelled_at clk d)"

definition cancel_user_scheduled_event ::
  "row_id \<Rightarrow> row_id \<Rightarrow> time option \<Rightarrow> clock \<Rightarrow> scheduled_event transaction" where
  "cancel_user_scheduled_event event_id user cancelled_at clk d =
     bind_res (get_user_event event_id user d) (\<lambda>event.
       cancel_locked_event event cancelled_at clk d)"

text \<open>
  \<open>scheduled_for\<close> is \<open>None\<close> when the argument is not a \<open>datetime\<close>; \<open>now\<close> is the optional
  argument of that name.
\<close>

definition reschedule_user_scheduled_event ::
  "row_id \<Rightarrow> row_id \<Rightarrow> pydatetime option \<Rightarrow> time option \<Rightarrow> clock \<Rightarrow> scheduled_event transaction" where
  "reschedule_user_scheduled_event event_id user scheduled_for now clk d =
     bind_res (get_user_event event_id user d) (\<lambda>event.
     bind_res (require_scheduled event ''rescheduled'') (\<lambda>_.
     bind_res
       (case scheduled_for of
          None \<Rightarrow> Inl (field_error ValidationError ''scheduled_for''
            ''Include an explicit UTC offset, such as Z or +00:00.'')
        | Some dt \<Rightarrow> if is_naive dt
            then Inl (field_error ValidationError ''scheduled_for''
              ''Include an explicit UTC offset, such as Z or +00:00.'')
            else Inr dt) (\<lambda>dt.
     bind_res (require (\<not> instant dt \<le> or_now now (clk 0))
       (field_error ValidationError ''scheduled_for''
         ''The scheduled time must be in the future.'')) (\<lambda>_.
     bind_res (astimezone_utc dt) (\<lambda>utc.
       Inr (save_event [F_scheduled_for, F_updated_at] (clk 1)
              (event\<lparr>ev_scheduled_for := utc\<rparr>) d))))))"

definition change_user_scheduled_event_channel ::
  "row_id \<Rightarrow> row_id \<Rightarrow> string \<Rightarrow> clock \<Rightarrow> scheduled_event transaction" where
  "change_user_scheduled_event_channel event_id user chan clk d =
     bind_res (get_user_event event_id user d) (\<lambda>event.
     bind_res (require_scheduled event ''changed'') (\<lambda>_.
     bind_res (or_raise (channel_of chan)
       (field_error ValidationError ''channel'' ''Select a valid choice.'')) (\<lambda>c.
       Inr (save_event [F_channel, F_updated_at] (clk 1) (event\<lparr>ev_channel := c\<rparr>) d))))"

section \<open>What the operations do\<close>

named_theorems event_service_defs

lemmas [event_service_defs] =
  cancel_locked_event_def cancel_scheduled_event_def cancel_user_scheduled_event_def
  reschedule_user_scheduled_event_def change_user_scheduled_event_channel_def

lemma get_user_event_Inr_iff [simp]:
  "get_user_event i user d = Inr e \<longleftrightarrow> get_event i d = Some e \<and> ev_user e = user"
  by (auto simp: get_user_event_def split: option.splits)

lemma get_verified_phone_Inr_iff [simp]:
  "get_verified_phone i user d = Inr p \<longleftrightarrow>
    get_phone i d = Some p \<and> ph_user p = user \<and> is_verified p"
  by (auto simp: get_verified_phone_def split: option.splits)

lemma require_scheduled_Inr_iff [simp]:
  "require_scheduled e action = Inr u \<longleftrightarrow> ev_status e = E_SCHEDULED"
  by (simp add: require_scheduled_def)

lemma astimezone_utc_Inr_iff [simp]:
  "astimezone_utc dt = Inr t \<longleftrightarrow> in_datetime_range (instant dt) \<and> t = instant dt"
  by (auto simp: astimezone_utc_def)

lemma full_clean_event_Inr_iff:
  "full_clean_event user phone z dt ch now = Inr c \<longleftrightarrow>
    \<not> is_naive dt \<and> channel_of ch = Some c \<and> length z = 5 \<and> all_digits z \<and>
    ph_user phone = user \<and> is_verified phone \<and> now < instant dt"
  by (auto simp: full_clean_event_def Let_def clean_event_fields_Nil_iff clean_event_def
      split: option.splits)

text \<open>A saved instance and its row agree when the instance changed only listed columns.\<close>

lemma save_event_row:
  assumes "get_event (ev_id e) d = Some row" and "save_event fs now e d = (e', d')"
    and "write_event_fields fs now e row = e'"
  shows "get_event (ev_id e) d' = Some e'"
  using assms by (auto simp: save_event_def events.get_put)

text \<open>The row a successful change leaves, as one equation on the database.\<close>

definition cancelled_row :: "time \<Rightarrow> time \<Rightarrow> scheduled_event \<Rightarrow> scheduled_event" where
  "cancelled_row t now e = e\<lparr>ev_status := E_CANCELLED, ev_completed_at := Some t, ev_updated_at := now\<rparr>"

lemma put_event_cong:
  assumes "wf_db d" and "get_event i d = Some e" and "f e = g e"
  shows "put_event i f d = put_event i g d"
proof -
  have "(if ev_id r = i then f r else r) = (if ev_id r = i then g r else r)"
    if "r \<in> set (rows (db_events d))" for r
    using wf_get_event_of_member [OF assms(1) that] assms(2,3) by auto
  then show ?thesis by (simp add: put_event_def update_row_def)
qed

lemma cancel_locked_event_Inr:
  assumes "get_event i d = Some e" and "ev_status e = E_SCHEDULED"
  shows "cancel_locked_event e t clk d =
    Inr (cancelled_row (or_now t (clk 0)) (clk 1) e,
         put_event i (write_event_fields [F_status, F_completed_at, F_updated_at] (clk 1)
           (e\<lparr>ev_status := E_CANCELLED, ev_completed_at := Some (or_now t (clk 0))\<rparr>)) d)"
  using assms events.get_key [OF assms(1)]
  by (simp add: cancel_locked_event_def require_scheduled_def require_def
      transition_event_scheduled save_event_def cancelled_row_def)

lemma cancel_locked_event_Inr_iff:
  "cancel_locked_event e t clk d = Inr r \<longleftrightarrow>
    ev_status e = E_SCHEDULED \<and>
    r = save_event [F_status, F_completed_at, F_updated_at] (clk 1)
      (e\<lparr>ev_status := E_CANCELLED, ev_completed_at := Some (or_now t (clk 0))\<rparr>) d"
  by (cases "ev_status e = E_SCHEDULED")
    (auto simp: cancel_locked_event_def transition_event_scheduled)

section \<open>Preservation of the invariant\<close>

text \<open>
  A change of a still-scheduled event that keeps its owner and phone and leaves it scheduled or
  cancelled keeps the invariant: such an event has no attempt.
\<close>

lemma wf_put_scheduled_event:
  assumes "wf_db d" and "get_event i d = Some e" and "ev_status e = E_SCHEDULED"
    and "\<And>r. ev_id (f r) = ev_id r" and "ev_user (f e) = ev_user e"
    and "ev_phone_number (f e) = ev_phone_number e"
    and "ev_status (f e) \<in> {E_SCHEDULED, E_CANCELLED}" and "wf_event (f e)"
  shows "wf_db (put_event i f d)"
  using assms wf_db_attempts_ok [OF assms(1,2)]
  by (intro wf_put_event [OF assms(1,2)]) (auto simp: attempts_ok_def)

lemma cancel_locked_event_wf:
  assumes wf: "wf_db d" and e: "get_event i d = Some e"
    and ok: "cancel_locked_event e t clk d = Inr (e', d')"
  shows "wf_db d'"
proof -
  from ok have st: "ev_status e = E_SCHEDULED" by (simp add: cancel_locked_event_Inr_iff)
  have "ev_processing_started_at e = None"
    using wf_db_wf_event [OF wf e] st by (simp add: wf_event_def)
  with ok st cancel_locked_event_Inr [OF e st] show ?thesis
    by (auto intro!: wf_put_scheduled_event [OF wf e st] simp: write_event_fields_def wf_event_def)
qed

lemma cancel_user_scheduled_event_wf:
  "wf_db d \<Longrightarrow> cancel_user_scheduled_event i user t clk d = Inr (e', d') \<Longrightarrow> wf_db d'"
  by (auto simp: cancel_user_scheduled_event_def intro: cancel_locked_event_wf)

lemma cancel_scheduled_event_wf:
  "wf_db d \<Longrightarrow> cancel_scheduled_event i t clk d = Inr (e', d') \<Longrightarrow> wf_db d'"
  by (auto simp: cancel_scheduled_event_def intro: cancel_locked_event_wf)

lemma wf_scheduled_times:
  "wf_db d \<Longrightarrow> get_event i d = Some e \<Longrightarrow> ev_status e = E_SCHEDULED \<Longrightarrow>
    ev_processing_started_at e = None \<and> ev_completed_at e = None"
  using wf_db_wf_event by (fastforce simp: wf_event_def)

lemma reschedule_Inr_iff:
  "reschedule_user_scheduled_event i user dt now clk d = Inr r \<longleftrightarrow>
    (\<exists>e w. get_event i d = Some e \<and> ev_user e = user \<and> ev_status e = E_SCHEDULED \<and>
       dt = Some w \<and> \<not> is_naive w \<and> or_now now (clk 0) < instant w \<and>
       in_datetime_range (instant w) \<and>
       r = save_event [F_scheduled_for, F_updated_at] (clk 1) (e\<lparr>ev_scheduled_for := instant w\<rparr>) d)"
  by (auto simp: reschedule_user_scheduled_event_def split: option.splits if_splits)

lemma reschedule_wf:
  assumes "wf_db d" and "reschedule_user_scheduled_event i user dt now clk d = Inr (e', d')"
  shows "wf_db d'"
  using assms wf_scheduled_times [OF assms(1)]
  by (auto simp: reschedule_Inr_iff save_event_def dest: events.get_key
      intro!: wf_put_scheduled_event [OF assms(1)])
    (auto simp: write_event_fields_def wf_event_def)

lemma change_channel_Inr_iff:
  "change_user_scheduled_event_channel i user ch clk d = Inr r \<longleftrightarrow>
    (\<exists>e c. get_event i d = Some e \<and> ev_user e = user \<and> ev_status e = E_SCHEDULED \<and>
       channel_of ch = Some c \<and>
       r = save_event [F_channel, F_updated_at] (clk 1) (e\<lparr>ev_channel := c\<rparr>) d)"
  by (auto simp: change_user_scheduled_event_channel_def)

lemma change_channel_wf:
  assumes "wf_db d" and "change_user_scheduled_event_channel i user ch clk d = Inr (e', d')"
  shows "wf_db d'"
  using assms wf_scheduled_times [OF assms(1)]
  by (auto simp: change_channel_Inr_iff save_event_def dest: events.get_key
      intro!: wf_put_scheduled_event [OF assms(1)])
    (auto simp: write_event_fields_def wf_event_def)

lemma wf_add_event:
  assumes wf: "wf_db d" and mk: "\<And>i. ev_id (mk i) = i" "\<And>i. ev_status (mk i) = E_SCHEDULED"
      "\<And>i. wf_event (mk i)" "\<And>i. ev_phone_number (mk i) = ph_id p" "\<And>i. ev_user (mk i) = ph_user p"
    and p: "get_phone (ph_id p) d = Some p" "is_verified p"
  shows "wf_db (d\<lparr>db_events := snd (insert_row mk (db_events d))\<rparr>)"
proof -
  let ?n = "next_id (db_events d)" and ?d = "d\<lparr>db_events := snd (insert_row mk (db_events d))\<rparr>"
  have atts: "attempts_of k ?d = attempts_of k d" for k by (simp add: attempts_of_def)
  have "attempts_of ?n d = []"
    using wf by (fastforce simp: wf_db_def wf_table_def attempts_of_def filter_empty_conv)
  moreover have "p \<in> set (rows (db_phones d))"
    using p(1) by (auto simp: get_phone_def dest: find_row_in_rows)
  ultimately have "event_ok ?d (mk ?n)"
    using mk p(2) by (auto simp: event_ok_def atts attempts_ok_def numbered_def)
  moreover have "event_ok ?d e" if "event_ok d e" for e
    using that by (simp add: event_ok_def atts)
  ultimately show ?thesis
    using wf mk(1) by (auto simp: wf_db_def insert_row_simps intro!: wf_insert_row)
qed

lemma create_scheduled_event_Inr:
  assumes "create_scheduled_event user i z dt ch clk d = Inr (e, d')"
  obtains p c where "get_phone i d = Some p" "ph_user p = user" "is_verified p"
    "channel_of ch = Some c" "length z = 5" "all_digits z" "\<not> is_naive dt" "clk 0 < instant dt"
    "e = \<lparr>ev_id = next_id (db_events d), ev_user = user, ev_phone_number = ph_id p,
       ev_zip_code = z, ev_scheduled_for = instant dt, ev_channel = c, ev_status = E_SCHEDULED,
       ev_is_demo = True, ev_processing_started_at = None, ev_completed_at = None,
       ev_created_at = clk 1, ev_updated_at = clk 2\<rparr>"
    "d' = d\<lparr>db_events := snd (insert_row (\<lambda>n. e\<lparr>ev_id := n\<rparr>) (db_events d))\<rparr>"
proof -
  from assms obtain p c where "get_phone i d = Some p" "ph_user p = user" "is_verified p"
    and "full_clean_event user p z dt ch (clk 0) = Inr c"
    and "e = \<lparr>ev_id = next_id (db_events d), ev_user = user, ev_phone_number = ph_id p,
       ev_zip_code = z, ev_scheduled_for = instant dt, ev_channel = c, ev_status = E_SCHEDULED,
       ev_is_demo = True, ev_processing_started_at = None, ev_completed_at = None,
       ev_created_at = clk 1, ev_updated_at = clk 2\<rparr>"
    and "d' = d\<lparr>db_events := snd (insert_row (\<lambda>n. e\<lparr>ev_id := n\<rparr>) (db_events d))\<rparr>"
    by (auto simp: create_scheduled_event_def insert_row_def Let_def)
  then show thesis by (intro that) (simp_all add: full_clean_event_Inr_iff)
qed

lemma create_scheduled_event_wf:
  assumes wf: "wf_db d" and ok: "create_scheduled_event user i z dt ch clk d = Inr (e, d')"
  shows "wf_db d'"
  using ok
proof (cases rule: create_scheduled_event_Inr)
  case (1 p c)
  have "get_phone (ph_id p) d = Some p" using 1(1) phones.get_key [OF 1(1)] by simp
  with 1 show ?thesis
    by (auto simp: wf_event_def intro!: wf_add_event [OF wf, where p = p])
qed

end
