(* ===== verification/Pending_Changes.thy ===== *)
theory Pending_Changes
  imports Scheduling_Services
begin

text \<open>
  The contract the reply channels (voice menu, inbound SMS) and the user interfaces rely on when
  they change a pending event: the three services of \<open>apps/scheduling/services.py\<close> that take an
  event and its owner provide it.
\<close>

locale pending_change =
  fixes change :: "row_id \<Rightarrow> row_id \<Rightarrow> scheduled_event transaction"
  assumes owned_and_scheduled: "change i user d = Inr (e', d') \<Longrightarrow>
      \<exists>e. get_event i d = Some e \<and> ev_user e = user \<and> ev_status e = E_SCHEDULED"
    and only_this_event: "change i user d = Inr (e', d') \<Longrightarrow>
      \<exists>f. (\<forall>r. ev_id (f r) = ev_id r) \<and> d' = put_event i f d"
    and row_returned: "change i user d = Inr (e', d') \<Longrightarrow>
      get_event i d' = Some e' \<and> ev_user e' = user"
    and stays_pending_or_cancelled: "change i user d = Inr (e', d') \<Longrightarrow>
      ev_status e' \<in> {E_SCHEDULED, E_CANCELLED}"
    and keeps_wf: "wf_db d \<Longrightarrow> change i user d = Inr (e', d') \<Longrightarrow> wf_db d'"
    and refused: "change i user d = Inl x \<Longrightarrow>
      get_event i d = Some e \<and> ev_user e = user \<and> ev_status e = E_SCHEDULED \<Longrightarrow>
      exn_class x \<notin> {DoesNotExist, ScheduledEventLifecycleConflict}"
    and conflict: "get_event i d = Some e \<Longrightarrow> ev_user e = user \<Longrightarrow> ev_status e \<noteq> E_SCHEDULED \<Longrightarrow>
      \<exists>x. change i user d = Inl x \<and> exn_class x = ScheduledEventLifecycleConflict"
begin

lemma other_events:
  assumes "change i user d = Inr (e', d')" and "j \<noteq> i"
  shows "get_event j d' = get_event j d"
  using only_this_event [OF assms(1)] assms(2) by (auto simp: events.get_put)

lemma other_tables:
  assumes "change i user d = Inr (e', d')"
  shows "db_attempts d' = db_attempts d" and "db_commands d' = db_commands d"
    and "db_phones d' = db_phones d"
  using only_this_event [OF assms] by auto

lemma attempts_unchanged:
  assumes "change i user d = Inr (e', d')"
  shows "attempts_of k d' = attempts_of k d" and "latest_attempt k d' = latest_attempt k d"
    and "get_attempt j d' = get_attempt j d" and "get_command j d' = get_command j d"
  using only_this_event [OF assms] by (auto simp: latest_attempt_def)

lemma never_after_claim:
  assumes "get_event i d = Some e" and "ev_status e \<noteq> E_SCHEDULED"
  shows "\<exists>x. change i user d = Inl x"
  using owned_and_scheduled [of i user d] assms by (cases "change i user d") auto

lemma on_next_pending:
  assumes "wf_db d" and "next_pending_event user d = Some e" and "change (ev_id e) user d = Inl x"
  shows "exn_class x \<notin> {DoesNotExist, ScheduledEventLifecycleConflict}"
  using refused [OF assms(3), of e] next_pending_event_SomeD [OF assms(2)]
    wf_get_event_of_member [OF assms(1)] by blast

end

text \<open>
  A service that saves some columns of the loaded row, and only for the owner's scheduled event,
  gives the contract.
\<close>

lemma pending_change_of_save:
  assumes saves: "\<And>i user d e' d'. change i user d = Inr (e', d') \<Longrightarrow>
      \<exists>e e1. get_event i d = Some e \<and> ev_user e = user \<and> ev_status e = E_SCHEDULED \<and>
        (e', d') = save_event fs now e1 d \<and> ev_id e1 = ev_id e \<and> ev_user e1 = ev_user e \<and>
        write_event_fields fs now e1 e = e' \<and> ev_status e1 \<in> {E_SCHEDULED, E_CANCELLED}"
    and wf: "\<And>i user d e' d'. wf_db d \<Longrightarrow> change i user d = Inr (e', d') \<Longrightarrow> wf_db d'"
    and refused: "\<And>i user d x e. change i user d = Inl x \<Longrightarrow> get_event i d = Some e \<Longrightarrow>
      ev_user e = user \<Longrightarrow> ev_status e = E_SCHEDULED \<Longrightarrow>
      exn_class x \<notin> {DoesNotExist, ScheduledEventLifecycleConflict}"
    and conflict: "\<And>i user d e. get_event i d = Some e \<Longrightarrow> ev_user e = user \<Longrightarrow>
      ev_status e \<noteq> E_SCHEDULED \<Longrightarrow>
      \<exists>x. change i user d = Inl x \<and> exn_class x = ScheduledEventLifecycleConflict"
  shows "pending_change change"
proof unfold_locales
  fix i user d e' d'
  assume "change i user d = Inr (e', d')"
  then obtain e e1 where e: "get_event i d = Some e" "ev_user e = user" "ev_status e = E_SCHEDULED"
    and save: "(e', d') = save_event fs now e1 d" "write_event_fields fs now e1 e = e'"
    and e1: "ev_id e1 = ev_id e" "ev_user e1 = ev_user e" "ev_status e1 \<in> {E_SCHEDULED, E_CANCELLED}"
    using saves by blast
  have i: "ev_id e1 = i" using e(1) e1(1) events.get_key by simp
  show "\<exists>e. get_event i d = Some e \<and> ev_user e = user \<and> ev_status e = E_SCHEDULED"
    using e by blast
  have d': "d' = put_event i (write_event_fields fs now e1) d"
    using save(1) i by (simp add: save_event_def)
  show "\<exists>f. (\<forall>r. ev_id (f r) = ev_id r) \<and> d' = put_event i f d"
    unfolding d' by (intro exI [of _ "write_event_fields fs now e1"]) simp
  have "get_event i d' = Some e'"
    using save(2) e(1) by (simp add: d' events.get_put)
  moreover have "ev_user e' = user"
    using save(1) e(2) e1(2) by (auto simp: save_event_def split: if_splits)
  ultimately show "get_event i d' = Some e' \<and> ev_user e' = user" ..
  show "ev_status e' \<in> {E_SCHEDULED, E_CANCELLED}"
    using save(1) e1(3) by (auto simp: save_event_def split: if_splits)
qed (use wf refused conflict in blast)+

lemmas change_refusals =
  cancel_user_scheduled_event_def cancel_locked_event_def reschedule_user_scheduled_event_def
  change_user_scheduled_event_channel_def get_user_event_def require_scheduled_def require_def
  astimezone_utc_def transition_event_scheduled

interpretation cancelling: pending_change
  "\<lambda>i user. cancel_user_scheduled_event i user t clk" for t clk
  by (rule pending_change_of_save [where fs = "[F_status, F_completed_at, F_updated_at]" and now = "clk 1"])
    (fastforce simp: cancel_user_scheduled_event_def cancel_locked_event_Inr_iff save_event_def
        write_event_fields_def,
      erule (1) cancel_user_scheduled_event_wf,
      (auto simp: change_refusals bind_res_Inl_iff split: option.splits if_splits)+)

interpretation rescheduling: pending_change
  "\<lambda>i user. reschedule_user_scheduled_event i user dt now clk" for dt now clk
  by (rule pending_change_of_save [where fs = "[F_scheduled_for, F_updated_at]" and now = "clk 1"])
    (fastforce simp: reschedule_Inr_iff save_event_def write_event_fields_def,
      erule (1) reschedule_wf,
      (auto simp: change_refusals bind_res_Inl_iff split: option.splits if_splits)+)

interpretation channel_change: pending_change
  "\<lambda>i user. change_user_scheduled_event_channel i user ch clk" for ch clk
  by (rule pending_change_of_save [where fs = "[F_channel, F_updated_at]" and now = "clk 1"])
    (fastforce simp: change_channel_Inr_iff save_event_def write_event_fields_def,
      erule (1) change_channel_wf,
      (auto simp: change_refusals bind_res_Inl_iff split: option.splits if_splits)+)

end
