(* ===== verification/Samples.thy ===== *)
theory Samples
  imports Invariant
begin

text \<open>
  A small well-formed database on which the theorems are applied: a verified and an unverified
  phone, a demo text event and a real voice event still scheduled, and a submitted voice event with
  its attempt.
\<close>

definition sample_phone :: phone_number where
  "sample_phone = \<lparr>ph_id = 1, ph_user = 7, ph_number = ''+14155550101'', ph_verified_at = Some 5,
     ph_created_at = 1, ph_updated_at = 5\<rparr>"

definition sample_unverified :: phone_number where
  "sample_unverified = \<lparr>ph_id = 2, ph_user = 8, ph_number = ''+14155550102'', ph_verified_at = None,
     ph_created_at = 2, ph_updated_at = 2\<rparr>"

definition sample_demo :: scheduled_event where
  "sample_demo = \<lparr>ev_id = 1, ev_user = 7, ev_phone_number = 1, ev_zip_code = ''94107'',
     ev_scheduled_for = seconds 1000, ev_channel = SMS, ev_status = E_SCHEDULED, ev_is_demo = True,
     ev_processing_started_at = None, ev_completed_at = None, ev_created_at = 10, ev_updated_at = 10\<rparr>"

definition sample_real :: scheduled_event where
  "sample_real = \<lparr>ev_id = 2, ev_user = 7, ev_phone_number = 1, ev_zip_code = ''10001'',
     ev_scheduled_for = seconds 2000, ev_channel = VOICE, ev_status = E_SCHEDULED, ev_is_demo = False,
     ev_processing_started_at = None, ev_completed_at = None, ev_created_at = 11, ev_updated_at = 11\<rparr>"

definition sample_done :: scheduled_event where
  "sample_done = \<lparr>ev_id = 3, ev_user = 7, ev_phone_number = 1, ev_zip_code = ''60601'',
     ev_scheduled_for = seconds 500, ev_channel = VOICE, ev_status = E_SUBMITTED, ev_is_demo = False,
     ev_processing_started_at = Some 501, ev_completed_at = Some 502, ev_created_at = 12,
     ev_updated_at = 502\<rparr>"

definition sample_attempt :: delivery_attempt where
  "sample_attempt = (new_attempt 3 1 501 1)\<lparr>at_status := A_SUBMITTED,
     at_provider_sid := Some ''CA1'', at_completed_at := Some 502\<rparr>"

definition sample_db :: db where
  "sample_db = \<lparr>
     db_phones = \<lparr>rows = [sample_phone, sample_unverified], next_id = 3\<rparr>,
     db_events = \<lparr>rows = [sample_demo, sample_real, sample_done], next_id = 4\<rparr>,
     db_attempts = \<lparr>rows = [sample_attempt], next_id = 2\<rparr>,
     db_commands = empty_table\<rparr>"

lemmas sample_defs = sample_db_def sample_phone_def sample_unverified_def sample_demo_def
  sample_real_def sample_done_def sample_attempt_def

lemma sample_attempts:
  "attempts_of 1 sample_db = []" "attempts_of 2 sample_db = []"
  "attempts_of 3 sample_db = [sample_attempt]"
  by (simp_all add: attempts_of_def sample_defs)

lemma sample_events:
  "get_event 1 sample_db = Some sample_demo" "get_event 2 sample_db = Some sample_real"
  "get_event 3 sample_db = Some sample_done" "get_event 9 sample_db = None"
  by (simp_all add: get_event_def find_row_def sample_defs)

lemma sample_phones:
  "get_phone 1 sample_db = Some sample_phone" "get_phone 2 sample_db = Some sample_unverified"
  by (simp_all add: get_phone_def find_row_def sample_defs)

lemma sample_event_ok: "e \<in> {sample_demo, sample_real, sample_done} \<Longrightarrow> event_ok sample_db e"
  by (auto simp: event_ok_def attempts_of_def wf_event_def attempts_ok_def numbered_def wf_attempt_def
      is_verified_def sample_defs)

lemma sample_wf_events: "wf_event sample_demo" "wf_event sample_real" "wf_event sample_done"
  by (simp_all add: wf_event_def sample_defs)

lemma wf_sample_db: "wf_db sample_db"
proof -
  have "event_ok sample_db e" if "e \<in> set (rows (db_events sample_db))" for e
    using that by (intro sample_event_ok) (auto simp: sample_db_def)
  then show ?thesis
    unfolding wf_db_def by (simp add: wf_table_def) (simp add: sample_defs empty_table_def)
qed

end
