(* ===== verification/Scheduling_Properties.thy ===== *)
theory Scheduling_Properties
  imports Pending_Changes Samples
begin

text \<open>
  What \<open>apps/scheduling\<close> guarantees: the event lifecycle, each service on every branch, and the
  invariant.
\<close>

section \<open>Shared facts\<close>

lemma transition_event_wf:
  "wf_event e \<Longrightarrow> transition_event s t e = Inr e' \<Longrightarrow> wf_event e'"
  by (cases "ev_status e"; cases s) (auto simp: transition_event_def wf_event_def)

lemma run_history_wf_event: "wf_event e \<Longrightarrow> wf_event (run_history transition_event h e)"
proof (induction h arbitrary: e)
  case (Cons x h)
  then show ?case
    by (cases x; cases "transition_event (fst x) (snd x) e") (auto dest: transition_event_wf)
qed simp

lemma put_event_const:
  assumes "wf_db d" and "get_event i d = Some e"
  shows "put_event i f d = put_event i (\<lambda>_. f e) d"
  by (rule put_event_cong [OF assms]) simp

lemma written_event:
  "write_event_fields [F_scheduled_for, F_updated_at] u y e =
    e\<lparr>ev_scheduled_for := ev_scheduled_for y, ev_updated_at := u\<rparr>"
  "write_event_fields [F_channel, F_updated_at] u y e =
    e\<lparr>ev_channel := ev_channel y, ev_updated_at := u\<rparr>"
  "write_event_fields [F_status, F_completed_at, F_updated_at] u y e =
    e\<lparr>ev_status := ev_status y, ev_completed_at := ev_completed_at y, ev_updated_at := u\<rparr>"
  by (cases e, simp add: write_event_fields_def)+

definition conflict :: "scheduled_event \<Rightarrow> string \<Rightarrow> exn" where
  "conflict e action = field_error ScheduledEventLifecycleConflict ''status''
     (''Event in '' @ event_status_value (ev_status e) @ '' state cannot be '' @ action @ ''.'')"

lemma require_scheduled_else:
  "ev_status e \<noteq> E_SCHEDULED \<Longrightarrow> require_scheduled e action = Inl (conflict e action)"
  by (simp add: require_scheduled_def require_def conflict_def)

section \<open>Properties\<close>

text \<open>C23. Event lifecycle. Whatever sequence of transitions is attempted on a well-formed event,
  each either happening or raising, the event stays well-formed (its timestamps are those its status
  calls for), its status follows \<open>ALLOWED_TRANSITIONS\<close>, at most two transitions are accepted, and
  from a status without successors nothing changes the event any more.\<close>

theorem event_lifecycle_history:
  assumes "wf_event e"
  shows "let e' = run_history transition_event h e in
    wf_event e' \<and> (ev_status e, ev_status e') \<in> {(s, t). t \<in> ALLOWED_TRANSITIONS s}\<^sup>* \<and>
    accepted transition_event h e \<le> 2 \<and>
    (ALLOWED_TRANSITIONS (ev_status e') = {} \<longrightarrow> (\<forall>h'. run_history transition_event h' e' = e'))"
proof -
  have "event_rank (ev_status e) \<le> 2" by (cases "ev_status e") simp_all
  then have "accepted transition_event h e \<le> 2"
    using event_lifecycle.accepted_bound [of h e] by linarith
  then show ?thesis
    using run_history_wf_event [OF assms] event_lifecycle.run_follows_table [of e h]
    by (simp add: Let_def event_lifecycle.run_terminal)
qed

lemma event_lifecycle_history_witness:
  "accepted transition_event [(E_PROCESSING, 5), (E_CANCELLED, 6), (E_FAILED, 7)] sample_demo \<le> 2"
  using event_lifecycle_history [OF sample_wf_events(1)] unfolding Let_def by blast

text \<open>C24. Cancelling, on every branch. The owner's scheduled event becomes cancelled at the given time
  (or now) and only its row changes; someone else's or a missing event is reported as missing; an
  event in any other state is a lifecycle conflict. A failed call changes nothing.\<close>

theorem cancel_user_scheduled_event_spec:
  assumes "wf_db d"
  shows "cancel_user_scheduled_event i user t clk d =
    (case get_event i d of
       None \<Rightarrow> Inl event_missing
     | Some e \<Rightarrow>
         if ev_user e \<noteq> user then Inl event_missing
         else if ev_status e \<noteq> E_SCHEDULED then Inl (conflict e ''cancelled'')
         else let e' = e\<lparr>ev_status := E_CANCELLED, ev_completed_at := Some (or_now t (clk 0)),
                         ev_updated_at := clk 1\<rparr>
              in Inr (e', put_event i (\<lambda>_. e') d))"
proof (cases "get_event i d")
  case None
  then show ?thesis by (simp add: cancel_user_scheduled_event_def get_user_event_def)
next
  case (Some e)
  note [simp] = put_event_const [OF assms Some, of "write_event_fields _ _ _"]
  show ?thesis
  proof (cases "ev_status e = E_SCHEDULED")
    case True
    then show ?thesis using Some
      by (simp add: cancel_user_scheduled_event_def get_user_event_def cancelled_row_def Let_def
          written_event cancel_locked_event_Inr [OF Some True])
  next
    case False
    with Some show ?thesis
      by (simp add: cancel_user_scheduled_event_def get_user_event_def cancel_locked_event_def
          require_scheduled_else)
  qed
qed

lemma cancel_user_scheduled_event_spec_witness:
  "cancel_user_scheduled_event 1 7 (Some 20) (\<lambda>n. 30 + int n) sample_db =
    (let e' = sample_demo\<lparr>ev_status := E_CANCELLED, ev_completed_at := Some 20, ev_updated_at := 31\<rparr>
     in Inr (e', put_event 1 (\<lambda>_. e') sample_db))"
  using cancel_user_scheduled_event_spec [OF wf_sample_db, of 1 7 "Some 20" "\<lambda>n. 30 + int n"]
  by (simp add: sample_events) (simp add: sample_demo_def)

text \<open>C25. Rescheduling, on every branch and in the order the service checks: ownership, state, an
  explicit UTC offset, a time in the future (against the given or the current time), and a UTC value
  that a datetime can hold; then only the event's time and update stamp change.\<close>

theorem reschedule_user_scheduled_event_spec:
  assumes "wf_db d"
  shows "reschedule_user_scheduled_event i user dt now clk d =
    (case get_event i d of
       None \<Rightarrow> Inl event_missing
     | Some e \<Rightarrow>
         if ev_user e \<noteq> user then Inl event_missing
         else if ev_status e \<noteq> E_SCHEDULED then Inl (conflict e ''rescheduled'')
         else case dt of
           None \<Rightarrow> Inl (field_error ValidationError ''scheduled_for''
             ''Include an explicit UTC offset, such as Z or +00:00.'')
         | Some w \<Rightarrow>
             if dt_offset w = None then Inl (field_error ValidationError ''scheduled_for''
               ''Include an explicit UTC offset, such as Z or +00:00.'')
             else if instant w \<le> or_now now (clk 0) then Inl (field_error ValidationError
               ''scheduled_for'' ''The scheduled time must be in the future.'')
             else if \<not> in_datetime_range (instant w)
               then Inl (raise OverflowError ''date value out of range'')
             else let e' = e\<lparr>ev_scheduled_for := instant w, ev_updated_at := clk 1\<rparr>
                  in Inr (e', put_event i (\<lambda>_. e') d))"
proof (cases "get_event i d")
  case None
  then show ?thesis by (simp add: reschedule_user_scheduled_event_def get_user_event_def)
next
  case (Some e)
  have i: "ev_id e = i" using Some by (rule events.get_key)
  note simps = reschedule_user_scheduled_event_def get_user_event_def require_scheduled_else
    bind_require astimezone_utc_def save_event_def Let_def is_naive_def
    put_event_const [OF assms Some, of "write_event_fields _ _ _"] written_event
  show ?thesis
  proof (cases "ev_status e = E_SCHEDULED")
    case True
    then show ?thesis using Some i by (cases dt) (simp_all add: simps require_scheduled_def)
  next
    case False
    then show ?thesis using Some by (simp add: simps)
  qed
qed

lemma reschedule_user_scheduled_event_spec_witness:
  "reschedule_user_scheduled_event 1 7 (Some \<lparr>dt_local = MAX_DATETIME, dt_offset = Some (- seconds 60)\<rparr>)
     None (\<lambda>n. 30) sample_db = Inl (raise OverflowError ''date value out of range'')"
  using reschedule_user_scheduled_event_spec [OF wf_sample_db, of 1 7 "Some _" None "\<lambda>n. 30"]
  by (simp add: sample_events)
    (simp add: sample_demo_def MAX_DATETIME_def instant_def in_datetime_range_def)

text \<open>Changing the channel, on every branch: as above, with a choice other than the two channels
  refused.\<close>

theorem change_user_scheduled_event_channel_spec:
  assumes "wf_db d"
  shows "change_user_scheduled_event_channel i user ch clk d =
    (case get_event i d of
       None \<Rightarrow> Inl event_missing
     | Some e \<Rightarrow>
         if ev_user e \<noteq> user then Inl event_missing
         else if ev_status e \<noteq> E_SCHEDULED then Inl (conflict e ''changed'')
         else if ch \<notin> {''sms'', ''voice''}
           then Inl (field_error ValidationError ''channel'' ''Select a valid choice.'')
         else let e' = e\<lparr>ev_channel := (if ch = ''sms'' then SMS else VOICE), ev_updated_at := clk 1\<rparr>
              in Inr (e', put_event i (\<lambda>_. e') d))"
proof (cases "get_event i d")
  case None
  then show ?thesis by (simp add: change_user_scheduled_event_channel_def get_user_event_def)
next
  case (Some e)
  have i: "ev_id e = i" using Some by (rule events.get_key)
  note simps = change_user_scheduled_event_channel_def get_user_event_def require_scheduled_else
    save_event_def Let_def channel_of_def
    put_event_const [OF assms Some, of "write_event_fields _ _ _"] written_event
  show ?thesis
  proof (cases "ev_status e = E_SCHEDULED")
    case True
    then show ?thesis using Some i by (simp add: simps require_scheduled_def require_def)
  next
    case False
    then show ?thesis using Some by (simp add: simps)
  qed
qed

lemma change_user_scheduled_event_channel_spec_witness:
  "change_user_scheduled_event_channel 3 7 ''sms'' (\<lambda>n. 30) sample_db = Inl (conflict sample_done ''changed'')"
  using change_user_scheduled_event_channel_spec [OF wf_sample_db, of 3 7 "''sms''" "\<lambda>n. 30"]
  by (simp add: sample_events) (simp add: sample_done_def)

text \<open>C26. Creating an event succeeds exactly when the phone is the user's own and verified, the ZIP
  code is five digits, the channel is one of the two and the time is an aware datetime later than
  now; what is stored is a scheduled demo event with no delivery data, under a fresh identifier.\<close>

theorem create_scheduled_event_iff:
  "create_scheduled_event user i z dt ch clk d = Inr (e, d') \<longleftrightarrow>
    (\<exists>p. get_phone i d = Some p \<and> ph_user p = user \<and> ph_verified_at p \<noteq> None) \<and>
    length z = 5 \<and> all_digits z \<and> (ch = ''sms'' \<or> ch = ''voice'') \<and>
    dt_offset dt \<noteq> None \<and> clk 0 < instant dt \<and>
    e = \<lparr>ev_id = next_id (db_events d), ev_user = user, ev_phone_number = i, ev_zip_code = z,
      ev_scheduled_for = instant dt, ev_channel = (if ch = ''sms'' then SMS else VOICE),
      ev_status = E_SCHEDULED, ev_is_demo = True, ev_processing_started_at = None,
      ev_completed_at = None, ev_created_at = clk 1, ev_updated_at = clk 2\<rparr> \<and>
    d' = d\<lparr>db_events := \<lparr>rows = rows (db_events d) @ [e], next_id = next_id (db_events d) + 1\<rparr>\<rparr>"
  (is "?run \<longleftrightarrow> ?spec")
proof
  assume ?run
  then show ?spec
    by (cases rule: create_scheduled_event_Inr)
      (auto simp: is_verified_def is_naive_def channel_of_def insert_row_def Let_def
        dest: phones.get_key split: if_splits)
next
  assume spec: ?spec
  then obtain p where p: "get_phone i d = Some p" "ph_user p = user" "ph_verified_at p \<noteq> None" by blast
  let ?c = "if ch = ''sms'' then SMS else VOICE"
  have "full_clean_event user p z dt ch (clk 0) = Inr ?c"
    using spec p by (auto simp: full_clean_event_Inr_iff is_verified_def is_naive_def channel_of_def)
  moreover have "get_verified_phone i user d = Inr p"
    using p by (simp add: is_verified_def)
  ultimately show ?run
    using spec phones.get_key [OF p(1)]
    by (simp add: create_scheduled_event_def insert_row_def Let_def)
qed

text \<open>Whichever user-facing change succeeds (cancel, reschedule, change channel), it was made by the
  owner on a scheduled event, leaves that event scheduled or cancelled and still the owner's, and
  touches no other event, no delivery attempt, no phone and no inbound command.\<close>

theorem user_changes_are_local:
  assumes "change \<in> {cancel_user_scheduled_event i user t clk,
      reschedule_user_scheduled_event i user dt now clk,
      change_user_scheduled_event_channel i user ch clk}"
    and "change d = Inr (e', d')"
  shows "(\<exists>e. get_event i d = Some e \<and> ev_user e = user \<and> ev_status e = E_SCHEDULED) \<and>
    get_event i d' = Some e' \<and> ev_user e' = user \<and> ev_status e' \<in> {E_SCHEDULED, E_CANCELLED} \<and>
    (\<forall>j. j \<noteq> i \<longrightarrow> get_event j d' = get_event j d) \<and>
    db_attempts d' = db_attempts d \<and> db_phones d' = db_phones d \<and> db_commands d' = db_commands d"
proof -
  have local: "(\<exists>e. get_event i d = Some e \<and> ev_user e = user \<and> ev_status e = E_SCHEDULED) \<and>
    get_event i d' = Some e' \<and> ev_user e' = user \<and> ev_status e' \<in> {E_SCHEDULED, E_CANCELLED} \<and>
    (\<forall>j. j \<noteq> i \<longrightarrow> get_event j d' = get_event j d) \<and>
    db_attempts d' = db_attempts d \<and> db_phones d' = db_phones d \<and> db_commands d' = db_commands d"
    if "pending_change change'" and "change' i user d = Inr (e', d')" for change'
    using pending_change.owned_and_scheduled [OF that] pending_change.row_returned [OF that]
      pending_change.stays_pending_or_cancelled [OF that] pending_change.other_events [OF that]
      pending_change.other_tables [OF that] by blast
  show ?thesis
    using assms local [OF cancelling.pending_change_axioms] local [OF rescheduling.pending_change_axioms]
      local [OF channel_change.pending_change_axioms] by blast
qed

lemma change_user_scheduled_event_channel_eval:
  "\<exists>r. change_user_scheduled_event_channel 1 7 ''voice'' (\<lambda>n. 30) sample_db = Inr r"
  by (simp add: change_channel_Inr_iff sample_events channel_of_def) (simp add: sample_demo_def)

lemma user_changes_are_local_witness:
  "\<exists>e' d'. change_user_scheduled_event_channel 1 7 ''voice'' (\<lambda>n. 30) sample_db = Inr (e', d') \<and>
    ev_user e' = 7 \<and> get_event 2 d' = Some sample_real"
proof -
  obtain e' d' where run: "change_user_scheduled_event_channel 1 7 ''voice'' (\<lambda>n. 30) sample_db = Inr (e', d')"
    using change_user_scheduled_event_channel_eval by (metis surj_pair)
  note user_changes_are_local [where change = "change_user_scheduled_event_channel 1 7 ''voice'' (\<lambda>n. 30)"
    and i = 1 and user = 7 and ch = "''voice''" and clk = "\<lambda>n. 30", OF _ run]
  with run show ?thesis by (simp add: sample_events)
qed

end
