(* ===== verification/Json.thy ===== *)
theory Json
  imports Delivery_Model
begin

text \<open>
  JSON values as Python's \<open>json\<close> module decodes them, and the Python operations the adapters
  apply to them. A dict is an association list with distinct keys, in insertion order.
\<close>

datatype json =
    JNull
  | JBool bool
  | JInt int
  | JFloat pyfloat
  | JString string
  | JList "json list"
  | JObject "(string \<times> json) list"

text \<open>\<open>value == n\<close> for an int \<open>n\<close>: Python compares bools and floats with ints by value.\<close>

fun equals_int :: "json \<Rightarrow> int \<Rightarrow> bool" where
  "equals_int (JInt m) n = (m = n)"
| "equals_int (JBool b) n = ((if b then 1 else 0) = n)"
| "equals_int (JFloat (Fin r)) n = (r = of_int n)"
| "equals_int (JFloat NegZero) n = (n = 0)"
| "equals_int _ n = False"

fun hashable :: "json \<Rightarrow> bool" where
  "hashable (JList _) = False"
| "hashable (JObject _) = False"
| "hashable _ = True"

definition integer_text :: "int \<Rightarrow> string" where
  "integer_text n = (if n < 0 then CHR ''-'' # decimal (nat (- n)) else decimal (nat n))"

text \<open>
  What Python's float arithmetic contributes, as a parameter: \<open>float(n)\<close> of an int (\<open>None\<close> is
  \<open>OverflowError\<close>), \<open>float(text)\<close> (\<open>None\<close> is \<open>ValueError\<close>), and the \<open>repr\<close> of a float or a container.
\<close>

record float_runtime =
  float_of_int :: "int \<Rightarrow> pyfloat option"
  float_of_text :: "string \<Rightarrow> pyfloat option"
  repr_of :: "json \<Rightarrow> string"

fun json_str :: "float_runtime \<Rightarrow> json \<Rightarrow> string" where
  "json_str rt (JString s) = s"
| "json_str rt JNull = ''None''"
| "json_str rt (JBool b) = (if b then ''True'' else ''False'')"
| "json_str rt (JInt n) = integer_text n"
| "json_str rt j = repr_of rt j"

fun json_float :: "float_runtime \<Rightarrow> json \<Rightarrow> exn + pyfloat" where
  "json_float rt (JFloat f) = Inr f"
| "json_float rt (JInt n) = or_raise (float_of_int rt n) (raise OverflowError ''int too large to convert to float'')"
| "json_float rt (JBool b) = Inr (Fin (if b then 1 else 0))"
| "json_float rt (JString s) = or_raise (float_of_text rt s) (raise ValueError ''could not convert string to float'')"
| "json_float rt _ = Inl (raise TypeError ''float() argument must be a string or a real number'')"

text \<open>\<open>int(x)\<close>: a float is truncated towards zero.\<close>

definition truncate_rat :: "rat \<Rightarrow> int" where
  "truncate_rat r = (if r < 0 then - \<lfloor>- r\<rfloor> else \<lfloor>r\<rfloor>)"

fun json_int :: "json \<Rightarrow> exn + int" where
  "json_int (JInt n) = Inr n"
| "json_int (JBool b) = Inr (if b then 1 else 0)"
| "json_int (JFloat (Fin r)) = Inr (truncate_rat r)"
| "json_int (JFloat NegZero) = Inr 0"
| "json_int (JFloat NaN) = Inl (raise ValueError ''cannot convert float NaN to integer'')"
| "json_int (JFloat _) = Inl (raise OverflowError ''cannot convert float infinity to integer'')"
| "json_int (JString s) = or_raise (python_int s) (raise ValueError ''invalid literal for int() with base 10'')"
| "json_int _ = Inl (raise TypeError ''int() argument must be a string, a bytes-like object or a real number'')"

text \<open>\<open>value[key]\<close> with a string key.\<close>

fun json_item :: "json \<Rightarrow> string \<Rightarrow> exn + json" where
  "json_item (JObject kvs) k = or_raise (map_of kvs k) (raise KeyError k)"
| "json_item _ k = Inl (raise TypeError ''object is not subscriptable with a string'')"

text \<open>\<open>value.get(key)\<close> and \<open>value.get(key, default)\<close> on a dict.\<close>

fun json_get :: "json \<Rightarrow> string \<Rightarrow> json option" where
  "json_get (JObject kvs) k = map_of kvs k"
| "json_get _ k = None"

fun is_object :: "json \<Rightarrow> bool" where
  "is_object (JObject _) = True"
| "is_object _ = False"

lemma json_item_Inr_iff [simp]: "json_item j k = Inr v \<longleftrightarrow> json_get j k = Some v"
  by (cases j) auto

lemma json_get_SomeD: "json_get j k = Some v \<Longrightarrow> is_object j"
  by (cases j) auto

end
