(* ===== verification/Calendar.thy ===== *)
theory Calendar
  imports Python_Text
begin

text \<open>
  \<open>datetime.isoformat()\<close> on an aware UTC value: the proleptic Gregorian date of a day number, as
  the standard library computes it, and the text. Instants are microseconds since
  0001-01-01T00:00:00Z.
\<close>

definition is_leap :: "int \<Rightarrow> bool" where
  "is_leap y \<longleftrightarrow> y mod 4 = 0 \<and> (y mod 100 \<noteq> 0 \<or> y mod 400 = 0)"

definition month_lengths :: "int \<Rightarrow> int list" where
  "month_lengths y = [31, if is_leap y then 29 else 28, 31, 30, 31, 30, 31, 31, 30, 31, 30, 31]"

text \<open>The month and day of a zero-based day of the year.\<close>

fun month_and_day :: "int \<Rightarrow> int \<Rightarrow> int list \<Rightarrow> int \<times> int" where
  "month_and_day m n [] = (m, n + 1)"
| "month_and_day m n (l # ls) = (if n < l then (m, n + 1) else month_and_day (m + 1) (n - l) ls)"

definition civil_date :: "int \<Rightarrow> int \<times> int \<times> int" where
  "civil_date n =
     (let n400 = n div 146097; r400 = n mod 146097;
          n100 = r400 div 36524; r100 = r400 mod 36524;
          n4 = r100 div 1461; r4 = r100 mod 1461;
          n1 = r4 div 365; r1 = r4 mod 365;
          year = n400 * 400 + n100 * 100 + n4 * 4 + n1 + 1
      in if n1 = 4 \<or> n100 = 4 then (year - 1, 12, 31)
         else (year, month_and_day 1 r1 (month_lengths year)))"

text \<open>\<open>f"{n:0{w}d}"\<close> for a non-negative number.\<close>

definition zero_padded :: "nat \<Rightarrow> int \<Rightarrow> string" where
  "zero_padded w n =
     (let s = decimal (nat n) in replicate (w - length s) (CHR ''0'') @ s)"

definition isoformat_utc :: "time \<Rightarrow> string" where
  "isoformat_utc t =
     (let day = t div 86400000000; us = t mod 86400000000; s = us div 1000000;
          fraction = us mod 1000000
      in case civil_date day of (y, m, d) \<Rightarrow>
        zero_padded 4 y @ ''-'' @ zero_padded 2 m @ ''-'' @ zero_padded 2 d @ ''T''
        @ zero_padded 2 (s div 3600) @ '':'' @ zero_padded 2 (s div 60 mod 60)
        @ '':'' @ zero_padded 2 (s mod 60)
        @ (if fraction = 0 then '''' else ''.'' @ zero_padded 6 fraction) @ ''+00:00'')"

end
