(* ===== verification/Weather.thy ===== *)
theory Weather
  imports Json Calendar
begin

text \<open>
  \<open>apps/weather\<close> and \<open>apps/delivery/messages.py\<close>: the project-owned weather value, its snapshot and
  announcement, the fake provider, and the WeatherAPI.com adapter, whose HTTP session is a
  parameter.
\<close>

section \<open>The value\<close>

record current_weather =
  cw_location :: string
  cw_temperature_f :: pyfloat
  cw_condition :: string
  cw_observed_at :: time

definition as_snapshot :: "current_weather \<Rightarrow> snapshot" where
  "as_snapshot w =
     [(''location'', SText (cw_location w)),
      (''temperature_f'', SFloat (cw_temperature_f w)),
      (''condition'', SText (cw_condition w)),
      (''observed_at'', SText (isoformat_utc (cw_observed_at w)))]"

text \<open>A provider, as its callers see it: a result or an exception for a ZIP code.\<close>

type_synonym weather_call = "string \<Rightarrow> exn + current_weather"

definition fake_get_current_weather :: "time \<Rightarrow> weather_call" where
  "fake_get_current_weather now zip_code = Inr \<lparr>
     cw_location = ''ZIP '' @ zip_code, cw_temperature_f = Fin 72,
     cw_condition = ''clear skies'', cw_observed_at = now\<rparr>"

section \<open>The announcement\<close>

text \<open>\<open>f"{x:.0f}"\<close>: to the nearest integer, ties to even, keeping the sign of zero.\<close>

definition round_half_even :: "rat \<Rightarrow> int" where
  "round_half_even r =
     (let f = \<lfloor>r\<rfloor>; d = r - of_int f
      in if d < 1 / 2 then f else if d > 1 / 2 then f + 1 else if even f then f else f + 1)"

fun format_0f :: "pyfloat \<Rightarrow> string" where
  "format_0f (Fin r) =
     (if r < 0 then CHR ''-'' # decimal (nat (round_half_even (- r)))
      else decimal (nat (round_half_even r)))"
| "format_0f NegZero = ''-0''"
| "format_0f PosInf = ''inf''"
| "format_0f NegInf = ''-inf''"
| "format_0f NaN = ''nan''"

definition render_weather_announcement :: "current_weather \<Rightarrow> string" where
  "render_weather_announcement w =
     ''Good morning! The current weather for '' @ cw_location w @ '' is ''
     @ format_0f (cw_temperature_f w) @ [CHR 0xB0] @ ''F with '' @ cw_condition w @ ''.''"

section \<open>The WeatherAPI.com adapter\<close>

record weather_api_provider =
  wp_api_key :: string
  wp_base_url :: string
  wp_timeout :: "pyfloat \<times> pyfloat"

fun le_zero :: "pyfloat \<Rightarrow> bool" where
  "le_zero (Fin r) = (r \<le> 0)"
| "le_zero NegZero = True"
| "le_zero NegInf = True"
| "le_zero _ = False"

definition rstrip_slash :: "string \<Rightarrow> string" where
  "rstrip_slash s = rev (dropWhile (\<lambda>c. c = CHR ''/'') (rev s))"

definition weather_error :: "weather_error \<Rightarrow> string \<Rightarrow> exn" where
  "weather_error c text = raise (WeatherExn c) text"

definition make_weather_api_provider ::
  "string \<Rightarrow> string \<Rightarrow> pyfloat \<Rightarrow> pyfloat \<Rightarrow> exn + weather_api_provider" where
  "make_weather_api_provider api_key base_url connect_timeout read_timeout =
     (if api_key = [] then
        Inl (weather_error WeatherConfigurationError ''WEATHER_API_KEY is required.'')
      else if le_zero connect_timeout \<or> le_zero read_timeout then
        Inl (weather_error WeatherConfigurationError ''Weather API timeouts must be positive.'')
      else Inr \<lparr>wp_api_key = api_key, wp_base_url = rstrip_slash base_url,
        wp_timeout = (connect_timeout, read_timeout)\<rparr>)"

text \<open>
  What \<open>session.get\<close> does: raise \<open>requests.Timeout\<close>, raise another \<open>RequestException\<close>, or return a
  status code and a body (\<open>None\<close> when it is not JSON).
\<close>

datatype http_outcome =
    HttpTimeout
  | HttpUnreachable
  | HttpResponse int "json option"

type_synonym http_session = "string \<Rightarrow> (string \<times> string) list \<Rightarrow> pyfloat \<times> pyfloat \<Rightarrow> http_outcome"

definition parse_weather_json :: "json option \<Rightarrow> exn + json" where
  "parse_weather_json body =
     bind_res (or_raise body
       (weather_error WeatherMalformedResponse ''The weather provider returned invalid JSON.'')) (\<lambda>payload.
     if is_object payload then Inr payload
     else Inl (weather_error WeatherMalformedResponse
       ''The weather provider returned an unexpected response.''))"

text \<open>The exception \<open>_raise_api_error\<close> raises; a set lookup of an unhashable code is a \<open>TypeError\<close>.\<close>

definition api_error :: "int \<Rightarrow> json \<Rightarrow> exn" where
  "api_error status_code payload =
     (let error_code =
        (case json_get payload ''error'' of
           Some error \<Rightarrow> (case json_get error ''code'' of Some c \<Rightarrow> c | None \<Rightarrow> JNull)
         | None \<Rightarrow> JNull)
      in if equals_int error_code 1006 then
           weather_error WeatherLocationNotFound ''No weather location matched the ZIP code.''
         else if equals_int error_code 2007 then
           weather_error WeatherRateLimited ''The weather provider rate limit was reached.''
         else if \<not> hashable error_code then raise TypeError ''unhashable type''
         else if (\<exists>c \<in> set [1002, 2006, 2008, 2009]. equals_int error_code c) \<or> status_code = 401 then
           weather_error WeatherAuthenticationError
             ''The weather provider credentials or access are invalid.''
         else weather_error WeatherProviderUnavailable
             ''The weather provider rejected the request.'')"

text \<open>
  \<open>datetime.fromtimestamp(seconds, tz=UTC)\<close>: a \<open>ValueError\<close> outside years 1 to 9999, an \<open>OSError\<close>
  where the year does not fit the C library's \<open>struct tm\<close>, an \<open>OverflowError\<close> where the number
  does not fit \<open>time_t\<close>.
\<close>

definition fromtimestamp_utc :: "int \<Rightarrow> exn + time" where
  "fromtimestamp_utc s =
     (if - 62135596800 \<le> s \<and> s \<le> 253402300799 then Inr (seconds (s + 62135596800))
      else if - 67768040609740800 \<le> s \<and> s \<le> 67768036191676799
      then Inl (raise ValueError ''year is out of range'')
      else if - (2 ^ 63) \<le> s \<and> s < 2 ^ 63
      then Inl (raise (OtherExn ''OSError'' False) ''[Errno 75] Value too large for defined data type'')
      else Inl (raise OverflowError ''timestamp out of range for platform time_t''))"

text \<open>The statements of \<open>_map_weather\<close>'s \<open>try\<close> block: name, region, condition, temperature, time.\<close>

definition weather_fields ::
  "float_runtime \<Rightarrow> json \<Rightarrow> exn + (string \<times> string \<times> string \<times> pyfloat \<times> time)" where
  "weather_fields rt payload =
     bind_res (json_item payload ''location'') (\<lambda>location.
     bind_res (json_item payload ''current'') (\<lambda>current.
     bind_res (json_item location ''name'') (\<lambda>name.
     let region = (case json_get location ''region'' of
                     Some r \<Rightarrow> strip (json_str rt r) | None \<Rightarrow> '''') in
     bind_res (json_item current ''condition'') (\<lambda>condition.
     bind_res (json_item condition ''text'') (\<lambda>text.
     bind_res (json_item current ''temp_f'') (\<lambda>temp.
     bind_res (json_float rt temp) (\<lambda>temperature_f.
     bind_res (json_item current ''last_updated_epoch'') (\<lambda>epoch.
     bind_res (json_int epoch) (\<lambda>s.
     bind_res (fromtimestamp_utc s) (\<lambda>observed_at.
       Inr (strip (json_str rt name), region, strip (json_str rt text), temperature_f,
            observed_at)))))))))))"

definition map_weather :: "float_runtime \<Rightarrow> json \<Rightarrow> exn + current_weather" where
  "map_weather rt payload =
     (case weather_fields rt payload of
        Inl x \<Rightarrow>
          (if exn_class x \<in> {KeyError, TypeError, ValueError, OverflowError}
           then Inl (weather_error WeatherMalformedResponse
             ''The weather provider response was missing required fields.'')
           else Inl x)
      | Inr (name, region, condition, temperature_f, observed_at) \<Rightarrow>
          if name = [] \<or> condition = []
          then Inl (weather_error WeatherMalformedResponse
            ''The weather provider response contained empty required fields.'')
          else Inr \<lparr>
            cw_location = (if region = [] then name else name @ '', '' @ region),
            cw_temperature_f = temperature_f, cw_condition = condition,
            cw_observed_at = observed_at\<rparr>)"

definition weather_api_get_current_weather ::
  "float_runtime \<Rightarrow> http_session \<Rightarrow> weather_api_provider \<Rightarrow> weather_call" where
  "weather_api_get_current_weather rt session provider zip_code =
     (case session (wp_base_url provider @ ''/current.json'')
        [(''key'', wp_api_key provider), (''q'', zip_code), (''aqi'', ''no'')] (wp_timeout provider) of
        HttpTimeout \<Rightarrow> Inl (weather_error WeatherProviderTimeout ''The weather provider timed out.'')
      | HttpUnreachable \<Rightarrow>
          Inl (weather_error WeatherProviderUnavailable ''The weather provider could not be reached.'')
      | HttpResponse status_code body \<Rightarrow>
          if 500 \<le> status_code then
            Inl (weather_error WeatherProviderUnavailable
              ''The weather provider is temporarily unavailable.'')
          else if status_code = 429 then
            Inl (weather_error WeatherRateLimited ''The weather provider rate limit was reached.'')
          else bind_res (parse_weather_json body) (\<lambda>payload.
            if 400 \<le> status_code then Inl (api_error status_code payload)
            else map_weather rt payload))"

section \<open>Facts\<close>

lemma weather_error_class [simp]: "exn_class (weather_error c t) = WeatherExn c"
  by (simp add: weather_error_def)

lemma render_nonempty [simp]: "render_weather_announcement w \<noteq> []"
  by (simp add: render_weather_announcement_def)

lemma map_weather_Inr:
  assumes "map_weather rt payload = Inr w"
  shows "cw_location w \<noteq> [] \<and> cw_condition w \<noteq> [] \<and> 0 \<le> cw_observed_at w \<and>
    cw_observed_at w \<le> MAX_DATETIME"
proof -
  from assms obtain name region condition temp obs
    where f: "weather_fields rt payload = Inr (name, region, condition, temp, obs)"
    and w: "name \<noteq> []" "condition \<noteq> []" "w = \<lparr>
            cw_location = (if region = [] then name else name @ '', '' @ region),
            cw_temperature_f = temp, cw_condition = condition, cw_observed_at = obs\<rparr>"
    by (auto simp: map_weather_def split: sum.splits if_splits)
  from f obtain s where "fromtimestamp_utc s = Inr obs"
    by (auto simp: weather_fields_def Let_def)
  then have "0 \<le> obs \<and> obs \<le> MAX_DATETIME"
    by (auto simp: fromtimestamp_utc_def MAX_DATETIME_def split: if_splits)
  with w show ?thesis by simp
qed

end
