(* ===== verification/Delivery_Claims.thy ===== *)
theory Delivery_Claims
  imports Pending_Changes Weather
begin

text \<open>
  The transactions of \<open>apps/delivery/services.py\<close> that claim events for delivery and record how a
  delivery ended. A claim moves a scheduled event to processing and creates its attempt; recording
  moves both to a terminal status, or the attempt alone when a queue retry is to follow.
\<close>

section \<open>Data\<close>

text \<open>A claimed event carries its phone's number, joined when the event was loaded.\<close>

record claimed_delivery =
  cl_event :: scheduled_event
  cl_to :: string
  cl_attempt :: delivery_attempt

record claimed_batch =
  cb_deliveries :: "claimed_delivery list"
  cb_missed_attempts :: "delivery_attempt list"
  cb_selected_count :: nat

datatype queue_action = ACKNOWLEDGE | RETRY

record queued_claim =
  qc_action :: "queue_action option"
  qc_delivery :: "claimed_delivery option"

definition DEFAULT_BATCH_SIZE :: int where "DEFAULT_BATCH_SIZE = 25"
definition MAX_BATCH_SIZE :: int where "MAX_BATCH_SIZE = 100"
definition DEFAULT_GRACE_PERIOD :: time where "DEFAULT_GRACE_PERIOD = minutes 15"

section \<open>Claiming\<close>

text \<open>\<open>select_related("phone_number")\<close> is an inner join.\<close>

definition with_phone :: "db \<Rightarrow> scheduled_event \<Rightarrow> (scheduled_event \<times> string) option" where
  "with_phone d e = map_option (\<lambda>p. (e, ph_number p)) (get_phone (ev_phone_number e) d)"

text \<open>\<open>(event, attempt_number)\<close> is unique in the table.\<close>

definition create_attempt_locked :: "scheduled_event \<Rightarrow> time \<Rightarrow> delivery_attempt transaction" where
  "create_attempt_locked event started_at d =
     (let previous_attempts = int (length (attempts_of (ev_id event) d))
      in if previous_attempts + 1 \<in> set (map at_attempt_number (attempts_of (ev_id event) d))
         then Inl (raise IntegrityError ''unique_delivery_attempt_number'')
         else Inr (add_attempt (new_attempt (ev_id event) (previous_attempts + 1) started_at) d))"

definition claim_locked_event ::
  "scheduled_event \<times> string \<Rightarrow> time \<Rightarrow> clock \<Rightarrow> claimed_delivery transaction" where
  "claim_locked_event row now clk d =
     bind_res (transition_event E_PROCESSING now (fst row)) (\<lambda>event.
     case save_event [F_status, F_processing_started_at, F_updated_at] (clk 0) event d of
       (event, d) \<Rightarrow>
         bind_res (create_attempt_locked event (clk 1) d) (\<lambda>(attempt, d).
           Inr (\<lparr>cl_event = event, cl_to = snd row, cl_attempt = attempt\<rparr>, d)))"

definition claim_event :: "row_id \<Rightarrow> time \<Rightarrow> clock \<Rightarrow> claimed_delivery option transaction" where
  "claim_event event_id now clk d =
     bind_res (or_raise (get_event event_id d) event_missing) (\<lambda>e.
     bind_res (or_raise (with_phone d e) event_missing) (\<lambda>row.
     let event = fst row in
     if ev_status event \<in> {E_SUBMITTED, E_FAILED, E_SUPPRESSED} then Inr (None, d)
     else bind_res (require (ev_status event = E_SCHEDULED)
       (field_error ValidationError ''status''
         (''Event in '' @ event_status_value (ev_status event)
           @ '' state cannot be delivered.''))) (\<lambda>_.
     bind_res (require (\<not> now < ev_scheduled_for event)
       (raise EventNotDue ''The event is not due yet.'')) (\<lambda>_.
     bind_res (claim_locked_event row now clk d) (\<lambda>(c, d). Inr (Some c, d))))))"

definition record_missed_locked ::
  "scheduled_event \<Rightarrow> delivery_attempt \<Rightarrow> time \<Rightarrow> time \<Rightarrow> delivery_attempt transaction" where
  "record_missed_locked event attempt failed_at updated_at d =
     bind_res (transition_attempt A_FAILED failed_at attempt) (\<lambda>attempt.
     let attempt = attempt\<lparr>
           at_error_code := class_name (DeliveryExn MissedDeliveryWindow),
           at_error_message := ''The event was outside the configured delivery grace window.''\<rparr>;
         d = save_attempt [G_status, G_error_code, G_error_message, G_completed_at] attempt d
     in bind_res (transition_event E_FAILED failed_at event) (\<lambda>event.
          Inr (attempt,
            snd (save_event [F_status, F_completed_at, F_updated_at] updated_at event d))))"

text \<open>\<open>now - delta\<close> on datetimes.\<close>

definition datetime_minus :: "time \<Rightarrow> time \<Rightarrow> exn + time" where
  "datetime_minus now delta =
     (if in_datetime_range (now - delta) then Inr (now - delta)
      else Inl (raise OverflowError ''date value out of range''))"

text \<open>
  The candidates of a batch: \<open>locked\<close> are the rows other transactions hold, which
  \<open>select_for_update(skip_locked=True)\<close> skips.
\<close>

definition due_candidates ::
  "time \<Rightarrow> bool \<Rightarrow> (row_id \<Rightarrow> bool) \<Rightarrow> db \<Rightarrow> (scheduled_event \<times> string) list" where
  "due_candidates now include_real locked d =
     List.map_filter (with_phone d)
       (events_where (\<lambda>e. ev_status e = E_SCHEDULED \<and> ev_scheduled_for e \<le> now \<and>
          (include_real \<or> ev_is_demo e) \<and> \<not> locked (ev_id e)) d)"

text \<open>
  The loop of \<open>claim_due_delivery_batch\<close>; each round uses three readings of the clock.
\<close>

fun claim_each ::
  "time \<Rightarrow> time \<Rightarrow> clock \<Rightarrow> (scheduled_event \<times> string) list \<Rightarrow>
    (claimed_delivery list \<times> delivery_attempt list) transaction" where
  "claim_each now cutoff clk [] d = Inr (([], []), d)"
| "claim_each now cutoff clk (row # rs) d =
     bind_res (claim_locked_event row now clk d) (\<lambda>(c, d).
       if ev_scheduled_for (fst row) < cutoff
       then bind_res (record_missed_locked (cl_event c) (cl_attempt c) now (clk 2) d) (\<lambda>(a, d).
            bind_res (claim_each now cutoff (\<lambda>n. clk (n + 3)) rs d) (\<lambda>((cs, ms), d).
              Inr ((cs, a # ms), d)))
       else bind_res (claim_each now cutoff (\<lambda>n. clk (n + 3)) rs d) (\<lambda>((cs, ms), d).
              Inr ((c # cs, ms), d)))"

definition claim_due_delivery_batch ::
  "time \<Rightarrow> int \<Rightarrow> time \<Rightarrow> bool \<Rightarrow> (row_id \<Rightarrow> bool) \<Rightarrow> clock \<Rightarrow> claimed_batch transaction" where
  "claim_due_delivery_batch now batch_size grace_period include_real locked clk d =
     bind_res (require (1 \<le> batch_size \<and> batch_size \<le> MAX_BATCH_SIZE)
       (raise ValueError ''Batch size must be between 1 and 100.'')) (\<lambda>_.
     bind_res (require (\<not> grace_period < 0)
       (raise ValueError ''Grace period cannot be negative.'')) (\<lambda>_.
     let events = take (nat batch_size)
           (order_by (\<lambda>r. event_order (fst r)) (due_candidates now include_real locked d))
     in bind_res (datetime_minus now grace_period) (\<lambda>cutoff.
        bind_res (claim_each now cutoff clk events d) (\<lambda>((deliveries, missed_attempts), d).
          Inr (\<lparr>cb_deliveries = deliveries, cb_missed_attempts = missed_attempts,
                cb_selected_count = length events\<rparr>, d)))))"

definition act :: "queue_action \<Rightarrow> queued_claim" where
  "act a = \<lparr>qc_action = Some a, qc_delivery = None\<rparr>"

definition proceed :: "claimed_delivery \<Rightarrow> queued_claim" where
  "proceed c = \<lparr>qc_action = None, qc_delivery = Some c\<rparr>"

definition claim_queued_event ::
  "row_id \<Rightarrow> time \<Rightarrow> time \<Rightarrow> bool \<Rightarrow> clock \<Rightarrow> queued_claim transaction" where
  "claim_queued_event event_id now grace_period allow_real clk d =
     bind_res (require (\<not> grace_period < 0)
       (raise ValueError ''Grace period cannot be negative.'')) (\<lambda>_.
     case Option.bind (get_event event_id d) (with_phone d) of
       None \<Rightarrow> Inr (act ACKNOWLEDGE, d)
     | Some row \<Rightarrow>
         let event = fst row; latest = latest_attempt event_id d in
         if ev_status event = E_FAILED then
           (case latest of
              Some a \<Rightarrow> if starts_with ''RetryExhausted:'' (at_error_code a)
                        then Inr (act RETRY, d) else Inr (act ACKNOWLEDGE, d)
            | None \<Rightarrow> Inr (act ACKNOWLEDGE, d))
         else if ev_status event \<in> {E_SUBMITTED, E_SUPPRESSED, E_CANCELLED} then
           Inr (act ACKNOWLEDGE, d)
         else if ev_status event = E_PROCESSING then
           (case latest of
              Some a \<Rightarrow>
                if at_status a = A_FAILED \<and> starts_with ''QueueRetryable:'' (at_error_code a)
                then bind_res (create_attempt_locked event (clk 1) d) (\<lambda>(attempt, d).
                  Inr (proceed \<lparr>cl_event = event, cl_to = snd row, cl_attempt = attempt\<rparr>, d))
                else Inr (act RETRY, d)
            | None \<Rightarrow> Inr (act RETRY, d))
         else if now < ev_scheduled_for event \<or> (\<not> ev_is_demo event \<and> \<not> allow_real) then
           Inr (act ACKNOWLEDGE, d)
         else bind_res (claim_locked_event row now clk d) (\<lambda>(claimed, d).
           bind_res (datetime_minus now grace_period) (\<lambda>cutoff.
             if ev_scheduled_for event < cutoff
             then bind_res (record_missed_locked (cl_event claimed) (cl_attempt claimed) now (clk 2) d)
                    (\<lambda>(_, d). Inr (act ACKNOWLEDGE, d))
             else Inr (proceed claimed, d))))"

section \<open>Recording\<close>

definition attempt_missing :: exn where
  "attempt_missing = raise DoesNotExist ''DeliveryAttempt matching query does not exist.''"

text \<open>
  What PostgreSQL refuses: a NUL in a text, which the client library reports for a text column and for a
  parameter of a query, the server for a JSON column; a number in a JSON column that is not finite; a text
  longer than its column (\<open>provider_sid\<close>, which is unique, and \<open>error_code\<close> hold 64 characters).
\<close>

definition text_storable :: "string \<Rightarrow> bool" where
  "text_storable s \<longleftrightarrow> CHR 0x00 \<notin> set s"

definition nul_refused :: exn where
  "nul_refused = raise DataError ''PostgreSQL text fields cannot contain NUL (0x00) bytes''"

fun storable_value :: "snapshot_value \<Rightarrow> bool" where
  "storable_value (SText s) = text_storable s"
| "storable_value (SFloat f) = (f \<notin> {PosInf, NegInf, NaN})"

definition storable :: "snapshot \<Rightarrow> bool" where
  "storable s \<longleftrightarrow> (\<forall>(k, v) \<in> set s. storable_value v)"

definition record_success ::
  "row_id \<Rightarrow> row_id \<Rightarrow> attempt_status \<Rightarrow> string \<Rightarrow> snapshot \<Rightarrow> string option \<Rightarrow> time \<Rightarrow> time \<Rightarrow>
    delivery_attempt transaction" where
  "record_success event_id attempt_id status message weather_snapshot provider_sid completed_at
      updated_at d =
     bind_res (or_raise (get_event event_id d) event_missing) (\<lambda>event.
     bind_res (or_raise (get_attempt attempt_id d) attempt_missing) (\<lambda>attempt.
     bind_res (transition_attempt status completed_at attempt) (\<lambda>attempt.
     let attempt = attempt\<lparr>at_rendered_message := message,
           at_weather_snapshot := weather_snapshot, at_provider_sid := provider_sid\<rparr> in
     bind_res (require (text_storable message \<and> (case provider_sid of None \<Rightarrow> True | Some s \<Rightarrow> text_storable s))
       nul_refused) (\<lambda>_.
     bind_res (require (storable weather_snapshot)
       (raise DataError ''invalid input syntax for type json'')) (\<lambda>_.
     bind_res (require (case provider_sid of None \<Rightarrow> True | Some s \<Rightarrow> length s \<le> 64)
       (raise DataError ''value too long for type character varying(64)'')) (\<lambda>_.
     bind_res (require (sid_free provider_sid d)
       (raise IntegrityError ''duplicate key value violates unique constraint'')) (\<lambda>_.
     let d = save_attempt [G_status, G_rendered_message, G_weather_snapshot, G_provider_sid,
           G_completed_at] attempt d in
     bind_res (transition_event (event_status_of status) completed_at event) (\<lambda>event.
       Inr (attempt,
         snd (save_event [F_status, F_completed_at, F_updated_at] updated_at event d))))))))))"

definition record_retryable_failure :: "row_id \<Rightarrow> row_id \<Rightarrow> exn \<Rightarrow> time \<Rightarrow> unit transaction" where
  "record_retryable_failure event_id attempt_id x failed_at d =
     bind_res (or_raise (get_event event_id d) event_missing) (\<lambda>_.
     bind_res (or_raise (get_attempt attempt_id d) attempt_missing) (\<lambda>attempt.
     bind_res (transition_attempt A_FAILED failed_at attempt) (\<lambda>attempt.
     let attempt = attempt\<lparr>at_error_code := take 64 (''QueueRetryable:'' @ class_name (exn_class x)),
           at_error_message := take 1000 (exn_text x)\<rparr> in
     bind_res (require (text_storable (at_error_code attempt) \<and> text_storable (at_error_message attempt))
       nul_refused) (\<lambda>_.
       Inr ((), save_attempt [G_status, G_error_code, G_error_message, G_completed_at] attempt d)))))"

text \<open>An empty \<open>error_code\<close> falls back to the class name, as a missing one does.\<close>

definition record_failure ::
  "row_id \<Rightarrow> row_id \<Rightarrow> exn \<Rightarrow> string option \<Rightarrow> time \<Rightarrow> time \<Rightarrow> unit transaction" where
  "record_failure event_id attempt_id x error_code failed_at updated_at d =
     bind_res (or_raise (get_event event_id d) event_missing) (\<lambda>event.
     bind_res (or_raise (get_attempt attempt_id d) attempt_missing) (\<lambda>attempt.
     bind_res (transition_attempt A_FAILED failed_at attempt) (\<lambda>attempt.
     let attempt = attempt\<lparr>
           at_error_code := (case error_code of Some c \<Rightarrow> if c = [] then class_name (exn_class x) else c
                             | None \<Rightarrow> class_name (exn_class x)),
           at_error_message := take 1000 (exn_text x)\<rparr> in
     bind_res (require (text_storable (at_error_code attempt) \<and> text_storable (at_error_message attempt))
       nul_refused) (\<lambda>_.
     bind_res (require (length (at_error_code attempt) \<le> 64)
       (raise DataError ''value too long for type character varying(64)'')) (\<lambda>_.
     let d = save_attempt [G_status, G_error_code, G_error_message, G_completed_at] attempt d
     in bind_res (transition_event E_FAILED failed_at event) (\<lambda>event.
          Inr ((), snd (save_event [F_status, F_completed_at, F_updated_at] updated_at event d))))))))"

section \<open>The claim as a contract\<close>

text \<open>
  Claiming and recording meet in \<open>holds_claim\<close>: the claimed event is processing as the claim has
  it, and the claim's attempt is the event's last one and still open. \<open>only_events S\<close> is the frame
  of the delivery transactions: nothing but the events in \<open>S\<close> and their attempts changes.
\<close>

definition holds_claim :: "claimed_delivery \<Rightarrow> db \<Rightarrow> bool" where
  "holds_claim c d \<longleftrightarrow>
     get_event (ev_id (cl_event c)) d = Some (cl_event c) \<and> ev_status (cl_event c) = E_PROCESSING \<and>
     attempts_of (ev_id (cl_event c)) d \<noteq> [] \<and>
     last (attempts_of (ev_id (cl_event c)) d) = cl_attempt c \<and>
     at_status (cl_attempt c) = A_PROCESSING"

definition only_events :: "row_id set \<Rightarrow> db \<Rightarrow> db \<Rightarrow> bool" where
  "only_events S d d' \<longleftrightarrow>
     db_phones d' = db_phones d \<and> db_commands d' = db_commands d \<and>
     map ev_id (rows (db_events d')) = map ev_id (rows (db_events d)) \<and>
     (\<forall>k. k \<notin> S \<longrightarrow> get_event k d' = get_event k d \<and> attempts_of k d' = attempts_of k d)"

abbreviation only_event :: "row_id \<Rightarrow> db \<Rightarrow> db \<Rightarrow> bool" where
  "only_event i \<equiv> only_events {i}"

text \<open>A delivery has ended (or been left to a retry): the last attempt and the event are these.\<close>

definition closed_with ::
  "claimed_delivery \<Rightarrow> delivery_attempt \<Rightarrow> scheduled_event \<Rightarrow> db \<Rightarrow> db \<Rightarrow> bool" where
  "closed_with c a e d d' \<longleftrightarrow>
     wf_db d' \<and> only_event (ev_id (cl_event c)) d d' \<and>
     get_event (ev_id (cl_event c)) d' = Some e \<and>
     attempts_of (ev_id (cl_event c)) d' = butlast (attempts_of (ev_id (cl_event c)) d) @ [a]"

lemma only_events_refl [simp]: "only_events S d d"
  by (simp add: only_events_def)

lemma only_events_trans:
  "only_events S d d' \<Longrightarrow> only_events T d' d'' \<Longrightarrow> S \<subseteq> U \<Longrightarrow> T \<subseteq> U \<Longrightarrow> only_events U d d''"
  unfolding only_events_def by (metis subsetD)

lemma only_events_get:
  "only_events S d d' \<Longrightarrow> k \<notin> S \<Longrightarrow> get_event k d' = get_event k d"
  "only_events S d d' \<Longrightarrow> k \<notin> S \<Longrightarrow> attempts_of k d' = attempts_of k d"
  by (simp_all add: only_events_def)

lemma only_events_ids: "only_events S d d' \<Longrightarrow> get_event k d' = None \<longleftrightarrow> get_event k d = None"
proof -
  assume "only_events S d d'"
  then have "map ev_id (rows (db_events d')) = map ev_id (rows (db_events d))"
    by (simp add: only_events_def)
  then have "ev_id ` set (rows (db_events d')) = ev_id ` set (rows (db_events d))"
    by (metis image_set)
  moreover have "get_event k x = None \<longleftrightarrow> k \<notin> ev_id ` set (rows (db_events x))" for x
    by (auto simp: get_event_def find_row_None_iff)
  ultimately show ?thesis by simp
qed

lemma only_events_phone: "only_events S d d' \<Longrightarrow> get_phone k d' = get_phone k d"
  by (simp add: only_events_def get_phone_def)

lemma holds_claim_frame:
  "holds_claim c d \<Longrightarrow> only_events S d d' \<Longrightarrow> ev_id (cl_event c) \<notin> S \<Longrightarrow> holds_claim c d'"
  by (simp add: holds_claim_def only_events_def)

lemma holds_claim_attempt:
  assumes "wf_db d" and "holds_claim c d"
  shows "get_attempt (at_id (cl_attempt c)) d = Some (cl_attempt c)"
    and "at_event (cl_attempt c) = ev_id (cl_event c)"
proof -
  from assms(2) have "cl_attempt c \<in> set (attempts_of (ev_id (cl_event c)) d)"
    unfolding holds_claim_def by (metis last_in_set)
  then have "cl_attempt c \<in> set (rows (db_attempts d))" "at_event (cl_attempt c) = ev_id (cl_event c)"
    by (simp_all add: attempts_of_member)
  with assms(1) show "get_attempt (at_id (cl_attempt c)) d = Some (cl_attempt c)"
    and "at_event (cl_attempt c) = ev_id (cl_event c)"
    by (simp_all add: wf_get_attempt_of_member)
qed

lemma holds_claim_started:
  "wf_db d \<Longrightarrow> holds_claim c d \<Longrightarrow>
    ev_processing_started_at (cl_event c) \<noteq> None \<and> ev_completed_at (cl_event c) = None"
  using wf_db_wf_event [of d "ev_id (cl_event c)" "cl_event c"]
  by (simp add: holds_claim_def wf_event_def)

lemma put_event_unchanged [simp]: "put_event i (write_event_fields [] now e) d = d"
proof -
  have "write_event_fields [] now e = (\<lambda>r. r)" by (simp add: write_event_fields_def fun_eq_iff)
  then show ?thesis by (simp add: put_event_def)
qed

lemma add_attempt_put_event:
  "snd (add_attempt mk (put_event i f d)) = put_event i f (snd (add_attempt mk d))"
  "fst (add_attempt mk (put_event i f d)) = fst (add_attempt mk d)"
  by (simp_all add: add_attempt_def put_event_def insert_row_def Let_def)

section \<open>Claims succeed on scheduled events\<close>

definition claimed_row :: "time \<Rightarrow> time \<Rightarrow> scheduled_event \<Rightarrow> scheduled_event" where
  "claimed_row now updated_at e = e\<lparr>ev_status := E_PROCESSING,
     ev_processing_started_at := Some now, ev_updated_at := updated_at\<rparr>"

lemma claimed_row_simps [simp]:
  "ev_id (claimed_row t u e) = ev_id e" "ev_status (claimed_row t u e) = E_PROCESSING"
  "ev_scheduled_for (claimed_row t u e) = ev_scheduled_for e"
  "ev_is_demo (claimed_row t u e) = ev_is_demo e" "ev_zip_code (claimed_row t u e) = ev_zip_code e"
  "ev_channel (claimed_row t u e) = ev_channel e" "ev_user (claimed_row t u e) = ev_user e"
  "ev_phone_number (claimed_row t u e) = ev_phone_number e"
  by (simp_all add: claimed_row_def)

lemma numbered_fresh: "numbered as \<Longrightarrow> int (length as) + 1 \<notin> set (map at_attempt_number as)"
  by (simp only: numbered_def) auto

text \<open>Adding an attempt after a prefix of retryable failures leaves the event claimed.\<close>

lemma add_attempt_holds_claim:
  assumes wf: "wf_db d" and e: "get_event i d = Some e"
    and prev: "\<forall>a \<in> set (attempts_of i d). retry_marked a"
    and f: "\<And>r. ev_id (f r) = ev_id r" "wf_event (f e)" "ev_status (f e) = E_PROCESSING"
      "ev_user (f e) = ev_user e" "ev_phone_number (f e) = ev_phone_number e"
    and res: "create_attempt_locked ev t (put_event i f d) = Inr (a, d')" "ev_id ev = i"
  shows "wf_db d'" and "only_event i d d'" and "get_event i d' = Some (f e)"
    and "attempts_of i d' = attempts_of i d @ [a]"
    and "a = new_attempt i (int (length (attempts_of i d)) + 1) t (next_id (db_attempts d))"
    and "rows (db_attempts d') = rows (db_attempts d) @ [a]"
proof -
  let ?mk = "new_attempt i (int (length (attempts_of i d)) + 1) t"
  have d': "d' = put_event i f (snd (add_attempt ?mk d))" and a: "a = ?mk (next_id (db_attempts d))"
    using res by (auto simp: create_attempt_locked_def Let_def add_attempt_put_event
        add_attempt_simps split: if_splits
        dest: arg_cong [where f = snd] arg_cong [where f = fst])
  show "wf_db d'" unfolding d' by (rule wf_db_add_attempt [OF wf e _ prev f]) simp
  show "a = ?mk (next_id (db_attempts d))" by (rule a)
  show "get_event i d' = Some (f e)"
    using e f(1) by (simp add: d' events.get_put add_attempt_simps)
  show "attempts_of i d' = attempts_of i d @ [a]"
    by (simp add: d' a attempts_of_add_attempt)
  show "rows (db_attempts d') = rows (db_attempts d) @ [a]"
    by (simp add: d' a add_attempt_simps insert_row_simps)
  show "only_event i d d'"
    using f(1) map_key_update_row [of ev_id f i "db_events d", OF f(1)]
    by (simp add: only_events_def d' add_attempt_simps events.get_put attempts_of_add_attempt)
qed

lemma create_attempt_locked_succeeds:
  assumes "numbered (attempts_of (ev_id e) d)"
  shows "\<exists>a d'. create_attempt_locked e t d = Inr (a, d')"
  using numbered_fresh [OF assms]
  by (auto simp: create_attempt_locked_def Let_def intro: surj_pair)

lemma claim_locked_event_succeeds:
  assumes wf: "wf_db d" and e: "get_event i d = Some e" and st: "ev_status e = E_SCHEDULED"
  obtains c d' where "claim_locked_event (e, to) now clk d = Inr (c, d')"
    and "wf_db d'" and "only_event i d d'" and "holds_claim c d'"
    and "cl_event c = claimed_row now (clk 0) e" and "cl_to c = to"
    and "cl_attempt c = new_attempt i 1 (clk 1) (next_id (db_attempts d))"
    and "attempts_of i d' = [cl_attempt c]"
    and "rows (db_attempts d') = rows (db_attempts d) @ [cl_attempt c]"
proof -
  let ?f = "write_event_fields [F_status, F_processing_started_at, F_updated_at] (clk 0)
    (e\<lparr>ev_status := E_PROCESSING, ev_processing_started_at := Some now\<rparr>)"
  let ?e = "claimed_row now (clk 0) e"
  have i: "ev_id e = i" using e by (rule events.get_key)
  have none: "attempts_of i d = []"
    using wf_db_attempts_ok [OF wf e] st by (simp add: attempts_ok_def)
  have fe: "?f e = ?e" by (simp add: write_event_fields_def claimed_row_def)
  have wfe: "wf_event ?e"
    using wf_scheduled_times [OF wf e st] by (simp add: wf_event_def claimed_row_def)
  obtain a d' where a: "create_attempt_locked ?e (clk 1) (put_event i ?f d) = Inr (a, d')"
    using create_attempt_locked_succeeds [of ?e "put_event i ?f d" "clk 1"] none i
    by (auto simp: numbered_def)
  have prev: "\<forall>a \<in> set (attempts_of i d). retry_marked a" using none by simp
  note added = add_attempt_holds_claim [OF wf e prev, of ?f, OF _ _ _ _ _ a]
  have spec: "wf_db d'" "only_event i d d'" "get_event i d' = Some ?e"
    "attempts_of i d' = attempts_of i d @ [a]"
    "a = new_attempt i (int (length (attempts_of i d)) + 1) (clk 1) (next_id (db_attempts d))"
    "rows (db_attempts d') = rows (db_attempts d) @ [a]"
    using added wfe i by (simp_all add: fe)
  let ?c = "\<lparr>cl_event = ?e, cl_to = to, cl_attempt = a\<rparr>"
  have "claim_locked_event (e, to) now clk d = Inr (?c, d')"
    using a i by (simp add: claim_locked_event_def transition_event_scheduled [OF st]
        save_event_def claimed_row_def)
  moreover have "holds_claim ?c d'"
    using spec none i by (simp add: holds_claim_def)
  ultimately show thesis
    using that [of ?c d'] spec none by simp
qed

end
