(* ===== verification/Delivery_Outcomes.thy ===== *)
theory Delivery_Outcomes
  imports Delivery_Claims
begin

text \<open>
  What the recording transactions do to a held claim, and what the claiming transactions return:
  the lemmas the delivery services are composed from.
\<close>

section \<open>Recording closes a held claim\<close>

lemma close_claim:
  assumes wf: "wf_db d" and held: "holds_claim c d"
    and x: "at_id x = at_id (cl_attempt c)"
    and y: "ev_id y = ev_id (cl_event c)"
    and a: "a = write_attempt_fields fs x (cl_attempt c)"
    and e: "e = write_event_fields es now y (cl_event c)"
    and sid: "G_provider_sid \<in> set fs \<Longrightarrow> sid_free (at_provider_sid x) d"
    and new: "wf_event e" "wf_attempt a" "last_attempt_ok (ev_status e) [a]"
  shows "closed_with c a e d (snd (save_event es now y (save_attempt fs x d)))"
proof -
  let ?i = "ev_id (cl_event c)" and ?j = "at_id (cl_attempt c)"
  let ?f = "write_event_fields es now y" and ?g = "write_attempt_fields fs x"
  let ?d = "put_event ?i ?f (put_attempt ?j ?g d)"
  have d': "snd (save_event es now y (save_attempt fs x d)) = ?d"
    using x y by (simp add: save_event_def save_attempt_def)
  note att = holds_claim_attempt [OF wf held]
  have ge: "get_event ?i d = Some (cl_event c)" and last: "attempts_of ?i d \<noteq> []"
      "last (attempts_of ?i d) = cl_attempt c"
    using held by (simp_all add: holds_claim_def)
  have sid': "at_provider_sid (?g (cl_attempt c)) = at_provider_sid (cl_attempt c) \<or>
      ((\<forall>r. at_provider_sid (?g r) = at_provider_sid (?g (cl_attempt c))) \<and>
       sid_free (at_provider_sid (?g (cl_attempt c))) d)"
    using sid by (cases "G_provider_sid \<in> set fs") (simp_all add: write_attempt_fields_def)
  have "wf_db ?d"
    by (rule wf_db_set_last [OF wf ge att(1) last _ _ _ sid'])
      (use new a e in \<open>simp_all add: write_event_fields_def\<close>)
  moreover have "attempts_of ?i ?d = butlast (attempts_of ?i d) @ [a]"
    using attempts_of_put_last [of d ?g ?i ?j, OF wf _ last(1)] last(2) a by simp
  moreover have "attempts_of k ?d = attempts_of k d" if "k \<noteq> ?i" for k
    using attempts_of_put_other [of d ?g ?j _ k, OF wf _ att(1)] that att(2) by simp
  moreover have "map ev_id (rows (db_events ?d)) = map ev_id (rows (db_events d))"
    by (simp add: map_key_update_row)
  ultimately show ?thesis
    using ge e unfolding d' closed_with_def only_events_def by (simp add: events.get_put)
qed

text \<open>The four ways a claimed attempt ends.\<close>

definition failed_attempt :: "string \<Rightarrow> string \<Rightarrow> time \<Rightarrow> delivery_attempt \<Rightarrow> delivery_attempt" where
  "failed_attempt error_code message failed_at a = a\<lparr>at_status := A_FAILED,
     at_completed_at := Some failed_at, at_error_code := error_code,
     at_error_message := message\<rparr>"

definition successful_attempt ::
  "attempt_status \<Rightarrow> string \<Rightarrow> snapshot \<Rightarrow> string option \<Rightarrow> time \<Rightarrow> delivery_attempt \<Rightarrow> delivery_attempt" where
  "successful_attempt status message snap sid completed_at a = a\<lparr>at_status := status,
     at_completed_at := Some completed_at, at_rendered_message := message,
     at_weather_snapshot := snap, at_provider_sid := sid\<rparr>"

definition ended_event :: "event_status \<Rightarrow> time \<Rightarrow> time \<Rightarrow> scheduled_event \<Rightarrow> scheduled_event" where
  "ended_event status t updated_at e = e\<lparr>ev_status := status, ev_completed_at := Some t,
     ev_updated_at := updated_at\<rparr>"

lemma ended_event_simps [simp]:
  "ev_id (ended_event s t u e) = ev_id e" "ev_status (ended_event s t u e) = s"
  "ev_user (ended_event s t u e) = ev_user e" "ev_is_demo (ended_event s t u e) = ev_is_demo e"
  "ev_scheduled_for (ended_event s t u e) = ev_scheduled_for e"
  by (simp_all add: ended_event_def)

lemma failed_attempt_simps [simp]:
  "at_id (failed_attempt c m t a) = at_id a" "at_event (failed_attempt c m t a) = at_event a"
  "at_status (failed_attempt c m t a) = A_FAILED" "at_error_code (failed_attempt c m t a) = c"
  "at_error_message (failed_attempt c m t a) = m"
  "at_provider_sid (failed_attempt c m t a) = at_provider_sid a"
  "at_attempt_number (failed_attempt c m t a) = at_attempt_number a"
  by (simp_all add: failed_attempt_def)

lemma successful_attempt_simps [simp]:
  "at_id (successful_attempt s m w sid t a) = at_id a"
  "at_event (successful_attempt s m w sid t a) = at_event a"
  "at_status (successful_attempt s m w sid t a) = s"
  "at_provider_sid (successful_attempt s m w sid t a) = sid"
  "at_rendered_message (successful_attempt s m w sid t a) = m"
  "at_weather_snapshot (successful_attempt s m w sid t a) = w"
  "at_attempt_number (successful_attempt s m w sid t a) = at_attempt_number a"
  by (simp_all add: successful_attempt_def)

lemma held_transitions:
  assumes "holds_claim c d"
  shows "s \<in> TERMINAL_STATUSES \<Longrightarrow> transition_attempt s t (cl_attempt c) =
      Inr ((cl_attempt c)\<lparr>at_status := s, at_completed_at := Some t\<rparr>)"
    and "s \<in> TERMINAL_STATUSES \<Longrightarrow> transition_event (event_status_of s) t (cl_event c) =
      Inr ((cl_event c)\<lparr>ev_status := event_status_of s, ev_completed_at := Some t\<rparr>)"
  using assms transition_attempt_processing [of "cl_attempt c" s t]
    transition_event_processing [of "cl_event c" "event_status_of s" t]
  by (auto simp: holds_claim_def TERMINAL_STATUSES_def)

lemma terminal_failed [simp]: "A_FAILED \<in> TERMINAL_STATUSES"
  by (simp add: TERMINAL_STATUSES_def)

lemma ended_event_wf:
  assumes "wf_db d" and "holds_claim c d" and "s \<in> TERMINAL_STATUSES"
  shows "wf_event (ended_event (event_status_of s) t u (cl_event c))"
  using holds_claim_started [OF assms(1,2)] assms(3)
  by (auto simp: ended_event_def wf_event_def TERMINAL_STATUSES_def)

text \<open>The columns take the code and the text of a failure.\<close>

definition failure_recordable :: "string \<Rightarrow> exn \<Rightarrow> bool" where
  "failure_recordable error_code x \<longleftrightarrow>
     length error_code \<le> 64 \<and> text_storable error_code \<and> text_storable (take 1000 (exn_text x))"

lemma record_failure_refused:
  fixes x :: exn and ec :: "string option"
  assumes wf: "wf_db d" and held: "holds_claim c d"
    and bad: "\<not> failure_recordable (case ec of Some s \<Rightarrow> if s = [] then class_name (exn_class x) else s
      | None \<Rightarrow> class_name (exn_class x)) x"
  shows "\<exists>y. record_failure (ev_id (cl_event c)) (at_id (cl_attempt c)) x ec t u d = Inl y \<and>
    exn_class y = DataError"
  using held_transitions [OF held, of A_FAILED] holds_claim_attempt [OF wf held] held bad
  by (auto simp: record_failure_def failure_recordable_def nul_refused_def bind_require holds_claim_def Let_def
      split: option.splits)

lemma record_failure_held:
  fixes x :: exn and ec :: "string option"
  assumes wf: "wf_db d" and held: "holds_claim c d"
  defines "ecode \<equiv> (case ec of Some s \<Rightarrow> if s = [] then class_name (exn_class x) else s
    | None \<Rightarrow> class_name (exn_class x))"
  assumes ok: "failure_recordable ecode x"
  obtains d' where
    "record_failure (ev_id (cl_event c)) (at_id (cl_attempt c)) x ec t u d = Inr ((), d')"
    "closed_with c (failed_attempt ecode (take 1000 (exn_text x)) t (cl_attempt c))
       (ended_event E_FAILED t u (cl_event c)) d d'"
proof -
  let ?a = "failed_attempt ecode (take 1000 (exn_text x)) t (cl_attempt c)"
  let ?e = "(cl_event c)\<lparr>ev_status := E_FAILED, ev_completed_at := Some t\<rparr>"
  let ?fs = "[G_status, G_error_code, G_error_message, G_completed_at]"
  let ?es = "[F_status, F_completed_at, F_updated_at]"
  let ?d = "snd (save_event ?es u ?e (save_attempt ?fs ?a d))"
  have ge: "get_event (ev_id (cl_event c)) d = Some (cl_event c)" using held by (simp add: holds_claim_def)
  have "record_failure (ev_id (cl_event c)) (at_id (cl_attempt c)) x ec t u d = Inr ((), ?d)"
    using held_transitions [OF held, of A_FAILED] holds_claim_attempt [OF wf held] ge ok
    by (simp add: record_failure_def failed_attempt_def failure_recordable_def bind_require Let_def ecode_def
        del: length_take)
  moreover have "closed_with c ?a (ended_event E_FAILED t u (cl_event c)) d ?d"
    by (rule close_claim [OF wf held])
      (use ended_event_wf [OF wf held terminal_failed] in
        \<open>simp_all add: write_attempt_fields_def write_event_fields_def ended_event_def
          failed_attempt_def wf_attempt_def\<close>)
  ultimately show thesis by (rule that)
qed

lemma record_missed_locked_held:
  fixes t :: time
  assumes wf: "wf_db d" and held: "holds_claim c d"
  defines "a \<equiv> failed_attempt ''MissedDeliveryWindow''
    ''The event was outside the configured delivery grace window.'' t (cl_attempt c)"
  obtains d' where
    "record_missed_locked (cl_event c) (cl_attempt c) t u d = Inr (a, d')"
    "closed_with c a (ended_event E_FAILED t u (cl_event c)) d d'"
proof -
  let ?e = "(cl_event c)\<lparr>ev_status := E_FAILED, ev_completed_at := Some t\<rparr>"
  let ?fs = "[G_status, G_error_code, G_error_message, G_completed_at]"
  let ?es = "[F_status, F_completed_at, F_updated_at]"
  let ?d = "snd (save_event ?es u ?e (save_attempt ?fs a d))"
  have "record_missed_locked (cl_event c) (cl_attempt c) t u d = Inr (a, ?d)"
    using held_transitions [OF held, of A_FAILED]
    by (simp add: record_missed_locked_def failed_attempt_def Let_def a_def)
  moreover have "closed_with c a (ended_event E_FAILED t u (cl_event c)) d ?d"
    by (rule close_claim [OF wf held])
      (use ended_event_wf [OF wf held terminal_failed] in
        \<open>simp_all add: write_attempt_fields_def write_event_fields_def ended_event_def
          failed_attempt_def wf_attempt_def a_def\<close>)
  ultimately show thesis by (rule that)
qed

lemma record_retryable_failure_refused:
  assumes wf: "wf_db d" and held: "holds_claim c d"
    and bad: "\<not> failure_recordable (take 64 (''QueueRetryable:'' @ class_name (exn_class x))) x"
  shows "\<exists>y. record_retryable_failure (ev_id (cl_event c)) (at_id (cl_attempt c)) x t d = Inl y \<and>
    exn_class y = DataError"
  using held_transitions [OF held, of A_FAILED] holds_claim_attempt [OF wf held] held bad
  by (auto simp: record_retryable_failure_def failure_recordable_def nul_refused_def bind_require holds_claim_def Let_def)

lemma record_retryable_failure_held:
  fixes x :: exn
  assumes wf: "wf_db d" and held: "holds_claim c d"
  defines "ecode \<equiv> take 64 (''QueueRetryable:'' @ class_name (exn_class x))"
  assumes ok: "failure_recordable ecode x"
  obtains d' where
    "record_retryable_failure (ev_id (cl_event c)) (at_id (cl_attempt c)) x t d = Inr ((), d')"
    "closed_with c (failed_attempt ecode (take 1000 (exn_text x)) t (cl_attempt c)) (cl_event c) d d'"
proof -
  let ?a = "failed_attempt ecode (take 1000 (exn_text x)) t (cl_attempt c)"
  let ?fs = "[G_status, G_error_code, G_error_message, G_completed_at]"
  let ?d = "snd (save_event [] t (cl_event c) (save_attempt ?fs ?a d))"
  have ge: "get_event (ev_id (cl_event c)) d = Some (cl_event c)" using held by (simp add: holds_claim_def)
  have "record_retryable_failure (ev_id (cl_event c)) (at_id (cl_attempt c)) x t d = Inr ((), ?d)"
    using held_transitions [OF held, of A_FAILED] holds_claim_attempt [OF wf held] ge
      ok [unfolded failure_recordable_def, folded ecode_def]
    by (simp add: record_retryable_failure_def failed_attempt_def save_event_def bind_require Let_def ecode_def)
  moreover have "closed_with c ?a (cl_event c) d ?d"
  proof (rule close_claim [OF wf held])
    have "starts_with ''QueueRetryable:'' ecode"
      unfolding ecode_def by (rule starts_with_take) simp
    then show "last_attempt_ok (ev_status (cl_event c)) [?a]"
      using held by (simp add: holds_claim_def retry_marked_def)
    show "wf_event (cl_event c)" using wf_db_wf_event [OF wf ge] .
  qed (simp_all add: write_attempt_fields_def write_event_fields_def failed_attempt_def wf_attempt_def)
  ultimately show thesis by (rule that)
qed

text \<open>Success is recorded when the database takes the snapshot and the provider identifier.\<close>

definition recordable :: "snapshot \<Rightarrow> string option \<Rightarrow> db \<Rightarrow> bool" where
  "recordable snap sid d \<longleftrightarrow>
     storable snap \<and> (case sid of None \<Rightarrow> True | Some s \<Rightarrow> length s \<le> 64 \<and> text_storable s) \<and> sid_free sid d"

lemma format_0f_storable: "text_storable (format_0f f)"
proof -
  have "CHR 0x00 \<notin> set (decimal n)" for n
    using decimal_digits [of n] by (auto simp: all_digits_def is_digit_def code_def)
  then show ?thesis by (cases f) (simp_all add: text_storable_def)
qed

lemma announcement_storable: "storable (as_snapshot w) \<Longrightarrow> text_storable (render_weather_announcement w)"
  using format_0f_storable [of "cw_temperature_f w"]
  by (simp add: storable_def as_snapshot_def render_weather_announcement_def text_storable_def)

lemma record_success_held:
  assumes wf: "wf_db d" and held: "holds_claim c d" and s: "s \<in> TERMINAL_STATUSES"
    and ok: "recordable snap sid d" and m: "text_storable m"
  obtains d' where
    "record_success (ev_id (cl_event c)) (at_id (cl_attempt c)) s m snap sid t u d =
      Inr (successful_attempt s m snap sid t (cl_attempt c), d')"
    "closed_with c (successful_attempt s m snap sid t (cl_attempt c))
       (ended_event (event_status_of s) t u (cl_event c)) d d'"
proof -
  let ?a = "successful_attempt s m snap sid t (cl_attempt c)"
  let ?e = "(cl_event c)\<lparr>ev_status := event_status_of s, ev_completed_at := Some t\<rparr>"
  let ?fs = "[G_status, G_rendered_message, G_weather_snapshot, G_provider_sid, G_completed_at]"
  let ?es = "[F_status, F_completed_at, F_updated_at]"
  let ?d = "snd (save_event ?es u ?e (save_attempt ?fs ?a d))"
  have ge: "get_event (ev_id (cl_event c)) d = Some (cl_event c)" using held by (simp add: holds_claim_def)
  have "record_success (ev_id (cl_event c)) (at_id (cl_attempt c)) s m snap sid t u d = Inr (?a, ?d)"
    using held_transitions [OF held s] holds_claim_attempt [OF wf held] ge ok m
    by (simp split: option.splits add: record_success_def successful_attempt_def Let_def recordable_def bind_require)
  moreover have "closed_with c ?a (ended_event (event_status_of s) t u (cl_event c)) d ?d"
    by (rule close_claim [OF wf held])
      (use ended_event_wf [OF wf held s] ok s in
        \<open>auto simp: write_attempt_fields_def write_event_fields_def ended_event_def
          successful_attempt_def wf_attempt_def recordable_def TERMINAL_STATUSES_def\<close>)
  ultimately show thesis by (rule that)
qed

lemma record_success_refused:
  assumes wf: "wf_db d" and held: "holds_claim c d" and s: "s \<in> TERMINAL_STATUSES"
    and bad: "\<not> recordable snap sid d"
  shows "\<exists>x. record_success (ev_id (cl_event c)) (at_id (cl_attempt c)) s m snap sid t u d = Inl x
    \<and> exn_class x \<in> {DataError, IntegrityError}"
  using held_transitions [OF held s] holds_claim_attempt [OF wf held] held bad
  by (auto simp: record_success_def recordable_def nul_refused_def bind_require holds_claim_def Let_def
      split: option.splits)

section \<open>What the claims return\<close>

text \<open>A claimed event, as the row it was loaded from.\<close>

definition claim_of :: "time \<Rightarrow> scheduled_event \<times> string \<Rightarrow> claimed_delivery \<Rightarrow> bool" where
  "claim_of now row c \<longleftrightarrow>
     (\<exists>u. cl_event c = claimed_row now u (fst row)) \<and> cl_to c = snd row \<and>
     at_attempt_number (cl_attempt c) = 1 \<and> at_event (cl_attempt c) = ev_id (fst row)"

lemma claim_of_id: "claim_of now row c \<Longrightarrow> ev_id (cl_event c) = ev_id (fst row)"
  by (auto simp: claim_of_def)

text \<open>An event recorded as missed: failed, with one attempt that says so.\<close>

definition missed_in :: "db \<Rightarrow> delivery_attempt \<Rightarrow> bool" where
  "missed_in d a \<longleftrightarrow>
     at_status a = A_FAILED \<and> at_error_code a = ''MissedDeliveryWindow'' \<and>
     attempts_of (at_event a) d = [a] \<and>
     (\<exists>e. get_event (at_event a) d = Some e \<and> ev_status e = E_FAILED)"

lemma missed_in_frame:
  "missed_in d a \<Longrightarrow> only_events S d d' \<Longrightarrow> at_event a \<notin> S \<Longrightarrow> missed_in d' a"
  by (simp add: missed_in_def only_events_get)

lemma claim_missed:
  assumes wf: "wf_db d" and e: "get_event i d = Some e" and st: "ev_status e = E_SCHEDULED"
  obtains c d1 a d' where "claim_locked_event (e, to) now clk d = Inr (c, d1)"
    and "record_missed_locked (cl_event c) (cl_attempt c) now u d1 = Inr (a, d')"
    and "wf_db d'" and "only_event i d d'" and "missed_in d' a" and "at_event a = i"
proof -
  obtain c d1 where c: "claim_locked_event (e, to) now clk d = Inr (c, d1)" and wf1: "wf_db d1"
    and fr: "only_event i d d1" and held: "holds_claim c d1"
    and ce: "cl_event c = claimed_row now (clk 0) e" and atts: "attempts_of i d1 = [cl_attempt c]"
    by (rule claim_locked_event_succeeds [OF wf e st])
  have i: "ev_id (cl_event c) = i" using ce e by (auto dest: events.get_key)
  let ?a = "failed_attempt ''MissedDeliveryWindow''
    ''The event was outside the configured delivery grace window.'' now (cl_attempt c)"
  obtain d' where a: "record_missed_locked (cl_event c) (cl_attempt c) now u d1 = Inr (?a, d')"
    and closed: "closed_with c ?a (ended_event E_FAILED now u (cl_event c)) d1 d'"
    by (rule record_missed_locked_held [OF wf1 held])
  have ai: "at_event ?a = i" using holds_claim_attempt [OF wf1 held] i by simp
  show thesis
  proof (rule that [OF c a])
    show "wf_db d'" using closed by (simp add: closed_with_def)
    show "only_event i d d'"
      using closed i only_events_trans [OF fr, of "{i}" d'] by (simp add: closed_with_def)
    show "missed_in d' ?a"
      using closed ai i atts by (simp add: closed_with_def missed_in_def)
  qed (rule ai)
qed

text \<open>
  What the loop over a batch's rows makes of them: every row in time is claimed, every other one recorded as
  missed, and no other event changes.
\<close>

definition claims_made ::
  "time \<Rightarrow> time \<Rightarrow> (scheduled_event \<times> string) list \<Rightarrow> claimed_delivery list \<Rightarrow> delivery_attempt list \<Rightarrow> db \<Rightarrow> db \<Rightarrow> bool" where
  "claims_made now cutoff rs cs ms d d' \<longleftrightarrow>
     wf_db d' \<and> only_events ((\<lambda>r. ev_id (fst r)) ` set rs) d d' \<and>
     list_all2 (claim_of now) (filter (\<lambda>r. \<not> ev_scheduled_for (fst r) < cutoff) rs) cs \<and>
     (\<forall>c \<in> set cs. holds_claim c d') \<and>
     map at_event ms = map (\<lambda>r. ev_id (fst r)) (filter (\<lambda>r. ev_scheduled_for (fst r) < cutoff) rs) \<and>
     (\<forall>a \<in> set ms. missed_in d' a)"

lemma claims_made_Cons:
  assumes rest: "claims_made now cutoff rs cs ms d1 d'" and first: "only_event (ev_id e) d d1"
    and new: "ev_id e \<notin> (\<lambda>r. ev_id (fst r)) ` set rs"
  shows "ev_scheduled_for e < cutoff \<Longrightarrow> missed_in d1 a \<Longrightarrow> at_event a = ev_id e \<Longrightarrow>
      claims_made now cutoff ((e, to) # rs) cs (a # ms) d d'"
    and "\<not> ev_scheduled_for e < cutoff \<Longrightarrow> holds_claim c d1 \<Longrightarrow> claim_of now (e, to) c \<Longrightarrow>
      claims_made now cutoff ((e, to) # rs) (c # cs) ms d d'"
proof -
  have fr: "only_events ((\<lambda>r. ev_id (fst r)) ` set rs) d1 d'" using rest by (simp add: claims_made_def)
  have all: "only_events (insert (ev_id e) ((\<lambda>r. ev_id (fst r)) ` set rs)) d d'"
    by (rule only_events_trans [OF first fr]) auto
  show "claims_made now cutoff ((e, to) # rs) cs (a # ms) d d'"
    if "ev_scheduled_for e < cutoff" "missed_in d1 a" "at_event a = ev_id e"
    using that rest all missed_in_frame [OF that(2) fr] new by (simp add: claims_made_def)
  show "claims_made now cutoff ((e, to) # rs) (c # cs) ms d d'"
    if "\<not> ev_scheduled_for e < cutoff" "holds_claim c d1" "claim_of now (e, to) c"
    using that rest all holds_claim_frame [OF that(2) fr] claim_of_id [OF that(3)] new by (simp add: claims_made_def)
qed

lemma claim_each_succeeds:
  assumes "wf_db d"
    and "\<forall>r \<in> set rs. get_event (ev_id (fst r)) d = Some (fst r) \<and> ev_status (fst r) = E_SCHEDULED"
    and "distinct (map (\<lambda>r. ev_id (fst r)) rs)"
  shows "\<exists>cs ms d'. claim_each now cutoff clk rs d = Inr ((cs, ms), d') \<and> claims_made now cutoff rs cs ms d d'"
  using assms
proof (induction rs arbitrary: d clk)
  case Nil
  then show ?case by (simp add: claims_made_def)
next
  case (Cons r rs)
  obtain e to where r: "r = (e, to)" by fastforce
  let ?i = "ev_id e" and ?clk = "\<lambda>n. clk (n + 3)"
  have e: "get_event ?i d = Some e" "ev_status e = E_SCHEDULED" and new: "?i \<notin> (\<lambda>r. ev_id (fst r)) ` set rs"
    using Cons.prems r by auto
  have rest: "\<exists>cs ms d'. claim_each now cutoff ?clk rs d1 = Inr ((cs, ms), d') \<and> claims_made now cutoff rs cs ms d1 d'"
    if "wf_db d1" "only_event ?i d d1" for d1
  proof (rule Cons.IH [OF that(1)])
    show "\<forall>r \<in> set rs. get_event (ev_id (fst r)) d1 = Some (fst r) \<and> ev_status (fst r) = E_SCHEDULED"
    proof
      fix s assume s: "s \<in> set rs"
      then have "ev_id (fst s) \<notin> {?i}" using new by (metis image_eqI singletonD)
      with s Cons.prems(2) that(2) show "get_event (ev_id (fst s)) d1 = Some (fst s) \<and> ev_status (fst s) = E_SCHEDULED"
        by (simp add: only_events_get)
    qed
    show "distinct (map (\<lambda>r. ev_id (fst r)) rs)" using Cons.prems(3) by simp
  qed
  show ?case
  proof (cases "ev_scheduled_for e < cutoff")
    case True
    obtain c d1 a d2 where c: "claim_locked_event (e, to) now clk d = Inr (c, d1)"
      and a: "record_missed_locked (cl_event c) (cl_attempt c) now (clk 2) d1 = Inr (a, d2)"
      and d2: "wf_db d2" "only_event ?i d d2" "missed_in d2 a" "at_event a = ?i"
      by (rule claim_missed [OF Cons.prems(1) e])
    from rest [OF d2(1,2)] claims_made_Cons(1) [OF _ d2(2) new True d2(3,4)] c a True show ?thesis
      unfolding r by fastforce
  next
    case False
    obtain c d1 where c: "claim_locked_event (e, to) now clk d = Inr (c, d1)" and wf1: "wf_db d1"
      and fr1: "only_event ?i d d1" and held: "holds_claim c d1"
      and ce: "cl_event c = claimed_row now (clk 0) e" "cl_to c = to"
        "cl_attempt c = new_attempt ?i 1 (clk 1) (next_id (db_attempts d))"
      by (rule claim_locked_event_succeeds [OF Cons.prems(1) e])
    have "claim_of now (e, to) c" using ce by (auto simp: claim_of_def)
    from rest [OF wf1 fr1] claims_made_Cons(2) [OF _ fr1 new False held this] c False show ?thesis
      unfolding r by fastforce
  qed
qed

section \<open>The candidates of a batch\<close>

definition eligible :: "time \<Rightarrow> bool \<Rightarrow> (row_id \<Rightarrow> bool) \<Rightarrow> scheduled_event \<Rightarrow> bool" where
  "eligible now include_real locked e \<longleftrightarrow>
     ev_status e = E_SCHEDULED \<and> ev_scheduled_for e \<le> now \<and> (include_real \<or> ev_is_demo e) \<and>
     \<not> locked (ev_id e)"

lemma wf_with_phone:
  assumes "wf_db d" and "get_event i d = Some e"
  obtains p where "get_phone (ev_phone_number e) d = Some p" "ph_user p = ev_user e" "is_verified p"
    "with_phone d e = Some (e, ph_number p)"
proof -
  from wf_db_event [OF assms] obtain p where "p \<in> set (rows (db_phones d))"
    and p: "ph_id p = ev_phone_number e" "ph_user p = ev_user e" "is_verified p"
    by (auto simp: event_ok_def)
  with assms(1) have "get_phone (ev_phone_number e) d = Some p"
    unfolding wf_db_def get_phone_def by (metis find_row_of_member)
  with p that show thesis by (simp add: with_phone_def)
qed

lemma map_filter_mem: "y \<in> set (List.map_filter f xs) \<longleftrightarrow> (\<exists>x \<in> set xs. f x = Some y)"
  by (induction xs) (auto simp: map_filter_simps split: option.splits)

lemma due_candidates_mem:
  assumes "wf_db d" and "r \<in> set (due_candidates now incl locked d)"
  shows "get_event (ev_id (fst r)) d = Some (fst r)" and "eligible now incl locked (fst r)"
  using assms wf_get_event_of_member [OF assms(1)]
  by (auto simp: due_candidates_def eligible_def events_where_def with_phone_def map_filter_def)

lemma due_candidates_complete:
  assumes "wf_db d" and "get_event i d = Some e" and "eligible now incl locked e"
  shows "\<exists>to. (e, to) \<in> set (due_candidates now incl locked d)"
proof -
  obtain p :: phone_number where p: "with_phone d e = Some (e, ph_number p)"
    by (rule wf_with_phone [OF assms(1,2)]) (erule that)
  have "e \<in> set (events_where (\<lambda>e. ev_status e = E_SCHEDULED \<and> ev_scheduled_for e \<le> now \<and>
      (incl \<or> ev_is_demo e) \<and> \<not> locked (ev_id e)) d)"
    using assms(3) get_event_member [OF assms(2)] by (simp add: eligible_def events_where_def)
  then have "(e, ph_number p) \<in> set (due_candidates now incl locked d)"
    using p unfolding due_candidates_def map_filter_mem by (rule bexI [rotated])
  then show ?thesis ..
qed

lemma due_candidates_distinct:
  assumes "wf_db d"
  shows "distinct (map (\<lambda>r. ev_id (fst r)) (due_candidates now incl locked d))"
proof -
  have sub: "distinct (map ev_id es) \<Longrightarrow>
      distinct (map (\<lambda>r. ev_id (fst r)) (List.map_filter (with_phone d) es)) \<and>
      (\<lambda>r. ev_id (fst r)) ` set (List.map_filter (with_phone d) es) \<subseteq> ev_id ` set es" for es
    by (induction es) (auto simp: map_filter_simps with_phone_def split: option.splits)
  show ?thesis
    using assms unfolding due_candidates_def events_where_def
    by (intro conjunct1 [OF sub]) (simp add: wf_db_def wf_table_def distinct_map_filter)
qed

lemma sorted_take_drop:
  assumes "sorted (map k xs)" and "x \<in> set (take n xs)" and "y \<in> set xs" and "y \<notin> set (take n xs)"
  shows "length (take n xs) = n" and "k x \<le> k y"
proof -
  from assms(3,4) have y: "y \<in> set (drop n xs)"
    by (metis UnE append_take_drop_id set_append)
  then show "length (take n xs) = n" by (cases "length xs \<le> n") simp_all
  have "sorted (map k (take n xs) @ map k (drop n xs))"
    using assms(1) by (metis append_take_drop_id map_append)
  with y assms(2) show "k x \<le> k y" by (auto simp: sorted_append)
qed

text \<open>The rows a batch selects.\<close>

definition batch_rows ::
  "time \<Rightarrow> int \<Rightarrow> bool \<Rightarrow> (row_id \<Rightarrow> bool) \<Rightarrow> db \<Rightarrow> (scheduled_event \<times> string) list" where
  "batch_rows now batch_size incl locked d =
     take (nat batch_size) (order_by (\<lambda>r. event_order (fst r)) (due_candidates now incl locked d))"

lemma batch_rows_mem:
  assumes "wf_db d" and "r \<in> set (batch_rows now n incl locked d)"
  shows "get_event (ev_id (fst r)) d = Some (fst r)" and "eligible now incl locked (fst r)"
  using due_candidates_mem [OF assms(1), of r] assms(2)
  by (auto simp: batch_rows_def dest: in_set_takeD)

lemma batch_rows_phone:
  "wf_db d \<Longrightarrow> r \<in> set (batch_rows now n incl locked d) \<Longrightarrow>
    \<exists>p. get_phone (ev_phone_number (fst r)) d = Some p \<and> snd r = ph_number p"
  by (auto simp: batch_rows_def due_candidates_def with_phone_def map_filter_def dest!: in_set_takeD)

lemma batch_rows_distinct:
  "wf_db d \<Longrightarrow> distinct (map (\<lambda>r. ev_id (fst r)) (batch_rows now n incl locked d))"
  using due_candidates_distinct [of d now incl locked]
  unfolding batch_rows_def take_map [symmetric] by (intro distinct_take) simp

lemma batch_rows_oldest:
  assumes "wf_db d" and "get_event i d = Some e" and "eligible now incl locked e"
    and "i \<notin> (\<lambda>r. ev_id (fst r)) ` set (batch_rows now n incl locked d)"
  shows "length (batch_rows now n incl locked d) = nat n"
    and "\<forall>r \<in> set (batch_rows now n incl locked d). event_order (fst r) \<le> event_order e"
proof -
  let ?k = "\<lambda>r :: scheduled_event \<times> string. event_order (fst r)"
  let ?xs = "order_by ?k (due_candidates now incl locked d)"
  obtain to where "(e, to) \<in> set (due_candidates now incl locked d)"
    using due_candidates_complete [OF assms(1-3)] by blast
  then have y: "(e, to) \<in> set ?xs" by simp
  have i: "ev_id e = i" using assms(2) by (rule events.get_key)
  have ny: "(e, to) \<notin> set (take (nat n) ?xs)"
    using assms(4) i by (auto simp: batch_rows_def image_iff)
  have "set (take (nat n) ?xs) = {} \<Longrightarrow> length (take (nat n) ?xs) = nat n"
    using y by (cases "nat n") auto
  then show "length (batch_rows now n incl locked d) = nat n"
    using sorted_take_drop(1) [of ?k ?xs _ "nat n", OF sorted_order_by _ y ny]
    unfolding batch_rows_def by (metis all_not_in_conv)
  show "\<forall>r \<in> set (batch_rows now n incl locked d). event_order (fst r) \<le> event_order e"
    using sorted_take_drop(2) [of ?k ?xs _ "nat n", OF sorted_order_by _ y ny]
    by (simp add: batch_rows_def)
qed

text \<open>A batch on a well-formed database never fails for a reason of its own.\<close>

lemma claim_batch_succeeds:
  fixes incl :: bool and locked :: "row_id \<Rightarrow> bool"
  assumes wf: "wf_db d" and args: "1 \<le> n" "n \<le> 100" "0 \<le> grace" "in_datetime_range (now - grace)"
  defines "rs \<equiv> batch_rows now n incl locked d"
  obtains b d' where "claim_due_delivery_batch now n grace incl locked clk d = Inr (b, d')"
    and "wf_db d'" and "only_events ((\<lambda>r. ev_id (fst r)) ` set rs) d d'"
    and "cb_selected_count b = length rs"
    and "list_all2 (claim_of now) (filter (\<lambda>r. \<not> ev_scheduled_for (fst r) < now - grace) rs)
      (cb_deliveries b)"
    and "\<forall>c \<in> set (cb_deliveries b). holds_claim c d'"
    and "map at_event (cb_missed_attempts b) =
      map (\<lambda>r. ev_id (fst r)) (filter (\<lambda>r. ev_scheduled_for (fst r) < now - grace) rs)"
    and "\<forall>a \<in> set (cb_missed_attempts b). missed_in d' a"
proof -
  have mem: "\<forall>r \<in> set rs. get_event (ev_id (fst r)) d = Some (fst r) \<and> ev_status (fst r) = E_SCHEDULED"
    using batch_rows_mem [OF wf] unfolding rs_def by (auto simp: eligible_def)
  have dist: "distinct (map (\<lambda>r. ev_id (fst r)) rs)"
    unfolding rs_def by (rule batch_rows_distinct [OF wf])
  from claim_each_succeeds [OF wf mem dist, of now "now - grace" clk] obtain cs ms d'
    where each: "claim_each now (now - grace) clk rs d = Inr ((cs, ms), d')"
    and spec: "wf_db d'" "only_events ((\<lambda>r. ev_id (fst r)) ` set rs) d d'"
      "list_all2 (claim_of now) (filter (\<lambda>r. \<not> ev_scheduled_for (fst r) < now - grace) rs) cs"
      "\<forall>c \<in> set cs. holds_claim c d'"
      "map at_event ms = map (\<lambda>r. ev_id (fst r)) (filter (\<lambda>r. ev_scheduled_for (fst r) < now - grace) rs)"
      "\<forall>a \<in> set ms. missed_in d' a" unfolding claims_made_def by blast
  have "claim_due_delivery_batch now n grace incl locked clk d =
      Inr (\<lparr>cb_deliveries = cs, cb_missed_attempts = ms, cb_selected_count = length rs\<rparr>, d')"
    using args each
    by (simp add: claim_due_delivery_batch_def MAX_BATCH_SIZE_def bind_require datetime_minus_def
        rs_def batch_rows_def Let_def)
  then show thesis by (rule that) (use spec in simp_all)
qed

lemma claim_batch_Inr_args:
  assumes "claim_due_delivery_batch now n grace incl locked clk d = Inr r"
  shows "1 \<le> n \<and> n \<le> 100 \<and> 0 \<le> grace \<and> in_datetime_range (now - grace)"
  using assms by (auto simp: claim_due_delivery_batch_def MAX_BATCH_SIZE_def datetime_minus_def Let_def
      split: if_splits)

end
