(* ===== verification/Queued_Claims.thy ===== *)
theory Queued_Claims
  imports Delivery_Outcomes
begin

text \<open>
  The decision \<open>_claim_queued_event\<close> takes for a queue message, as a function of the event and its
  last attempt alone, and the proof that the transaction implements it.
\<close>

datatype queued_decision = D_Acknowledge | D_Retry | D_Claim | D_Reclaim | D_Miss

definition decide_queued ::
  "time \<Rightarrow> time \<Rightarrow> bool \<Rightarrow> scheduled_event option \<Rightarrow> delivery_attempt list \<Rightarrow> queued_decision" where
  "decide_queued now grace allow found as =
     (case found of
        None \<Rightarrow> D_Acknowledge
      | Some e \<Rightarrow>
          (case ev_status e of
             E_SCHEDULED \<Rightarrow>
               if now < ev_scheduled_for e \<or> \<not> (ev_is_demo e \<or> allow) then D_Acknowledge
               else if ev_scheduled_for e < now - grace then D_Miss else D_Claim
           | E_PROCESSING \<Rightarrow> if retry_marked (last as) then D_Reclaim else D_Retry
           | E_FAILED \<Rightarrow>
               if starts_with ''RetryExhausted:'' (at_error_code (last as)) then D_Retry
               else D_Acknowledge
           | _ \<Rightarrow> D_Acknowledge))"

definition implements_decision ::
  "queued_decision \<Rightarrow> row_id \<Rightarrow> time \<Rightarrow> db \<Rightarrow> queued_claim \<Rightarrow> db \<Rightarrow> bool" where
  "implements_decision dec i now d qc d' \<longleftrightarrow>
     (case dec of
        D_Acknowledge \<Rightarrow> qc = act ACKNOWLEDGE \<and> d' = d
      | D_Retry \<Rightarrow> qc = act RETRY \<and> d' = d
      | D_Miss \<Rightarrow> qc = act ACKNOWLEDGE \<and> (\<exists>a. at_event a = i \<and> missed_in d' a)
      | D_Claim \<Rightarrow>
          (\<exists>c row. qc = proceed c \<and> holds_claim c d' \<and> get_event i d = Some (fst row) \<and>
             with_phone d (fst row) = Some row \<and> claim_of now row c)
      | D_Reclaim \<Rightarrow>
          (\<exists>c row. qc = proceed c \<and> holds_claim c d' \<and> get_event i d = Some (fst row) \<and>
             with_phone d (fst row) = Some row \<and> cl_event c = fst row \<and> cl_to c = snd row \<and>
             attempts_of i d' = attempts_of i d @ [cl_attempt c] \<and>
             at_attempt_number (cl_attempt c) = int (length (attempts_of i d)) + 1))"

lemma reclaim_succeeds:
  assumes wf: "wf_db d" and e: "get_event i d = Some e" and st: "ev_status e = E_PROCESSING"
    and last: "retry_marked (last (attempts_of i d))"
  obtains a d' where "create_attempt_locked e t d = Inr (a, d')" and "wf_db d'"
    and "only_event i d d'" and "get_event i d' = Some e"
    and "attempts_of i d' = attempts_of i d @ [a]"
    and "a = new_attempt i (int (length (attempts_of i d)) + 1) t (next_id (db_attempts d))"
proof -
  have i: "ev_id e = i" using e by (rule events.get_key)
  have ok: "attempts_ok E_PROCESSING (attempts_of i d)" using wf_db_attempts_ok [OF wf e] st by simp
  then have ne: "attempts_of i d \<noteq> []" by (simp add: attempts_ok_def)
  have "retry_marked a" if "a \<in> set (butlast (attempts_of i d) @ [last (attempts_of i d)])" for a
    using that ok last by (auto simp: attempts_ok_def)
  then have prev: "\<forall>a \<in> set (attempts_of i d). retry_marked a"
    using ne by simp
  obtain a d' where a: "create_attempt_locked e t d = Inr (a, d')"
    using create_attempt_locked_succeeds [of e d t] ok i by (auto simp: attempts_ok_def)
  note added = add_attempt_holds_claim [OF wf e prev, of "write_event_fields [] 0 e" e t a d']
  have "write_event_fields [] 0 e e = e" by (simp add: write_event_fields_def)
  with added a st i wf_db_wf_event [OF wf e] that [OF a] show thesis by simp
qed

lemma claim_queued_scheduled:
  assumes wf: "wf_db d" and e: "get_event i d = Some e" and st: "ev_status e = E_SCHEDULED"
    and due: "ev_scheduled_for e \<le> now" and allowed: "ev_is_demo e \<or> allow"
    and args: "0 \<le> grace" "in_datetime_range (now - grace)"
  shows "\<exists>qc d'. claim_queued_event i now grace allow clk d = Inr (qc, d') \<and> wf_db d' \<and>
    only_event i d d' \<and>
    implements_decision (if ev_scheduled_for e < now - grace then D_Miss else D_Claim) i now d qc d'"
proof -
  obtain p :: phone_number where row: "with_phone d e = Some (e, ph_number p)"
    by (rule wf_with_phone [OF wf e])
  have run: "claim_queued_event i now grace allow clk d =
      bind_res (claim_locked_event (e, ph_number p) now clk d) (\<lambda>(claimed, d).
        if ev_scheduled_for e < now - grace
        then bind_res (record_missed_locked (cl_event claimed) (cl_attempt claimed) now (clk 2) d)
          (\<lambda>(_, d). Inr (act ACKNOWLEDGE, d))
        else Inr (proceed claimed, d))"
    using e row st due allowed args
    by (auto simp: claim_queued_event_def bind_require datetime_minus_def Let_def)
  show ?thesis
  proof (cases "ev_scheduled_for e < now - grace")
    case True
    obtain c d1 a d' where "claim_locked_event (e, ph_number p) now clk d = Inr (c, d1)"
      "record_missed_locked (cl_event c) (cl_attempt c) now (clk 2) d1 = Inr (a, d')"
      and spec: "wf_db d'" "only_event i d d'" "missed_in d' a" "at_event a = i"
      by (rule claim_missed [OF wf e st])
    then have "claim_queued_event i now grace allow clk d = Inr (act ACKNOWLEDGE, d')"
      using True run by simp
    with spec True show ?thesis by (auto simp: implements_decision_def)
  next
    case False
    obtain c d' where c: "claim_locked_event (e, ph_number p) now clk d = Inr (c, d')"
      and spec: "wf_db d'" "only_event i d d'" "holds_claim c d'"
        "cl_event c = claimed_row now (clk 0) e" "cl_to c = ph_number p"
        "cl_attempt c = new_attempt i 1 (clk 1) (next_id (db_attempts d))"
      by (rule claim_locked_event_succeeds [OF wf e st])
    have "claim_of now (e, ph_number p) c"
      using spec(4-6) events.get_key [OF e] by (auto simp: claim_of_def)
    then have "implements_decision D_Claim i now d (proceed c) d'"
      using spec(3) e row by (auto simp: implements_decision_def)
    with c False run spec show ?thesis by auto
  qed
qed

text \<open>A new claim also needs the start of the grace window to be a datetime.\<close>

definition claimable :: "time \<Rightarrow> bool \<Rightarrow> scheduled_event option \<Rightarrow> bool" where
  "claimable now allow found \<longleftrightarrow>
     (case found of None \<Rightarrow> False
      | Some e \<Rightarrow> ev_status e = E_SCHEDULED \<and> ev_scheduled_for e \<le> now \<and> (ev_is_demo e \<or> allow))"

text \<open>A processing event is taken again exactly when its last attempt carries the retry mark.\<close>

lemma claim_queued_processing:
  assumes wf: "wf_db d" and e: "get_event i d = Some e" and st: "ev_status e = E_PROCESSING" and grace: "0 \<le> grace"
  shows "\<exists>qc d'. claim_queued_event i now grace allow clk d = Inr (qc, d') \<and> wf_db d' \<and>
    only_event i d d' \<and>
    implements_decision (decide_queued now grace allow (get_event i d) (attempts_of i d)) i now d qc d'"
proof -
  obtain p :: phone_number where row: "with_phone d e = Some (e, ph_number p)"
    by (rule wf_with_phone [OF wf e])
  note latest = wf_latest_attempt [OF wf e]
  have ne: "attempts_of i d \<noteq> []" using wf_db_attempts_ok [OF wf e] st by (simp add: attempts_ok_def)
  show ?thesis
  proof (cases "retry_marked (last (attempts_of i d))")
    case True
    obtain a d' where a: "create_attempt_locked e (clk 1) d = Inr (a, d')" and spec: "wf_db d'"
        "only_event i d d'" "get_event i d' = Some e" "attempts_of i d' = attempts_of i d @ [a]"
        "a = new_attempt i (int (length (attempts_of i d)) + 1) (clk 1) (next_id (db_attempts d))"
      by (rule reclaim_succeeds [OF wf e st True])
    let ?c = "\<lparr>cl_event = e, cl_to = ph_number p, cl_attempt = a\<rparr>"
    have "claim_queued_event i now grace allow clk d = Inr (proceed ?c, d')"
      using st e row grace ne latest True a
      by (simp add: claim_queued_event_def bind_require Let_def retry_marked_def)
    moreover have "holds_claim ?c d'"
      using spec st events.get_key [OF e] by (simp add: holds_claim_def)
    ultimately show ?thesis
      using spec st e row True by (auto simp: decide_queued_def implements_decision_def)
  next
    case False
    then have "\<not> (at_status (last (attempts_of i d)) = A_FAILED \<and>
        starts_with ''QueueRetryable:'' (at_error_code (last (attempts_of i d))))"
      by (simp add: retry_marked_def)
    then show ?thesis
      using st e row grace ne latest False wf
      by (auto simp: claim_queued_event_def bind_require decide_queued_def implements_decision_def Let_def)
  qed
qed

lemma claim_queued_implements:
  assumes wf: "wf_db d" and grace: "0 \<le> grace"
    and range: "in_datetime_range (now - grace) \<or> \<not> claimable now allow (get_event i d)"
  shows "\<exists>qc d'. claim_queued_event i now grace allow clk d = Inr (qc, d') \<and> wf_db d' \<and>
    only_event i d d' \<and>
    implements_decision (decide_queued now grace allow (get_event i d) (attempts_of i d)) i now d qc d'"
proof (cases "get_event i d")
  case None
  then show ?thesis
    using grace wf by (simp add: claim_queued_event_def bind_require decide_queued_def implements_decision_def)
next
  case (Some e)
  obtain p :: phone_number where row: "with_phone d e = Some (e, ph_number p)"
    by (rule wf_with_phone [OF wf Some])
  note latest = wf_latest_attempt [OF wf Some]
  note run = claim_queued_event_def bind_require decide_queued_def implements_decision_def Let_def
  show ?thesis
  proof (cases "ev_status e")
    case E_SCHEDULED
    show ?thesis
    proof (cases "now < ev_scheduled_for e \<or> \<not> (ev_is_demo e \<or> allow)")
      case True
      then show ?thesis using E_SCHEDULED Some row wf grace by (auto simp: run)
    next
      case False
      then have "decide_queued now grace allow (get_event i d) (attempts_of i d) =
          (if ev_scheduled_for e < now - grace then D_Miss else D_Claim)"
        using E_SCHEDULED Some by (simp add: decide_queued_def)
      moreover have "in_datetime_range (now - grace)"
        using range False Some E_SCHEDULED by (auto simp: claimable_def)
      ultimately show ?thesis
        using claim_queued_scheduled [OF wf Some E_SCHEDULED _ _ grace] False by simp
    qed
  next
    case E_PROCESSING
    show ?thesis by (rule claim_queued_processing [OF wf Some E_PROCESSING grace])
  next
    case E_FAILED
    then have "attempts_of i d \<noteq> []" using wf_db_attempts_ok [OF wf Some] by (simp add: attempts_ok_def)
    then show ?thesis using E_FAILED Some row grace latest wf by (simp add: run)
  qed (use Some row grace wf in \<open>simp_all add: run\<close>)
qed

lemma claim_queued_out_of_range:
  assumes wf: "wf_db d" and "claimable now allow (get_event i d)" and "\<not> in_datetime_range (now - grace)"
  shows "\<exists>x. claim_queued_event i now grace allow clk d = Inl x"
proof (cases "0 \<le> grace")
  case True
  from assms(2) obtain e where e: "get_event i d = Some e" "ev_status e = E_SCHEDULED"
    "ev_scheduled_for e \<le> now" "ev_is_demo e \<or> allow"
    by (auto simp: claimable_def split: option.splits)
  obtain p :: phone_number where row: "with_phone d e = Some (e, ph_number p)"
    by (rule wf_with_phone [OF wf e(1)])
  obtain c d1 where "claim_locked_event (e, ph_number p) now clk d = Inr (c, d1)"
    by (rule claim_locked_event_succeeds [OF wf e(1,2)])
  with e row True assms(3) show ?thesis
    by (auto simp: claim_queued_event_def bind_require datetime_minus_def Let_def)
qed (simp add: claim_queued_event_def bind_require)

text \<open>Whatever the arguments, a claim that returns implements the decision.\<close>

lemma claim_queued_Inr:
  assumes wf: "wf_db d" and run: "claim_queued_event i now grace allow clk d = Inr (qc, d')"
  shows "wf_db d'" and "only_event i d d'" and
    "implements_decision (decide_queued now grace allow (get_event i d) (attempts_of i d)) i now d qc d'"
proof -
  have grace: "0 \<le> grace" using run by (auto simp: claim_queued_event_def)
  have "in_datetime_range (now - grace) \<or> \<not> claimable now allow (get_event i d)"
    using claim_queued_out_of_range [OF wf, of now allow i grace clk] run by (metis Inl_Inr_False)
  from claim_queued_implements [OF wf grace this, of clk] run
  show "wf_db d'" "only_event i d d'"
    "implements_decision (decide_queued now grace allow (get_event i d) (attempts_of i d)) i now d qc d'"
    by simp_all
qed

lemma implements_decision_cases:
  assumes "implements_decision dec i now d qc d'"
  obtains a where "qc = act a" | c where "qc = proceed c" "holds_claim c d'" "ev_id (cl_event c) = i"
  using assms events.get_key
  by (auto simp: implements_decision_def claim_of_def split: queued_decision.splits)

lemma claim_queued_Inr_args:
  assumes "claim_queued_event i now grace allow clk d = Inr r"
  shows "0 \<le> grace"
  using assms by (auto simp: claim_queued_event_def)

end
