(* ===== verification/Delivery_Services.thy ===== *)
theory Delivery_Services
  imports Queued_Claims
begin

text \<open>
  \<open>apps/delivery/services.py\<close>: \<open>deliver_scheduled_event\<close>, \<open>dispatch_due_events\<close> and
  \<open>process_queued_delivery\<close>. Each is a claim (one transaction), calls to the weather provider and to
  a sender outside any transaction, and a recording (one transaction). What it returns or raises is
  paired with the database it leaves and the calls it made, in order.
\<close>

section \<open>The outside world\<close>

text \<open>
  A sender takes the channel, the number and the message and returns the provider's identifier, or
  raises. \<open>env_message_sender\<close> is \<open>None\<close> when no real sender is configured, \<open>env_demo_sender\<close> when the
  caller left the default.
\<close>

type_synonym sender_call = "channel \<Rightarrow> string \<Rightarrow> string \<Rightarrow> exn + string option"

record delivery_env =
  env_weather :: weather_call
  env_message_sender :: "sender_call option"
  env_demo_sender :: "sender_call option"

datatype call_made =
    Weather_Lookup string
  | Real_Send channel string string
  | Demo_Send channel string string

type_synonym 'a outcome = "(exn + 'a) \<times> db \<times> call_made list"

text \<open>\<open>DemoMessageSender.send\<close> writes a log line and returns no identifier.\<close>

definition demo_message_sender :: sender_call where
  "demo_message_sender ch to message = Inr None"

definition select_sender ::
  "scheduled_event \<Rightarrow> delivery_env \<Rightarrow>
    exn + ((channel \<Rightarrow> string \<Rightarrow> string \<Rightarrow> call_made) \<times> sender_call)" where
  "select_sender event env =
     (if ev_is_demo event
      then Inr (Demo_Send, case env_demo_sender env of Some s \<Rightarrow> s | None \<Rightarrow> demo_message_sender)
      else case env_message_sender env of
        None \<Rightarrow> Inl (raise MessageSenderNotConfigured
          ''A message sender is required for non-demo events.'')
      | Some s \<Rightarrow> Inr (Real_Send, s))"

text \<open>The status a sent delivery ends in.\<close>

definition terminal_status :: "scheduled_event \<Rightarrow> attempt_status" where
  "terminal_status event = (if ev_is_demo event then A_SUPPRESSED else A_SUBMITTED)"

text \<open>The result of a transaction, committed or rolled back.\<close>

definition committed :: "exn + ('a \<times> db) \<Rightarrow> db \<Rightarrow> call_made list \<Rightarrow> 'a outcome" where
  "committed r d calls =
     (case r of Inl x \<Rightarrow> (Inl x, d, calls) | Inr (y, d') \<Rightarrow> (Inr y, d', calls))"

text \<open>A recording transaction, and then a value, or an exception raised again.\<close>

definition recorded ::
  "exn + ('b \<times> db) \<Rightarrow> exn + 'a \<Rightarrow> db \<Rightarrow> call_made list \<Rightarrow> 'a outcome" where
  "recorded r result d calls =
     (case r of Inl x \<Rightarrow> (Inl x, d, calls) | Inr (_, d') \<Rightarrow> (result, d', calls))"

section \<open>Direct delivery\<close>

text \<open>
  Clock readings: 0 is the time the failure or the success is recorded with, 1 the \<open>auto_now\<close>
  column.
\<close>

definition execute_claimed_delivery ::
  "delivery_env \<Rightarrow> clock \<Rightarrow> claimed_delivery \<Rightarrow> db \<Rightarrow> delivery_attempt outcome" where
  "execute_claimed_delivery env clk claimed d =
     (let event = cl_event claimed; attempt = cl_attempt claimed;
          failing = (\<lambda>x calls. recorded
            (record_failure (ev_id event) (at_id attempt) x None (clk 0) (clk 1) d) (Inl x) d calls);
          looked = [Weather_Lookup (ev_zip_code event)]
      in case env_weather env (ev_zip_code event) of
           Inl x \<Rightarrow> failing x looked
         | Inr weather \<Rightarrow>
             let message = render_weather_announcement weather
             in case select_sender event env of
                  Inl x \<Rightarrow> failing x looked
                | Inr (kind, send) \<Rightarrow>
                    let calls = looked @ [kind (ev_channel event) (cl_to claimed) message]
                    in case send (ev_channel event) (cl_to claimed) message of
                         Inl x \<Rightarrow> failing x calls
                       | Inr provider_sid \<Rightarrow> committed
                           (record_success (ev_id event) (at_id attempt) (terminal_status event)
                              message (as_snapshot weather) provider_sid (clk 0) (clk 1) d) d calls)"

definition deliver_scheduled_event ::
  "row_id \<Rightarrow> delivery_env \<Rightarrow> time option \<Rightarrow> clock \<Rightarrow> db \<Rightarrow> delivery_attempt outcome" where
  "deliver_scheduled_event event_id env now clk d =
     (case claim_event event_id (or_now now (clk 0)) (\<lambda>n. clk (n + 1)) d of
        Inl x \<Rightarrow> (Inl x, d, [])
      | Inr (None, d) \<Rightarrow>
          (or_raise (latest_attempt event_id d)
             (raise ValidationError ''A completed event must have a delivery attempt.''), d, [])
      | Inr (Some claimed, d) \<Rightarrow> execute_claimed_delivery env (\<lambda>n. clk (n + 3)) claimed d)"

section \<open>Batch dispatch\<close>

record dispatch_result =
  dr_selected_count :: nat
  dr_delivered_count :: nat
  dr_missed_count :: nat
  dr_failed_count :: nat

text \<open>The loop over the claimed deliveries; the n-th delivery meets the environment \<open>envs n\<close>.\<close>

fun dispatch_each ::
  "(nat \<Rightarrow> delivery_env) \<Rightarrow> clock \<Rightarrow> claimed_delivery list \<Rightarrow> db \<Rightarrow>
    (nat \<times> nat) \<times> db \<times> call_made list" where
  "dispatch_each envs clk [] d = ((0, 0), d, [])"
| "dispatch_each envs clk (claimed # cs) d =
     (case execute_claimed_delivery (envs 0) clk claimed d of
        (result, d1, calls) \<Rightarrow>
          (case dispatch_each (\<lambda>n. envs (n + 1)) (\<lambda>n. clk (n + 2)) cs d1 of
             ((delivered, failed), d2, calls') \<Rightarrow>
               ((case result of Inl _ \<Rightarrow> (delivered, failed + 1) | Inr _ \<Rightarrow> (delivered + 1, failed)),
                d2, calls @ calls')))"

definition dispatch_due_events ::
  "(nat \<Rightarrow> delivery_env) \<Rightarrow> time option \<Rightarrow> int \<Rightarrow> time \<Rightarrow> bool \<Rightarrow> (row_id \<Rightarrow> bool) \<Rightarrow> clock \<Rightarrow> db \<Rightarrow>
    dispatch_result outcome" where
  "dispatch_due_events envs now batch_size grace_period include_real locked clk d =
     (case claim_due_delivery_batch (or_now now (clk 0)) batch_size grace_period include_real locked
             (\<lambda>n. clk (2 * n + 1)) d of
        Inl x \<Rightarrow> (Inl x, d, [])
      | Inr (batch, d) \<Rightarrow>
          (case dispatch_each envs (\<lambda>n. clk (2 * n + 2)) (cb_deliveries batch) d of
             ((delivered_count, failed_count), d, calls) \<Rightarrow>
               (Inr \<lparr>dr_selected_count = cb_selected_count batch,
                     dr_delivered_count = delivered_count,
                     dr_missed_count = length (cb_missed_attempts batch),
                     dr_failed_count = failed_count\<rparr>, d, calls)))"

section \<open>Queued delivery\<close>

definition process_queued_delivery ::
  "row_id \<Rightarrow> int \<Rightarrow> int \<Rightarrow> delivery_env \<Rightarrow> time option \<Rightarrow> time \<Rightarrow> bool \<Rightarrow> clock \<Rightarrow> db \<Rightarrow>
    queue_action outcome" where
  "process_queued_delivery event_id receive_count max_receive_count env now grace_period allow_real
      clk d =
     (if receive_count < 1 \<or> max_receive_count < 1
      then (Inl (raise ValueError ''Queue receive counts must be positive.''), d, [])
      else case claim_queued_event event_id (or_now now (clk 0)) grace_period allow_real
                  (\<lambda>n. clk (n + 1)) d of
        Inl x \<Rightarrow> (Inl x, d, [])
      | Inr (claim, d) \<Rightarrow>
          (case qc_action claim of
             Some action \<Rightarrow> (Inr action, d, [])
           | None \<Rightarrow>
          (case qc_delivery claim of
             None \<Rightarrow>
               (Inl (raise RuntimeError ''A queued delivery claim did not contain an event.''), d, [])
           | Some claimed \<Rightarrow>
               let event = cl_event claimed; attempt = cl_attempt claimed;
                   failing = (\<lambda>x code. record_failure (ev_id event) (at_id attempt) x code
                     (clk 4) (clk 5) d);
                   looked = [Weather_Lookup (ev_zip_code event)]
               in case env_weather env (ev_zip_code event) of
                    Inl x \<Rightarrow>
                      if retryable (exn_class x)
                      then recorded
                        (if receive_count < max_receive_count
                         then record_retryable_failure (ev_id event) (at_id attempt) x (clk 4) d
                         else failing x (Some (take 64 (''RetryExhausted:'' @ class_name (exn_class x)))))
                        (Inr RETRY) d looked
                      else recorded (failing x None) (Inr ACKNOWLEDGE) d looked
                  | Inr weather \<Rightarrow>
                      let message = render_weather_announcement weather
                      in case select_sender event env of
                           Inl x \<Rightarrow> recorded (failing x None) (Inr ACKNOWLEDGE) d looked
                         | Inr (kind, send) \<Rightarrow>
                             let calls = looked @ [kind (ev_channel event) (cl_to claimed) message]
                             in case send (ev_channel event) (cl_to claimed) message of
                                  Inl x \<Rightarrow> recorded (failing x None) (Inr ACKNOWLEDGE) d calls
                                | Inr provider_sid \<Rightarrow> recorded
                                    (record_success (ev_id event) (at_id attempt)
                                       (terminal_status event) message (as_snapshot weather)
                                       provider_sid (clk 4) (clk 5) d)
                                    (Inr ACKNOWLEDGE) d calls)))"

section \<open>The calls a delivery makes\<close>

definition real_sends :: "call_made list \<Rightarrow> call_made list" where
  "real_sends calls = filter (\<lambda>c. case c of Real_Send _ _ _ \<Rightarrow> True | _ \<Rightarrow> False) calls"

definition demo_sends :: "call_made list \<Rightarrow> call_made list" where
  "demo_sends calls = filter (\<lambda>c. case c of Demo_Send _ _ _ \<Rightarrow> True | _ \<Rightarrow> False) calls"

lemma sends_simps [simp]:
  "real_sends [] = []" "demo_sends [] = []"
  "real_sends (Weather_Lookup z # cs) = real_sends cs"
  "demo_sends (Weather_Lookup z # cs) = demo_sends cs"
  "real_sends (Real_Send c t m # cs) = Real_Send c t m # real_sends cs"
  "demo_sends (Real_Send c t m # cs) = demo_sends cs"
  "real_sends (Demo_Send c t m # cs) = real_sends cs"
  "demo_sends (Demo_Send c t m # cs) = Demo_Send c t m # demo_sends cs"
  "real_sends (cs @ cs') = real_sends cs @ real_sends cs'"
  "demo_sends (cs @ cs') = demo_sends cs @ demo_sends cs'"
  by (simp_all add: real_sends_def demo_sends_def)

lemma terminal_status_terminal [simp]: "terminal_status e \<in> TERMINAL_STATUSES"
  by (simp add: terminal_status_def TERMINAL_STATUSES_def)

lemma terminal_statuses: "s \<in> TERMINAL_STATUSES \<longleftrightarrow> s \<noteq> A_PROCESSING"
  by (cases s) (simp_all add: TERMINAL_STATUSES_def)

end
