(* ===== verification/Delivery_Correctness.thy ===== *)
theory Delivery_Correctness
  imports Delivery_Services
begin

text \<open>
  The part of a delivery between its two transactions as one function of the environment and the
  claim, the services written over it, and what each service leaves in the database.
\<close>

section \<open>Between the transactions\<close>

datatype delivery_result =
    Weather_Failed exn
  | Send_Failed exn
  | Delivered current_weather "string option"

definition attempt_delivery :: "delivery_env \<Rightarrow> claimed_delivery \<Rightarrow> delivery_result \<times> call_made list" where
  "attempt_delivery env c =
     (let e = cl_event c; looked = [Weather_Lookup (ev_zip_code e)]
      in case env_weather env (ev_zip_code e) of
           Inl x \<Rightarrow> (Weather_Failed x, looked)
         | Inr w \<Rightarrow>
             (case select_sender e env of
                Inl x \<Rightarrow> (Send_Failed x, looked)
              | Inr (kind, send) \<Rightarrow>
                  let m = render_weather_announcement w;
                      calls = looked @ [kind (ev_channel e) (cl_to c) m]
                  in case send (ev_channel e) (cl_to c) m of
                       Inl x \<Rightarrow> (Send_Failed x, calls)
                     | Inr sid \<Rightarrow> (Delivered w sid, calls)))"

abbreviation record_delivered ::
  "claimed_delivery \<Rightarrow> current_weather \<Rightarrow> string option \<Rightarrow> time \<Rightarrow> time \<Rightarrow> delivery_attempt transaction" where
  "record_delivered c w sid t u \<equiv>
     record_success (ev_id (cl_event c)) (at_id (cl_attempt c)) (terminal_status (cl_event c))
       (render_weather_announcement w) (as_snapshot w) sid t u"

abbreviation record_failed ::
  "claimed_delivery \<Rightarrow> exn \<Rightarrow> string option \<Rightarrow> time \<Rightarrow> time \<Rightarrow> unit transaction" where
  "record_failed c x ec t u \<equiv> record_failure (ev_id (cl_event c)) (at_id (cl_attempt c)) x ec t u"

lemma execute_eq:
  "execute_claimed_delivery env clk c d =
    (case attempt_delivery env c of
       (Delivered w sid, calls) \<Rightarrow> committed (record_delivered c w sid (clk 0) (clk 1) d) d calls
     | (Weather_Failed x, calls) \<Rightarrow> recorded (record_failed c x None (clk 0) (clk 1) d) (Inl x) d calls
     | (Send_Failed x, calls) \<Rightarrow> recorded (record_failed c x None (clk 0) (clk 1) d) (Inl x) d calls)"
  by (simp add: execute_claimed_delivery_def attempt_delivery_def Let_def split: sum.splits prod.splits)

text \<open>
  Whether the columns take the outcome, given the code a weather failure is recorded with: direct delivery uses
  the class name, the queue worker marks a retryable failure by whether another receipt is allowed.
\<close>

definition class_code :: "exn \<Rightarrow> string" where
  "class_code x = class_name (exn_class x)"

definition queued_code :: "int \<Rightarrow> int \<Rightarrow> exn \<Rightarrow> string" where
  "queued_code rc max_rc x =
     (if \<not> retryable (exn_class x) then class_code x
      else take 64 ((if rc < max_rc then ''QueueRetryable:'' else ''RetryExhausted:'') @ class_name (exn_class x)))"

definition result_recordable :: "(exn \<Rightarrow> string) \<Rightarrow> delivery_result \<Rightarrow> db \<Rightarrow> bool" where
  "result_recordable code_of r d =
     (case r of
        Delivered w sid \<Rightarrow> recordable (as_snapshot w) sid d
      | Weather_Failed x \<Rightarrow> failure_recordable (code_of x) x
      | Send_Failed x \<Rightarrow> failure_recordable (class_code x) x)"

text \<open>What the queue worker records after the calls, and what it tells the queue.\<close>

definition finish_queued ::
  "int \<Rightarrow> int \<Rightarrow> clock \<Rightarrow> claimed_delivery \<Rightarrow> delivery_result \<Rightarrow> call_made list \<Rightarrow> db \<Rightarrow>
    queue_action outcome" where
  "finish_queued rc max_rc clk c r calls d =
     (case r of
        Delivered w sid \<Rightarrow> recorded (record_delivered c w sid (clk 4) (clk 5) d) (Inr ACKNOWLEDGE) d calls
      | Send_Failed x \<Rightarrow> recorded (record_failed c x None (clk 4) (clk 5) d) (Inr ACKNOWLEDGE) d calls
      | Weather_Failed x \<Rightarrow>
          if \<not> retryable (exn_class x)
          then recorded (record_failed c x None (clk 4) (clk 5) d) (Inr ACKNOWLEDGE) d calls
          else if rc < max_rc
          then recorded (record_retryable_failure (ev_id (cl_event c)) (at_id (cl_attempt c)) x (clk 4) d)
            (Inr RETRY) d calls
          else recorded (record_failed c x
            (Some (take 64 (''RetryExhausted:'' @ class_name (exn_class x)))) (clk 4) (clk 5) d)
            (Inr RETRY) d calls)"

lemma process_eq:
  assumes "1 \<le> rc" "1 \<le> max_rc"
    and "claim_queued_event i (or_now now (clk 0)) grace allow (\<lambda>n. clk (n + 1)) d = Inr (proceed c, d1)"
  shows "process_queued_delivery i rc max_rc env now grace allow clk d =
    (case attempt_delivery env c of (r, calls) \<Rightarrow> finish_queued rc max_rc clk c r calls d1)"
  using assms
  by (auto simp: process_queued_delivery_def proceed_def attempt_delivery_def finish_queued_def Let_def
      split: sum.splits prod.splits)

lemma process_act_eq:
  assumes "1 \<le> rc" "1 \<le> max_rc"
    and "claim_queued_event i (or_now now (clk 0)) grace allow (\<lambda>n. clk (n + 1)) d = Inr (act a, d1)"
  shows "process_queued_delivery i rc max_rc env now grace allow clk d = (Inr a, d1, [])"
  using assms by (simp add: process_queued_delivery_def act_def)

text \<open>The calls: one lookup, then at most one send, on the side the event's kind selects.\<close>

lemma attempt_delivery_calls:
  assumes "attempt_delivery env c = (r, calls)"
  shows "length (real_sends calls) + length (demo_sends calls) \<le> 1"
    and "ev_is_demo (cl_event c) \<Longrightarrow> real_sends calls = []"
    and "\<not> ev_is_demo (cl_event c) \<Longrightarrow> demo_sends calls = []"
    and "Real_Send ch to m \<in> set calls \<Longrightarrow>
      ch = ev_channel (cl_event c) \<and> to = cl_to c \<and> \<not> ev_is_demo (cl_event c) \<and>
      (\<exists>w. env_weather env (ev_zip_code (cl_event c)) = Inr w \<and> m = render_weather_announcement w)"
    and "calls \<noteq> []"
  using assms
  by (auto simp: attempt_delivery_def select_sender_def Let_def split: sum.splits if_splits option.splits)

lemma attempt_delivery_weather_failed:
  "attempt_delivery env c = (Weather_Failed x, calls) \<Longrightarrow>
    env_weather env (ev_zip_code (cl_event c)) = Inl x \<and>
    calls = [Weather_Lookup (ev_zip_code (cl_event c))]"
  by (auto simp: attempt_delivery_def Let_def split: sum.splits prod.splits)

section \<open>What is left behind\<close>

lemma closed_with_frame: "closed_with c a e d d' \<Longrightarrow> only_event (ev_id (cl_event c)) d d'"
  and closed_with_wf: "closed_with c a e d d' \<Longrightarrow> wf_db d'"
  by (simp_all add: closed_with_def)

text \<open>The delivery ended as a failure with this exception and this code.\<close>

definition ended_failed :: "claimed_delivery \<Rightarrow> exn \<Rightarrow> string \<Rightarrow> clock \<Rightarrow> nat \<Rightarrow> db \<Rightarrow> db \<Rightarrow> bool" where
  "ended_failed c x ec clk n d d' \<longleftrightarrow>
     closed_with c (failed_attempt ec (take 1000 (exn_text x)) (clk n) (cl_attempt c))
       (ended_event E_FAILED (clk n) (clk (n + 1)) (cl_event c)) d d'"

definition ended_delivered ::
  "claimed_delivery \<Rightarrow> current_weather \<Rightarrow> string option \<Rightarrow> clock \<Rightarrow> nat \<Rightarrow> db \<Rightarrow> db \<Rightarrow> bool" where
  "ended_delivered c w sid clk n d d' \<longleftrightarrow>
     closed_with c (successful_attempt (terminal_status (cl_event c)) (render_weather_announcement w)
         (as_snapshot w) sid (clk n) (cl_attempt c))
       (ended_event (event_status_of (terminal_status (cl_event c))) (clk n) (clk (n + 1)) (cl_event c))
       d d'"

lemma execute_failed:
  assumes wf: "wf_db d" and held: "holds_claim c d"
    and r: "attempt_delivery env c = (Weather_Failed x, calls) \<or> attempt_delivery env c = (Send_Failed x, calls)"
    and ok: "failure_recordable (class_name (exn_class x)) x"
  obtains d' where "execute_claimed_delivery env clk c d = (Inl x, d', calls)"
    and "ended_failed c x (class_name (exn_class x)) clk 0 d d'"
proof -
  obtain d' where "record_failed c x None (clk 0) (clk 1) d = Inr ((), d')"
    and "closed_with c (failed_attempt (class_name (exn_class x)) (take 1000 (exn_text x)) (clk 0) (cl_attempt c))
       (ended_event E_FAILED (clk 0) (clk 1) (cl_event c)) d d'"
    using record_failure_held [OF wf held, where ec = None and x = x and t = "clk 0" and u = "clk 1"] ok
    by auto
  with r show thesis
    by (intro that [of d']) (auto simp: execute_eq recorded_def ended_failed_def)
qed

lemma execute_delivered:
  assumes wf: "wf_db d" and held: "holds_claim c d"
    and r: "attempt_delivery env c = (Delivered w sid, calls)" and ok: "recordable (as_snapshot w) sid d"
  obtains d' a where "execute_claimed_delivery env clk c d = (Inr a, d', calls)"
    and "a = successful_attempt (terminal_status (cl_event c)) (render_weather_announcement w)
         (as_snapshot w) sid (clk 0) (cl_attempt c)"
    and "ended_delivered c w sid clk 0 d d'"
proof -
  let ?a = "successful_attempt (terminal_status (cl_event c)) (render_weather_announcement w)
         (as_snapshot w) sid (clk 0) (cl_attempt c)"
  have m: "text_storable (render_weather_announcement w)"
    using ok by (simp add: recordable_def announcement_storable)
  obtain d' where "record_delivered c w sid (clk 0) (clk 1) d = Inr (?a, d')"
    and "closed_with c ?a (ended_event (event_status_of (terminal_status (cl_event c)))
       (clk 0) (clk 1) (cl_event c)) d d'"
    by (rule record_success_held [OF wf held terminal_status_terminal ok m])
  with r show thesis
    by (intro that [of ?a d']) (simp_all add: execute_eq committed_def ended_delivered_def)
qed

text \<open>What the columns do not take is rolled back: the recording raises and the claim stays held.\<close>

lemma record_failed_refused:
  assumes "wf_db d" and "holds_claim c d" and "\<not> failure_recordable (class_code x) x"
  obtains y where "record_failed c x None t u d = Inl y" and "exn_class y = DataError"
  using record_failure_refused [OF assms(1,2), of x None t u] assms(3) by (auto simp: class_code_def)

lemma execute_failure_refused:
  assumes wf: "wf_db d" and held: "holds_claim c d"
    and r: "attempt_delivery env c = (Weather_Failed x, calls) \<or> attempt_delivery env c = (Send_Failed x, calls)"
    and bad: "\<not> failure_recordable (class_name (exn_class x)) x"
  obtains y where "execute_claimed_delivery env clk c d = (Inl y, d, calls)" and "exn_class y = DataError"
proof -
  obtain y where "record_failed c x None (clk 0) (clk 1) d = Inl y" "exn_class y = DataError"
    using record_failed_refused [OF wf held] bad unfolding class_code_def by metis
  with r show thesis by (intro that [of y]) (auto simp: execute_eq recorded_def)
qed

lemma execute_unrecordable:
  assumes wf: "wf_db d" and held: "holds_claim c d"
    and r: "attempt_delivery env c = (r, calls)" and bad: "\<not> result_recordable class_code r d"
  obtains x where "execute_claimed_delivery env clk c d = (Inl x, d, calls)"
    and "exn_class x \<in> {DataError, IntegrityError}"
proof (cases r)
  case (Delivered w sid)
  then have "\<not> recordable (as_snapshot w) sid d" using bad by (simp add: result_recordable_def)
  then obtain x where "record_delivered c w sid (clk 0) (clk 1) d = Inl x" "exn_class x \<in> {DataError, IntegrityError}"
    using record_success_refused [OF wf held terminal_status_terminal] by metis
  with r Delivered show thesis by (intro that [of x]) (simp_all add: execute_eq committed_def)
next
  case (Weather_Failed y)
  then have refused: "\<not> failure_recordable (class_code y) y" using bad by (simp add: result_recordable_def)
  obtain x where "record_failed c y None (clk 0) (clk 1) d = Inl x" "exn_class x = DataError"
    by (rule record_failed_refused [OF wf held refused])
  with r Weather_Failed show thesis by (intro that [of x]) (simp_all add: execute_eq recorded_def)
next
  case (Send_Failed y)
  then have refused: "\<not> failure_recordable (class_code y) y" using bad by (simp add: result_recordable_def)
  obtain x where "record_failed c y None (clk 0) (clk 1) d = Inl x" "exn_class x = DataError"
    by (rule record_failed_refused [OF wf held refused])
  with r Send_Failed show thesis by (intro that [of x]) (simp_all add: execute_eq recorded_def)
qed

text \<open>In every case the invariant is kept, only the claimed event changes, and the calls are those.\<close>

lemma execute_frame:
  assumes wf: "wf_db d" and held: "holds_claim c d"
    and run: "execute_claimed_delivery env clk c d = (r, d', calls)"
  shows "wf_db d' \<and> only_event (ev_id (cl_event c)) d d' \<and> calls = snd (attempt_delivery env c)"
proof -
  obtain res cs where att: "attempt_delivery env c = (res, cs)" by fastforce
  show ?thesis
  proof (cases "result_recordable class_code res d")
    case False
    obtain x where "execute_claimed_delivery env clk c d = (Inl x, d, cs)"
      by (rule execute_unrecordable [OF wf held att False])
    with att run wf show ?thesis by simp
  next
    case ok: True
    show ?thesis
    proof (cases res)
      case (Delivered w sid)
      have "recordable (as_snapshot w) sid d" using ok Delivered by (simp add: result_recordable_def)
      then obtain e1 a where "execute_claimed_delivery env clk c d = (Inr a, e1, cs)"
        and "ended_delivered c w sid clk 0 d e1"
        using execute_delivered [OF wf held att [unfolded Delivered]] by metis
      with att run show ?thesis by (simp add: ended_delivered_def closed_with_def)
    next
      case (Weather_Failed x)
      have "failure_recordable (class_name (exn_class x)) x"
        using ok Weather_Failed by (simp add: result_recordable_def class_code_def)
      then obtain e1 where "execute_claimed_delivery env clk c d = (Inl x, e1, cs)"
        and "ended_failed c x (class_name (exn_class x)) clk 0 d e1"
        using execute_failed [OF wf held disjI1 [OF att [unfolded Weather_Failed]]] by metis
      with att run show ?thesis by (simp add: ended_failed_def closed_with_def)
    next
      case (Send_Failed x)
      have "failure_recordable (class_name (exn_class x)) x"
        using ok Send_Failed by (simp add: result_recordable_def class_code_def)
      then obtain e1 where "execute_claimed_delivery env clk c d = (Inl x, e1, cs)"
        and "ended_failed c x (class_name (exn_class x)) clk 0 d e1"
        using execute_failed [OF wf held disjI2 [OF att [unfolded Send_Failed]]] by metis
      with att run show ?thesis by (simp add: ended_failed_def closed_with_def)
    qed
  qed
qed

section \<open>Finishing a queued delivery\<close>

lemma finish_send_failed:
  assumes "wf_db d" and "holds_claim c d"
    and r: "r = Send_Failed x \<or> (r = Weather_Failed x \<and> \<not> retryable (exn_class x))"
    and ok: "result_recordable (queued_code rc max_rc) r d"
  obtains d' where "finish_queued rc max_rc clk c r calls d = (Inr ACKNOWLEDGE, d', calls)"
    and "ended_failed c x (class_name (exn_class x)) clk 4 d d'"
proof -
  have "failure_recordable (class_name (exn_class x)) x"
    using r ok by (auto simp: result_recordable_def queued_code_def class_code_def)
  then obtain d' where "record_failed c x None (clk 4) (clk 5) d = Inr ((), d')"
    and "closed_with c (failed_attempt (class_name (exn_class x)) (take 1000 (exn_text x)) (clk 4) (cl_attempt c))
       (ended_event E_FAILED (clk 4) (clk 5) (cl_event c)) d d'"
    using record_failure_held [OF assms(1,2), where ec = None and x = x and t = "clk 4" and u = "clk 5"]
    by auto
  with r show thesis
    by (intro that [of d']) (auto simp: finish_queued_def recorded_def ended_failed_def)
qed

lemma finish_exhausted:
  assumes "wf_db d" and "holds_claim c d"
    and r: "retryable (exn_class x)" "\<not> rc < max_rc"
    and ok: "result_recordable (queued_code rc max_rc) (Weather_Failed x) d"
  obtains d' where "finish_queued rc max_rc clk c (Weather_Failed x) calls d = (Inr RETRY, d', calls)"
    and "ended_failed c x (take 64 (''RetryExhausted:'' @ class_name (exn_class x))) clk 4 d d'"
proof -
  let ?ec = "take 64 (''RetryExhausted:'' @ class_name (exn_class x))"
  have "failure_recordable ?ec x" using r ok by (simp add: result_recordable_def queued_code_def)
  then obtain d' where "record_failed c x (Some ?ec) (clk 4) (clk 5) d = Inr ((), d')"
    and "closed_with c (failed_attempt ?ec (take 1000 (exn_text x)) (clk 4) (cl_attempt c))
       (ended_event E_FAILED (clk 4) (clk 5) (cl_event c)) d d'"
    using record_failure_held [OF assms(1,2), where ec = "Some ?ec" and x = x and t = "clk 4" and u = "clk 5"]
    by auto
  with r show thesis
    by (intro that [of d']) (auto simp: finish_queued_def recorded_def ended_failed_def)
qed

lemma finish_retried:
  assumes "wf_db d" and "holds_claim c d"
    and r: "retryable (exn_class x)" "rc < max_rc"
    and ok: "result_recordable (queued_code rc max_rc) (Weather_Failed x) d"
  obtains d' where "finish_queued rc max_rc clk c (Weather_Failed x) calls d = (Inr RETRY, d', calls)"
    and "closed_with c (failed_attempt (take 64 (''QueueRetryable:'' @ class_name (exn_class x)))
       (take 1000 (exn_text x)) (clk 4) (cl_attempt c)) (cl_event c) d d'"
proof -
  have "failure_recordable (take 64 (''QueueRetryable:'' @ class_name (exn_class x))) x"
    using r ok by (simp add: result_recordable_def queued_code_def)
  then obtain d' where "record_retryable_failure (ev_id (cl_event c)) (at_id (cl_attempt c)) x (clk 4) d = Inr ((), d')"
    and "closed_with c (failed_attempt (take 64 (''QueueRetryable:'' @ class_name (exn_class x)))
       (take 1000 (exn_text x)) (clk 4) (cl_attempt c)) (cl_event c) d d'"
    using record_retryable_failure_held [OF assms(1,2)] by metis
  with r show thesis
    by (intro that [of d']) (auto simp: finish_queued_def recorded_def)
qed

lemma finish_delivered:
  assumes "wf_db d" and "holds_claim c d" and ok: "recordable (as_snapshot w) sid d"
  obtains d' where "finish_queued rc max_rc clk c (Delivered w sid) calls d = (Inr ACKNOWLEDGE, d', calls)"
    and "ended_delivered c w sid clk 4 d d'"
proof -
  have m: "text_storable (render_weather_announcement w)"
    using ok by (simp add: recordable_def announcement_storable)
  obtain d' where "record_delivered c w sid (clk 4) (clk 5) d =
      Inr (successful_attempt (terminal_status (cl_event c)) (render_weather_announcement w)
         (as_snapshot w) sid (clk 4) (cl_attempt c), d')"
    and "closed_with c (successful_attempt (terminal_status (cl_event c)) (render_weather_announcement w)
         (as_snapshot w) sid (clk 4) (cl_attempt c))
       (ended_event (event_status_of (terminal_status (cl_event c))) (clk 4) (clk 5) (cl_event c)) d d'"
    by (rule record_success_held [OF assms(1,2) terminal_status_terminal ok m])
  then show thesis
    by (intro that [of d']) (auto simp: finish_queued_def recorded_def ended_delivered_def)
qed

lemma finish_unrecordable:
  assumes wf: "wf_db d" and held: "holds_claim c d" and bad: "\<not> result_recordable (queued_code rc max_rc) r d"
  obtains x where "finish_queued rc max_rc clk c r calls d = (Inl x, d, calls)"
    and "exn_class x \<in> {DataError, IntegrityError}"
proof (cases r)
  case (Delivered w sid)
  then have "\<not> recordable (as_snapshot w) sid d" using bad by (simp add: result_recordable_def)
  then obtain x where "record_delivered c w sid (clk 4) (clk 5) d = Inl x" "exn_class x \<in> {DataError, IntegrityError}"
    using record_success_refused [OF wf held terminal_status_terminal] by metis
  with Delivered show thesis by (intro that [of x]) (simp_all add: finish_queued_def recorded_def)
next
  case (Send_Failed y)
  then have refused: "\<not> failure_recordable (class_code y) y" using bad by (simp add: result_recordable_def)
  obtain x where "record_failed c y None (clk 4) (clk 5) d = Inl x" "exn_class x = DataError"
    by (rule record_failed_refused [OF wf held refused])
  with Send_Failed show thesis by (intro that [of x]) (simp_all add: finish_queued_def recorded_def)
next
  case (Weather_Failed y)
  with bad have refused: "\<not> failure_recordable (queued_code rc max_rc y) y" by (simp add: result_recordable_def)
  show thesis
  proof (cases "retryable (exn_class y)")
    case False
    then have "\<not> failure_recordable (class_code y) y" using refused by (simp add: queued_code_def)
    then obtain x where "record_failed c y None (clk 4) (clk 5) d = Inl x" "exn_class x = DataError"
      by (rule record_failed_refused [OF wf held])
    with Weather_Failed False show thesis by (intro that [of x]) (simp_all add: finish_queued_def recorded_def)
  next
    case retryable: True
    show thesis
    proof (cases "rc < max_rc")
      case True
      then obtain x where "record_retryable_failure (ev_id (cl_event c)) (at_id (cl_attempt c)) y (clk 4) d = Inl x"
          "exn_class x = DataError"
        using record_retryable_failure_refused [OF wf held, of y "clk 4"] refused retryable by (auto simp: queued_code_def)
      with Weather_Failed True retryable show thesis by (intro that [of x]) (simp_all add: finish_queued_def recorded_def)
    next
      case False
      let ?ec = "take 64 (''RetryExhausted:'' @ class_name (exn_class y))"
      obtain x where "record_failed c y (Some ?ec) (clk 4) (clk 5) d = Inl x" "exn_class x = DataError"
        using record_failure_refused [OF wf held, of y "Some ?ec" "clk 4" "clk 5"] refused retryable False
        by (auto simp: queued_code_def)
      with Weather_Failed False retryable show thesis by (intro that [of x]) (simp_all add: finish_queued_def recorded_def)
    qed
  qed
qed

text \<open>The cases of a finished queued delivery, as an elimination rule.\<close>

lemma finish_cases:
  assumes wf: "wf_db d" and held: "holds_claim c d"
    and run: "finish_queued rc max_rc clk c r calls d = (q, d', calls')"
  obtains
    (delivered) w sid where "r = Delivered w sid" "recordable (as_snapshot w) sid d"
      "q = Inr ACKNOWLEDGE" "ended_delivered c w sid clk 4 d d'" "calls' = calls"
  | (unrecordable) x where "\<not> result_recordable (queued_code rc max_rc) r d"
      "q = Inl x" "exn_class x \<in> {DataError, IntegrityError}" "d' = d" "calls' = calls"
  | (failed) x where "r = Send_Failed x \<or> (r = Weather_Failed x \<and> \<not> retryable (exn_class x))"
      "q = Inr ACKNOWLEDGE" "ended_failed c x (class_name (exn_class x)) clk 4 d d'" "calls' = calls"
  | (exhausted) x where "r = Weather_Failed x" "retryable (exn_class x)" "\<not> rc < max_rc"
      "q = Inr RETRY" "ended_failed c x (take 64 (''RetryExhausted:'' @ class_name (exn_class x))) clk 4 d d'"
      "calls' = calls"
  | (retried) x where "r = Weather_Failed x" "retryable (exn_class x)" "rc < max_rc" "q = Inr RETRY"
      "closed_with c (failed_attempt (take 64 (''QueueRetryable:'' @ class_name (exn_class x)))
         (take 1000 (exn_text x)) (clk 4) (cl_attempt c)) (cl_event c) d d'" "calls' = calls"
proof (cases "result_recordable (queued_code rc max_rc) r d")
  case False
  obtain x where "finish_queued rc max_rc clk c r calls d = (Inl x, d, calls)"
    and "exn_class x \<in> {DataError, IntegrityError}"
    by (rule finish_unrecordable [OF wf held False])
  with run show thesis by (intro unrecordable [OF False]) simp_all
next
  case ok: True
  show thesis
  proof (cases r)
    case (Delivered w sid)
    have rec: "recordable (as_snapshot w) sid d" using ok Delivered by (simp add: result_recordable_def)
    obtain e1 where "finish_queued rc max_rc clk c (Delivered w sid) calls d = (Inr ACKNOWLEDGE, e1, calls)"
      and "ended_delivered c w sid clk 4 d e1"
      by (rule finish_delivered [OF wf held rec])
    with run Delivered show thesis by (intro delivered [OF Delivered rec]) simp_all
  next
    case (Send_Failed x)
    obtain e1 where "finish_queued rc max_rc clk c r calls d = (Inr ACKNOWLEDGE, e1, calls)"
      and "ended_failed c x (class_name (exn_class x)) clk 4 d e1"
      by (rule finish_send_failed [OF wf held disjI1 [OF Send_Failed] ok])
    with run show thesis by (intro failed [OF disjI1 [OF Send_Failed]]) simp_all
  next
    case (Weather_Failed x)
    consider "\<not> retryable (exn_class x)" | "retryable (exn_class x)" "\<not> rc < max_rc"
      | "retryable (exn_class x)" "rc < max_rc" by blast
    then show thesis
    proof cases
      case 1
      then have r: "r = Send_Failed x \<or> (r = Weather_Failed x \<and> \<not> retryable (exn_class x))"
        using Weather_Failed by simp
      obtain e1 where "finish_queued rc max_rc clk c r calls d = (Inr ACKNOWLEDGE, e1, calls)"
        and "ended_failed c x (class_name (exn_class x)) clk 4 d e1"
        by (rule finish_send_failed [OF wf held r ok])
      with run show thesis by (intro failed [OF r]) simp_all
    next
      case 2
      obtain e1 where "finish_queued rc max_rc clk c (Weather_Failed x) calls d = (Inr RETRY, e1, calls)"
        and "ended_failed c x (take 64 (''RetryExhausted:'' @ class_name (exn_class x))) clk 4 d e1"
        by (rule finish_exhausted [OF wf held 2 ok [unfolded Weather_Failed]])
      with run Weather_Failed show thesis by (intro exhausted [OF Weather_Failed 2]) simp_all
    next
      case 3
      obtain e1 where "finish_queued rc max_rc clk c (Weather_Failed x) calls d = (Inr RETRY, e1, calls)"
        and "closed_with c (failed_attempt (take 64 (''QueueRetryable:'' @ class_name (exn_class x)))
           (take 1000 (exn_text x)) (clk 4) (cl_attempt c)) (cl_event c) d e1"
        by (rule finish_retried [OF wf held 3 ok [unfolded Weather_Failed]])
      with run Weather_Failed show thesis by (intro retried [OF Weather_Failed 3]) simp_all
    qed
  qed
qed

lemma finish_frame:
  assumes "wf_db d" and "holds_claim c d"
    and "finish_queued rc max_rc clk c r calls d = (q, d', calls')"
  shows "wf_db d' \<and> only_event (ev_id (cl_event c)) d d' \<and> calls' = calls"
  by (cases rule: finish_cases [OF assms])
    (use assms(1) in \<open>auto simp: ended_delivered_def ended_failed_def closed_with_def\<close>)

section \<open>A dispatched batch\<close>

lemma dispatch_each_frame:
  assumes "wf_db d" and "\<forall>c \<in> set cs. holds_claim c d"
    and "distinct (map (\<lambda>c. ev_id (cl_event c)) cs)"
    and "dispatch_each envs clk cs d = ((del, fai), d', calls)"
  shows "wf_db d' \<and> only_events ((\<lambda>c. ev_id (cl_event c)) ` set cs) d d' \<and>
    del + fai = length cs \<and>
    length (real_sends calls) \<le> length (filter (\<lambda>c. \<not> ev_is_demo (cl_event c)) cs) \<and>
    length (demo_sends calls) \<le> length (filter (\<lambda>c. ev_is_demo (cl_event c)) cs)"
  using assms
proof (induction cs arbitrary: envs clk d del fai d' calls)
  case Nil
  then show ?case by simp
next
  case (Cons c cs)
  let ?i = "ev_id (cl_event c)" and ?ids = "(\<lambda>c. ev_id (cl_event c)) ` set cs"
  have held: "holds_claim c d" and new: "?i \<notin> ?ids" using Cons.prems by auto
  obtain r d1 calls1 where run1: "execute_claimed_delivery (envs 0) clk c d = (r, d1, calls1)"
    by (metis prod_cases3)
  obtain del2 fai2 d2 calls2 where run2:
    "dispatch_each (\<lambda>n. envs (n + 1)) (\<lambda>n. clk (n + 2)) cs d1 = ((del2, fai2), d2, calls2)"
    by (metis prod_cases3 surj_pair)
  have res: "del + fai = del2 + fai2 + 1" "d' = d2" "calls = calls1 @ calls2"
    using Cons.prems(4) run1 run2 by (cases r; simp)+
  have frame: "wf_db d1" "only_event ?i d d1" and calls1: "calls1 = snd (attempt_delivery (envs 0) c)"
    using execute_frame [OF Cons.prems(1) held run1] by simp_all
  have "\<forall>c' \<in> set cs. holds_claim c' d1"
  proof
    fix c' assume c': "c' \<in> set cs"
    then have "ev_id (cl_event c') \<notin> {?i}" using new by (metis image_eqI singletonD)
    with c' Cons.prems(2) show "holds_claim c' d1" by (intro holds_claim_frame [OF _ frame(2)]) simp_all
  qed
  from Cons.IH [OF frame(1) this _ run2] Cons.prems(3)
  have rest: "wf_db d2" "only_events ?ids d1 d2" "del2 + fai2 = length cs"
    "length (real_sends calls2) \<le> length (filter (\<lambda>c. \<not> ev_is_demo (cl_event c)) cs)"
    "length (demo_sends calls2) \<le> length (filter (\<lambda>c. ev_is_demo (cl_event c)) cs)"
    by simp_all
  have "only_events (insert ?i ?ids) d d2" by (rule only_events_trans [OF frame(2) rest(2)]) auto
  moreover have "length (real_sends calls1) \<le> (if ev_is_demo (cl_event c) then 0 else 1)"
    "length (demo_sends calls1) \<le> (if ev_is_demo (cl_event c) then 1 else 0)"
    using attempt_delivery_calls(1-3) [of "envs 0" c "fst (attempt_delivery (envs 0) c)" calls1] calls1
    by auto
  ultimately show ?case using rest res by (auto split: if_splits)
qed

text \<open>
  Whom the messages of a batch go to: on each side to different claims, of that side's kind, each on the
  claim's channel, to its number, with weather that was looked up for its ZIP code.
\<close>

type_synonym call_kind = "channel \<Rightarrow> string \<Rightarrow> string \<Rightarrow> call_made"

definition sent_for :: "call_kind \<Rightarrow> delivery_env set \<Rightarrow> claimed_delivery \<Rightarrow> call_made \<Rightarrow> bool" where
  "sent_for kind E c call \<longleftrightarrow> (\<exists>env \<in> E. \<exists>w. env_weather env (ev_zip_code (cl_event c)) = Inr w \<and>
     call = kind (ev_channel (cl_event c)) (cl_to c) (render_weather_announcement w))"

lemma attempt_delivery_sends:
  assumes "attempt_delivery env c = (r, calls)"
  shows "real_sends calls = [] \<or> \<not> ev_is_demo (cl_event c) \<and> (\<exists>call. real_sends calls = [call] \<and> sent_for Real_Send {env} c call)"
    and "demo_sends calls = [] \<or> ev_is_demo (cl_event c) \<and> (\<exists>call. demo_sends calls = [call] \<and> sent_for Demo_Send {env} c call)"
  using assms
  by (auto simp: attempt_delivery_def select_sender_def sent_for_def Let_def split: sum.splits if_splits option.splits)

definition sent_to ::
  "call_kind \<Rightarrow> delivery_env set \<Rightarrow> bool \<Rightarrow> claimed_delivery list \<Rightarrow> call_made list \<Rightarrow> bool" where
  "sent_to kind E demo cs calls \<longleftrightarrow>
     (\<exists>to. list_all2 (sent_for kind E) to calls \<and> set to \<subseteq> {c \<in> set cs. ev_is_demo (cl_event c) = demo} \<and>
        distinct (map (\<lambda>c. ev_id (cl_event c)) to))"

lemma sent_for_mono: "sent_for kind E c call \<Longrightarrow> E \<subseteq> E' \<Longrightarrow> sent_for kind E' c call"
  unfolding sent_for_def by blast

lemma sent_to_mono: "sent_to kind E demo cs calls \<Longrightarrow> E \<subseteq> E' \<Longrightarrow> sent_to kind E' demo cs calls"
  unfolding sent_to_def using sent_for_mono list_all2_mono by (metis (no_types, lifting))

lemma sent_to_Cons:
  assumes first: "sends = [] \<or> ev_is_demo (cl_event c) = demo \<and> (\<exists>call. sends = [call] \<and> sent_for kind E c call)"
    and rest: "sent_to kind E demo cs calls" and new: "ev_id (cl_event c) \<notin> (\<lambda>c. ev_id (cl_event c)) ` set cs"
  shows "sent_to kind E demo (c # cs) (sends @ calls)"
proof -
  obtain to where to: "list_all2 (sent_for kind E) to calls" "set to \<subseteq> {c \<in> set cs. ev_is_demo (cl_event c) = demo}"
      "distinct (map (\<lambda>c. ev_id (cl_event c)) to)" using rest by (auto simp: sent_to_def)
  have fresh: "ev_id (cl_event c) \<notin> (\<lambda>c. ev_id (cl_event c)) ` set to" using to(2) new by blast
  from first show ?thesis
  proof (elim disjE conjE exE)
    assume "sends = []"
    then show ?thesis using to unfolding sent_to_def by (intro exI [of _ to]) auto
  next
    fix call assume "ev_is_demo (cl_event c) = demo" "sends = [call]" "sent_for kind E c call"
    then show ?thesis using to fresh unfolding sent_to_def by (intro exI [of _ "c # to"]) auto
  qed
qed

lemma dispatch_each_sends:
  assumes "wf_db d" and "\<forall>c \<in> set cs. holds_claim c d"
    and "distinct (map (\<lambda>c. ev_id (cl_event c)) cs)"
    and "dispatch_each envs clk cs d = (n, d', calls)"
  shows "sent_to Real_Send (range envs) False cs (real_sends calls) \<and>
    sent_to Demo_Send (range envs) True cs (demo_sends calls)"
  using assms
proof (induction cs arbitrary: envs clk d n d' calls)
  case Nil
  then show ?case by (auto simp: sent_to_def)
next
  case (Cons c cs)
  let ?i = "ev_id (cl_event c)" and ?ids = "(\<lambda>c. ev_id (cl_event c)) ` set cs"
  have held: "holds_claim c d" and new: "?i \<notin> ?ids" using Cons.prems by auto
  obtain r d1 calls1 where run1: "execute_claimed_delivery (envs 0) clk c d = (r, d1, calls1)"
    by (metis prod_cases3)
  obtain n2 d2 calls2 where run2: "dispatch_each (\<lambda>n. envs (n + 1)) (\<lambda>n. clk (n + 2)) cs d1 = (n2, d2, calls2)"
    by (metis prod_cases3)
  have calls: "calls = calls1 @ calls2" using Cons.prems(4) run1 run2 by (cases r; cases n2; simp)
  have frame: "wf_db d1" "only_event ?i d d1" and calls1: "calls1 = snd (attempt_delivery (envs 0) c)"
    using execute_frame [OF Cons.prems(1) held run1] by simp_all
  have att: "attempt_delivery (envs 0) c = (fst (attempt_delivery (envs 0) c), calls1)" using calls1 by simp
  have "\<forall>c' \<in> set cs. holds_claim c' d1"
  proof
    fix c' assume c': "c' \<in> set cs"
    then have "ev_id (cl_event c') \<notin> {?i}" using new by (metis image_eqI singletonD)
    with c' Cons.prems(2) show "holds_claim c' d1" by (intro holds_claim_frame [OF _ frame(2)]) simp_all
  qed
  from Cons.IH [OF frame(1) this _ run2] Cons.prems(3)
  have "sent_to Real_Send (range (\<lambda>n. envs (n + 1))) False cs (real_sends calls2)"
    "sent_to Demo_Send (range (\<lambda>n. envs (n + 1))) True cs (demo_sends calls2)" by simp_all
  then have rest: "sent_to Real_Send (range envs) False cs (real_sends calls2)"
    "sent_to Demo_Send (range envs) True cs (demo_sends calls2)" by (blast intro: sent_to_mono)+
  have own: "{envs 0} \<subseteq> range envs" by blast
  have "sent_to Real_Send (range envs) False (c # cs) (real_sends calls1 @ real_sends calls2)"
    by (rule sent_to_Cons [OF _ rest(1) new])
      (use attempt_delivery_sends(1) [OF att] sent_for_mono [OF _ own] in blast)
  moreover have "sent_to Demo_Send (range envs) True (c # cs) (demo_sends calls1 @ demo_sends calls2)"
    by (rule sent_to_Cons [OF _ rest(2) new])
      (use attempt_delivery_sends(2) [OF att] sent_for_mono [OF _ own] in blast)
  ultimately show ?case by (simp add: calls)
qed

end
