(* ===== verification/Delivery_Properties.thy ===== *)
theory Delivery_Properties
  imports Delivery_Correctness Samples
begin

text \<open>
  What the delivery services guarantee, each on every branch, and applied to the sample database.
\<close>

section \<open>Shared facts\<close>

lemma recordable_after_claim:
  assumes "rows (db_attempts d1) = rows (db_attempts d) @ [a]" and "at_provider_sid a = None"
  shows "recordable s sid d1 \<longleftrightarrow> recordable s sid d"
  using assms by (auto simp: recordable_def sid_free_def)

lemma attempt_delivery_claim_of:
  assumes "claim_of now (e, to) c"
  shows "attempt_delivery env c = attempt_delivery env \<lparr>cl_event = e, cl_to = to, cl_attempt = a\<rparr>"
proof -
  have eqs: "ev_zip_code (cl_event c) = ev_zip_code e" "ev_channel (cl_event c) = ev_channel e"
    "select_sender (cl_event c) env = select_sender e env" "cl_to c = to"
    using assms by (auto simp: claim_of_def select_sender_def)
  show ?thesis unfolding attempt_delivery_def Let_def eqs claimed_delivery.simps ..
qed

text \<open>A scheduled event that is due gets claimed.\<close>

lemma deliver_claims:
  assumes wf: "wf_db d" and e: "get_event i d = Some e" and st: "ev_status e = E_SCHEDULED"
    and due: "ev_scheduled_for e \<le> or_now now (clk 0)" and p: "get_phone (ev_phone_number e) d = Some p"
  obtains c d1 where
    "deliver_scheduled_event i env now clk d = execute_claimed_delivery env (\<lambda>n. clk (n + 3)) c d1"
    and "wf_db d1" and "only_event i d d1" and "holds_claim c d1" and "ev_id (cl_event c) = i"
    and "claim_of (or_now now (clk 0)) (e, ph_number p) c" and "attempts_of i d1 = [cl_attempt c]"
    and "rows (db_attempts d1) = rows (db_attempts d) @ [cl_attempt c]"
    and "at_provider_sid (cl_attempt c) = None \<and> at_voice_action_result (cl_attempt c) = None"
proof -
  let ?t = "or_now now (clk 0)" and ?clk = "\<lambda>n. clk (n + 1)"
  have row: "with_phone d e = Some (e, ph_number p)" using p by (simp add: with_phone_def)
  obtain c d1 where c: "claim_locked_event (e, ph_number p) ?t ?clk d = Inr (c, d1)"
    and spec: "wf_db d1" "only_event i d d1" "holds_claim c d1" "cl_event c = claimed_row ?t (?clk 0) e"
      "cl_to c = ph_number p" "cl_attempt c = new_attempt i 1 (?clk 1) (next_id (db_attempts d))"
      "attempts_of i d1 = [cl_attempt c]" "rows (db_attempts d1) = rows (db_attempts d) @ [cl_attempt c]"
    by (rule claim_locked_event_succeeds [OF wf e st])
  have i: "ev_id e = i" using e by (rule events.get_key)
  have "claim_event i ?t ?clk d = Inr (Some c, d1)"
    using e row st due c by (simp add: claim_event_def bind_require)
  then have "deliver_scheduled_event i env now clk d = execute_claimed_delivery env (\<lambda>n. clk (n + 3)) c d1"
    by (simp add: deliver_scheduled_event_def)
  then show thesis by (rule that) (use spec i in \<open>auto simp: claim_of_def new_attempt_def\<close>)
qed

section \<open>Direct delivery\<close>

lemma deliver_success_effect:
  assumes "wf_db d" and "get_event i d = Some e" and "ev_status e = E_SCHEDULED"
    and "ev_scheduled_for e \<le> or_now now (clk 0)" and "get_phone (ev_phone_number e) d = Some p"
    and "env_weather env (ev_zip_code e) = Inr w" and "select_sender e env = Inr (kind, send)"
    and "send (ev_channel e) (ph_number p) (render_weather_announcement w) = Inr sid"
    and "recordable (as_snapshot w) sid d"
  shows "\<exists>a d' e'. deliver_scheduled_event i env now clk d =
      (Inr a, d', [Weather_Lookup (ev_zip_code e),
        kind (ev_channel e) (ph_number p) (render_weather_announcement w)]) \<and>
    at_status a = (if ev_is_demo e then A_SUPPRESSED else A_SUBMITTED) \<and>
    at_rendered_message a = render_weather_announcement w \<and> at_weather_snapshot a = as_snapshot w \<and>
    at_provider_sid a = sid \<and> at_completed_at a = Some (clk 3) \<and> attempts_of i d' = [a] \<and>
    get_event i d' = Some e' \<and> ev_status e' = (if ev_is_demo e then E_SUPPRESSED else E_SUBMITTED) \<and>
    ev_completed_at e' = Some (clk 3) \<and> only_event i d d' \<and> wf_db d' \<and>
    ev_channel e' = ev_channel e \<and> at_event a = i \<and> at_voice_action_result a = None"
proof -
  obtain c d1 where run: "deliver_scheduled_event i env now clk d =
      execute_claimed_delivery env (\<lambda>n. clk (n + 3)) c d1"
    and c: "wf_db d1" "only_event i d d1" "holds_claim c d1" "ev_id (cl_event c) = i"
      "claim_of (or_now now (clk 0)) (e, ph_number p) c" "attempts_of i d1 = [cl_attempt c]"
    and atts: "rows (db_attempts d1) = rows (db_attempts d) @ [cl_attempt c]"
      "at_provider_sid (cl_attempt c) = None \<and> at_voice_action_result (cl_attempt c) = None"
    by (rule deliver_claims [where now = now and clk = clk, OF assms(1-5)])
  let ?calls = "[Weather_Lookup (ev_zip_code e),
    kind (ev_channel e) (ph_number p) (render_weather_announcement w)]"
  have att: "attempt_delivery env c = (Delivered w sid, ?calls)"
    unfolding attempt_delivery_claim_of [OF c(5), of env "cl_attempt c"]
    using assms(6-8) by (simp add: attempt_delivery_def Let_def)
  have ok: "recordable (as_snapshot w) sid d1"
    using recordable_after_claim [OF atts(1)] atts(2) assms(9) by simp
  have demo: "ev_is_demo (cl_event c) = ev_is_demo e" using c(5) by (auto simp: claim_of_def)
  obtain d' a where exe: "execute_claimed_delivery env (\<lambda>n. clk (n + 3)) c d1 = (Inr a, d', ?calls)"
    and a: "a = successful_attempt (terminal_status (cl_event c)) (render_weather_announcement w)
       (as_snapshot w) sid (clk (0 + 3)) (cl_attempt c)"
    and ended: "ended_delivered c w sid (\<lambda>n. clk (n + 3)) 0 d1 d'"
    by (rule execute_delivered [OF c(1,3) att ok])
  have ch: "ev_channel (cl_event c) = ev_channel e" "at_event (cl_attempt c) = i"
    using c(5) events.get_key [OF assms(2)] by (auto simp: claim_of_def)
  have "only_event i d d'"
    using ended c(2,4) only_events_trans [of "{i}" d d1 "{i}" d' "{i}"]
    by (simp add: ended_delivered_def closed_with_def)
  with run exe a ended c(4,6) demo ch atts(2) show ?thesis
    by (simp add: ended_delivered_def closed_with_def terminal_status_def successful_attempt_def ended_event_def)
qed

text \<open>C3. Delivering a due scheduled event when the weather and the sender answer and the database takes
  the result: exactly one lookup and one send to the event's number, then one attempt that holds the
  rendered message, the snapshot and the provider's identifier, and both the attempt and the event
  end as submitted (suppressed for a demo event). No other event changes.\<close>

theorem deliver_success:
  assumes "wf_db d" and "get_event i d = Some e" and "ev_status e = E_SCHEDULED"
    and "ev_scheduled_for e \<le> or_now now (clk 0)" and "get_phone (ev_phone_number e) d = Some p"
    and "env_weather env (ev_zip_code e) = Inr w" and "select_sender e env = Inr (kind, send)"
    and "send (ev_channel e) (ph_number p) (render_weather_announcement w) = Inr sid"
    and "recordable (as_snapshot w) sid d"
  shows "\<exists>a d' e'. deliver_scheduled_event i env now clk d =
      (Inr a, d', [Weather_Lookup (ev_zip_code e),
        kind (ev_channel e) (ph_number p) (render_weather_announcement w)]) \<and>
    at_status a = (if ev_is_demo e then A_SUPPRESSED else A_SUBMITTED) \<and>
    at_rendered_message a = render_weather_announcement w \<and> at_weather_snapshot a = as_snapshot w \<and>
    at_provider_sid a = sid \<and> at_completed_at a = Some (clk 3) \<and> attempts_of i d' = [a] \<and>
    get_event i d' = Some e' \<and> ev_status e' = (if ev_is_demo e then E_SUPPRESSED else E_SUBMITTED) \<and>
    ev_completed_at e' = Some (clk 3) \<and> only_event i d d' \<and> wf_db d'"
  using deliver_success_effect [where now = now and clk = clk and send = send and kind = kind, OF assms] by blast

lemma deliver_success_witness:
  "\<exists>a d'. deliver_scheduled_event 1
      \<lparr>env_weather = fake_get_current_weather 0, env_message_sender = None, env_demo_sender = None\<rparr>
      (Some (seconds 1000)) (\<lambda>n. int n) sample_db =
    (Inr a, d', [Weather_Lookup ''94107'', Demo_Send SMS ''+14155550101''
      (render_weather_announcement \<lparr>cw_location = ''ZIP 94107'', cw_temperature_f = Fin 72,
        cw_condition = ''clear skies'', cw_observed_at = 0\<rparr>)]) \<and> at_status a = A_SUPPRESSED"
proof -
  let ?w = "\<lparr>cw_location = ''ZIP 94107'', cw_temperature_f = Fin 72, cw_condition = ''clear skies'',
    cw_observed_at = 0\<rparr>"
  have "text_storable ''ZIP 94107'' \<and> text_storable ''clear skies'' \<and> text_storable (isoformat_utc 0)" by code_simp
  then have "recordable (as_snapshot ?w) None sample_db"
    by (simp add: recordable_def storable_def as_snapshot_def sid_free_def)
  from deliver_success [OF wf_sample_db sample_events(1), of "Some (seconds 1000)" "\<lambda>n. int n" sample_phone
      "\<lparr>env_weather = fake_get_current_weather 0, env_message_sender = None, env_demo_sender = None\<rparr>"
      ?w Demo_Send demo_message_sender None, OF _ _ _ _ _ _ this]
  show ?thesis
    by (fastforce simp: sample_phones fake_get_current_weather_def select_sender_def demo_message_sender_def
        sample_demo_def sample_phone_def)
qed

text \<open>C4. Delivering a due scheduled event when the weather provider, the choice of a sender or the sender
  raises: the same exception is raised again, and the attempt and the event are recorded as failed
  with its class name and the first 1000 characters of its text. Nothing is sent unless it was the
  sender that raised. The one exception is a class name or a text that the columns do not take: then the
  database's refusal is raised instead, and the event stays taken up with its attempt open.\<close>

theorem deliver_failure:
  assumes "wf_db d" and "get_event i d = Some e" and "ev_status e = E_SCHEDULED"
    and "ev_scheduled_for e \<le> or_now now (clk 0)" and "get_phone (ev_phone_number e) d = Some p"
    and "env_weather env (ev_zip_code e) = Inl x \<or>
      (\<exists>w. env_weather env (ev_zip_code e) = Inr w \<and> (select_sender e env = Inl x \<or>
        (\<exists>kind send. select_sender e env = Inr (kind, send) \<and>
          send (ev_channel e) (ph_number p) (render_weather_announcement w) = Inl x)))"
  shows "\<exists>y d' calls a e'. deliver_scheduled_event i env now clk d = (Inl y, d', calls) \<and>
    attempts_of i d' = [a] \<and> get_event i d' = Some e' \<and> only_event i d d' \<and> wf_db d' \<and>
    (if failure_recordable (class_name (exn_class x)) x
     then y = x \<and> at_status a = A_FAILED \<and> at_error_code a = class_name (exn_class x) \<and>
       at_error_message a = take 1000 (exn_text x) \<and> ev_status e' = E_FAILED \<and> ev_completed_at e' = Some (clk 3)
     else exn_class y = DataError \<and> at_status a = A_PROCESSING \<and> ev_status e' = E_PROCESSING) \<and>
    (real_sends calls @ demo_sends calls \<noteq> [] \<longrightarrow>
      (\<exists>kind send m. select_sender e env = Inr (kind, send) \<and> send (ev_channel e) (ph_number p) m = Inl x))"
proof -
  obtain c d1 where run: "deliver_scheduled_event i env now clk d =
      execute_claimed_delivery env (\<lambda>n. clk (n + 3)) c d1"
    and c: "wf_db d1" "only_event i d d1" "holds_claim c d1" "ev_id (cl_event c) = i"
      "claim_of (or_now now (clk 0)) (e, ph_number p) c" "attempts_of i d1 = [cl_attempt c]"
    by (rule deliver_claims [where now = now and clk = clk, OF assms(1-5)])
  have "\<exists>calls. (attempt_delivery env c = (Weather_Failed x, calls) \<or>
      attempt_delivery env c = (Send_Failed x, calls)) \<and>
      (real_sends calls @ demo_sends calls \<noteq> [] \<longrightarrow>
        (\<exists>kind send m. select_sender e env = Inr (kind, send) \<and> send (ev_channel e) (ph_number p) m = Inl x))"
    unfolding attempt_delivery_claim_of [OF c(5), of env "cl_attempt c"]
    using assms(6) by (auto simp: attempt_delivery_def Let_def)
  then obtain calls where att: "attempt_delivery env c = (Weather_Failed x, calls) \<or>
      attempt_delivery env c = (Send_Failed x, calls)"
    and sends: "real_sends calls @ demo_sends calls \<noteq> [] \<longrightarrow>
      (\<exists>kind send m. select_sender e env = Inr (kind, send) \<and> send (ev_channel e) (ph_number p) m = Inl x)"
    by blast
  show ?thesis
  proof (cases "failure_recordable (class_name (exn_class x)) x")
    case True
    obtain d' where exe: "execute_claimed_delivery env (\<lambda>n. clk (n + 3)) c d1 = (Inl x, d', calls)"
      and ended: "ended_failed c x (class_name (exn_class x)) (\<lambda>n. clk (n + 3)) 0 d1 d'"
      by (rule execute_failed [OF c(1,3) att True])
    have "only_event i d d'"
      using ended c(2,4) only_events_trans [of "{i}" d d1 "{i}" d' "{i}"]
      by (simp add: ended_failed_def closed_with_def)
    with run exe ended c(4,6) sends True show ?thesis
      by (simp add: ended_failed_def closed_with_def ended_event_def)
  next
    case False
    obtain y where exe: "execute_claimed_delivery env (\<lambda>n. clk (n + 3)) c d1 = (Inl y, d1, calls)"
      and y: "exn_class y = DataError"
      using execute_failure_refused [OF c(1,3) att False] by metis
    with run c sends False show ?thesis by (auto simp: holds_claim_def)
  qed
qed

lemma deliver_failure_witness:
  "\<exists>d' calls. deliver_scheduled_event 2
      \<lparr>env_weather = fake_get_current_weather 0, env_message_sender = None, env_demo_sender = None\<rparr>
      (Some (seconds 3000)) (\<lambda>n. int n) sample_db =
    (Inl (raise MessageSenderNotConfigured ''A message sender is required for non-demo events.''), d', calls) \<and>
    real_sends calls = []"
  using deliver_failure [OF wf_sample_db sample_events(2), of "Some (seconds 3000)" "\<lambda>n. int n" sample_phone
      "\<lparr>env_weather = fake_get_current_weather 0, env_message_sender = None, env_demo_sender = None\<rparr>"
      "raise MessageSenderNotConfigured ''A message sender is required for non-demo events.''"]
  by (fastforce simp: sample_phones fake_get_current_weather_def select_sender_def sample_real_def
      failure_recordable_def text_storable_def)

text \<open>C39. Delivering any other event calls nobody and changes nothing: a finished event returns its last
  attempt (so a repeated delivery is idempotent), an event still in the future, being processed or
  cancelled is refused, a missing one is reported.\<close>

theorem deliver_without_claim:
  assumes wf: "wf_db d"
    and no: "\<forall>e. get_event i d = Some e \<longrightarrow> ev_status e = E_SCHEDULED \<longrightarrow>
      or_now now (clk 0) < ev_scheduled_for e"
  shows "deliver_scheduled_event i env now clk d =
    ((case get_event i d of
        None \<Rightarrow> Inl event_missing
      | Some e \<Rightarrow>
          (case ev_status e of
             E_SCHEDULED \<Rightarrow> Inl (raise EventNotDue ''The event is not due yet.'')
           | E_PROCESSING \<Rightarrow> Inl (field_error ValidationError ''status''
               ''Event in processing state cannot be delivered.'')
           | E_CANCELLED \<Rightarrow> Inl (field_error ValidationError ''status''
               ''Event in cancelled state cannot be delivered.'')
           | _ \<Rightarrow> Inr (last (attempts_of i d)))), d, [])"
proof (cases "get_event i d")
  case None
  then show ?thesis by (simp add: deliver_scheduled_event_def claim_event_def)
next
  case (Some e)
  obtain p :: phone_number where row: "with_phone d e = Some (e, ph_number p)"
    by (rule wf_with_phone [OF wf Some])
  have "ev_status e \<in> {E_SUBMITTED, E_FAILED, E_SUPPRESSED} \<Longrightarrow> attempts_of i d \<noteq> []"
    using wf_db_attempts_ok [OF wf Some] by (auto simp: attempts_ok_def)
  with Some row no wf_latest_attempt [OF wf Some] show ?thesis
    by (cases "ev_status e")
      (simp_all add: deliver_scheduled_event_def claim_event_def require_scheduled_def bind_require)
qed

lemma deliver_without_claim_witness:
  "deliver_scheduled_event 3
      \<lparr>env_weather = fake_get_current_weather 0, env_message_sender = None, env_demo_sender = None\<rparr>
      (Some 600) (\<lambda>n. int n) sample_db = (Inr sample_attempt, sample_db, [])"
proof -
  have "ev_status sample_done = E_SUBMITTED" by (simp add: sample_done_def)
  then show ?thesis
    by (subst deliver_without_claim [OF wf_sample_db]) (simp_all add: sample_events sample_attempts)
qed

section \<open>Batches\<close>

lemma list_all2_mem: "list_all2 P xs ys \<Longrightarrow> y \<in> set ys \<Longrightarrow> \<exists>x \<in> set xs. P x y"
  by (induction rule: list_all2_induct) auto

lemma claim_of_ids:
  "list_all2 (claim_of now) rs cs \<Longrightarrow>
    map (\<lambda>c. ev_id (cl_event c)) cs = map (\<lambda>r. ev_id (fst r)) rs"
  by (induction rule: list_all2_induct) (simp_all add: claim_of_id)

lemma claim_of_demo:
  "list_all2 (claim_of now) rs cs \<Longrightarrow>
    map (\<lambda>c. ev_is_demo (cl_event c)) cs = map (\<lambda>r. ev_is_demo (fst r)) rs"
  by (induction rule: list_all2_induct) (auto simp: claim_of_def)

lemma distinct_split:
  assumes "distinct (map f xs)"
  shows "distinct (map f (filter (\<lambda>x. \<not> P x) xs) @ map f (filter P xs))"
  using assms by (induction xs) auto

lemma split_image: "f ` {x \<in> A. \<not> P x} \<union> f ` {x \<in> A. P x} = f ` A"
  by auto

text \<open>The claim of a batch, in terms of its selected rows.\<close>

lemma claim_batch_ids:
  assumes wf: "wf_db d" and run: "claim_due_delivery_batch now n grace incl locked clk d = Inr (b, d')"
  defines "rs \<equiv> batch_rows now n incl locked d"
  defines "ids \<equiv> map (\<lambda>c. ev_id (cl_event c)) (cb_deliveries b)"
  defines "ms \<equiv> map at_event (cb_missed_attempts b)"
  shows "ids = map (\<lambda>r. ev_id (fst r)) (filter (\<lambda>r. \<not> ev_scheduled_for (fst r) < now - grace) rs)"
    and "ms = map (\<lambda>r. ev_id (fst r)) (filter (\<lambda>r. ev_scheduled_for (fst r) < now - grace) rs)"
    and "distinct (ids @ ms)" and "set (ids @ ms) = (\<lambda>r. ev_id (fst r)) ` set rs"
    and "cb_selected_count b = length rs" and "length (ids @ ms) = length rs"
    and "wf_db d'" and "only_events (set (ids @ ms)) d d'"
    and "\<forall>c \<in> set (cb_deliveries b). holds_claim c d'" and "\<forall>a \<in> set (cb_missed_attempts b). missed_in d' a"
    and "list_all2 (claim_of now) (filter (\<lambda>r. \<not> ev_scheduled_for (fst r) < now - grace) rs) (cb_deliveries b)"
proof -
  from claim_batch_Inr_args [OF run] have args: "1 \<le> n" "n \<le> 100" "0 \<le> grace" "in_datetime_range (now - grace)"
    by simp_all
  obtain b1 d1 where "claim_due_delivery_batch now n grace incl locked clk d = Inr (b1, d1)"
    and spec: "wf_db d1" "only_events ((\<lambda>r. ev_id (fst r)) ` set rs) d d1" "cb_selected_count b1 = length rs"
      "list_all2 (claim_of now) (filter (\<lambda>r. \<not> ev_scheduled_for (fst r) < now - grace) rs) (cb_deliveries b1)"
      "\<forall>c \<in> set (cb_deliveries b1). holds_claim c d1"
      "map at_event (cb_missed_attempts b1) =
        map (\<lambda>r. ev_id (fst r)) (filter (\<lambda>r. ev_scheduled_for (fst r) < now - grace) rs)"
      "\<forall>a \<in> set (cb_missed_attempts b1). missed_in d1 a"
    unfolding rs_def by (rule claim_batch_succeeds [OF wf args])
  with run have eqs: "b1 = b" "d1 = d'" by simp_all
  note spec = spec [unfolded eqs]
  show ids: "ids = map (\<lambda>r. ev_id (fst r)) (filter (\<lambda>r. \<not> ev_scheduled_for (fst r) < now - grace) rs)"
    unfolding ids_def by (rule claim_of_ids [OF spec(4)])
  show ms: "ms = map (\<lambda>r. ev_id (fst r)) (filter (\<lambda>r. ev_scheduled_for (fst r) < now - grace) rs)"
    unfolding ms_def by (rule spec(6))
  have "distinct (map (\<lambda>r. ev_id (fst r)) rs)" unfolding rs_def by (rule batch_rows_distinct [OF wf])
  then show "distinct (ids @ ms)" unfolding ids ms by (rule distinct_split)
  show img: "set (ids @ ms) = (\<lambda>r. ev_id (fst r)) ` set rs"
    unfolding ids ms set_append set_map set_filter by (rule split_image)
  show "length (ids @ ms) = length rs"
    unfolding ids ms by (simp del: not_less add: add.commute sum_length_filter_compl)
  show "only_events (set (ids @ ms)) d d'" unfolding img by (rule spec(2))
  show "wf_db d'" by (fact spec)
  show "cb_selected_count b = length rs" by (fact spec)
  show "\<forall>c \<in> set (cb_deliveries b). holds_claim c d'" by (fact spec)
  show "\<forall>a \<in> set (cb_missed_attempts b). missed_in d' a" by (fact spec)
  show "list_all2 (claim_of now) (filter (\<lambda>r. \<not> ev_scheduled_for (fst r) < now - grace) rs) (cb_deliveries b)"
    by (fact spec)
qed

text \<open>C5. A due batch holds at most \<open>batch_size\<close> events, each once; every one was scheduled, due, not held
  by another worker, and a demo unless real events were asked for; those older than the grace period
  are recorded as missed and the others are handed over for delivery; and an eligible event is left
  out only when the batch is full of events at least as old.\<close>

theorem batch_selects_oldest_due:
  assumes "wf_db d" and "claim_due_delivery_batch now n grace incl locked clk d = Inr (b, d')"
  shows "let ids = map (\<lambda>c. ev_id (cl_event c)) (cb_deliveries b); ms = map at_event (cb_missed_attempts b) in
    distinct (ids @ ms) \<and> cb_selected_count b = length (ids @ ms) \<and> int (cb_selected_count b) \<le> n \<and> n \<le> 100 \<and>
    (\<forall>i \<in> set (ids @ ms). \<exists>e. get_event i d = Some e \<and> ev_status e = E_SCHEDULED \<and>
       ev_scheduled_for e \<le> now \<and> (incl \<or> ev_is_demo e) \<and> \<not> locked i \<and>
       (i \<in> set ms \<longleftrightarrow> ev_scheduled_for e < now - grace)) \<and>
    (\<forall>i e. get_event i d = Some e \<and> ev_status e = E_SCHEDULED \<and> ev_scheduled_for e \<le> now \<and>
       (incl \<or> ev_is_demo e) \<and> \<not> locked i \<and> i \<notin> set (ids @ ms) \<longrightarrow>
       int (cb_selected_count b) = n \<and>
       (\<forall>j \<in> set (ids @ ms). \<forall>e'. get_event j d = Some e' \<longrightarrow> event_order e' \<le> event_order e))"
proof -
  let ?rs = "batch_rows now n incl locked d"
  define ids where "ids = map (\<lambda>c. ev_id (cl_event c)) (cb_deliveries b)"
  define ms where "ms = map at_event (cb_missed_attempts b)"
  note c = claim_batch_ids [OF assms, folded ids_def ms_def]
  have n: "1 \<le> n" "n \<le> 100" using claim_batch_Inr_args [OF assms(2)] by simp_all
  have row: "get_event (ev_id (fst r)) d = Some (fst r)" "eligible now incl locked (fst r)" if "r \<in> set ?rs" for r
    using batch_rows_mem [OF assms(1) that] .
  have bound: "int (length ?rs) \<le> n" using n by (simp add: batch_rows_def)
  have members: "\<exists>e. get_event i d = Some e \<and> ev_status e = E_SCHEDULED \<and>
       ev_scheduled_for e \<le> now \<and> (incl \<or> ev_is_demo e) \<and> \<not> locked i \<and>
       (i \<in> set ms \<longleftrightarrow> ev_scheduled_for e < now - grace)" if i: "i \<in> set (ids @ ms)" for i
  proof -
    from i obtain r where r: "r \<in> set ?rs" "i = ev_id (fst r)" unfolding c(4) by blast
    have "i \<in> set ms \<longleftrightarrow> ev_scheduled_for (fst r) < now - grace"
      unfolding c(2) using r row by auto (metis option.inject row(1))
    with row [OF r(1)] r(2) show ?thesis by (auto simp: eligible_def)
  qed
  have complete: "int (length ?rs) = n \<and>
       (\<forall>j \<in> set (ids @ ms). \<forall>e'. get_event j d = Some e' \<longrightarrow> event_order e' \<le> event_order e)"
    if e: "get_event i d = Some e" "ev_status e = E_SCHEDULED" "ev_scheduled_for e \<le> now"
      "incl \<or> ev_is_demo e" "\<not> locked i" "i \<notin> set (ids @ ms)" for i e
  proof -
    have el: "eligible now incl locked e" using e events.get_key [OF e(1)] by (simp add: eligible_def)
    note oldest = batch_rows_oldest [OF assms(1) e(1) el e(6) [unfolded c(4)]]
    have "event_order e' \<le> event_order e" if j: "j \<in> set (ids @ ms)" "get_event j d = Some e'" for j e'
    proof -
      from j(1) obtain r where r: "r \<in> set ?rs" "j = ev_id (fst r)" unfolding c(4) by blast
      with row(1) [OF r(1)] j(2) oldest(2) show ?thesis by auto
    qed
    then show ?thesis using oldest(1) n by auto
  qed
  show ?thesis
    unfolding Let_def ids_def [symmetric] ms_def [symmetric] c(5,6)
    by (intro conjI c(3) refl bound n(2)) (use members complete in blast)+
qed

lemma sample_batch_runs:
  "\<exists>b d'. claim_due_delivery_batch (seconds 2001) 25 DEFAULT_GRACE_PERIOD True (\<lambda>_. False) (\<lambda>n. int n) sample_db
    = Inr (b, d')"
proof -
  have "1 \<le> (25::int)" "(25::int) \<le> 100" "0 \<le> DEFAULT_GRACE_PERIOD"
    "in_datetime_range (seconds 2001 - DEFAULT_GRACE_PERIOD)"
    by (simp_all add: DEFAULT_GRACE_PERIOD_def in_datetime_range_def MAX_DATETIME_def)
  then show ?thesis by (rule claim_batch_succeeds [OF wf_sample_db]) blast
qed

lemma batch_selects_oldest_due_witness:
  "\<exists>b d'. claim_due_delivery_batch (seconds 2001) 25 DEFAULT_GRACE_PERIOD True (\<lambda>_. False) (\<lambda>n. int n) sample_db
      = Inr (b, d') \<and> int (cb_selected_count b) \<le> 25 \<and>
    cb_selected_count b = length (cb_deliveries b) + length (cb_missed_attempts b)"
proof -
  obtain b d' where run: "claim_due_delivery_batch (seconds 2001) 25 DEFAULT_GRACE_PERIOD True (\<lambda>_. False)
      (\<lambda>n. int n) sample_db = Inr (b, d')"
    using sample_batch_runs by blast
  from batch_selects_oldest_due [OF wf_sample_db run]
  have "int (cb_selected_count b) \<le> 25" "cb_selected_count b = length (cb_deliveries b) + length (cb_missed_attempts b)"
    by (simp_all add: Let_def)
  with run show ?thesis by blast
qed

text \<open>What a batch leaves behind: every event handed over is processing, with one open attempt
  numbered 1; every missed one has failed with one attempt saying so; every other event and every
  phone and command is as before, and the database stays well-formed.\<close>

theorem batch_leaves_claims:
  assumes "wf_db d" and "claim_due_delivery_batch now n grace incl locked clk d = Inr (b, d')"
  shows "wf_db d' \<and>
    (\<forall>c \<in> set (cb_deliveries b). get_event (ev_id (cl_event c)) d' = Some (cl_event c) \<and>
       ev_status (cl_event c) = E_PROCESSING \<and> ev_processing_started_at (cl_event c) = Some now \<and>
       attempts_of (ev_id (cl_event c)) d' = [cl_attempt c] \<and>
       at_status (cl_attempt c) = A_PROCESSING \<and> at_attempt_number (cl_attempt c) = 1) \<and>
    (\<forall>a \<in> set (cb_missed_attempts b). attempts_of (at_event a) d' = [a] \<and> at_status a = A_FAILED \<and>
       at_error_code a = ''MissedDeliveryWindow'' \<and>
       (\<exists>e. get_event (at_event a) d' = Some e \<and> ev_status e = E_FAILED)) \<and>
    db_phones d' = db_phones d \<and> db_commands d' = db_commands d \<and>
    (\<forall>k. k \<notin> (\<lambda>c. ev_id (cl_event c)) ` set (cb_deliveries b) \<union> at_event ` set (cb_missed_attempts b) \<longrightarrow>
       get_event k d' = get_event k d \<and> attempts_of k d' = attempts_of k d)"
proof -
  note c = claim_batch_ids [OF assms]
  have one: "attempts_of (ev_id (cl_event x)) d' = [cl_attempt x] \<and> at_attempt_number (cl_attempt x) = 1 \<and>
      ev_processing_started_at (cl_event x) = Some now"
    if x: "x \<in> set (cb_deliveries b)" for x
  proof -
    have held: "holds_claim x d'" using c(9) x by blast
    obtain r where r: "claim_of now r x" using list_all2_mem [OF c(11) x] by blast
    let ?as = "attempts_of (ev_id (cl_event x)) d'"
    have ok: "numbered ?as"
      using held wf_db_attempts_ok [OF c(7), of "ev_id (cl_event x)"]
      by (auto simp: holds_claim_def attempts_ok_def)
    have "at_attempt_number (last ?as) = int (length ?as)"
      by (rule numbered_last [OF ok]) (use held in \<open>simp add: holds_claim_def\<close>)
    then have "length ?as = 1" using held r by (simp add: holds_claim_def claim_of_def)
    then have "?as = [last ?as]" by (cases ?as) simp_all
    then show ?thesis using held r by (auto simp: holds_claim_def claim_of_def claimed_row_def)
  qed
  have ids: "set (map (\<lambda>c. ev_id (cl_event c)) (cb_deliveries b) @ map at_event (cb_missed_attempts b)) =
      (\<lambda>c. ev_id (cl_event c)) ` set (cb_deliveries b) \<union> at_event ` set (cb_missed_attempts b)" by simp
  have frame: "only_events ((\<lambda>c. ev_id (cl_event c)) ` set (cb_deliveries b) \<union>
      at_event ` set (cb_missed_attempts b)) d d'" using c(8) unfolding ids .
  show ?thesis
  proof (intro conjI ballI)
    show "wf_db d'" by (rule c(7))
    show "db_phones d' = db_phones d" "db_commands d' = db_commands d"
      using frame by (simp_all add: only_events_def)
    show "\<forall>k. k \<notin> (\<lambda>c. ev_id (cl_event c)) ` set (cb_deliveries b) \<union> at_event ` set (cb_missed_attempts b) \<longrightarrow>
       get_event k d' = get_event k d \<and> attempts_of k d' = attempts_of k d"
      using only_events_get [OF frame] by blast
  qed (use c(9,10) one in \<open>auto simp: holds_claim_def missed_in_def\<close>)
qed

lemma batch_leaves_claims_witness:
  "\<exists>b d'. claim_due_delivery_batch (seconds 2001) 25 DEFAULT_GRACE_PERIOD True (\<lambda>_. False) (\<lambda>n. int n) sample_db
    = Inr (b, d') \<and> wf_db d' \<and> db_phones d' = db_phones sample_db"
  using sample_batch_runs batch_leaves_claims [OF wf_sample_db] by blast

text \<open>
  The sends of one side: each went to a different event of \<open>d\<close> that was scheduled, due, inside the grace
  period, not held by another worker and of that side's kind, on its channel and to its number, and
  said what a weather lookup for its ZIP code answered.
\<close>

definition sends_match ::
  "call_kind \<Rightarrow> bool \<Rightarrow> delivery_env set \<Rightarrow> time \<Rightarrow> time \<Rightarrow> (row_id \<Rightarrow> bool) \<Rightarrow> db \<Rightarrow> call_made list \<Rightarrow> bool" where
  "sends_match kind demo E now grace locked d sends \<longleftrightarrow>
     (\<exists>ids. distinct ids \<and> list_all2 (\<lambda>i call. \<exists>e p env w. get_event i d = Some e \<and>
        ev_status e = E_SCHEDULED \<and> now - grace \<le> ev_scheduled_for e \<and> ev_scheduled_for e \<le> now \<and>
        \<not> locked i \<and> ev_is_demo e = demo \<and> get_phone (ev_phone_number e) d = Some p \<and>
        env \<in> E \<and> env_weather env (ev_zip_code e) = Inr w \<and>
        call = kind (ev_channel e) (ph_number p) (render_weather_announcement w)) ids sends)"

lemma batch_sends_match:
  assumes wf: "wf_db d" and claim: "claim_due_delivery_batch now n grace incl locked clk d = Inr (b, d1)"
    and sent: "sent_to kind E demo (cb_deliveries b) sends"
  shows "sends_match kind demo E now grace locked d sends"
proof -
  obtain to where to: "list_all2 (sent_for kind E) to sends" "distinct (map (\<lambda>c. ev_id (cl_event c)) to)"
    and sub: "set to \<subseteq> {c \<in> set (cb_deliveries b). ev_is_demo (cl_event c) = demo}"
    using sent by (auto simp: sent_to_def)
  note c = claim_batch_ids [OF wf claim]
  let ?ok = "\<lambda>i call. \<exists>e p env w. get_event i d = Some e \<and>
        ev_status e = E_SCHEDULED \<and> now - grace \<le> ev_scheduled_for e \<and> ev_scheduled_for e \<le> now \<and>
        \<not> locked i \<and> ev_is_demo e = demo \<and> get_phone (ev_phone_number e) d = Some p \<and>
        env \<in> E \<and> env_weather env (ev_zip_code e) = Inr w \<and>
        call = kind (ev_channel e) (ph_number p) (render_weather_announcement w)"
  have one: "?ok (ev_id (cl_event x)) call" if x: "x \<in> set to" and call: "sent_for kind E x call" for x call
  proof -
    have del: "x \<in> set (cb_deliveries b)" and demo: "ev_is_demo (cl_event x) = demo" using x sub by auto
    obtain r where r: "claim_of now r x" "r \<in> set (batch_rows now n incl locked d)"
      and grace: "\<not> ev_scheduled_for (fst r) < now - grace"
      using list_all2_mem [OF c(11) del] by fastforce
    note row = batch_rows_mem [OF wf r(2)]
    obtain p where p: "get_phone (ev_phone_number (fst r)) d = Some p" "snd r = ph_number p"
      using batch_rows_phone [OF wf r(2)] by blast
    show ?thesis
      by (rule exI [of _ "fst r"], rule exI [of _ p])
        (use call r(1) grace row p demo in \<open>auto simp: sent_for_def claim_of_def eligible_def\<close>)
  qed
  have "list_all2 (\<lambda>x call. ?ok (ev_id (cl_event x)) call) to sends"
    using to(1) one by (rule list.rel_mono_strong)
  then have "list_all2 ?ok (map (\<lambda>c. ev_id (cl_event c)) to) sends" by (simp add: list_all2_map1)
  with to(2) show ?thesis unfolding sends_match_def by blast
qed

text \<open>C7. A dispatch run adds up: every selected event was delivered, missed or failed, and at most
  \<open>batch_size\<close> were selected. The sends are separated: each real send belongs to a different scheduled,
  due, unlocked event that is not a demo, each demo send to a different one that is, so demo events never
  reach the real sender; each goes to the event's own number on its channel and says the weather that
  was looked up for it. Without \<open>include_real\<close> nothing reaches the real sender, and there are no more
  sends than events tried. The invariant holds at the end.\<close>

theorem dispatch_adds_up:
  assumes "wf_db d" and "dispatch_due_events envs now n grace incl locked clk d = (Inr r, d', calls)"
  shows "dr_selected_count r = dr_delivered_count r + dr_missed_count r + dr_failed_count r \<and>
    int (dr_selected_count r) \<le> n \<and>
    length (real_sends calls) + length (demo_sends calls) \<le> dr_delivered_count r + dr_failed_count r \<and>
    sends_match Real_Send False (range envs) (or_now now (clk 0)) grace locked d (real_sends calls) \<and>
    sends_match Demo_Send True (range envs) (or_now now (clk 0)) grace locked d (demo_sends calls) \<and>
    (\<not> incl \<longrightarrow> real_sends calls = []) \<and> wf_db d' \<and> db_phones d' = db_phones d"
proof -
  let ?t = "or_now now (clk 0)"
  from assms(2) obtain b d1 del fai where
    claim: "claim_due_delivery_batch ?t n grace incl locked (\<lambda>n. clk (2 * n + 1)) d = Inr (b, d1)"
    and each: "dispatch_each envs (\<lambda>n. clk (2 * n + 2)) (cb_deliveries b) d1 = ((del, fai), d', calls)"
    and r: "r = \<lparr>dr_selected_count = cb_selected_count b, dr_delivered_count = del,
      dr_missed_count = length (cb_missed_attempts b), dr_failed_count = fai\<rparr>"
    by (auto simp: dispatch_due_events_def split: sum.splits prod.splits)
  note c = claim_batch_ids [OF assms(1) claim]
  have "distinct (map (\<lambda>c. ev_id (cl_event c)) (cb_deliveries b))" using c(3) by simp
  note fr = dispatch_each_frame [OF c(7,9) this each] and sent = dispatch_each_sends [OF c(7,9) this each]
  have split: "length (filter (\<lambda>c. \<not> ev_is_demo (cl_event c)) (cb_deliveries b)) +
      length (filter (\<lambda>c. ev_is_demo (cl_event c)) (cb_deliveries b)) = length (cb_deliveries b)"
    by (simp add: sum_length_filter_compl add.commute)
  have "\<forall>c \<in> set (cb_deliveries b). ev_is_demo (cl_event c)" if "\<not> incl"
  proof
    fix x assume "x \<in> set (cb_deliveries b)"
    then obtain r where r: "claim_of ?t r x" "r \<in> set (batch_rows ?t n incl locked d)"
      using list_all2_mem [OF c(11)] by fastforce
    from batch_rows_mem(2) [OF assms(1) r(2)] that r(1) show "ev_is_demo (cl_event x)"
      by (auto simp: eligible_def claim_of_def)
  qed
  then have demo: "\<not> incl \<Longrightarrow> filter (\<lambda>c. \<not> ev_is_demo (cl_event c)) (cb_deliveries b) = []"
    by (simp add: filter_empty_conv)
  have bound: "int (length (batch_rows ?t n incl locked d)) \<le> n"
    using claim_batch_Inr_args [OF claim] by (simp add: batch_rows_def) linarith
  have "only_events (set (map (\<lambda>c. ev_id (cl_event c)) (cb_deliveries b) @ map at_event (cb_missed_attempts b))) d d1"
    by (rule c(8))
  then have "db_phones d' = db_phones d" using fr by (simp add: only_events_def)
  moreover have "\<not> incl \<Longrightarrow> real_sends calls = []" using fr demo by auto
  ultimately show ?thesis
    using c(5,6) fr split bound sent batch_sends_match [OF assms(1) claim] unfolding r by simp
qed

lemma dispatch_adds_up_witness:
  "\<exists>r d' calls. dispatch_due_events
      (\<lambda>_. \<lparr>env_weather = fake_get_current_weather 0, env_message_sender = None, env_demo_sender = None\<rparr>)
      (Some (seconds 2001)) 25 DEFAULT_GRACE_PERIOD True (\<lambda>_. False) (\<lambda>n. int n) sample_db =
      (Inr r, d', calls) \<and>
    dr_selected_count r = dr_delivered_count r + dr_missed_count r + dr_failed_count r"
proof -
  have "1 \<le> (25::int)" "(25::int) \<le> 100" "0 \<le> DEFAULT_GRACE_PERIOD"
    "in_datetime_range (seconds 2001 - DEFAULT_GRACE_PERIOD)"
    by (simp_all add: DEFAULT_GRACE_PERIOD_def in_datetime_range_def MAX_DATETIME_def)
  then obtain b d1 where "claim_due_delivery_batch (seconds 2001) 25 DEFAULT_GRACE_PERIOD True (\<lambda>_. False)
      (\<lambda>n. int (2 * n + 1)) sample_db = Inr (b, d1)"
    by (rule claim_batch_succeeds [OF wf_sample_db])
  then have "\<exists>r d' calls. dispatch_due_events
      (\<lambda>_. \<lparr>env_weather = fake_get_current_weather 0, env_message_sender = None, env_demo_sender = None\<rparr>)
      (Some (seconds 2001)) 25 DEFAULT_GRACE_PERIOD True (\<lambda>_. False) (\<lambda>n. int n) sample_db =
      (Inr r, d', calls)"
    by (simp add: dispatch_due_events_def split: prod.splits)
  with dispatch_adds_up [OF wf_sample_db] show ?thesis by blast
qed

end
