(* ===== verification/Queue_Properties.thy ===== *)
theory Queue_Properties
  imports Delivery_Correctness Samples
begin

text \<open>
  What \<open>process_queued_delivery\<close> guarantees for one queue message and for a sequence of deliveries of
  the same message.
\<close>

section \<open>One message\<close>

text \<open>How a message is processed on a well-formed database: by an immediate answer, or by a claim, the
  calls and the recording.\<close>

lemma process_cases:
  assumes wf: "wf_db d"
    and run: "process_queued_delivery i rc m env now grace allow clk d = (q, d', calls)"
  obtains (refused) x where "q = Inl x" "d' = d" "calls = []"
      "rc < 1 \<or> m < 1 \<or> claim_queued_event i (or_now now (clk 0)) grace allow (\<lambda>n. clk (n + 1)) d = Inl x"
  | (answered) a where "q = Inr a" "calls = []" "wf_db d'" "only_event i d d'"
      "implements_decision (decide_queued (or_now now (clk 0)) grace allow (get_event i d) (attempts_of i d))
         i (or_now now (clk 0)) d (act a) d'"
  | (tried) c r d1 where "wf_db d1" "only_event i d d1" "holds_claim c d1" "ev_id (cl_event c) = i"
      "implements_decision (decide_queued (or_now now (clk 0)) grace allow (get_event i d) (attempts_of i d))
         i (or_now now (clk 0)) d (proceed c) d1"
      "attempt_delivery env c = (r, calls)" "finish_queued rc m clk c r calls d1 = (q, d', calls)"
proof -
  let ?t = "or_now now (clk 0)" and ?clk = "\<lambda>n. clk (n + 1)"
  let ?dec = "decide_queued ?t grace allow (get_event i d) (attempts_of i d)"
  show thesis
  proof (cases "1 \<le> rc \<and> 1 \<le> m")
    case False
    then show thesis using run by (intro refused) (auto simp: process_queued_delivery_def)
  next
    case counts: True
    show thesis
    proof (cases "claim_queued_event i ?t grace allow ?clk d")
      case (Inl x)
      then show thesis using run counts
        by (intro refused [of x]) (simp_all add: process_queued_delivery_def split: if_splits)
    next
      case (Inr claimed)
      obtain qc d1 where qc: "claimed = (qc, d1)" by fastforce
      note impl = claim_queued_Inr [OF wf Inr [unfolded qc]]
      show thesis
      proof (cases rule: implements_decision_cases [OF impl(3)])
        case (1 a)
        have "(q, d', calls) = (Inr a, d1, [])"
          using process_act_eq [of rc m i now clk grace allow d a d1 env] counts Inr qc 1 run by simp
        with impl 1 show thesis by (intro answered [of a]) simp_all
      next
        case (2 c)
        obtain r cs where r: "attempt_delivery env c = (r, cs)" by fastforce
        have fin: "finish_queued rc m clk c r cs d1 = (q, d', calls)"
          using process_eq [of rc m i now clk grace allow d c d1 env] counts Inr qc 2(1) r run by simp
        have "calls = cs" using finish_frame [OF impl(1) 2(2) fin] by simp
        with impl 2 r fin show thesis by (intro tried) simp_all
      qed
    qed
  qed
qed

text \<open>After a settled event, a message for it is answered without any call or change.\<close>

definition settled :: "row_id \<Rightarrow> db \<Rightarrow> bool" where
  "settled i d \<longleftrightarrow>
     (\<exists>e. get_event i d = Some e \<and> ev_status e \<noteq> E_SCHEDULED \<and>
        (ev_status e = E_PROCESSING \<longrightarrow> \<not> retry_marked (last (attempts_of i d))))"

lemma settled_decision:
  "settled i d \<Longrightarrow> decide_queued now grace allow (get_event i d) (attempts_of i d) \<in> {D_Acknowledge, D_Retry}"
  by (auto simp: settled_def decide_queued_def split: event_status.splits)

lemma act_proceed [simp]: "act a \<noteq> proceed c" "proceed c \<noteq> act a" "act a = act b \<longleftrightarrow> a = b"
  by (simp_all add: act_def proceed_def)

lemma settled_process:
  assumes "wf_db d" and "settled i d"
    and "process_queued_delivery i rc m env now grace allow clk d = (q, d', calls)"
  shows "d' = d \<and> calls = []"
  using assms(1,3)
proof (cases rule: process_cases)
  case (answered a)
  then show ?thesis
    using settled_decision [OF assms(2), of "or_now now (clk 0)" grace allow]
    by (auto simp: implements_decision_def)
next
  case (tried c r d1)
  then show ?thesis
    using settled_decision [OF assms(2), of "or_now now (clk 0)" grace allow]
    by (auto simp: implements_decision_def)
qed simp

lemma sends_only_after_weather:
  "attempt_delivery env c = (Weather_Failed x, calls) \<Longrightarrow> real_sends calls @ demo_sends calls = []"
  by (auto dest: attempt_delivery_weather_failed)

lemma failed_attempt_not_marked:
  assumes "\<not> starts_with ''QueueRetryable:'' ec"
  shows "\<not> retry_marked (failed_attempt ec msg t a)"
  using assms by (simp add: retry_marked_def)

text \<open>Once the sender boundary has been crossed the event is settled, whatever happened there.\<close>

lemma sent_settled:
  assumes wf: "wf_db d" and held: "holds_claim c d" and att: "attempt_delivery env c = (r, calls)"
    and sent: "real_sends calls @ demo_sends calls \<noteq> []"
    and fin: "finish_queued rc m clk c r calls d = (q, d', calls)"
  shows "settled (ev_id (cl_event c)) d' \<and> q \<noteq> Inr RETRY"
  using wf held fin
proof (cases rule: finish_cases)
  case (delivered w sid)
  then show ?thesis
    by (cases "ev_is_demo (cl_event c)")
      (simp_all add: ended_delivered_def closed_with_def settled_def terminal_status_def)
next
  case (unrecordable x)
  with held show ?thesis by (simp add: settled_def holds_claim_def retry_marked_def)
next
  case (failed x)
  then show ?thesis by (simp add: ended_failed_def closed_with_def settled_def)
next
  case (exhausted x)
  with att sent show ?thesis using sends_only_after_weather by fastforce
next
  case (retried x)
  with att sent show ?thesis using sends_only_after_weather by fastforce
qed

section \<open>Properties of one message\<close>

text \<open>C8. Claiming for a queue message implements the decision table: what is answered or claimed depends
  only on the event, its last attempt, the time and the two options, in the five cases of
  \<open>decide_queued\<close>; it raises only for a negative grace period or a grace window that starts before
  year 1, and then nothing changed.\<close>

theorem queued_claim_refines_decision:
  assumes "wf_db d"
  shows "case claim_queued_event i now grace allow clk d of
      Inl x \<Rightarrow> grace < 0 \<or> (claimable now allow (get_event i d) \<and> \<not> in_datetime_range (now - grace))
    | Inr (qc, d') \<Rightarrow> 0 \<le> grace \<and> wf_db d' \<and> only_event i d d' \<and>
        implements_decision (decide_queued now grace allow (get_event i d) (attempts_of i d)) i now d qc d'"
proof (cases "claim_queued_event i now grace allow clk d")
  case (Inl x)
  have "grace < 0 \<or> (claimable now allow (get_event i d) \<and> \<not> in_datetime_range (now - grace))"
  proof (rule ccontr)
    assume "\<not> ?thesis"
    then have "0 \<le> grace" "in_datetime_range (now - grace) \<or> \<not> claimable now allow (get_event i d)" by auto
    from claim_queued_implements [OF assms this, of clk] Inl show False by simp
  qed
  with Inl show ?thesis by simp
next
  case (Inr r)
  obtain qc d' where r: "r = (qc, d')" by fastforce
  show ?thesis
    using claim_queued_Inr [OF assms Inr [unfolded r]] claim_queued_Inr_args [OF Inr] Inr r by simp
qed

lemma queued_claim_refines_decision_witness:
  "case claim_queued_event 2 (seconds 2100) DEFAULT_GRACE_PERIOD True (\<lambda>n. int n) sample_db of
      Inl x \<Rightarrow> False | Inr (qc, d') \<Rightarrow> wf_db d' \<and> (\<exists>c. qc = proceed c)"
proof -
  have dec: "decide_queued (seconds 2100) DEFAULT_GRACE_PERIOD True (get_event 2 sample_db) (attempts_of 2 sample_db)
      = D_Claim"
    by (simp add: decide_queued_def sample_events) (simp add: sample_real_def DEFAULT_GRACE_PERIOD_def)
  have ok: "\<not> DEFAULT_GRACE_PERIOD < 0" "in_datetime_range (seconds 2100 - DEFAULT_GRACE_PERIOD)"
    by (simp_all add: DEFAULT_GRACE_PERIOD_def in_datetime_range_def MAX_DATETIME_def)
  show ?thesis
    using queued_claim_refines_decision [OF wf_sample_db, where i = 2
      and now = "seconds 2100" and grace = DEFAULT_GRACE_PERIOD and allow = True and clk = "\<lambda>n. int n"]
      ok unfolding dec
    by (auto simp: implements_decision_def split: sum.splits prod.splits)
qed

text \<open>How a claimed queue delivery ends, for every result of its calls.\<close>

definition queued_outcome ::
  "int \<Rightarrow> int \<Rightarrow> clock \<Rightarrow> claimed_delivery \<Rightarrow> delivery_result \<Rightarrow> db \<Rightarrow> exn + queue_action \<Rightarrow> db \<Rightarrow> bool" where
  "queued_outcome rc m clk c r d q d' \<longleftrightarrow>
     (if \<not> result_recordable (queued_code rc m) r d
      then d' = d \<and> (\<exists>x. q = Inl x \<and> exn_class x \<in> {DataError, IntegrityError})
      else case r of
          Delivered w sid \<Rightarrow> q = Inr ACKNOWLEDGE \<and> ended_delivered c w sid clk 4 d d'
        | Send_Failed x \<Rightarrow> q = Inr ACKNOWLEDGE \<and> ended_failed c x (class_code x) clk 4 d d'
        | Weather_Failed x \<Rightarrow>
            q = Inr (if retryable (exn_class x) then RETRY else ACKNOWLEDGE) \<and>
            (if retryable (exn_class x) \<and> rc < m
             then closed_with c (failed_attempt (queued_code rc m x) (take 1000 (exn_text x)) (clk 4) (cl_attempt c))
               (cl_event c) d d'
             else ended_failed c x (queued_code rc m x) clk 4 d d'))"

lemma finish_outcome:
  assumes wf: "wf_db d" and held: "holds_claim c d"
    and fin: "finish_queued rc m clk c r calls d = (q, d', calls')"
  shows "queued_outcome rc m clk c r d q d'"
proof (cases "result_recordable (queued_code rc m) r d")
  case False
  obtain x where "finish_queued rc m clk c r calls d = (Inl x, d, calls)"
    and "exn_class x \<in> {DataError, IntegrityError}"
    by (rule finish_unrecordable [OF wf held False])
  with False fin show ?thesis by (auto simp: queued_outcome_def)
next
  case ok: True
  show ?thesis
    using wf held fin
  proof (cases rule: finish_cases)
    case (failed x)
    with ok show ?thesis by (auto simp: queued_outcome_def queued_code_def class_code_def)
  qed (use ok in \<open>simp_all add: queued_outcome_def queued_code_def\<close>)
qed

text \<open>C38. Processing one queue message, receive counts included, implements the decision table: an
  acknowledgement and a retry are answered at once with no call and no change, a missed event is
  recorded as such and acknowledged, and a new or repeated claim is taken, the weather is looked up and
  the message sent, and the result is recorded. Then the message is asked for again exactly when the
  weather failed retryably; below the maximal receive count the event stays in processing with the
  retryable mark, at the maximum it ends as failed with the exhaustion mark; every other failure, and
  a delivery, ends the event and acknowledges. A result the columns do not take changes nothing and
  raises the database's refusal.\<close>

theorem process_implements_decision:
  assumes "wf_db d" and "1 \<le> rc" and "1 \<le> m" and "0 \<le> grace"
    and "in_datetime_range (or_now now (clk 0) - grace)"
  shows "\<exists>q d' calls. process_queued_delivery i rc m env now grace allow clk d = (q, d', calls) \<and>
    wf_db d' \<and> only_event i d d' \<and>
    (case decide_queued (or_now now (clk 0)) grace allow (get_event i d) (attempts_of i d) of
       D_Acknowledge \<Rightarrow> q = Inr ACKNOWLEDGE \<and> d' = d \<and> calls = []
     | D_Retry \<Rightarrow> q = Inr RETRY \<and> d' = d \<and> calls = []
     | D_Miss \<Rightarrow> q = Inr ACKNOWLEDGE \<and> calls = [] \<and> (\<exists>a. at_event a = i \<and> missed_in d' a)
     | dec \<Rightarrow> (\<exists>c d1 r. implements_decision dec i (or_now now (clk 0)) d (proceed c) d1 \<and>
         attempt_delivery env c = (r, calls) \<and> queued_outcome rc m clk c r d1 q d'))"
proof -
  let ?t = "or_now now (clk 0)"
  obtain q d' calls where run: "process_queued_delivery i rc m env now grace allow clk d = (q, d', calls)"
    by (metis prod_cases3)
  have "wf_db d' \<and> only_event i d d' \<and>
    (case decide_queued ?t grace allow (get_event i d) (attempts_of i d) of
       D_Acknowledge \<Rightarrow> q = Inr ACKNOWLEDGE \<and> d' = d \<and> calls = []
     | D_Retry \<Rightarrow> q = Inr RETRY \<and> d' = d \<and> calls = []
     | D_Miss \<Rightarrow> q = Inr ACKNOWLEDGE \<and> calls = [] \<and> (\<exists>a. at_event a = i \<and> missed_in d' a)
     | dec \<Rightarrow> (\<exists>c d1 r. implements_decision dec i ?t d (proceed c) d1 \<and>
         attempt_delivery env c = (r, calls) \<and> queued_outcome rc m clk c r d1 q d'))"
    using assms(1) run
  proof (cases rule: process_cases)
    case (refused x)
    then show ?thesis
      using claim_queued_implements [OF assms(1,4) disjI1 [OF assms(5)], of i allow "\<lambda>n. clk (n + 1)"] assms(2,3)
      by simp
  next
    case (answered a)
    then show ?thesis by (auto simp: implements_decision_def split: queued_decision.splits)
  next
    case (tried c r d1)
    have "only_event i d d'"
      using finish_frame [OF tried(1,3,7)] tried(2,4) only_events_trans [of "{i}" d d1 "{i}" d' "{i}"] by simp
    moreover have "wf_db d'" using finish_frame [OF tried(1,3,7)] by simp
    moreover have "\<exists>c d1 r. implements_decision (decide_queued ?t grace allow (get_event i d) (attempts_of i d)) i ?t d
        (proceed c) d1 \<and> attempt_delivery env c = (r, calls) \<and> queued_outcome rc m clk c r d1 q d'"
      using tried(5,6) finish_outcome [OF tried(1,3,7)] by blast
    moreover have "decide_queued ?t grace allow (get_event i d) (attempts_of i d) \<in> {D_Claim, D_Reclaim}"
      using tried(5) by (auto simp: implements_decision_def split: queued_decision.splits)
    ultimately show ?thesis by (elim insertE emptyE; simp; blast)
  qed
  with run show ?thesis by blast
qed

lemma process_implements_decision_witness:
  "snd (snd (process_queued_delivery 3 1 3
      \<lparr>env_weather = fake_get_current_weather 0, env_message_sender = None, env_demo_sender = None\<rparr>
      (Some (seconds 1000)) DEFAULT_GRACE_PERIOD False (\<lambda>n. int n) sample_db)) = []"
proof -
  have dec: "decide_queued (seconds 1000) DEFAULT_GRACE_PERIOD False (get_event 3 sample_db) (attempts_of 3 sample_db)
      = D_Acknowledge"
    by (simp add: decide_queued_def sample_events) (simp add: sample_done_def)
  have ok: "0 \<le> DEFAULT_GRACE_PERIOD" "in_datetime_range (seconds 1000 - DEFAULT_GRACE_PERIOD)"
    by (simp_all add: DEFAULT_GRACE_PERIOD_def in_datetime_range_def MAX_DATETIME_def)
  show ?thesis
    using process_implements_decision [OF wf_sample_db, of 1 3 DEFAULT_GRACE_PERIOD "Some (seconds 1000)"
        "\<lambda>n. int n" 3 "\<lparr>env_weather = fake_get_current_weather 0, env_message_sender = None, env_demo_sender = None\<rparr>"
        False] ok dec
    by auto
qed

lemma process_effect:
  assumes "wf_db d" and "process_queued_delivery i rc m env now grace allow clk d = (q, d', calls)"
  shows "wf_db d' \<and> only_event i d d' \<and> length (real_sends calls) + length (demo_sends calls) \<le> 1 \<and>
    (q = Inr RETRY \<longrightarrow> real_sends calls = [] \<and> demo_sends calls = []) \<and>
    (\<forall>ch to m. Real_Send ch to m \<in> set calls \<longrightarrow>
       (\<exists>e p. get_event i d = Some e \<and> \<not> ev_is_demo e \<and> ch = ev_channel e \<and>
          get_phone (ev_phone_number e) d = Some p \<and> to = ph_number p))"
  using assms
proof (cases rule: process_cases)
  case (tried c r d1)
  note fr = finish_frame [OF tried(1,3,7)]
  note calls = attempt_delivery_calls [OF tried(6)]
  have "\<exists>row. get_event i d = Some (fst row) \<and> with_phone d (fst row) = Some row \<and>
      ev_is_demo (cl_event c) = ev_is_demo (fst row) \<and> ev_channel (cl_event c) = ev_channel (fst row) \<and>
      cl_to c = snd row"
    using tried(5)
    by (auto simp: implements_decision_def proceed_def act_def claim_of_def split: queued_decision.splits)
  then obtain e p where e: "get_event i d = Some e" "get_phone (ev_phone_number e) d = Some p"
      "ev_is_demo (cl_event c) = ev_is_demo e" "ev_channel (cl_event c) = ev_channel e" "cl_to c = ph_number p"
    by (auto simp: with_phone_def)
  have "q = Inr RETRY \<longrightarrow> real_sends calls @ demo_sends calls = []"
    using sent_settled [OF tried(1,3,6) _ tried(7)] by blast
  moreover have "only_event i d d'"
    using fr tried(2,4) only_events_trans [of "{i}" d d1 "{i}" d' "{i}"] by simp
  ultimately show ?thesis using fr calls(1,4) e by auto
qed (use assms(1) in auto)

text \<open>Processing one message changes only its event, keeps the invariant, looks the weather up and sends
  at most once; a real send goes over the event's channel to the number of its verified phone, and never
  for a demo event; and a message is asked for again only if nothing was sent.\<close>

theorem process_sends_at_most_once:
  assumes "wf_db d" and "process_queued_delivery i rc m env now grace allow clk d = (q, d', calls)"
  shows "wf_db d' \<and> only_event i d d' \<and> length (real_sends calls) + length (demo_sends calls) \<le> 1 \<and>
    (q = Inr RETRY \<longrightarrow> real_sends calls = [] \<and> demo_sends calls = []) \<and>
    (\<forall>ch to m. Real_Send ch to m \<in> set calls \<longrightarrow>
       (\<exists>e p. get_event i d = Some e \<and> \<not> ev_is_demo e \<and> ch = ev_channel e \<and>
          get_phone (ev_phone_number e) d = Some p \<and> to = ph_number p))"
  by (rule process_effect [OF assms])

lemma process_sends_at_most_once_witness:
  "length (real_sends (snd (snd (process_queued_delivery 1 1 3
      \<lparr>env_weather = fake_get_current_weather 0, env_message_sender = None, env_demo_sender = None\<rparr>
      (Some (seconds 1000)) DEFAULT_GRACE_PERIOD False (\<lambda>n. int n) sample_db)))) \<le> 1"
proof -
  obtain q d' calls where run: "process_queued_delivery 1 1 3
      \<lparr>env_weather = fake_get_current_weather 0, env_message_sender = None, env_demo_sender = None\<rparr>
      (Some (seconds 1000)) DEFAULT_GRACE_PERIOD False (\<lambda>n. int n) sample_db = (q, d', calls)"
    by (metis prod_cases3)
  from process_sends_at_most_once [OF wf_sample_db run] run show ?thesis by simp
qed

text \<open>C9. Once a message was sent for an event, no later message for it (however often the queue repeats it,
  with whatever counts, options and environment) calls anyone or changes anything: neither a sender
  error nor a failure to record the result is followed by a second send.\<close>

theorem no_second_send:
  assumes "wf_db d" and "process_queued_delivery i rc m env now grace allow clk d = (q, d', calls)"
    and "real_sends calls @ demo_sends calls \<noteq> []"
    and "process_queued_delivery i rc' m' env' now' grace' allow' clk' d' = (q', d'', calls')"
  shows "d'' = d' \<and> calls' = []"
  using assms(1,2)
proof (cases rule: process_cases)
  case (tried c r d1)
  have "settled i d'" using sent_settled [OF tried(1,3,6) assms(3) tried(7)] tried(4) by simp
  moreover have "wf_db d'" using finish_frame [OF tried(1,3,7)] by simp
  ultimately show ?thesis using settled_process assms(4) by blast
qed (use assms(3) in simp_all)

abbreviation sample_env :: delivery_env where
  "sample_env \<equiv> \<lparr>env_weather = fake_get_current_weather 0, env_message_sender = None,
     env_demo_sender = None\<rparr>"

abbreviation sample_run :: "db \<Rightarrow> queue_action outcome" where
  "sample_run \<equiv> process_queued_delivery 1 1 3 sample_env (Some (seconds 1000)) DEFAULT_GRACE_PERIOD False
     (\<lambda>n. int n)"

lemma sample_run_sends: "demo_sends (snd (snd (sample_run sample_db))) \<noteq> []"
  by code_simp

lemma no_second_send_witness: "snd (snd (sample_run (fst (snd (sample_run sample_db))))) = []"
proof -
  obtain q d' calls where run: "sample_run sample_db = (q, d', calls)" by (metis prod_cases3)
  obtain q' d'' calls' where again: "sample_run d' = (q', d'', calls')" by (metis prod_cases3)
  have "real_sends calls @ demo_sends calls \<noteq> []" using sample_run_sends run by simp
  from no_second_send [OF wf_sample_db run this again] run again show ?thesis by simp
qed

section \<open>Redelivery until the queue gives up\<close>

text \<open>The queue delivers the same message with receive counts 1 to n.\<close>

fun redeliveries ::
  "row_id \<Rightarrow> int \<Rightarrow> (nat \<Rightarrow> delivery_env) \<Rightarrow> (nat \<Rightarrow> time) \<Rightarrow> time \<Rightarrow> bool \<Rightarrow> (nat \<Rightarrow> clock) \<Rightarrow> nat \<Rightarrow> db \<Rightarrow>
    (exn + queue_action) list \<times> db \<times> call_made list" where
  "redeliveries i m envs nows grace allow clks 0 d = ([], d, [])"
| "redeliveries i m envs nows grace allow clks (Suc n) d =
     (case redeliveries i m envs nows grace allow clks n d of
        (qs, d1, calls) \<Rightarrow>
          (case process_queued_delivery i (int (Suc n)) m (envs n) (Some (nows n)) grace allow (clks n) d1 of
             (q, d2, calls') \<Rightarrow> (qs @ [q], d2, calls @ calls')))"

text \<open>A retryable weather failure that the columns take, whatever code it is recorded with.\<close>

definition storable_failure :: "exn \<Rightarrow> bool" where
  "storable_failure x \<longleftrightarrow> retryable (exn_class x) \<and> text_storable (class_name (exn_class x)) \<and> text_storable (exn_text x)"

lemma storable_failure_recordable:
  assumes "storable_failure x"
  shows "result_recordable (queued_code rc m) (Weather_Failed x) d"
  using assms
  by (auto simp: storable_failure_def result_recordable_def queued_code_def failure_recordable_def text_storable_def
      dest!: in_set_takeD)

text \<open>Between two deliveries of the message: n attempts, the last failed retryably.\<close>

definition retrying :: "row_id \<Rightarrow> string \<Rightarrow> nat \<Rightarrow> db \<Rightarrow> bool" where
  "retrying i z n d \<longleftrightarrow> wf_db d \<and> length (attempts_of i d) = n \<and> retry_marked (last (attempts_of i d)) \<and>
     (\<exists>e. get_event i d = Some e \<and> ev_status e = E_PROCESSING \<and> ev_zip_code e = z)"

definition given_up :: "row_id \<Rightarrow> nat \<Rightarrow> db \<Rightarrow> bool" where
  "given_up i n d \<longleftrightarrow> wf_db d \<and> length (attempts_of i d) = n \<and>
     at_status (last (attempts_of i d)) = A_FAILED \<and>
     starts_with ''RetryExhausted:'' (at_error_code (last (attempts_of i d))) \<and>
     (\<exists>e. get_event i d = Some e \<and> ev_status e = E_FAILED)"

lemma retry_once:
  assumes wf: "wf_db d" and held: "holds_claim c d" and i: "ev_id (cl_event c) = i"
    and n: "length (attempts_of i d) = Suc n" and z: "ev_zip_code (cl_event c) = z"
    and w: "env_weather env z = Inl x" "storable_failure x"
    and fin: "finish_queued rc m clk c r calls d = (q, d', calls)" and r: "attempt_delivery env c = (r, calls)"
  shows "q = Inr RETRY \<and> calls = [Weather_Lookup z] \<and>
    (if rc < m then retrying i z (Suc n) d' else given_up i (Suc n) d')"
proof -
  have r': "r = Weather_Failed x" "calls = [Weather_Lookup z]"
    using r w(1) z by (auto simp: attempt_delivery_def Let_def)
  note ok = storable_failure_recordable [OF w(2), of rc m d]
  show ?thesis
    using wf held fin
  proof (cases rule: finish_cases)
    case (exhausted y)
    have "starts_with ''RetryExhausted:'' (take 64 (''RetryExhausted:'' @ class_name (exn_class y)))"
      by (rule starts_with_take) simp
    with exhausted r' i n show ?thesis
      by (auto simp: given_up_def ended_failed_def closed_with_def)
  next
    case (retried y)
    have "starts_with ''QueueRetryable:'' (take 64 (''QueueRetryable:'' @ class_name (exn_class y)))"
      by (rule starts_with_take) simp
    with retried r' i n z held show ?thesis
      by (auto simp: retrying_def closed_with_def retry_marked_def holds_claim_def)
  qed (use r' w(2) ok in \<open>auto simp: storable_failure_def\<close>)
qed

lemma first_delivery_retries:
  assumes wf: "wf_db d" and e: "get_event i d = Some e" "ev_status e = E_SCHEDULED"
    and due: "ev_scheduled_for e \<le> t" "t - grace \<le> ev_scheduled_for e" "ev_is_demo e \<or> allow"
    and args: "0 \<le> grace" "in_datetime_range (t - grace)" "1 \<le> m"
    and w: "env_weather env (ev_zip_code e) = Inl x" "storable_failure x"
    and run: "process_queued_delivery i 1 m env (Some t) grace allow clk d = (q, d', calls)"
  shows "q = Inr RETRY \<and> calls = [Weather_Lookup (ev_zip_code e)] \<and>
    (if 1 < m then retrying i (ev_zip_code e) 1 d' else given_up i 1 d')"
proof -
  have dec: "decide_queued t grace allow (get_event i d) (attempts_of i d) = D_Claim"
    using e due by (auto simp: decide_queued_def)
  have none: "attempts_of i d = []" using wf_db_attempts_ok [OF wf e(1)] e(2) by (simp add: attempts_ok_def)
  show ?thesis
    using wf run
  proof (cases rule: process_cases)
    case (refused y)
    then show ?thesis
      using claim_queued_implements [OF wf args(1) disjI1 [OF args(2)], of i allow "\<lambda>n. clk (n + 1)"] args(3)
      by simp
  next
    case (answered a)
    then show ?thesis using dec by (simp add: implements_decision_def)
  next
    case (tried c r d1)
    have c: "claim_of t (e, cl_to c) c"
      using tried(5) dec e(1) by (auto simp: implements_decision_def proceed_def claim_of_def)
    have zip: "ev_zip_code (cl_event c) = ev_zip_code e" using c by (auto simp: claim_of_def)
    have "numbered (attempts_of i d1)"
      using wf_db_attempts_ok [OF tried(1), of i] tried(3,4) by (auto simp: holds_claim_def attempts_ok_def)
    then have "length (attempts_of i d1) = Suc 0"
      using numbered_last [of "attempts_of i d1"] tried(3,4) c by (auto simp: holds_claim_def claim_of_def)
    from retry_once [OF tried(1,3,4) this zip w tried(7,6)] show ?thesis by simp
  qed
qed

lemma next_delivery_retries:
  assumes st: "retrying i z n d" and args: "0 \<le> grace" "1 \<le> rc" "1 \<le> m"
    and w: "env_weather env z = Inl x" "storable_failure x"
    and run: "process_queued_delivery i rc m env (Some t) grace allow clk d = (q, d', calls)"
  shows "q = Inr RETRY \<and> calls = [Weather_Lookup z] \<and>
    (if rc < m then retrying i z (Suc n) d' else given_up i (Suc n) d')"
proof -
  from st obtain e where wf: "wf_db d" and len: "length (attempts_of i d) = n"
    and marked: "retry_marked (last (attempts_of i d))"
    and e: "get_event i d = Some e" "ev_status e = E_PROCESSING" "ev_zip_code e = z"
    by (auto simp: retrying_def)
  have dec: "decide_queued t grace allow (get_event i d) (attempts_of i d) = D_Reclaim"
    using e marked by (simp add: decide_queued_def)
  have nc: "\<not> claimable t allow (get_event i d)" using e by (simp add: claimable_def)
  show ?thesis
    using wf run
  proof (cases rule: process_cases)
    case (refused y)
    then show ?thesis
      using claim_queued_implements [OF wf args(1) disjI2 [OF nc], of "\<lambda>n. clk (n + 1)"] args(2,3)
      by simp
  next
    case (answered a)
    then show ?thesis using dec by (simp add: implements_decision_def)
  next
    case (tried c r d1)
    have c: "cl_event c = e" "length (attempts_of i d1) = Suc n"
      using tried(5) dec e(1) len by (auto simp: implements_decision_def proceed_def)
    have zip: "ev_zip_code (cl_event c) = z" using c e(3) by simp
    from retry_once [OF tried(1,3,4) c(2) zip w tried(7,6)] show ?thesis by simp
  qed
qed

lemma redeliveries_retry:
  assumes wf: "wf_db d" and e: "get_event i d = Some e" "ev_status e = E_SCHEDULED"
    and due: "ev_scheduled_for e \<le> nows 0" "nows 0 - grace \<le> ev_scheduled_for e" "ev_is_demo e \<or> allow"
    and args: "0 \<le> grace" "in_datetime_range (nows 0 - grace)"
    and w: "\<And>k. k < m \<Longrightarrow> \<exists>x. env_weather (envs k) (ev_zip_code e) = Inl x \<and> storable_failure x"
    and run: "redeliveries i (int m) envs nows grace allow clks (Suc n) d = (qs, d', calls)" and n: "n < m"
  shows "qs = replicate (Suc n) (Inr RETRY) \<and> calls = replicate (Suc n) (Weather_Lookup (ev_zip_code e)) \<and>
    (if Suc n < m then retrying i (ev_zip_code e) (Suc n) d' else given_up i (Suc n) d')"
  using run n
proof (induction n arbitrary: qs d' calls)
  case 0
  obtain x where x: "env_weather (envs 0) (ev_zip_code e) = Inl x" "storable_failure x"
    using w [of 0] 0 by auto
  obtain q where run1: "process_queued_delivery i 1 (int m) (envs 0) (Some (nows 0)) grace allow (clks 0) d =
      (q, d', calls)" "qs = [q]"
    using 0(1) by (auto split: prod.splits)
  have "1 \<le> int m" using 0(2) by simp
  from first_delivery_retries [OF wf e due args this x run1(1)] run1(2) show ?case by (simp split: if_splits)
next
  case (Suc n)
  obtain x where x: "env_weather (envs (Suc n)) (ev_zip_code e) = Inl x" "storable_failure x"
    using w [of "Suc n"] Suc.prems(2) by auto
  obtain qs1 d1 calls1 where run1: "redeliveries i (int m) envs nows grace allow clks (Suc n) d = (qs1, d1, calls1)"
    by (metis prod_cases3)
  obtain q calls2 where run2: "process_queued_delivery i (int (Suc (Suc n))) (int m) (envs (Suc n))
      (Some (nows (Suc n))) grace allow (clks (Suc n)) d1 = (q, d', calls2)"
    and res: "qs = qs1 @ [q]" "calls = calls1 @ calls2"
    using Suc.prems(1) run1 unfolding redeliveries.simps(2) [of _ _ _ _ _ _ _ "Suc n"]
    by (auto split: prod.splits)
  have IH: "qs1 = replicate (Suc n) (Inr RETRY)" "calls1 = replicate (Suc n) (Weather_Lookup (ev_zip_code e))"
    "retrying i (ev_zip_code e) (Suc n) d1"
    using Suc.IH [OF run1] Suc.prems(2) by simp_all
  have pos: "1 \<le> int (Suc (Suc n))" "1 \<le> int m" using Suc.prems(2) by simp_all
  from next_delivery_retries [OF IH(3) args(1) pos x run2]
  have "q = Inr RETRY" "calls2 = [Weather_Lookup (ev_zip_code e)]"
    "if int (Suc (Suc n)) < int m then retrying i (ev_zip_code e) (Suc (Suc n)) d'
     else given_up i (Suc (Suc n)) d'" by simp_all
  with IH res show ?case by (simp add: replicate_append_same split: if_splits)
qed

text \<open>After the last receive: the event stays failed, and the message is asked for again for good.\<close>

lemma given_up_retries:
  assumes gone: "given_up i n d" and args: "1 \<le> rc" "1 \<le> m" "0 \<le> grace"
  shows "process_queued_delivery i rc m env now grace allow clk d = (Inr RETRY, d, [])"
proof -
  obtain q d' calls where run: "process_queued_delivery i rc m env now grace allow clk d = (q, d', calls)"
    by (metis prod_cases3)
  from gone obtain e where wf: "wf_db d" and e: "get_event i d = Some e" "ev_status e = E_FAILED"
    and mark: "starts_with ''RetryExhausted:'' (at_error_code (last (attempts_of i d)))"
    by (auto simp: given_up_def)
  have dec: "decide_queued (or_now now (clk 0)) grace allow (get_event i d) (attempts_of i d) = D_Retry"
    using e mark by (simp add: decide_queued_def)
  have nc: "\<not> claimable (or_now now (clk 0)) allow (get_event i d)" using e by (simp add: claimable_def)
  have "q = Inr RETRY \<and> d' = d \<and> calls = []"
    using wf run
  proof (cases rule: process_cases)
    case (refused x)
    then show ?thesis
      using claim_queued_implements [OF wf args(3) disjI2 [OF nc], of "\<lambda>n. clk (n + 1)"] args(1,2) by simp
  next
    case (answered a)
    then show ?thesis using dec by (auto simp: implements_decision_def)
  next
    case (tried c r d1)
    then show ?thesis using dec by (simp add: implements_decision_def)
  qed
  with run show ?thesis by simp
qed

text \<open>C10. When the weather provider keeps failing retryably (with failures the columns take), the worker's own
  retries end: in m receives each receive makes one lookup and no send and asks for the message again, the
  last one too; the attempts are numbered 1 to m, each recorded as failed, and the last receive records
  the event as failed with the exhaustion mark. From then on the message is only ever asked for again,
  with no call and no change, so that the queue's own receive limit moves it to the dead-letter
  queue.\<close>

theorem retries_are_exhausted:
  assumes "wf_db d" and "get_event i d = Some e" and "ev_status e = E_SCHEDULED"
    and "ev_scheduled_for e \<le> nows 0" and "nows 0 - grace \<le> ev_scheduled_for e"
    and "ev_is_demo e \<or> allow" and "0 \<le> grace" and "in_datetime_range (nows 0 - grace)" and "0 < m"
    and "\<forall>k < m. \<exists>x. env_weather (envs k) (ev_zip_code e) = Inl x \<and> storable_failure x"
    and "redeliveries i (int m) envs nows grace allow clks m d = (qs, d', calls)"
  shows "qs = replicate m (Inr RETRY) \<and> calls = replicate m (Weather_Lookup (ev_zip_code e)) \<and> wf_db d' \<and>
    map at_attempt_number (attempts_of i d') = map int [1..<Suc m] \<and>
    (\<forall>a \<in> set (attempts_of i d'). at_status a = A_FAILED) \<and>
    starts_with ''RetryExhausted:'' (at_error_code (last (attempts_of i d'))) \<and>
    (\<exists>e'. get_event i d' = Some e' \<and> ev_status e' = E_FAILED) \<and>
    (\<forall>rc env now grace' allow' clk. 1 \<le> rc \<and> 0 \<le> grace' \<longrightarrow>
       process_queued_delivery i rc (int m) env now grace' allow' clk d' = (Inr RETRY, d', []))"
proof -
  obtain k where m: "m = Suc k" using assms(9) by (cases m) simp_all
  have w: "\<And>k. k < m \<Longrightarrow> \<exists>x. env_weather (envs k) (ev_zip_code e) = Inl x \<and> storable_failure x"
    using assms(10) by blast
  have res: "qs = replicate m (Inr RETRY)" "calls = replicate m (Weather_Lookup (ev_zip_code e))" "given_up i m d'"
    using redeliveries_retry [where nows = nows and grace = grace and envs = envs and m = m and n = k,
        OF assms(1-8) w] assms(11) m by simp_all
  then obtain e' where e': "get_event i d' = Some e'" "ev_status e' = E_FAILED" and wf: "wf_db d'"
    and len: "length (attempts_of i d') = m" by (auto simp: given_up_def)
  have ok: "attempts_ok E_FAILED (attempts_of i d')" using wf_db_attempts_ok [OF wf e'(1)] e'(2) by simp
  have "\<forall>a \<in> set (attempts_of i d'). at_status a = A_FAILED"
    by (rule all_butlast_last)
      (use ok res(3) in \<open>auto simp: attempts_ok_def retry_marked_def given_up_def\<close>)
  moreover have "1 \<le> int m" using assms(9) by simp
  ultimately show ?thesis
    using res wf e' ok len given_up_retries [OF res(3)] by (auto simp: attempts_ok_def numbered_def given_up_def)
qed

lemma retries_are_exhausted_witness:
  "\<exists>qs d' calls. redeliveries 1 (int 3)
      (\<lambda>_. \<lparr>env_weather = (\<lambda>z. Inl (raise (WeatherExn WeatherProviderTimeout) '''')), env_message_sender = None,
        env_demo_sender = None\<rparr>) (\<lambda>k. seconds (1000 + 60 * int k)) DEFAULT_GRACE_PERIOD False (\<lambda>_ n. int n) 3
      sample_db = (qs, d', calls) \<and> qs = replicate 3 (Inr RETRY)"
proof -
  let ?envs = "\<lambda>_ :: nat. \<lparr>env_weather = (\<lambda>z. Inl (raise (WeatherExn WeatherProviderTimeout) '''')),
    env_message_sender = None, env_demo_sender = None\<rparr>"
  let ?nows = "\<lambda>k. seconds (1000 + 60 * int k)"
  obtain qs d' calls where run: "redeliveries 1 (int 3) ?envs ?nows DEFAULT_GRACE_PERIOD False (\<lambda>_ n. int n) 3
      sample_db = (qs, d', calls)" by (metis prod_cases3)
  have storable: "storable_failure (raise (WeatherExn WeatherProviderTimeout) '''')"
    by (simp add: storable_failure_def text_storable_def)
  have "qs = replicate 3 (Inr RETRY)"
    using retries_are_exhausted [OF wf_sample_db sample_events(1), of ?nows DEFAULT_GRACE_PERIOD False 3 ?envs
        "\<lambda>_ n. int n" qs d' calls] run storable
    by (simp add: sample_demo_def DEFAULT_GRACE_PERIOD_def in_datetime_range_def MAX_DATETIME_def)
  with run show ?thesis by blast
qed

end
