(* ===== verification/Voice_Callbacks.thy ===== *)
theory Voice_Callbacks
  imports Delivery_Claims
begin

text \<open>
  The voice callbacks of \<open>apps/delivery/services.py\<close>: \<open>record_voice_status_callback\<close> advances the
  provider status of a submitted voice attempt, \<open>apply_voice_menu_action\<close> applies the digit its
  recipient pressed to their next pending event, once. Both are one transaction.
\<close>

section \<open>Operations\<close>

text \<open>
  \<open>DeliveryAttempt.objects.get(provider_sid=..., event__channel=VOICE, status=SUBMITTED)\<close>; the
  column \<open>provider_sid\<close> is unique, so there is at most one. PostgreSQL refuses a NUL in the parameter.
\<close>

definition submitted_voice :: "string \<Rightarrow> db \<Rightarrow> delivery_attempt \<Rightarrow> bool" where
  "submitted_voice provider_sid d a \<longleftrightarrow>
     at_provider_sid a = Some provider_sid \<and> at_status a = A_SUBMITTED \<and>
     (case get_event (at_event a) d of None \<Rightarrow> False | Some e \<Rightarrow> ev_channel e = VOICE)"

definition get_voice_attempt :: "string \<Rightarrow> db \<Rightarrow> exn + delivery_attempt" where
  "get_voice_attempt provider_sid d =
     bind_res (require (text_storable provider_sid) nul_refused) (\<lambda>_.
     or_raise (find (submitted_voice provider_sid d) (rows (db_attempts d)))
       (raise DeliveryAttemptNotFound ''No submitted voice attempt matches this provider identifier.''))"

text \<open>\<open>PositiveIntegerField\<close> holds values up to this one.\<close>

definition MAX_POSITIVE_INTEGER :: int where
  "MAX_POSITIVE_INTEGER = 2147483647"

record provider_status_update =
  psu_attempt :: delivery_attempt
  psu_applied :: bool

definition record_voice_status_callback ::
  "string \<Rightarrow> string \<Rightarrow> int \<Rightarrow> time option \<Rightarrow> clock \<Rightarrow> provider_status_update transaction" where
  "record_voice_status_callback provider_sid provider_status sequence_number received_at clk d =
     bind_res (require (starts_with ''CA'' provider_sid)
       (raise ValidationError ''A Twilio Call SID is required.'')) (\<lambda>_.
     bind_res (get_voice_attempt provider_sid d) (\<lambda>attempt.
     bind_res (apply_provider_status provider_status sequence_number (or_now received_at (clk 0)) attempt)
       (\<lambda>(attempt, applied).
         if applied
         then bind_res (require (sequence_number \<le> MAX_POSITIVE_INTEGER)
                (raise DataError ''integer out of range'')) (\<lambda>_.
              Inr (\<lparr>psu_attempt = attempt, psu_applied = True\<rparr>,
                save_attempt [G_provider_status, G_provider_status_sequence,
                  G_provider_status_updated_at] attempt d))
         else Inr (\<lparr>psu_attempt = attempt, psu_applied = False\<rparr>, d))))"

record voice_menu_action_result =
  vma_attempt :: delivery_attempt
  vma_outcome :: voice_action_result
  vma_target_event_id :: "row_id option"
  vma_applied :: bool

text \<open>
  Clock readings: 0 is the cancellation time, 1 and 2 those of the called service, 3 the completion
  time of the action.
\<close>

definition apply_voice_menu_action ::
  "string \<Rightarrow> string \<Rightarrow> time option \<Rightarrow> clock \<Rightarrow> voice_menu_action_result transaction" where
  "apply_voice_menu_action provider_sid digit completed_at clk d =
     bind_res (require (digit \<in> {''1'', ''2''})
       (field_error ValidationError ''digit'' ''Select a supported voice menu option.'')) (\<lambda>_.
     bind_res (get_voice_attempt provider_sid d) (\<lambda>attempt.
     bind_res (or_raise (get_event (at_event attempt) d) event_missing) (\<lambda>event.
     case at_voice_action_result attempt of
       Some outcome \<Rightarrow>
         Inr (\<lparr>vma_attempt = attempt, vma_outcome = outcome,
               vma_target_event_id = at_voice_action_target_event_id attempt, vma_applied = False\<rparr>, d)
     | None \<Rightarrow>
         bind_res
           (case next_pending_event (ev_user event) d of
              None \<Rightarrow> Inr ((V_NO_PENDING_EVENT, None), d)
            | Some target \<Rightarrow>
                if digit = ''1''
                then bind_res (cancel_user_scheduled_event (ev_id target) (ev_user event)
                         (Some (or_now completed_at (clk 0))) (\<lambda>n. clk (n + 1)) d) (\<lambda>(_, d).
                       Inr ((V_CANCELLED, Some (ev_id target)), d))
                else bind_res (change_user_scheduled_event_channel (ev_id target) (ev_user event)
                         (channel_value SMS) (\<lambda>n. clk (n + 1)) d) (\<lambda>(_, d).
                       Inr ((V_SWITCHED_TO_SMS, Some (ev_id target)), d)))
           (\<lambda>((outcome, target_event_id), d).
             let attempt = attempt\<lparr>at_voice_action_digit := digit,
                   at_voice_action_result := Some outcome,
                   at_voice_action_target_event_id := target_event_id,
                   at_voice_action_completed_at := Some (or_now completed_at (clk 3))\<rparr>
             in Inr (\<lparr>vma_attempt = attempt, vma_outcome = outcome,
                      vma_target_event_id = target_event_id, vma_applied = True\<rparr>,
                  save_attempt [G_voice_action_digit, G_voice_action_result,
                    G_voice_action_target_event_id, G_voice_action_completed_at] attempt d)))))"

section \<open>Looking up the attempt\<close>

lemma get_voice_attempt_Inr:
  assumes "get_voice_attempt sid d = Inr a"
  shows "a \<in> set (rows (db_attempts d))" and "at_provider_sid a = Some sid" and "at_status a = A_SUBMITTED"
    and "\<exists>e. get_event (at_event a) d = Some e \<and> ev_channel e = VOICE" and "text_storable sid"
proof -
  from assms show "text_storable sid" by (simp add: get_voice_attempt_def)
  from assms have "find (submitted_voice sid d) (rows (db_attempts d)) = Some a"
    by (simp add: get_voice_attempt_def)
  then have "a \<in> set (rows (db_attempts d))" and s: "submitted_voice sid d a"
    by (auto simp: find_Some_iff)
  then show "a \<in> set (rows (db_attempts d))" by simp
  from s show "at_provider_sid a = Some sid" "at_status a = A_SUBMITTED"
    "\<exists>e. get_event (at_event a) d = Some e \<and> ev_channel e = VOICE"
    by (auto simp: submitted_voice_def split: option.splits)
qed

text \<open>Two rows with the same non-null value of a unique column are the same row.\<close>

lemma unique_on_eq:
  assumes "unique_on k rs" and "x \<in> set rs" and "y \<in> set rs" and "k x = Some v" and "k y = Some v"
  shows "x = y"
  using assms by (induction rs) auto

lemma get_voice_attempt_unique:
  assumes "wf_db d" and "a \<in> set (rows (db_attempts d))" and "submitted_voice sid d a" and "text_storable sid"
  shows "get_voice_attempt sid d = Inr a"
proof -
  from assms(2,3) obtain b where b: "find (submitted_voice sid d) (rows (db_attempts d)) = Some b"
    by (metis find_None_iff not_None_eq)
  then have "b \<in> set (rows (db_attempts d))" "submitted_voice sid d b" by (auto simp: find_Some_iff)
  then have "b = a"
    using unique_on_eq [of at_provider_sid "rows (db_attempts d)" b a sid] assms
    by (simp add: wf_db_def submitted_voice_def)
  with b assms(4) show ?thesis by (simp add: get_voice_attempt_def bind_require)
qed

text \<open>
  A save that leaves the columns the lookup reads: the same attempt is found afterwards, updated.
\<close>

lemma get_voice_attempt_save:
  assumes wf: "wf_db d'" and found: "get_voice_attempt sid d = Inr a"
    and row: "get_attempt (at_id a) d' = Some b"
    and same: "at_provider_sid b = at_provider_sid a" "at_status b = at_status a" "at_event b = at_event a"
    and event: "get_event (at_event a) d' = get_event (at_event a) d"
  shows "get_voice_attempt sid d' = Inr b"
proof (rule get_voice_attempt_unique [OF wf])
  show "b \<in> set (rows (db_attempts d'))" using row by (rule get_attempt_member)
  show "submitted_voice sid d' b"
    using get_voice_attempt_Inr [OF found] same event by (auto simp: submitted_voice_def)
  show "text_storable sid" by (rule get_voice_attempt_Inr(5) [OF found])
qed

text \<open>Writing columns of a submitted attempt that the invariant does not read keeps the invariant.\<close>

lemma wf_save_submitted:
  assumes wf: "wf_db d" and a: "get_attempt j d = Some a" and st: "at_status a = A_SUBMITTED"
    and g: "\<And>r. at_id (g r) = at_id r" "\<And>r. at_event (g r) = at_event r"
      "\<And>r. at_provider_sid (g r) = at_provider_sid r"
      "at_attempt_number (g a) = at_attempt_number a" "at_status (g a) = at_status a"
      "at_completed_at (g a) = at_completed_at a"
  shows "wf_db (put_attempt j g d)"
proof -
  obtain e where e: "get_event (at_event a) d = Some e" by (rule wf_attempt_event [OF wf a])
  let ?i = "at_event a"
  have ok: "attempts_ok (ev_status e) (attempts_of ?i d)" by (rule wf_db_attempts_ok [OF wf e])
  have mem: "a \<in> set (attempts_of ?i d)" using get_attempt_member [OF a] by (simp add: attempts_of_member)
  have "a \<notin> set (butlast (attempts_of ?i d))"
    using ok st by (auto simp: attempts_ok_def retry_marked_def)
  then have last: "attempts_of ?i d \<noteq> []" "last (attempts_of ?i d) = a"
    using mem by (cases "attempts_of ?i d" rule: rev_cases; auto)+
  have "event_status_of A_SUBMITTED = ev_status e"
    using ok last st by (cases "ev_status e") (auto simp: attempts_ok_def retry_marked_def)
  moreover have "wf_attempt a" using ok last(1) mem by (simp add: attempts_ok_def)
  moreover have "wf_event e" by (rule wf_db_wf_event [OF wf e])
  ultimately have "wf_db (put_event ?i (\<lambda>r. r) (put_attempt j g d))"
    using g st by (intro wf_db_set_last [OF wf e a last]) (auto simp: wf_attempt_def)
  then show ?thesis by simp
qed

section \<open>Status callbacks\<close>

text \<open>The attempt after an applied status update.\<close>

definition with_provider_status :: "provider_status \<Rightarrow> int \<Rightarrow> time \<Rightarrow> delivery_attempt \<Rightarrow> delivery_attempt" where
  "with_provider_status p n t a = a\<lparr>at_provider_status := Some p,
     at_provider_status_sequence := Some n, at_provider_status_updated_at := Some t\<rparr>"

lemma with_provider_status_simps [simp]:
  "at_id (with_provider_status p n t a) = at_id a" "at_event (with_provider_status p n t a) = at_event a"
  "at_provider_sid (with_provider_status p n t a) = at_provider_sid a"
  "at_status (with_provider_status p n t a) = at_status a"
  "at_completed_at (with_provider_status p n t a) = at_completed_at a"
  "at_attempt_number (with_provider_status p n t a) = at_attempt_number a"
  "at_provider_status (with_provider_status p n t a) = Some p"
  "at_provider_status_sequence (with_provider_status p n t a) = Some n"
  by (simp_all add: with_provider_status_def)

lemma write_provider_status:
  "write_attempt_fields [G_provider_status, G_provider_status_sequence, G_provider_status_updated_at]
     (with_provider_status p n t a) r =
   r\<lparr>at_provider_status := Some p, at_provider_status_sequence := Some n,
     at_provider_status_updated_at := Some t\<rparr>"
  by (cases r) (simp add: write_attempt_fields_def with_provider_status_def)

text \<open>Whether an update with this sequence number still counts.\<close>

definition status_open :: "int \<Rightarrow> delivery_attempt \<Rightarrow> bool" where
  "status_open n a \<longleftrightarrow>
     (\<forall>q. at_provider_status a = Some q \<longrightarrow> q \<notin> TERMINAL_PROVIDER_STATUSES) \<and>
     (\<forall>old. at_provider_status_sequence a = Some old \<longrightarrow> old < n)"

lemma apply_provider_status_Inr_iff:
  "apply_provider_status s n t a = Inr (a', applied) \<longleftrightarrow>
    (\<exists>p. provider_status_of s = Some p \<and> 0 \<le> n \<and>
      applied = status_open n a \<and> a' = (if status_open n a then with_provider_status p n t a else a))"
proof -
  have "status_open n a \<longleftrightarrow>
      \<not> (case at_provider_status a of None \<Rightarrow> False | Some q \<Rightarrow> q \<in> TERMINAL_PROVIDER_STATUSES) \<and>
      \<not> (case at_provider_status_sequence a of None \<Rightarrow> False | Some old \<Rightarrow> n \<le> old)"
    by (auto simp: status_open_def not_le split: option.splits)
  then show ?thesis
    by (auto simp: apply_provider_status_def with_provider_status_def split: option.splits)
qed

lemma status_callback_Inr:
  assumes "record_voice_status_callback sid s n t clk d = Inr (u, d')"
  obtains a p where "get_voice_attempt sid d = Inr a" "provider_status_of s = Some p" "0 \<le> n"
    "starts_with ''CA'' sid" "psu_applied u = status_open n a"
    "psu_attempt u = (if status_open n a then with_provider_status p n (or_now t (clk 0)) a else a)"
    "status_open n a \<longrightarrow> n \<le> MAX_POSITIVE_INTEGER"
    "d' = (if status_open n a then put_attempt (at_id a)
       (\<lambda>r. r\<lparr>at_provider_status := Some p, at_provider_status_sequence := Some n,
          at_provider_status_updated_at := Some (or_now t (clk 0))\<rparr>) d else d)"
proof -
  from assms obtain a a' applied where a: "get_voice_attempt sid d = Inr a" "starts_with ''CA'' sid"
    and app: "apply_provider_status s n (or_now t (clk 0)) a = Inr (a', applied)"
    and res: "if applied
         then bind_res (require (n \<le> MAX_POSITIVE_INTEGER) (raise DataError ''integer out of range'')) (\<lambda>_.
              Inr (\<lparr>psu_attempt = a', psu_applied = True\<rparr>,
                save_attempt [G_provider_status, G_provider_status_sequence,
                  G_provider_status_updated_at] a' d)) = Inr (u, d')
         else Inr (\<lparr>psu_attempt = a', psu_applied = False\<rparr>, d) = (Inr (u, d') :: exn + _)"
    by (auto simp: record_voice_status_callback_def split: if_splits)
  from app obtain p where "provider_status_of s = Some p" "0 \<le> n" "applied = status_open n a"
    "a' = (if status_open n a then with_provider_status p n (or_now t (clk 0)) a else a)"
    unfolding apply_provider_status_Inr_iff by blast
  moreover have "write_attempt_fields [G_provider_status, G_provider_status_sequence, G_provider_status_updated_at]
      (with_provider_status p n (or_now t (clk 0)) a) =
      (\<lambda>r. r\<lparr>at_provider_status := Some p, at_provider_status_sequence := Some n,
          at_provider_status_updated_at := Some (or_now t (clk 0))\<rparr>)"
    by (rule ext) (rule write_provider_status)
  ultimately show thesis
    using a res by (intro that [of a p]) (auto simp: save_attempt_def split: if_splits)
qed

lemma get_voice_attempt_row: "wf_db d \<Longrightarrow> get_voice_attempt sid d = Inr a \<Longrightarrow> get_attempt (at_id a) d = Some a"
  using get_voice_attempt_Inr(1) wf_get_attempt_of_member by blast

lemma status_callback_wf:
  assumes "wf_db d" and "record_voice_status_callback sid s n t clk d = Inr (u, d')"
  shows "wf_db d'"
  using assms(2)
proof (cases rule: status_callback_Inr)
  case (1 a p)
  then show ?thesis
    using assms(1) get_voice_attempt_Inr(3) [OF 1(1)] get_voice_attempt_row [OF assms(1) 1(1)]
    by (auto intro!: wf_save_submitted)
qed

text \<open>After a successful callback the lookup finds the attempt it returned.\<close>

lemma status_callback_again:
  assumes wf: "wf_db d" and ok: "record_voice_status_callback sid s n t clk d = Inr (u, d')"
  shows "get_voice_attempt sid d' = Inr (psu_attempt u)"
  using ok
proof (cases rule: status_callback_Inr)
  case (1 a p)
  show ?thesis
  proof (cases "status_open n a")
    case True
    have wf': "wf_db d'" using status_callback_wf [OF wf ok] .
    have "with_provider_status p n (or_now t (clk 0)) a = a\<lparr>at_provider_status := Some p,
        at_provider_status_sequence := Some n, at_provider_status_updated_at := Some (or_now t (clk 0))\<rparr>"
      by (simp add: with_provider_status_def)
    then have row: "get_attempt (at_id a) d' = Some (with_provider_status p n (or_now t (clk 0)) a)"
      using 1 True get_voice_attempt_row [OF wf 1(1)] by (simp add: attempts.get_put)
    from get_voice_attempt_save [OF wf' 1(1) row] 1 True show ?thesis by simp
  qed (use 1 in simp)
qed

section \<open>Menu actions\<close>

lemma next_pending_get:
  assumes "wf_db d" and "next_pending_event user d = Some target"
  shows "get_event (ev_id target) d = Some target"
  using wf_get_event_of_member [OF assms(1)] next_pending_event_SomeD [OF assms(2)] by blast

lemma change_channel_pending:
  assumes "get_event i d = Some e" and "ev_user e = user" and "ev_status e = E_SCHEDULED"
  shows "change_user_scheduled_event_channel i user (channel_value SMS) clk d =
    Inr (save_event [F_channel, F_updated_at] (clk 1) (e\<lparr>ev_channel := SMS\<rparr>) d)"
  using assms by (simp add: change_user_scheduled_event_channel_def get_user_event_def
      require_scheduled_def require_def channel_of_def)

lemma cancel_pending:
  assumes "get_event i d = Some e" and "ev_user e = user" and "ev_status e = E_SCHEDULED"
  shows "\<exists>r. cancel_user_scheduled_event i user t clk d = Inr r"
  using assms cancel_locked_event_Inr [OF assms(1,3)]
  by (simp add: cancel_user_scheduled_event_def get_user_event_def)

text \<open>
  What a menu action did to the pending events of the attempt's owner: nothing if there was none,
  otherwise one change of the earliest.
\<close>

definition menu_change :: "string \<Rightarrow> row_id \<Rightarrow> time option \<Rightarrow> clock \<Rightarrow> db \<Rightarrow> voice_action_result \<Rightarrow> row_id option \<Rightarrow> db \<Rightarrow> bool" where
  "menu_change digit user completed_at clk d outcome target d1 \<longleftrightarrow>
     (case next_pending_event user d of
        None \<Rightarrow> outcome = V_NO_PENDING_EVENT \<and> target = None \<and> d1 = d
      | Some e \<Rightarrow> target = Some (ev_id e) \<and>
          (if digit = ''1''
           then outcome = V_CANCELLED \<and> (\<exists>r. cancel_user_scheduled_event (ev_id e) user
             (Some (or_now completed_at (clk 0))) (\<lambda>n. clk (n + 1)) d = Inr (r, d1))
           else outcome = V_SWITCHED_TO_SMS \<and> (\<exists>r. change_user_scheduled_event_channel (ev_id e) user
             (channel_value SMS) (\<lambda>n. clk (n + 1)) d = Inr (r, d1))))"

lemma menu_change_exists:
  assumes "wf_db d"
  shows "\<exists>outcome target d1. menu_change digit user t clk d outcome target d1"
proof (cases "next_pending_event user d")
  case None
  then show ?thesis by (simp add: menu_change_def)
next
  case (Some e)
  note e = next_pending_get [OF assms Some] next_pending_event_SomeD(2,3) [OF Some]
  have "\<exists>outcome d1. menu_change digit user t clk d outcome (Some (ev_id e)) d1"
    using cancel_pending [OF e, of "Some (or_now t (clk 0))" "\<lambda>n. clk (n + 1)"]
      change_channel_pending [OF e, of "\<lambda>n. clk (n + 1)"] Some
    by (cases "digit = ''1''") (auto simp: menu_change_def save_event_def)
  then show ?thesis by blast
qed

definition with_voice_action ::
  "string \<Rightarrow> voice_action_result \<Rightarrow> row_id option \<Rightarrow> time \<Rightarrow> delivery_attempt \<Rightarrow> delivery_attempt" where
  "with_voice_action digit outcome target t a = a\<lparr>at_voice_action_digit := digit,
     at_voice_action_result := Some outcome, at_voice_action_target_event_id := target,
     at_voice_action_completed_at := Some t\<rparr>"

lemma with_voice_action_simps [simp]:
  "at_id (with_voice_action g out tgt t a) = at_id a" "at_event (with_voice_action g out tgt t a) = at_event a"
  "at_provider_sid (with_voice_action g out tgt t a) = at_provider_sid a"
  "at_status (with_voice_action g out tgt t a) = at_status a"
  "at_completed_at (with_voice_action g out tgt t a) = at_completed_at a"
  "at_attempt_number (with_voice_action g out tgt t a) = at_attempt_number a"
  "at_voice_action_result (with_voice_action g out tgt t a) = Some out"
  "at_voice_action_target_event_id (with_voice_action g out tgt t a) = tgt"
  by (simp_all add: with_voice_action_def)

lemma write_voice_action:
  "write_attempt_fields [G_voice_action_digit, G_voice_action_result, G_voice_action_target_event_id,
     G_voice_action_completed_at] (with_voice_action g out tgt t a) =
   with_voice_action g out tgt t"
  by (rule ext, case_tac x) (simp add: write_attempt_fields_def with_voice_action_def)

lemma menu_action_repeated:
  assumes "digit \<in> {''1'', ''2''}" and "get_voice_attempt sid d = Inr a"
    and "at_voice_action_result a = Some outcome"
  shows "apply_voice_menu_action sid digit t clk d =
    Inr (\<lparr>vma_attempt = a, vma_outcome = outcome,
      vma_target_event_id = at_voice_action_target_event_id a, vma_applied = False\<rparr>, d)"
  using assms get_voice_attempt_Inr(4) [OF assms(2)]
  by (auto simp: apply_voice_menu_action_def require_def)

lemma menu_action_first:
  assumes "digit \<in> {''1'', ''2''}" and "get_voice_attempt sid d = Inr a"
    and "at_voice_action_result a = None" and "get_event (at_event a) d = Some e"
    and "menu_change digit (ev_user e) t clk d outcome target d1"
  shows "apply_voice_menu_action sid digit t clk d =
    (let a' = with_voice_action digit outcome target (or_now t (clk 3)) a
     in Inr (\<lparr>vma_attempt = a', vma_outcome = outcome, vma_target_event_id = target, vma_applied = True\<rparr>,
          put_attempt (at_id a) (with_voice_action digit outcome target (or_now t (clk 3))) d1))"
proof -
  let ?a = "with_voice_action digit outcome target (or_now t (clk 3)) a"
  have save: "save_attempt [G_voice_action_digit, G_voice_action_result, G_voice_action_target_event_id,
      G_voice_action_completed_at] ?a d1 =
      put_attempt (at_id a) (with_voice_action digit outcome target (or_now t (clk 3))) d1"
    by (simp add: save_attempt_def write_voice_action)
  note save = save [unfolded with_voice_action_def [of _ _ _ _ a]]
  show ?thesis
  proof (cases "next_pending_event (ev_user e) d")
    case None
    with assms save show ?thesis
      by (auto simp: apply_voice_menu_action_def require_def menu_change_def Let_def
          with_voice_action_def [of _ _ _ _ a])
  next
    case (Some tgt)
    with assms save show ?thesis
      by (auto simp: apply_voice_menu_action_def require_def menu_change_def Let_def
          with_voice_action_def [of _ _ _ _ a] split: if_splits)
  qed
qed

lemma menu_change_frame:
  assumes wf: "wf_db d" and ch: "menu_change digit user t clk d outcome target d1"
  shows "wf_db d1" and "db_attempts d1 = db_attempts d" and "db_phones d1 = db_phones d"
    and "db_commands d1 = db_commands d"
    and "\<And>j. Some j \<noteq> target \<Longrightarrow> get_event j d1 = get_event j d"
proof -
  have "wf_db d1 \<and> db_attempts d1 = db_attempts d \<and> db_phones d1 = db_phones d \<and>
    db_commands d1 = db_commands d \<and> (\<forall>j. Some j \<noteq> target \<longrightarrow> get_event j d1 = get_event j d)"
  proof (cases "next_pending_event user d")
    case None
    with wf ch show ?thesis by (simp add: menu_change_def)
  next
    case (Some e)
    show ?thesis
    proof (cases "digit = ''1''")
      case True
      with Some ch obtain r where r: "cancel_user_scheduled_event (ev_id e) user
          (Some (or_now t (clk 0))) (\<lambda>n. clk (n + 1)) d = Inr (r, d1)" and "target = Some (ev_id e)"
        by (auto simp: menu_change_def)
      with wf cancelling.keeps_wf [OF wf r] cancelling.other_tables [OF r] cancelling.other_events [OF r]
      show ?thesis by auto
    next
      case False
      with Some ch obtain r where r: "change_user_scheduled_event_channel (ev_id e) user
          (channel_value SMS) (\<lambda>n. clk (n + 1)) d = Inr (r, d1)" and "target = Some (ev_id e)"
        by (auto simp: menu_change_def)
      with wf channel_change.keeps_wf [OF wf r] channel_change.other_tables [OF r]
        channel_change.other_events [OF r]
      show ?thesis by auto
    qed
  qed
  then show "wf_db d1" "db_attempts d1 = db_attempts d" "db_phones d1 = db_phones d"
    "db_commands d1 = db_commands d" "\<And>j. Some j \<noteq> target \<Longrightarrow> get_event j d1 = get_event j d"
    by blast+
qed

end
