(* ===== verification/Inbound_Sms.thy ===== *)
theory Inbound_Sms
  imports Voice_Callbacks
begin

text \<open>
  Inbound text messages of \<open>apps/delivery/services.py\<close>: \<open>_parse_inbound_sms_command\<close> and
  \<open>apply_inbound_sms_command\<close>, which applies one command per provider message to the sender's next
  pending event. \<open>datetime.fromisoformat\<close> is a parameter (\<open>None\<close> is its \<open>ValueError\<close>): the grammar
  it accepts depends on the Python version, and the service relies only on getting a value or not.
\<close>

section \<open>Parsing\<close>

type_synonym iso_parser = "string \<Rightarrow> pydatetime option"

definition parse_inbound_sms_command :: "iso_parser \<Rightarrow> string \<Rightarrow> sms_command \<times> pydatetime option" where
  "parse_inbound_sms_command fromisoformat body =
     (case partition_space (strip body) of (keyword, separator, argument) \<Rightarrow>
        let keyword = upper keyword
        in if keyword = ''STOP'' \<and> \<not> separator then (C_STOP, None)
           else if keyword = ''SMS'' \<and> \<not> separator then (C_SMS, None)
           else if keyword \<noteq> ''TIME'' \<or> \<not> separator \<or> strip argument = [] then (C_INVALID, None)
           else let raw_time = strip argument
                in if \<exists>c \<in> set raw_time. is_space c then (C_TIME, None)
                   else (C_TIME, fromisoformat raw_time))"

section \<open>Applying\<close>

record inbound_sms_command_result =
  isr_command :: inbound_sms_command
  isr_outcome :: sms_result
  isr_target_event_id :: "row_id option"
  isr_applied :: bool

text \<open>\<open>PhoneNumber.objects.filter(number=sender, verified_at__isnull=False).first()\<close>.\<close>

definition verified_sender :: "string \<Rightarrow> db \<Rightarrow> phone_number option" where
  "verified_sender sender d =
     first (order_by ph_id (filter (\<lambda>p. ph_number p = sender \<and> is_verified p) (rows (db_phones d))))"

definition find_command :: "string \<Rightarrow> db \<Rightarrow> inbound_sms_command option" where
  "find_command provider_sid d = find (\<lambda>c. cmd_provider_sid c = provider_sid) (rows (db_commands d))"

text \<open>The change a command other than INVALID makes to the sender's next pending event.\<close>

definition sms_change ::
  "sms_command \<Rightarrow> pydatetime option \<Rightarrow> row_id \<Rightarrow> row_id \<Rightarrow> time option \<Rightarrow> clock \<Rightarrow>
    scheduled_event transaction" where
  "sms_change command scheduled_for target_id user completed_at clk =
     (if command = C_STOP
      then cancel_user_scheduled_event target_id user (Some (or_now completed_at (clk 1))) (\<lambda>n. clk (n + 2))
      else if command = C_SMS
      then change_user_scheduled_event_channel target_id user (channel_value SMS) (\<lambda>n. clk (n + 2))
      else reschedule_user_scheduled_event target_id user scheduled_for None (\<lambda>n. clk (n + 2)))"

definition sms_success :: "sms_command \<Rightarrow> sms_result" where
  "sms_success command =
     (if command = C_STOP then R_CANCELLED else if command = C_SMS then R_SWITCHED_TO_SMS
      else R_RESCHEDULED)"

text \<open>
  Clock readings: 0 is the completion time a new record starts with, 1 the cancellation time, 2 and 3
  those of the called service, 4 the final completion time. The exceptions the service catches leave
  the savepoint of the nested transaction rolled back; any other one rolls everything back. The lookups of
  the identifier and of the sender raise for a NUL, the insertion for an identifier that is too long.
\<close>

definition apply_inbound_sms_command ::
  "iso_parser \<Rightarrow> string \<Rightarrow> string \<Rightarrow> string \<Rightarrow> time option \<Rightarrow> clock \<Rightarrow>
    inbound_sms_command_result transaction" where
  "apply_inbound_sms_command fromisoformat provider_sid sender body completed_at clk d =
     bind_res (require (text_storable provider_sid) nul_refused) (\<lambda>_.
      case find_command provider_sid d of
        Some command_record \<Rightarrow>
          Inr (\<lparr>isr_command = command_record, isr_outcome = cmd_result command_record,
                isr_target_event_id = cmd_target_event_id command_record, isr_applied = False\<rparr>, d)
      | None \<Rightarrow>
          bind_res (require (length provider_sid \<le> 64)
            (raise DataError ''value too long for type character varying(64)'')) (\<lambda>_.
          case insert_row (\<lambda>i. \<lparr>cmd_id = i, cmd_provider_sid = provider_sid, cmd_command = C_INVALID,
                 cmd_result = R_INVALID_COMMAND, cmd_target_event_id = None,
                 cmd_completed_at = or_now completed_at (clk 0)\<rparr>) (db_commands d) of
            (command_record, t) \<Rightarrow>
          let d = d\<lparr>db_commands := t\<rparr>;
              (command, scheduled_for) = parse_inbound_sms_command fromisoformat body
          in bind_res (require (text_storable sender) nul_refused) (\<lambda>_. bind_res
            (case verified_sender sender d of
               None \<Rightarrow> Inr ((R_UNKNOWN_SENDER, None), d)
             | Some phone \<Rightarrow>
                 if command = C_INVALID then Inr ((R_INVALID_COMMAND, None), d)
                 else if command = C_TIME \<and> scheduled_for = None then Inr ((R_INVALID_TIME, None), d)
                 else case next_pending_event (ph_user phone) d of
                   None \<Rightarrow> Inr ((R_NO_PENDING_EVENT, None), d)
                 | Some target \<Rightarrow>
                     (case sms_change command scheduled_for (ev_id target) (ph_user phone) completed_at
                             clk d of
                        Inr (_, d) \<Rightarrow> Inr ((sms_success command, Some (ev_id target)), d)
                      | Inl x \<Rightarrow>
                          if exn_class x = ScheduledEventLifecycleConflict
                          then Inr ((R_LIFECYCLE_CONFLICT, Some (ev_id target)), d)
                          else if is_validation_error (exn_class x)
                          then Inr ((R_INVALID_TIME, Some (ev_id target)), d)
                          else Inl x))
            (\<lambda>((outcome, target_event_id), d).
              let finish = (\<lambda>r. r\<lparr>cmd_command := command, cmd_result := outcome,
                    cmd_target_event_id := target_event_id,
                    cmd_completed_at := or_now completed_at (clk 4)\<rparr>)
              in Inr (\<lparr>isr_command = finish command_record, isr_outcome = outcome,
                       isr_target_event_id = target_event_id, isr_applied = True\<rparr>,
                   put_command (cmd_id command_record) finish d)))))"

section \<open>Facts about parsing\<close>

lemma strip_fixed: "s = [] \<or> (\<not> is_space (hd s) \<and> \<not> is_space (last s)) \<Longrightarrow> strip s = s"
proof -
  assume s: "s = [] \<or> (\<not> is_space (hd s) \<and> \<not> is_space (last s))"
  have drop: "dropWhile is_space t = t" if "t = [] \<or> \<not> is_space (hd t)" for t
    using that by (cases t) auto
  from s have "lstrip s = s" by (auto simp: lstrip_def drop)
  moreover from s have "dropWhile is_space (rev s) = rev s" by (intro drop) (auto simp: hd_rev)
  ultimately show ?thesis by (simp add: strip_def)
qed

lemma strip_surrounded:
  assumes "\<forall>c \<in> set u. is_space c" and "\<forall>c \<in> set v. is_space c" and "strip s = s"
  shows "strip (u @ s @ v) = s"
proof -
  have skip: "dropWhile is_space (w @ t) = dropWhile is_space t" if "\<forall>c \<in> set w. is_space c" for w t
    using that by (induction w) auto
  have empty: "strip w = []" if "\<forall>c \<in> set w. is_space c" for w
    using that by (auto simp: strip_def lstrip_def dest: set_dropWhileD)
  show ?thesis
  proof (cases s)
    case Nil
    then show ?thesis using assms empty [of "u @ v"] by auto
  next
    case (Cons c t)
    with assms(3) strip_no_space_ends [of s c t] have ends: "\<not> is_space c" "\<not> is_space (last s)" by auto
    have "lstrip (u @ s @ v) = s @ v"
      using skip [OF assms(1)] ends(1) Cons by (simp add: lstrip_def)
    moreover have "dropWhile is_space (rev v @ rev s) = rev s"
      using skip [of "rev v" "rev s"] assms(2) ends(2) Cons
      by (cases "rev s") (auto simp: hd_rev [symmetric])
    ultimately show ?thesis by (simp add: strip_def)
  qed
qed

section \<open>Facts about applying\<close>

text \<open>Whatever the command, its change of a pending event has the contract the user services have.\<close>

interpretation sms_changing: pending_change
  "\<lambda>i user. sms_change command scheduled_for i user completed_at clk"
  for command scheduled_for completed_at clk
  using cancelling.pending_change_axioms rescheduling.pending_change_axioms
    channel_change.pending_change_axioms
  by (cases "command = C_STOP"; cases "command = C_SMS") (simp_all add: sms_change_def)

text \<open>How a change of the next pending event can end.\<close>

lemma sms_change_pending:
  assumes e: "get_event i d = Some e" "ev_user e = user" "ev_status e = E_SCHEDULED"
    and c: "command \<noteq> C_INVALID" "command = C_TIME \<Longrightarrow> sf \<noteq> None"
  shows "(case sms_change command sf i user t clk d of
      Inr _ \<Rightarrow> command = C_TIME \<longrightarrow> (\<exists>w. sf = Some w \<and> dt_offset w \<noteq> None \<and> clk 2 < instant w \<and>
        in_datetime_range (instant w))
    | Inl x \<Rightarrow> command = C_TIME \<and> (\<exists>w. sf = Some w \<and>
        (if dt_offset w = None \<or> instant w \<le> clk 2 then exn_class x = ValidationError
         else exn_class x = OverflowError \<and> \<not> in_datetime_range (instant w))))"
proof (cases command)
  case C_STOP
  obtain r where "cancel_user_scheduled_event i user (Some (or_now t (clk 1))) (\<lambda>n. clk (n + 2)) d = Inr r"
    using cancel_pending [OF e] by blast
  with C_STOP show ?thesis by (simp add: sms_change_def)
next
  case C_SMS
  obtain r where "change_user_scheduled_event_channel i user (channel_value SMS) (\<lambda>n. clk (n + 2)) d = Inr r"
    using change_channel_pending [OF e] by blast
  with C_SMS show ?thesis by (simp add: sms_change_def)
next
  case C_TIME
  with c obtain w where w: "sf = Some w" by auto
  show ?thesis
    using e w C_TIME
    by (simp add: sms_change_def reschedule_user_scheduled_event_def get_user_event_def
        require_scheduled_def require_def is_naive_def astimezone_utc_def save_event_def numeral_2_eq_2)
qed (use c in simp)

lemma insert_command_simps:
  assumes "d1 = d\<lparr>db_commands := snd (insert_row mk (db_commands d))\<rparr>"
  shows "db_phones d1 = db_phones d" "db_events d1 = db_events d" "db_attempts d1 = db_attempts d"
    "rows (db_commands d1) = rows (db_commands d) @ [mk (next_id (db_commands d))]"
    "next_pending_event u d1 = next_pending_event u d" "verified_sender s d1 = verified_sender s d"
    "get_event k d1 = get_event k d" "attempts_of k d1 = attempts_of k d"
  using assms
  by (simp_all add: insert_row_simps next_pending_event_def events_where_def verified_sender_def
      get_event_def attempts_of_def)

lemma wf_insert_command:
  assumes "wf_db d" and "\<And>i. cmd_id (mk i) = i" and "\<And>i. cmd_provider_sid (mk i) = sid"
    and "find_command sid d = None"
  shows "wf_db (d\<lparr>db_commands := snd (insert_row mk (db_commands d))\<rparr>)"
proof -
  have "sid \<notin> cmd_provider_sid ` set (rows (db_commands d))"
    using assms(4) by (auto simp: find_command_def find_None_iff)
  then show ?thesis
    using assms(1-3)
    by (simp add: wf_db_def insert_row_simps wf_insert_row event_ok_def attempts_of_def)
qed

lemma wf_put_command:
  assumes "wf_db d" and "\<And>r. cmd_id (f r) = cmd_id r" and "\<And>r. cmd_provider_sid (f r) = cmd_provider_sid r"
  shows "wf_db (put_command i f d)"
proof -
  have "map cmd_provider_sid (rows (update_row cmd_id i f (db_commands d))) =
      map cmd_provider_sid (rows (db_commands d))"
    using assms(3) by (simp add: rows_update_row)
  then show ?thesis using assms(1,2) by (simp add: wf_db_def event_ok_def)
qed

text \<open>
  A new message, unfolded: what it decided, the database after the change and before the record is
  completed, and the completed record.
\<close>

definition sms_decides ::
  "sms_command \<Rightarrow> pydatetime option \<Rightarrow> string \<Rightarrow> time option \<Rightarrow> clock \<Rightarrow> db \<Rightarrow>
    sms_result \<Rightarrow> row_id option \<Rightarrow> db \<Rightarrow> bool" where
  "sms_decides command sf sender completed_at clk d outcome target d1 \<longleftrightarrow>
     (case verified_sender sender d of
        None \<Rightarrow> outcome = R_UNKNOWN_SENDER \<and> target = None \<and> d1 = d
      | Some phone \<Rightarrow>
          if command = C_INVALID then outcome = R_INVALID_COMMAND \<and> target = None \<and> d1 = d
          else if command = C_TIME \<and> sf = None then outcome = R_INVALID_TIME \<and> target = None \<and> d1 = d
          else case next_pending_event (ph_user phone) d of
            None \<Rightarrow> outcome = R_NO_PENDING_EVENT \<and> target = None \<and> d1 = d
          | Some e \<Rightarrow> target = Some (ev_id e) \<and>
              (case sms_change command sf (ev_id e) (ph_user phone) completed_at clk d of
                 Inr (_, d2) \<Rightarrow> outcome = sms_success command \<and> d1 = d2
               | Inl x \<Rightarrow> outcome = R_INVALID_TIME \<and> d1 = d \<and> exn_class x = ValidationError))"

lemma sms_decides_frame:
  assumes wf: "wf_db d" and dec: "sms_decides command sf sender t clk d outcome target d1"
  shows "wf_db d1 \<and> db_attempts d1 = db_attempts d \<and> db_phones d1 = db_phones d \<and>
    db_commands d1 = db_commands d \<and> (\<forall>j. Some j \<noteq> target \<longrightarrow> get_event j d1 = get_event j d) \<and>
    outcome \<noteq> R_LIFECYCLE_CONFLICT"
proof -
  have changed: "wf_db d2 \<and> db_attempts d2 = db_attempts d \<and> db_phones d2 = db_phones d \<and>
      db_commands d2 = db_commands d \<and> (\<forall>j. j \<noteq> i \<longrightarrow> get_event j d2 = get_event j d)"
    if r: "sms_change command sf i user t clk d = Inr (e', d2)" for i user e' d2
    using sms_changing.keeps_wf [OF wf r] sms_changing.other_tables [OF r] sms_changing.other_events [OF r]
    by blast
  show ?thesis
    using dec wf changed
    by (auto simp: sms_decides_def sms_success_def split: option.splits if_splits sum.splits prod.splits)
qed

text \<open>The record a new message starts with, and its completion.\<close>

definition new_command :: "string \<Rightarrow> time \<Rightarrow> row_id \<Rightarrow> inbound_sms_command" where
  "new_command sid t i = \<lparr>cmd_id = i, cmd_provider_sid = sid, cmd_command = C_INVALID,
     cmd_result = R_INVALID_COMMAND, cmd_target_event_id = None, cmd_completed_at = t\<rparr>"

definition completed_command ::
  "sms_command \<Rightarrow> sms_result \<Rightarrow> row_id option \<Rightarrow> time \<Rightarrow> inbound_sms_command \<Rightarrow> inbound_sms_command" where
  "completed_command command outcome target t r = r\<lparr>cmd_command := command, cmd_result := outcome,
     cmd_target_event_id := target, cmd_completed_at := t\<rparr>"

definition with_new_command :: "string \<Rightarrow> time \<Rightarrow> db \<Rightarrow> db" where
  "with_new_command sid t d = d\<lparr>db_commands := snd (insert_row (new_command sid t) (db_commands d))\<rparr>"

lemma completed_command_simps [simp]:
  "cmd_id (completed_command c out tgt t r) = cmd_id r"
  "cmd_provider_sid (completed_command c out tgt t r) = cmd_provider_sid r"
  "cmd_result (completed_command c out tgt t r) = out"
  "cmd_target_event_id (completed_command c out tgt t r) = tgt"
  by (simp_all add: completed_command_def)

lemma new_command_simps [simp]:
  "cmd_id (new_command sid t i) = i" "cmd_provider_sid (new_command sid t i) = sid"
  by (simp_all add: new_command_def)

lemmas with_new_command_simps = insert_command_simps [OF with_new_command_def]

lemma apply_seen_message:
  "text_storable sid \<Longrightarrow> find_command sid d = Some r \<Longrightarrow> apply_inbound_sms_command fromiso sid sender body t clk d =
    Inr (\<lparr>isr_command = r, isr_outcome = cmd_result r, isr_target_event_id = cmd_target_event_id r,
      isr_applied = False\<rparr>, d)"
  by (simp add: apply_inbound_sms_command_def bind_require)

text \<open>Whether the table takes a new message with this identifier and the query this sender.\<close>

definition sms_acceptable :: "string \<Rightarrow> string \<Rightarrow> bool" where
  "sms_acceptable sid sender \<longleftrightarrow> length sid \<le> 64 \<and> text_storable sid \<and> text_storable sender"

lemma apply_refused_message:
  "\<not> text_storable sid \<or> find_command sid d = None \<and> \<not> sms_acceptable sid sender \<Longrightarrow>
    \<exists>x. apply_inbound_sms_command fromiso sid sender body t clk d = Inl x \<and> exn_class x = DataError"
  by (cases "text_storable sid"; cases "length sid \<le> 64")
    (auto simp: apply_inbound_sms_command_def bind_require nul_refused_def sms_acceptable_def Let_def split: prod.splits)

lemma apply_new_message:
  assumes new: "find_command sid d = None" "sms_acceptable sid sender"
    and parse: "parse_inbound_sms_command fromiso body = (command, sf)"
    and dec: "sms_decides command sf sender t clk (with_new_command sid (or_now t (clk 0)) d) outcome target d2"
  shows "apply_inbound_sms_command fromiso sid sender body t clk d =
    (let n = next_id (db_commands d); finish = completed_command command outcome target (or_now t (clk 4))
     in Inr (\<lparr>isr_command = finish (new_command sid (or_now t (clk 0)) n), isr_outcome = outcome,
               isr_target_event_id = target, isr_applied = True\<rparr>, put_command n finish d2))"
proof -
  have ins: "insert_row (\<lambda>i. \<lparr>cmd_id = i, cmd_provider_sid = sid, cmd_command = C_INVALID,
      cmd_result = R_INVALID_COMMAND, cmd_target_event_id = None,
      cmd_completed_at = or_now t (clk 0)\<rparr>) (db_commands d) =
      (new_command sid (or_now t (clk 0)) (next_id (db_commands d)),
       snd (insert_row (new_command sid (or_now t (clk 0))) (db_commands d)))"
    by (simp add: insert_row_def Let_def new_command_def)
  have fin: "(\<lambda>r. r\<lparr>cmd_command := command, cmd_result := outcome, cmd_target_event_id := target,
      cmd_completed_at := or_now t (clk 4)\<rparr>) = completed_command command outcome target (or_now t (clk 4))"
    by (simp add: completed_command_def fun_eq_iff)
  show ?thesis
    using dec new(2) unfolding apply_inbound_sms_command_def new(1) ins parse
    by (auto simp: bind_require sms_acceptable_def with_new_command_def [symmetric] sms_decides_def Let_def fin fin [THEN fun_cong]
        split: option.splits if_splits sum.splits prod.splits)
qed

end
