(* ===== verification/Receivers.thy ===== *)
theory Receivers
  imports Inbound_Sms Samples
begin

text \<open>
  Twilio repeats a webhook request until it is answered. The contract of a receiver that applies one
  request per key, once: what a later request with the same key returns and leaves. The voice menu and
  the inbound text commands provide it.
\<close>

section \<open>The contract\<close>

fun receive_all :: "('i \<Rightarrow> 's \<Rightarrow> 'e + ('r \<times> 's)) \<Rightarrow> 'i list \<Rightarrow> 's \<Rightarrow> 's" where
  "receive_all f [] s = s"
| "receive_all f (i # is) s =
     (case f i s of Inl _ \<Rightarrow> receive_all f is s | Inr (_, s') \<Rightarrow> receive_all f is s')"

locale idempotent_receiver =
  fixes receive :: "'k \<Rightarrow> 'i \<Rightarrow> db \<Rightarrow> exn + ('r \<times> db)"
    and outcome :: "'r \<Rightarrow> 'o"
    and applied :: "'r \<Rightarrow> bool"
  assumes keeps_wf: "wf_db d \<Longrightarrow> receive k i d = Inr (r, d') \<Longrightarrow> wf_db d'"
    and seen: "wf_db d \<Longrightarrow> receive k i d = Inr (r, d') \<Longrightarrow> receive k j d' = Inr (r', d'') \<Longrightarrow>
      outcome r' = outcome r \<and> \<not> applied r' \<and> d'' = d'"
    and not_applied: "receive k i d = Inr (r, d') \<Longrightarrow> \<not> applied r \<Longrightarrow> d' = d"
begin

lemma repeats_change_nothing:
  assumes "wf_db d" and "receive k i d = Inr (r, d')"
  shows "receive_all (receive k) js d' = d'"
proof -
  have fixpoint: "receive k j d' = Inr (r', d'') \<Longrightarrow> d'' = d'" for j r' d''
    using seen [OF assms] by blast
  then show ?thesis by (induction js) (auto split: sum.splits)
qed

text \<open>Of all the requests with one key, at most one is applied.\<close>

lemma applied_at_most_once:
  assumes "wf_db d" and "receive k i d = Inr (r, d')" and "receive k j (receive_all (receive k) js d') = Inr (r', d'')"
  shows "\<not> applied r' \<and> outcome r' = outcome r \<and> d'' = d'"
  using seen [OF assms(1,2)] assms(3) unfolding repeats_change_nothing [OF assms(1,2)] by blast

end

section \<open>The voice menu\<close>

text \<open>A request is the digit, the completion time and the clock of the call.\<close>

definition receive_voice_action ::
  "string \<Rightarrow> string \<times> time option \<times> clock \<Rightarrow> voice_menu_action_result transaction" where
  "receive_voice_action sid i = apply_voice_menu_action sid (fst i) (fst (snd i)) (snd (snd i))"

text \<open>The cases of a menu action that succeeds.\<close>

lemma menu_action_Inr:
  assumes wf: "wf_db d" and ok: "apply_voice_menu_action sid digit t clk d = Inr (r, d')"
  obtains (again) a out where "digit \<in> {''1'', ''2''}" "get_voice_attempt sid d = Inr a" "at_voice_action_result a = Some out" "d' = d"
      "r = \<lparr>vma_attempt = a, vma_outcome = out, vma_target_event_id = at_voice_action_target_event_id a,
        vma_applied = False\<rparr>"
  | (first) a e out tgt d1 where "digit \<in> {''1'', ''2''}" "get_voice_attempt sid d = Inr a"
      "at_voice_action_result a = None" "get_event (at_event a) d = Some e"
      "menu_change digit (ev_user e) t clk d out tgt d1"
      "d' = put_attempt (at_id a) (with_voice_action digit out tgt (or_now t (clk 3))) d1"
      "r = \<lparr>vma_attempt = with_voice_action digit out tgt (or_now t (clk 3)) a, vma_outcome = out,
        vma_target_event_id = tgt, vma_applied = True\<rparr>"
proof -
  from ok have digit: "digit \<in> {''1'', ''2''}" and "\<exists>a. get_voice_attempt sid d = Inr a"
    by (auto simp: apply_voice_menu_action_def)
  then obtain a where a: "get_voice_attempt sid d = Inr a" by blast
  show thesis
  proof (cases "at_voice_action_result a")
    case (Some out)
    with menu_action_repeated [OF digit a Some, of t clk] ok digit a show thesis by (intro again) simp_all
  next
    case None
    obtain e where e: "get_event (at_event a) d = Some e" using get_voice_attempt_Inr(4) [OF a] by blast
    obtain out tgt d1 where ch: "menu_change digit (ev_user e) t clk d out tgt d1"
      using menu_change_exists [OF wf] by blast
    with menu_action_first [OF digit a None e ch] ok digit a None e show thesis
      by (intro first [of a e out tgt d1]) (simp_all add: Let_def)
  qed
qed

lemma menu_action_wf:
  assumes wf: "wf_db d" and ok: "apply_voice_menu_action sid digit t clk d = Inr (r, d')"
  shows "wf_db d'"
  using wf ok
proof (cases rule: menu_action_Inr)
  case (first a e out tgt d1)
  note fr = menu_change_frame [OF wf first(5)]
  have "get_attempt (at_id a) d1 = Some a"
    using get_voice_attempt_row [OF wf first(2)] fr(2) by (simp add: get_attempt_def)
  then show ?thesis
    using get_voice_attempt_Inr(3) [OF first(2)] fr(1) unfolding first(6)
    by (intro wf_save_submitted) simp_all
qed (use wf in simp)

lemma menu_action_again:
  assumes wf: "wf_db d" and ok: "apply_voice_menu_action sid digit t clk d = Inr (r, d')"
  shows "get_voice_attempt sid d' = Inr (vma_attempt r) \<and>
    at_voice_action_result (vma_attempt r) = Some (vma_outcome r) \<and>
    at_voice_action_target_event_id (vma_attempt r) = vma_target_event_id r"
  using wf ok
proof (cases rule: menu_action_Inr)
  case (first a e out tgt d1)
  note fr = menu_change_frame [OF wf first(5)]
  let ?b = "with_voice_action digit out tgt (or_now t (clk 3)) a"
  have row: "get_attempt (at_id a) d1 = Some a"
    using get_voice_attempt_row [OF wf first(2)] fr(2) by (simp add: get_attempt_def)
  have own: "tgt \<noteq> Some (at_event a)"
  proof
    assume "tgt = Some (at_event a)"
    then obtain p where p: "next_pending_event (ev_user e) d = Some p" "ev_id p = at_event a"
      using first(5) by (auto simp: menu_change_def split: option.splits)
    from next_pending_get [OF wf p(1)] p(2) first(4) next_pending_event_SomeD(3) [OF p(1)]
    have "ev_status e = E_SCHEDULED" by simp
    then have "attempts_of (at_event a) d = []"
      using wf_db_attempts_ok [OF wf first(4)] by (simp add: attempts_ok_def)
    moreover have "a \<in> set (attempts_of (at_event a) d)"
      using get_voice_attempt_Inr(1) [OF first(2)] by (simp add: attempts_of_member)
    ultimately show False by simp
  qed
  have "get_voice_attempt sid d' = Inr ?b"
  proof (rule get_voice_attempt_save [OF menu_action_wf [OF wf ok] first(2)])
    show "get_attempt (at_id a) d' = Some ?b" using row first(6) by (simp add: attempts.get_put)
    show "get_event (at_event a) d' = get_event (at_event a) d" using fr(5) own first(6) by auto
  qed simp_all
  then show ?thesis using first(7) by simp
qed simp

interpretation voice_menu: idempotent_receiver receive_voice_action
  "\<lambda>r. (vma_outcome r, vma_target_event_id r)" vma_applied
proof unfold_locales
  fix d k i and r :: voice_menu_action_result and d'
  assume "wf_db d" and "receive_voice_action k i d = Inr (r, d')"
  then show "wf_db d'" unfolding receive_voice_action_def by (rule menu_action_wf)
next
  fix d k i and r :: voice_menu_action_result and d' j r' d''
  assume wf: "wf_db d" and first: "receive_voice_action k i d = Inr (r, d')"
    and later: "receive_voice_action k j d' = Inr (r', d'')"
  note again = menu_action_again [OF wf first [unfolded receive_voice_action_def]]
  note wf' = menu_action_wf [OF wf first [unfolded receive_voice_action_def]]
  from later [unfolded receive_voice_action_def]
  show "(vma_outcome r', vma_target_event_id r') = (vma_outcome r, vma_target_event_id r) \<and>
      \<not> vma_applied r' \<and> d'' = d'"
    by (cases rule: menu_action_Inr [OF wf']) (use again in auto)
next
  fix d k i and r :: voice_menu_action_result and d'
  assume "receive_voice_action k i d = Inr (r, d')" and "\<not> vma_applied r"
  then show "d' = d"
    by (auto simp: receive_voice_action_def apply_voice_menu_action_def Let_def split: option.splits)
qed

section \<open>Inbound text commands\<close>

definition receive_sms ::
  "iso_parser \<Rightarrow> string \<Rightarrow> string \<times> string \<times> time option \<times> clock \<Rightarrow> inbound_sms_command_result transaction" where
  "receive_sms fromiso sid i =
     apply_inbound_sms_command fromiso sid (fst i) (fst (snd i)) (fst (snd (snd i))) (snd (snd (snd i)))"

text \<open>A parsed command is never TIME with a time the change could not use, nor INVALID with one.\<close>

lemma sms_decides_exists:
  assumes wf: "wf_db d"
  shows "(\<exists>outcome target d2. sms_decides command sf sender t clk d outcome target d2) \<or>
    (\<exists>w x phone e. command = C_TIME \<and> sf = Some w \<and> dt_offset w \<noteq> None \<and> clk 2 < instant w \<and>
       \<not> in_datetime_range (instant w) \<and> verified_sender sender d = Some phone \<and>
       next_pending_event (ph_user phone) d = Some e \<and>
       sms_change command sf (ev_id e) (ph_user phone) t clk d = Inl x \<and> exn_class x = OverflowError)"
proof (cases "verified_sender sender d")
  case None
  then show ?thesis by (simp add: sms_decides_def)
next
  case (Some phone)
  show ?thesis
  proof (cases "command = C_INVALID \<or> (command = C_TIME \<and> sf = None) \<or> next_pending_event (ph_user phone) d = None")
    case True
    then have "sms_decides command sf sender t clk d
        (if command = C_INVALID then R_INVALID_COMMAND
         else if command = C_TIME \<and> sf = None then R_INVALID_TIME else R_NO_PENDING_EVENT) None d"
      using Some by (auto simp: sms_decides_def)
    then show ?thesis by blast
  next
    case False
    then obtain e where e: "next_pending_event (ph_user phone) d = Some e" and c: "command \<noteq> C_INVALID"
        "command = C_TIME \<Longrightarrow> sf \<noteq> None" by auto
    note row = next_pending_get [OF wf e] next_pending_event_SomeD(2,3) [OF e]
    note change = sms_change_pending [OF row c, where t = t and clk = clk]
    show ?thesis
    proof (cases "sms_change command sf (ev_id e) (ph_user phone) t clk d")
      case (Inr r)
      then show ?thesis using Some e c by (cases r) (auto simp: sms_decides_def)
    next
      case (Inl x)
      with change obtain w where w: "command = C_TIME" "sf = Some w" "if dt_offset w = None \<or> instant w \<le> clk 2
          then exn_class x = ValidationError
          else exn_class x = OverflowError \<and> \<not> in_datetime_range (instant w)" by auto
      show ?thesis
      proof (cases "exn_class x = ValidationError")
        case True
        then show ?thesis using Some e c Inl w by (auto simp: sms_decides_def)
      next
        case False
        with w have "dt_offset w \<noteq> None \<and> clk 2 < instant w \<and> exn_class x = OverflowError \<and>
            \<not> in_datetime_range (instant w)" by (auto split: if_splits)
        with Some e Inl w show ?thesis by blast
      qed
    qed
  qed
qed

lemma wf_with_new_command:
  "wf_db d \<Longrightarrow> find_command sid d = None \<Longrightarrow> wf_db (with_new_command sid t d)"
  unfolding with_new_command_def by (rule wf_insert_command) simp_all

text \<open>The message that makes the reschedule overflow raises: nothing is kept, not even the record.\<close>

lemma apply_overflow:
  assumes new: "find_command sid d = None" "sms_acceptable sid sender"
    and parse: "parse_inbound_sms_command fromiso body = (command, sf)"
    and bad: "command = C_TIME" "sf = Some w" "verified_sender sender (with_new_command sid (or_now t (clk 0)) d) = Some phone"
      "next_pending_event (ph_user phone) (with_new_command sid (or_now t (clk 0)) d) = Some e"
      "sms_change command sf (ev_id e) (ph_user phone) t clk (with_new_command sid (or_now t (clk 0)) d) = Inl x"
      "exn_class x = OverflowError"
  shows "apply_inbound_sms_command fromiso sid sender body t clk d = Inl x"
proof -
  have ins: "insert_row (\<lambda>i. \<lparr>cmd_id = i, cmd_provider_sid = sid, cmd_command = C_INVALID,
      cmd_result = R_INVALID_COMMAND, cmd_target_event_id = None,
      cmd_completed_at = or_now t (clk 0)\<rparr>) (db_commands d) =
      (new_command sid (or_now t (clk 0)) (next_id (db_commands d)),
       snd (insert_row (new_command sid (or_now t (clk 0))) (db_commands d)))"
    by (simp add: insert_row_def Let_def new_command_def)
  show ?thesis
    using bad new(2) unfolding apply_inbound_sms_command_def new(1) ins parse
    by (simp add: bind_require sms_acceptable_def with_new_command_def [symmetric] Let_def)
qed

text \<open>The cases of a text message: known, not acceptable, an unrepresentable time, or handled.\<close>

lemma apply_sms_cases:
  assumes wf: "wf_db d"
  obtains (known) c where "text_storable sid" "find_command sid d = Some c"
      "apply_inbound_sms_command fromiso sid sender body t clk d =
        Inr (\<lparr>isr_command = c, isr_outcome = cmd_result c, isr_target_event_id = cmd_target_event_id c,
          isr_applied = False\<rparr>, d)"
  | (refused) x where "\<not> text_storable sid \<or> find_command sid d = None \<and> \<not> sms_acceptable sid sender"
      "apply_inbound_sms_command fromiso sid sender body t clk d = Inl x" "exn_class x = DataError"
  | (overflow) x w phone e where "find_command sid d = None" "sms_acceptable sid sender" "parse_inbound_sms_command fromiso body = (C_TIME, Some w)"
      "dt_offset w \<noteq> None" "clk 2 < instant w" "\<not> in_datetime_range (instant w)"
      "verified_sender sender d = Some phone" "next_pending_event (ph_user phone) d = Some e"
      "apply_inbound_sms_command fromiso sid sender body t clk d = Inl x" "exn_class x = OverflowError"
  | (handled) command sf outcome target d2 where "find_command sid d = None" "sms_acceptable sid sender"
      "parse_inbound_sms_command fromiso body = (command, sf)"
      "sms_decides command sf sender t clk (with_new_command sid (or_now t (clk 0)) d) outcome target d2"
      "apply_inbound_sms_command fromiso sid sender body t clk d =
        (let n = next_id (db_commands d); finish = completed_command command outcome target (or_now t (clk 4))
         in Inr (\<lparr>isr_command = finish (new_command sid (or_now t (clk 0)) n), isr_outcome = outcome,
                   isr_target_event_id = target, isr_applied = True\<rparr>, put_command n finish d2))"
proof (cases "\<not> text_storable sid \<or> find_command sid d = None \<and> \<not> sms_acceptable sid sender")
  case True
  then show thesis using apply_refused_message refused by metis
next
  case ok: False
  obtain command sf where parse: "parse_inbound_sms_command fromiso body = (command, sf)" by fastforce
  let ?d1 = "with_new_command sid (or_now t (clk 0)) d"
  show thesis
  proof (cases "find_command sid d")
    case (Some c)
    then show thesis using ok by (intro known apply_seen_message) simp_all
  next
    case None
    then have True: "sms_acceptable sid sender" using ok by simp
    from sms_decides_exists [OF wf_with_new_command [OF wf None, of "or_now t (clk 0)"], where command = command and sf = sf
      and sender = sender and t = t and clk = clk]
    show thesis
    proof (elim disjE exE conjE)
      fix outcome target d2 assume "sms_decides command sf sender t clk ?d1 outcome target d2"
      then show thesis using None True parse apply_new_message [OF None True parse] by (intro handled)
    next
      fix w x phone e
      assume bad: "command = C_TIME" "sf = Some w" "dt_offset w \<noteq> None" "clk 2 < instant w"
        "\<not> in_datetime_range (instant w)" "verified_sender sender ?d1 = Some phone"
        "next_pending_event (ph_user phone) ?d1 = Some e"
        "sms_change command sf (ev_id e) (ph_user phone) t clk ?d1 = Inl x" "exn_class x = OverflowError"
      have "apply_inbound_sms_command fromiso sid sender body t clk d = Inl x"
        by (rule apply_overflow [OF None True parse bad(1,2,6,7,8,9)])
      with None True parse bad show thesis
        by (intro overflow [of w phone e x]) (simp_all add: with_new_command_simps)
    qed
  qed
qed

lemma find_command_finished:
  assumes new: "find_command sid d = None" and rows: "rows (db_commands d2) = rows (db_commands d) @ [c]"
    and c: "cmd_provider_sid c = sid" "cmd_id c = n"
    and f: "\<And>r. cmd_provider_sid (f r) = cmd_provider_sid r"
  shows "find_command sid (put_command n f d2) = Some (f c)"
proof -
  have "find (\<lambda>c. cmd_provider_sid c = sid) (map (\<lambda>r. if cmd_id r = n then f r else r) rs @ [f c]) = Some (f c)"
    if "find (\<lambda>c. cmd_provider_sid c = sid) rs = None" for rs
    using that f c by (induction rs) (auto split: if_splits)
  then show ?thesis
    using new rows c by (simp add: find_command_def rows_update_row)
qed

lemma handled_rows:
  assumes wf: "wf_db d" and new: "find_command sid d = None"
    and dec: "sms_decides command sf sender t clk (with_new_command sid u d) outcome target d2"
  shows "wf_db d2" and "rows (db_commands d2) = rows (db_commands d) @ [new_command sid u (next_id (db_commands d))]"
    and "db_attempts d2 = db_attempts d" and "db_phones d2 = db_phones d"
    and "\<And>j. Some j \<noteq> target \<Longrightarrow> get_event j d2 = get_event j d" and "outcome \<noteq> R_LIFECYCLE_CONFLICT"
  using sms_decides_frame [OF wf_with_new_command [OF wf new] dec]
  by (simp_all add: with_new_command_simps)

lemma apply_sms_wf:
  assumes wf: "wf_db d" and ok: "apply_inbound_sms_command fromiso sid sender body t clk d = Inr (r, d')"
  shows "wf_db d'"
proof (cases rule: apply_sms_cases [OF wf, of sid fromiso sender body t clk])
  case (4 command sf outcome target d2)
  then show ?thesis
    using ok handled_rows(1) [OF wf 4(1,4)] by (auto simp: Let_def intro!: wf_put_command)
qed (use ok wf in simp_all)

lemma apply_sms_again:
  assumes wf: "wf_db d" and ok: "apply_inbound_sms_command fromiso sid sender body t clk d = Inr (r, d')"
  shows "find_command sid d' = Some (isr_command r) \<and> cmd_result (isr_command r) = isr_outcome r \<and>
    cmd_target_event_id (isr_command r) = isr_target_event_id r \<and> text_storable sid"
proof (cases rule: apply_sms_cases [OF wf, of sid fromiso sender body t clk])
  case (4 command sf outcome target d2)
  let ?n = "next_id (db_commands d)"
  have "find_command sid (put_command ?n (completed_command command outcome target (or_now t (clk 4))) d2) =
      Some (completed_command command outcome target (or_now t (clk 4)) (new_command sid (or_now t (clk 0)) ?n))"
    by (rule find_command_finished [OF 4(1) handled_rows(2) [OF wf 4(1,4)]]) simp_all
  then show ?thesis using ok 4(2,5) by (auto simp: Let_def sms_acceptable_def)
qed (use ok in simp_all)

interpretation inbound_sms: idempotent_receiver "receive_sms fromiso"
  "\<lambda>r. (isr_outcome r, isr_target_event_id r)" isr_applied for fromiso
proof unfold_locales
  fix d k i and r :: inbound_sms_command_result and d'
  assume "wf_db d" and "receive_sms fromiso k i d = Inr (r, d')"
  then show "wf_db d'" unfolding receive_sms_def by (rule apply_sms_wf)
next
  fix d k i and r :: inbound_sms_command_result and d' j r' d''
  assume wf: "wf_db d" and first: "receive_sms fromiso k i d = Inr (r, d')"
    and later: "receive_sms fromiso k j d' = Inr (r', d'')"
  note again = apply_sms_again [OF wf first [unfolded receive_sms_def]]
  from later [unfolded receive_sms_def] again
  show "(isr_outcome r', isr_target_event_id r') = (isr_outcome r, isr_target_event_id r) \<and>
      \<not> isr_applied r' \<and> d'' = d'"
    by (auto simp: apply_seen_message)
next
  fix d k i and r :: inbound_sms_command_result and d'
  assume "receive_sms fromiso k i d = Inr (r, d')" and "\<not> isr_applied r"
  then show "d' = d"
    by (auto simp: receive_sms_def apply_inbound_sms_command_def Let_def split: option.splits prod.splits)
qed

end
