(* ===== verification/Callback_Properties.thy ===== *)
theory Callback_Properties
  imports Receivers
begin

text \<open>
  What the voice callbacks and the inbound text messages guarantee.
\<close>

section \<open>Provider status\<close>

text \<open>One status callback, as a request: identifier, status, sequence number, time, clock.\<close>

definition receive_status ::
  "string \<times> string \<times> int \<times> time option \<times> clock \<Rightarrow> provider_status_update transaction" where
  "receive_status i = (case i of (sid, s, n, t, clk) \<Rightarrow> record_voice_status_callback sid s n t clk)"

definition sequence_le :: "int option \<Rightarrow> int option \<Rightarrow> bool" where
  "sequence_le old new \<longleftrightarrow> (\<forall>m. old = Some m \<longrightarrow> (\<exists>n. new = Some n \<and> m \<le> n))"

definition status_final :: "delivery_attempt \<Rightarrow> bool" where
  "status_final a \<longleftrightarrow> (\<exists>p \<in> TERMINAL_PROVIDER_STATUSES. at_provider_status a = Some p)"

text \<open>The attempts agree but for the three columns a status callback writes.\<close>

definition same_but_status :: "delivery_attempt \<Rightarrow> delivery_attempt \<Rightarrow> bool" where
  "same_but_status a b \<longleftrightarrow>
     b = a\<lparr>at_provider_status := at_provider_status b,
           at_provider_status_sequence := at_provider_status_sequence b,
           at_provider_status_updated_at := at_provider_status_updated_at b\<rparr>"

lemma same_but_status_trans: "same_but_status a b \<Longrightarrow> same_but_status b c \<Longrightarrow> same_but_status a c"
  by (cases a; cases b; cases c) (simp add: same_but_status_def)

lemma sequence_le_trans: "sequence_le a b \<Longrightarrow> sequence_le b c \<Longrightarrow> sequence_le a c"
  by (cases a; cases b; cases c) (auto simp: sequence_le_def)

lemma status_step:
  assumes wf: "wf_db d" and a: "get_voice_attempt sid d = Inr a"
    and run: "receive_status i d = Inr (u, d')"
  obtains b where "wf_db d'" "db_events d' = db_events d" "get_voice_attempt sid d' = Inr b"
    "same_but_status a b" "sequence_le (at_provider_status_sequence a) (at_provider_status_sequence b)"
    "status_final a \<longrightarrow> b = a"
proof -
  obtain sid' s n t clk where i: "i = (sid', s, n, t, clk)" by (cases i) auto
  have run': "record_voice_status_callback sid' s n t clk d = Inr (u, d')"
    using run i by (simp add: receive_status_def)
  note wf' = status_callback_wf [OF wf run']
  from run' obtain c p where c: "get_voice_attempt sid' d = Inr c" "psu_applied u = status_open n c"
    "psu_attempt u = (if status_open n c then with_provider_status p n (or_now t (clk 0)) c else c)"
    "d' = (if status_open n c then put_attempt (at_id c)
       (\<lambda>r. r\<lparr>at_provider_status := Some p, at_provider_status_sequence := Some n,
          at_provider_status_updated_at := Some (or_now t (clk 0))\<rparr>) d else d)"
    by (rule status_callback_Inr)
  have events: "db_events d' = db_events d" using c(4) by simp
  show thesis
  proof (cases "sid' = sid")
    case True
    with a c(1) have ca: "c = a" by simp
    have "get_voice_attempt sid d' = Inr (psu_attempt u)" using status_callback_again [OF wf run'] True by simp
    then show thesis
      using wf' events c(3) ca
      by (intro that) (auto simp: same_but_status_def with_provider_status_def sequence_le_def status_open_def
          status_final_def split: if_splits)
  next
    case False
    then have "at_id c \<noteq> at_id a"
      using get_voice_attempt_row [OF wf a] get_voice_attempt_row [OF wf c(1)]
        get_voice_attempt_Inr(2) [OF a] get_voice_attempt_Inr(2) [OF c(1)] by auto
    then have "get_attempt (at_id a) d' = Some a"
      using get_voice_attempt_row [OF wf a] c(4) by (simp add: attempts.get_put)
    then have "get_voice_attempt sid d' = Inr a"
      using events by (intro get_voice_attempt_save [OF wf' a]) (simp_all add: get_event_def)
    then show thesis using wf' events by (intro that [of a]) (simp_all add: same_but_status_def sequence_le_def)
  qed
qed

lemma status_history:
  assumes "wf_db d" and "get_voice_attempt sid d = Inr a"
  shows "\<exists>b. wf_db (receive_all receive_status h d) \<and> db_events (receive_all receive_status h d) = db_events d \<and>
    get_voice_attempt sid (receive_all receive_status h d) = Inr b \<and> same_but_status a b \<and>
    sequence_le (at_provider_status_sequence a) (at_provider_status_sequence b) \<and>
    (status_final a \<longrightarrow> b = a)"
  using assms
proof (induction h arbitrary: d a)
  case Nil
  then show ?case by (simp add: same_but_status_def sequence_le_def)
next
  case (Cons i h)
  show ?case
  proof (cases "receive_status i d")
    case (Inl x)
    with Cons show ?thesis by simp
  next
    case (Inr r)
    obtain u d1 where r: "r = (u, d1)" by fastforce
    obtain b where b: "wf_db d1" "db_events d1 = db_events d" "get_voice_attempt sid d1 = Inr b"
      "same_but_status a b" "sequence_le (at_provider_status_sequence a) (at_provider_status_sequence b)"
      "status_final a \<longrightarrow> b = a"
      by (rule status_step [OF Cons.prems Inr [unfolded r]])
    from Cons.IH [OF b(1,3)] b Inr r same_but_status_trans [OF b(4)] sequence_le_trans [OF b(5)]
    show ?thesis by auto
  qed
qed

text \<open>C11. Whatever status callbacks arrive for a submitted call, in whatever order, repeated or for other
  calls: the call's attempt stays findable, its sequence number never decreases, a final status is never
  changed again, nothing but the three status columns changes, and no event is touched.\<close>

theorem voice_status_history:
  assumes "wf_db d" and "get_voice_attempt sid d = Inr a"
  shows "let d' = receive_all receive_status h d in
    wf_db d' \<and> db_events d' = db_events d \<and>
    (\<exists>b. get_voice_attempt sid d' = Inr b \<and> same_but_status a b \<and>
       sequence_le (at_provider_status_sequence a) (at_provider_status_sequence b) \<and>
       (status_final a \<longrightarrow> b = a))"
  using status_history [OF assms, of h] by (auto simp: Let_def)

lemma sample_voice: "get_voice_attempt ''CA1'' sample_db = Inr sample_attempt"
proof (rule get_voice_attempt_unique [OF wf_sample_db])
  show "sample_attempt \<in> set (rows (db_attempts sample_db))" by (simp add: sample_db_def)
  have "get_event (at_event sample_attempt) sample_db = Some sample_done"
    using sample_events(3) by (simp add: sample_attempt_def)
  moreover have "ev_channel sample_done = VOICE" by (simp add: sample_done_def)
  ultimately show "submitted_voice ''CA1'' sample_db sample_attempt"
    by (simp add: submitted_voice_def) (simp add: sample_attempt_def)
qed (simp add: text_storable_def)

lemma voice_status_history_witness:
  "db_events (receive_all receive_status [(''CA1'', ''ringing'', 2, None, \<lambda>_. 9), (''CA1'', ''initiated'', 1, None, \<lambda>_. 10)]
    sample_db) = db_events sample_db"
  using voice_status_history [OF wf_sample_db sample_voice] unfolding Let_def by blast

text \<open>A status callback on every branch: it needs a call identifier, a known submitted call, a known
  status and a sequence number that is not negative and fits the column; it is applied exactly when its
  number exceeds the recorded one and no final status is recorded, and otherwise changes nothing.\<close>

theorem voice_status_callback_iff:
  "record_voice_status_callback sid s n t clk d = Inr (u, d') \<longleftrightarrow>
    (\<exists>a p. starts_with ''CA'' sid \<and> get_voice_attempt sid d = Inr a \<and> provider_status_of s = Some p \<and> 0 \<le> n \<and>
      (if (\<forall>q. at_provider_status a = Some q \<longrightarrow> q \<notin> TERMINAL_PROVIDER_STATUSES) \<and>
          (\<forall>old. at_provider_status_sequence a = Some old \<longrightarrow> old < n)
       then n \<le> 2147483647 \<and> psu_applied u \<and>
         psu_attempt u = a\<lparr>at_provider_status := Some p, at_provider_status_sequence := Some n,
           at_provider_status_updated_at := Some (or_now t (clk 0))\<rparr> \<and>
         d' = put_attempt (at_id a) (\<lambda>r. r\<lparr>at_provider_status := Some p,
           at_provider_status_sequence := Some n, at_provider_status_updated_at := Some (or_now t (clk 0))\<rparr>) d
       else \<not> psu_applied u \<and> psu_attempt u = a \<and> d' = d))"
  (is "?run \<longleftrightarrow> ?spec")
proof
  assume ?run
  then obtain a p where c: "get_voice_attempt sid d = Inr a" "provider_status_of s = Some p" "0 \<le> n"
    "starts_with ''CA'' sid" "psu_applied u = status_open n a"
    "psu_attempt u = (if status_open n a then with_provider_status p n (or_now t (clk 0)) a else a)"
    "status_open n a \<longrightarrow> n \<le> MAX_POSITIVE_INTEGER"
    "d' = (if status_open n a then put_attempt (at_id a)
       (\<lambda>r. r\<lparr>at_provider_status := Some p, at_provider_status_sequence := Some n,
          at_provider_status_updated_at := Some (or_now t (clk 0))\<rparr>) d else d)"
    by (rule status_callback_Inr)
  show ?spec
  proof (cases "status_open n a")
    case True
    show ?thesis
      by (rule exI [of _ a], rule exI [of _ p], subst if_P [OF True [unfolded status_open_def]])
        (use c True in \<open>simp add: MAX_POSITIVE_INTEGER_def with_provider_status_def\<close>)
  next
    case False
    show ?thesis
      by (rule exI [of _ a], rule exI [of _ p], subst if_not_P [OF False [unfolded status_open_def]])
        (use c False in simp)
  qed
next
  assume ?spec
  then obtain a p where sp: "starts_with ''CA'' sid" "get_voice_attempt sid d = Inr a" "provider_status_of s = Some p" "0 \<le> n"
    and res: "if status_open n a
       then n \<le> 2147483647 \<and> psu_applied u \<and>
         psu_attempt u = with_provider_status p n (or_now t (clk 0)) a \<and>
         d' = put_attempt (at_id a) (\<lambda>r. r\<lparr>at_provider_status := Some p,
           at_provider_status_sequence := Some n, at_provider_status_updated_at := Some (or_now t (clk 0))\<rparr>) d
       else \<not> psu_applied u \<and> psu_attempt u = a \<and> d' = d"
    unfolding status_open_def with_provider_status_def by blast
  have app: "apply_provider_status s n (or_now t (clk 0)) a =
      Inr (if status_open n a then with_provider_status p n (or_now t (clk 0)) a else a, status_open n a)"
    using sp by (auto simp: apply_provider_status_Inr_iff)
  have wr: "write_attempt_fields [G_provider_status, G_provider_status_sequence, G_provider_status_updated_at]
      (with_provider_status p n (or_now t (clk 0)) a) =
      (\<lambda>r. r\<lparr>at_provider_status := Some p, at_provider_status_sequence := Some n,
          at_provider_status_updated_at := Some (or_now t (clk 0))\<rparr>)"
    by (rule ext) (rule write_provider_status)
  show ?run
    using sp res app
    by (cases u) (simp add: record_voice_status_callback_def bind_require MAX_POSITIVE_INTEGER_def save_attempt_def
        wr split: if_splits)
qed

lemma voice_status_callback_iff_witness:
  "\<exists>u d'. record_voice_status_callback ''CA1'' ''ringing'' 2 None (\<lambda>_. 9) sample_db = Inr (u, d') \<and> psu_applied u"
proof -
  have "provider_status_of ''ringing'' = Some P_RINGING" "starts_with ''CA'' ''CA1''" by code_simp+
  moreover have "at_provider_status sample_attempt = None" "at_provider_status_sequence sample_attempt = None"
    by (simp_all add: sample_attempt_def new_attempt_def)
  ultimately have "record_voice_status_callback ''CA1'' ''ringing'' 2 None (\<lambda>_. 9) sample_db =
      Inr (\<lparr>psu_attempt = with_provider_status P_RINGING 2 9 sample_attempt, psu_applied = True\<rparr>,
        put_attempt (at_id sample_attempt) (\<lambda>r. r\<lparr>at_provider_status := Some P_RINGING,
          at_provider_status_sequence := Some 2, at_provider_status_updated_at := Some 9\<rparr>) sample_db)"
    using sample_voice by (simp add: voice_status_callback_iff with_provider_status_def)
  then show ?thesis by simp
qed

section \<open>The voice menu\<close>

lemma menu_change_event:
  assumes wf: "wf_db d" and ch: "menu_change digit user t clk d out tgt d1" and p: "next_pending_event user d = Some p"
  shows "tgt = Some (ev_id p)" and "digit = ''1'' \<Longrightarrow> out = V_CANCELLED \<and> get_event (ev_id p) d1 =
      Some (p\<lparr>ev_status := E_CANCELLED, ev_completed_at := Some (or_now t (clk 0)), ev_updated_at := clk 2\<rparr>)"
    and "digit \<noteq> ''1'' \<Longrightarrow> out = V_SWITCHED_TO_SMS \<and> get_event (ev_id p) d1 =
      Some (p\<lparr>ev_channel := SMS, ev_updated_at := clk 2\<rparr>)"
proof -
  note row = next_pending_get [OF wf p] next_pending_event_SomeD(2,3) [OF p]
  show "tgt = Some (ev_id p)" using ch p by (simp add: menu_change_def)
  have two: "Suc (Suc 0) = 2" by simp
  {
    assume "digit = ''1''"
    with ch p obtain r where r: "out = V_CANCELLED" "cancel_user_scheduled_event (ev_id p) user
        (Some (or_now t (clk 0))) (\<lambda>n. clk (n + 1)) d = Inr (r, d1)" by (auto simp: menu_change_def)
    have "r = p\<lparr>ev_status := E_CANCELLED, ev_completed_at := Some (or_now t (clk 0)), ev_updated_at := clk 2\<rparr>"
      using r(2) row cancel_locked_event_Inr [OF row(1,3), of "Some (or_now t (clk 0))" "\<lambda>n. clk (n + 1)"]
      by (auto simp: cancel_user_scheduled_event_def get_user_event_def cancelled_row_def two)
    with cancelling.row_returned [OF r(2)] r(1)
    show "out = V_CANCELLED \<and> get_event (ev_id p) d1 =
      Some (p\<lparr>ev_status := E_CANCELLED, ev_completed_at := Some (or_now t (clk 0)), ev_updated_at := clk 2\<rparr>)"
      by simp
  next
    assume "digit \<noteq> ''1''"
    with ch p obtain r where r: "out = V_SWITCHED_TO_SMS" "change_user_scheduled_event_channel (ev_id p) user
        (channel_value SMS) (\<lambda>n. clk (n + 1)) d = Inr (r, d1)" by (auto simp: menu_change_def)
    have "r = p\<lparr>ev_channel := SMS, ev_updated_at := clk 2\<rparr>"
      using r(2) unfolding change_channel_pending [OF row] by (auto simp: save_event_def two)
    with channel_change.row_returned [OF r(2)] r(1)
    show "out = V_SWITCHED_TO_SMS \<and> get_event (ev_id p) d1 = Some (p\<lparr>ev_channel := SMS, ev_updated_at := clk 2\<rparr>)"
      by simp
  }
qed

text \<open>C12. The first supported digit pressed in a submitted call is applied: with 1 the owner's earliest
  scheduled event is cancelled, with 2 it is switched to text; without such an event nothing is; the
  attempt records the digit, the outcome and the target; and no other event changes.\<close>

theorem voice_menu_first_press:
  assumes "wf_db d" and "digit = ''1'' \<or> digit = ''2''" and "get_voice_attempt sid d = Inr a"
    and "at_voice_action_result a = None" and "get_event (at_event a) d = Some e"
  shows "\<exists>r d'. apply_voice_menu_action sid digit t clk d = Inr (r, d') \<and> wf_db d' \<and> vma_applied r \<and>
    get_attempt (at_id a) d' = Some (a\<lparr>at_voice_action_digit := digit,
      at_voice_action_result := Some (vma_outcome r), at_voice_action_target_event_id := vma_target_event_id r,
      at_voice_action_completed_at := Some (or_now t (clk 3))\<rparr>) \<and>
    (\<forall>j. Some j \<noteq> vma_target_event_id r \<longrightarrow> get_event j d' = get_event j d) \<and>
    (case next_pending_event (ev_user e) d of
       None \<Rightarrow> vma_outcome r = V_NO_PENDING_EVENT \<and> vma_target_event_id r = None
     | Some p \<Rightarrow> vma_target_event_id r = Some (ev_id p) \<and>
         (if digit = ''1'' then vma_outcome r = V_CANCELLED \<and> get_event (ev_id p) d' =
            Some (p\<lparr>ev_status := E_CANCELLED, ev_completed_at := Some (or_now t (clk 0)), ev_updated_at := clk 2\<rparr>)
          else vma_outcome r = V_SWITCHED_TO_SMS \<and> get_event (ev_id p) d' =
            Some (p\<lparr>ev_channel := SMS, ev_updated_at := clk 2\<rparr>)))"
proof -
  have digit: "digit \<in> {''1'', ''2''}" using assms(2) by auto
  obtain out tgt d1 where ch: "menu_change digit (ev_user e) t clk d out tgt d1"
    using menu_change_exists [OF assms(1)] by blast
  let ?f = "with_voice_action digit out tgt (or_now t (clk 3))"
  have run: "apply_voice_menu_action sid digit t clk d =
      Inr (\<lparr>vma_attempt = ?f a, vma_outcome = out, vma_target_event_id = tgt, vma_applied = True\<rparr>,
        put_attempt (at_id a) ?f d1)"
    using menu_action_first [OF digit assms(3-5) ch] by (simp add: Let_def)
  note fr = menu_change_frame [OF assms(1) ch]
  have row: "get_attempt (at_id a) d1 = Some a"
    using get_voice_attempt_row [OF assms(1,3)] fr(2) by (simp add: get_attempt_def)
  have case_pending: "case next_pending_event (ev_user e) d of
       None \<Rightarrow> out = V_NO_PENDING_EVENT \<and> tgt = None
     | Some p \<Rightarrow> tgt = Some (ev_id p) \<and>
         (if digit = ''1'' then out = V_CANCELLED \<and> get_event (ev_id p) d1 =
            Some (p\<lparr>ev_status := E_CANCELLED, ev_completed_at := Some (or_now t (clk 0)), ev_updated_at := clk 2\<rparr>)
          else out = V_SWITCHED_TO_SMS \<and> get_event (ev_id p) d1 =
            Some (p\<lparr>ev_channel := SMS, ev_updated_at := clk 2\<rparr>))"
    using ch menu_change_event [OF assms(1) ch] by (cases "next_pending_event (ev_user e) d") (simp_all add: menu_change_def)
  show ?thesis
    by (rule exI, rule exI, rule conjI [OF run], intro conjI)
      (use menu_action_wf [OF assms(1) run] row fr(5) case_pending in
        \<open>simp_all add: attempts.get_put with_voice_action_def split: option.splits\<close>)
qed

lemma voice_menu_first_press_witness:
  "\<exists>r d'. apply_voice_menu_action ''CA1'' ''1'' (Some 77) (\<lambda>n. int n) sample_db = Inr (r, d') \<and>
    vma_applied r \<and> wf_db d'"
  using voice_menu_first_press [OF wf_sample_db _ sample_voice, of "''1''" sample_done "Some 77" "\<lambda>n. int n"]
  by (auto simp: sample_attempt_def new_attempt_def sample_events)

text \<open>C13. A call's menu acts at most once: after the first accepted digit, further requests for the call, with
  whatever digits, change nothing, and one that is answered repeats the recorded outcome and target.\<close>

theorem voice_menu_acts_once:
  assumes "wf_db d" and "apply_voice_menu_action sid digit t clk d = Inr (r, d')"
  shows "receive_all (receive_voice_action sid) js d' = d' \<and>
    (\<forall>digit' t' clk' r' d''. apply_voice_menu_action sid digit' t' clk' d' = Inr (r', d'') \<longrightarrow>
       vma_outcome r' = vma_outcome r \<and> vma_target_event_id r' = vma_target_event_id r \<and>
       \<not> vma_applied r' \<and> d'' = d')"
proof -
  have first: "receive_voice_action sid (digit, t, clk) d = Inr (r, d')"
    using assms(2) by (simp add: receive_voice_action_def)
  have "apply_voice_menu_action sid digit' t' clk' d' = Inr (r', d'') \<Longrightarrow>
      vma_outcome r' = vma_outcome r \<and> vma_target_event_id r' = vma_target_event_id r \<and> \<not> vma_applied r' \<and> d'' = d'"
    for digit' t' clk' r' d''
    using voice_menu.seen [OF assms(1) first, of "(digit', t', clk')" r' d'']
    by (simp add: receive_voice_action_def)
  then show ?thesis using voice_menu.repeats_change_nothing [OF assms(1) first] by blast
qed

lemma voice_menu_acts_once_witness:
  "\<exists>r d'. apply_voice_menu_action ''CA1'' ''1'' (Some 77) (\<lambda>n. int n) sample_db = Inr (r, d') \<and>
    receive_all (receive_voice_action ''CA1'') [(''2'', None, \<lambda>n. 5), (''1'', None, \<lambda>n. 6)] d' = d'"
proof -
  have "at_voice_action_result sample_attempt = None" by (simp add: sample_attempt_def new_attempt_def)
  moreover have "get_event (at_event sample_attempt) sample_db = Some sample_done"
    using sample_events(3) by (simp add: sample_attempt_def)
  moreover obtain out tgt d1 where "menu_change ''1'' (ev_user sample_done) (Some 77) (\<lambda>n. int n) sample_db out tgt d1"
    using menu_change_exists [OF wf_sample_db] by blast
  ultimately obtain r d' where "apply_voice_menu_action ''CA1'' ''1'' (Some 77) (\<lambda>n. int n) sample_db = Inr (r, d')"
    using menu_action_first [OF _ sample_voice, of "''1''"] by (simp add: Let_def)
  with voice_menu_acts_once [OF wf_sample_db] show ?thesis by blast
qed

section \<open>Text messages\<close>


definition sms_pending :: "string \<Rightarrow> db \<Rightarrow> scheduled_event option" where
  "sms_pending sender d = Option.bind (verified_sender sender d) (\<lambda>p. next_pending_event (ph_user p) d)"






lemma sms_pending_new_command [simp]:
  "sms_pending sender (with_new_command sid t d) = sms_pending sender d"
  by (simp add: sms_pending_def with_new_command_simps)



lemma sample_message:
  "find_command ''SM1'' sample_db = None" "parse_inbound_sms_command (\<lambda>_. None) '' stop '' = (C_STOP, None)"
  "verified_sender ''+14155550101'' sample_db = Some sample_phone"
  "sms_pending ''+14155550101'' sample_db = Some sample_demo"
  "text_storable ''SM1''" "text_storable ''+14155550101''"
  by code_simp+

lemma sample_question: "parse_inbound_sms_command (\<lambda>_. None) ''?'' = (C_INVALID, None)"
  by code_simp


text \<open>C15. One provider message is applied at most once: when it has been answered, every later delivery of the
  same message identifier, whatever it says and whoever sent it, repeats the recorded answer and target and
  changes nothing.\<close>

theorem inbound_sms_acts_once:
  assumes "wf_db d" and "apply_inbound_sms_command fromiso sid sender body t clk d = Inr (r, d')"
  shows "receive_all (receive_sms fromiso sid) js d' = d' \<and>
    (\<forall>sender' body' t' clk'. \<exists>r'. apply_inbound_sms_command fromiso sid sender' body' t' clk' d' = Inr (r', d') \<and>
       isr_outcome r' = isr_outcome r \<and> isr_target_event_id r' = isr_target_event_id r \<and> \<not> isr_applied r')"
proof -
  have first: "receive_sms fromiso sid (sender, body, t, clk) d = Inr (r, d')"
    using assms(2) by (simp add: receive_sms_def)
  note again = apply_sms_again [OF assms]
  show ?thesis
    using inbound_sms.repeats_change_nothing [OF assms(1) first] again apply_seen_message [of sid d' "isr_command r"]
    by auto
qed

lemma inbound_sms_acts_once_witness:
  "\<exists>r d'. apply_inbound_sms_command (\<lambda>_. None) ''SM1'' ''+14155550101'' ''?'' (Some 9) (\<lambda>n. int n) sample_db = Inr (r, d') \<and>
    receive_all (receive_sms (\<lambda>_. None) ''SM1'') [(''+14155550101'', ''STOP'', None, \<lambda>n. 5)] d' = d'"
proof -
  have "\<exists>r d'. apply_inbound_sms_command (\<lambda>_. None) ''SM1'' ''+14155550101'' ''?'' (Some 9) (\<lambda>n. int n) sample_db = Inr (r, d')"
    by (rule apply_sms_cases [OF wf_sample_db, of "''SM1''" "\<lambda>_. None" "''+14155550101''" "''?''" "Some 9" "\<lambda>n. int n"])
      (simp_all add: sample_message sample_question sms_acceptable_def Let_def)
  then obtain r :: inbound_sms_command_result and d' where
    run: "apply_inbound_sms_command (\<lambda>_. None) ''SM1'' ''+14155550101'' ''?'' (Some 9) (\<lambda>n. int n) sample_db = Inr (r, d')"
    by blast
  with inbound_sms_acts_once [OF wf_sample_db run] show ?thesis by blast
qed

text \<open>Which texts are commands: STOP and SMS in any letter case with any white space around them, TIME
  followed by a space and one word, which is read as a time; a TIME with several words has no time; a word
  is no command when it has trailing text or is something else.\<close>

theorem parse_inbound_sms_command_accepts:
  assumes "\<forall>c \<in> set (u @ v). is_space c" and "strip word = word" and "word \<noteq> []" and "CHR '' '' \<notin> set keyword"
    and "keyword \<noteq> []" and "\<forall>c \<in> set keyword. \<not> is_space c"
  shows "parse_inbound_sms_command fromiso (u @ keyword @ v) =
      (if upper keyword = ''STOP'' then (C_STOP, None) else if upper keyword = ''SMS'' then (C_SMS, None)
       else (C_INVALID, None)) \<and>
    parse_inbound_sms_command fromiso (u @ keyword @ '' '' @ word @ v) =
      (if upper keyword \<noteq> ''TIME'' then (C_INVALID, None)
       else (C_TIME, if \<exists>c \<in> set word. is_space c then None else fromiso word))"
proof -
  have ends: "\<not> is_space (hd keyword)" "\<not> is_space (last keyword)" using assms(5,6) by simp_all
  have k: "strip keyword = keyword" using ends by (intro strip_fixed) simp
  have "\<not> is_space (last word)"
    using assms(2,3) strip_no_space_ends(2) [of word] by (cases word) auto
  then have kw: "strip (keyword @ '' '' @ word) = keyword @ '' '' @ word"
    using ends(1) assms(3,5) by (intro strip_fixed) simp
  have bare: "parse_inbound_sms_command fromiso (u @ keyword @ v) =
      (if upper keyword = ''STOP'' then (C_STOP, None) else if upper keyword = ''SMS'' then (C_SMS, None)
       else (C_INVALID, None))"
    using assms(1) strip_surrounded [OF _ _ k, of u v] partition_space_no_space [OF assms(4)]
    by (simp add: parse_inbound_sms_command_def Let_def)
  have "parse_inbound_sms_command fromiso (u @ keyword @ '' '' @ word @ v) =
      (if upper keyword \<noteq> ''TIME'' then (C_INVALID, None)
       else (C_TIME, if \<exists>c \<in> set word. is_space c then None else fromiso word))"
    using assms(1-3) strip_surrounded [OF _ _ kw, of u v] partition_space_append [OF assms(4), of word]
    by (auto simp: parse_inbound_sms_command_def Let_def)
  with bare show ?thesis ..
qed

lemma sample_words: "upper ''sToP'' = ''STOP''" "upper ''time'' = ''TIME''" "strip ''2030Z'' = ''2030Z''"
  "\<not> (\<exists>c \<in> set ''2030Z''. is_space c)" "\<forall>c \<in> set (''  '' @ '' ''). is_space c"
  "\<forall>c \<in> set ''sToP''. \<not> is_space c" "\<forall>c \<in> set ''time''. \<not> is_space c"
  "CHR '' '' \<notin> set ''sToP''" "CHR '' '' \<notin> set ''time''"
  by code_simp+

lemma parse_inbound_sms_command_accepts_witness:
  "parse_inbound_sms_command (\<lambda>_. None) (''  '' @ ''sToP'' @ '' '') = (C_STOP, None) \<and>
   parse_inbound_sms_command (\<lambda>s. Some \<lparr>dt_local = int (length s), dt_offset = Some 0\<rparr>) (''  '' @ ''time'' @ '' '' @ ''2030Z'' @ '' '') =
     (C_TIME, Some \<lparr>dt_local = 5, dt_offset = Some 0\<rparr>)"
  using parse_inbound_sms_command_accepts [OF sample_words(5,3) _ sample_words(8) _ sample_words(6), of "\<lambda>_. None"]
    parse_inbound_sms_command_accepts [OF sample_words(5,3) _ sample_words(9) _ sample_words(7), of "\<lambda>s. Some \<lparr>dt_local = int (length s), dt_offset = Some 0\<rparr>"]
  unfolding sample_words(1,2) by (simp add: sample_words(4) del: Bex_def set_simps append.simps)

end
