(* ===== verification/Accounts_Services.thy ===== *)
theory Accounts_Services
  imports Scheduling_Services
begin

text \<open>
  \<open>apps/accounts/services.py\<close> and \<open>verification.py\<close>: enrolling a phone number and verifying it
  through a gateway. The gateway is a record of the two calls the services make on it. A check is a
  read, a gateway call outside any transaction, and a locked write; \<open>meanwhile\<close> is what other
  transactions commit between the read and the write.
\<close>

section \<open>Gateway results\<close>

datatype verification_status = V_PENDING | V_APPROVED | V_REJECTED

fun verification_status_value :: "verification_status \<Rightarrow> string" where
  "verification_status_value V_PENDING = ''pending''"
| "verification_status_value V_APPROVED = ''approved''"
| "verification_status_value V_REJECTED = ''rejected''"

record verification_result =
  vr_status :: verification_status
  vr_provider_sid :: "string option"

record verification_gateway =
  start_verification :: "string \<Rightarrow> exn + verification_result"
  check_verification :: "string \<Rightarrow> string \<Rightarrow> exn + verification_result"

text \<open>The calls a service made, in order.\<close>

datatype gateway_call = Start_Call string | Check_Call string string

abbreviation verification_exn :: "verification_error \<Rightarrow> string \<Rightarrow> exn" where
  "verification_exn c text \<equiv> raise (VerificationExn c) text"

section \<open>Enrolling\<close>

text \<open>
  Clock readings: 0 is \<open>created_at\<close>, 1 \<open>updated_at\<close>. The unique constraint on the number is the only
  one an insert can violate.
\<close>

definition create_phone_number :: "row_id \<Rightarrow> string \<Rightarrow> clock \<Rightarrow> phone_number transaction" where
  "create_phone_number user number clk d =
     (let errors = clean_phone_number number
      in bind_res (require (errors = []) (Exn ValidationError '''' errors)) (\<lambda>_.
         bind_res (require (number \<notin> ph_number ` set (rows (db_phones d)))
           (field_error ValidationError ''number'' ''This phone number cannot be enrolled.'')) (\<lambda>_.
           case insert_row (\<lambda>i. \<lparr>ph_id = i, ph_user = user, ph_number = number, ph_verified_at = None,
                  ph_created_at = clk 0, ph_updated_at = clk 1\<rparr>) (db_phones d)
           of (p, t) \<Rightarrow> Inr (p, d\<lparr>db_phones := t\<rparr>))))"

section \<open>Verifying\<close>

definition phone_missing :: exn where
  "phone_missing = raise DoesNotExist ''PhoneNumber matching query does not exist.''"

definition get_user_phone :: "row_id \<Rightarrow> row_id \<Rightarrow> db \<Rightarrow> exn + phone_number" where
  "get_user_phone i user d =
     (case get_phone i d of
        Some p \<Rightarrow> if ph_user p = user then Inr p else Inl phone_missing
      | None \<Rightarrow> Inl phone_missing)"

definition start_phone_verification ::
  "row_id \<Rightarrow> verification_gateway \<Rightarrow> db \<Rightarrow> (exn + verification_result) \<times> gateway_call list" where
  "start_phone_verification phone_number_id gateway d =
     (case or_raise (get_phone phone_number_id d) phone_missing of
        Inl x \<Rightarrow> (Inl x, [])
      | Inr p \<Rightarrow>
          if is_verified p
          then (Inl (verification_exn PhoneAlreadyVerified ''This phone number is already verified.''), [])
          else (start_verification gateway (ph_number p), [Start_Call (ph_number p)]))"

definition start_user_phone_verification ::
  "row_id \<Rightarrow> row_id \<Rightarrow> verification_gateway option \<Rightarrow> db \<Rightarrow>
    (exn + verification_result) \<times> gateway_call list" where
  "start_user_phone_verification phone_number_id user gateway d =
     (case get_user_phone phone_number_id user d of
        Inl x \<Rightarrow> (Inl x, [])
      | Inr p \<Rightarrow>
          if is_verified p
          then (Inl (verification_exn PhoneAlreadyVerified ''This phone number is already verified.''), [])
          else case gateway of
            None \<Rightarrow> (Inl (raise ValueError ''A verification gateway is required.''), [])
          | Some g \<Rightarrow> (start_verification g (ph_number p), [Start_Call (ph_number p)]))"

text \<open>\<open>VERIFICATION_CODE_PATTERN.fullmatch\<close>; \<open>None\<close> is an argument that is not a string.\<close>

definition valid_code :: "string \<Rightarrow> bool" where
  "valid_code s \<longleftrightarrow> 4 \<le> length s \<and> length s \<le> 10 \<and> all_digits s"

definition require_code :: "string option \<Rightarrow> exn + string" where
  "require_code given =
     (case given of
        Some s \<Rightarrow> if valid_code s then Inr s
          else Inl (verification_exn VerificationInputInvalid ''The verification code must contain 4 to 10 digits.'')
      | None \<Rightarrow> Inl (verification_exn VerificationInputInvalid ''The verification code must contain 4 to 10 digits.''))"

text \<open>The clock reading is the \<open>auto_now\<close> column.\<close>

definition mark_phone_verified :: "row_id \<Rightarrow> string \<Rightarrow> time \<Rightarrow> time \<Rightarrow> unit transaction" where
  "mark_phone_verified phone_number_id expected_number verified_at now d =
     bind_res (or_raise (get_phone phone_number_id d) phone_missing) (\<lambda>p.
     bind_res (require (ph_number p = expected_number)
       (verification_exn PhoneNumberChanged ''The phone number changed while verification was in progress.'')) (\<lambda>_.
       Inr ((), if ph_verified_at p = None
                then put_phone phone_number_id (\<lambda>r. r\<lparr>ph_verified_at := Some verified_at, ph_updated_at := now\<rparr>) d
                else d)))"

text \<open>
  What a check does once it holds an unverified phone and a gateway. Clock readings: 0 is the
  verification time when none is given, 1 the \<open>auto_now\<close> column.
\<close>

type_synonym verification_outcome = "(exn + verification_result) \<times> db \<times> gateway_call list"

definition finish_check ::
  "verification_gateway \<Rightarrow> phone_number \<Rightarrow> string \<Rightarrow> time option \<Rightarrow> (db \<Rightarrow> db) \<Rightarrow> clock \<Rightarrow> db \<Rightarrow>
    verification_outcome" where
  "finish_check gateway p s verified_at meanwhile clk d =
     (let calls = [Check_Call (ph_number p) s]
      in case check_verification gateway (ph_number p) s of
           Inl x \<Rightarrow> (Inl x, meanwhile d, calls)
         | Inr result \<Rightarrow>
             if vr_status result \<noteq> V_APPROVED then (Inr result, meanwhile d, calls)
             else (case mark_phone_verified (ph_id p) (ph_number p) (or_now verified_at (clk 0)) (clk 1) (meanwhile d) of
                     Inl x \<Rightarrow> (Inl x, meanwhile d, calls)
                   | Inr (_, d') \<Rightarrow> (Inr result, d', calls)))"

definition already_approved :: verification_result where
  "already_approved = \<lparr>vr_status = V_APPROVED, vr_provider_sid = None\<rparr>"

definition check_phone_verification ::
  "row_id \<Rightarrow> string option \<Rightarrow> verification_gateway \<Rightarrow> time option \<Rightarrow> (db \<Rightarrow> db) \<Rightarrow> clock \<Rightarrow> db \<Rightarrow>
    verification_outcome" where
  "check_phone_verification phone_number_id given gateway verified_at meanwhile clk d =
     (case bind_res (require_code given) (\<lambda>s.
             bind_res (or_raise (get_phone phone_number_id d) phone_missing) (\<lambda>p. Inr (s, p))) of
        Inl x \<Rightarrow> (Inl x, d, [])
      | Inr (s, p) \<Rightarrow>
          if is_verified p then (Inr already_approved, d, [])
          else finish_check gateway p s verified_at meanwhile clk d)"

definition check_user_phone_verification ::
  "row_id \<Rightarrow> string option \<Rightarrow> row_id \<Rightarrow> verification_gateway option \<Rightarrow> time option \<Rightarrow> (db \<Rightarrow> db) \<Rightarrow> clock \<Rightarrow> db \<Rightarrow>
    verification_outcome" where
  "check_user_phone_verification phone_number_id given user gateway verified_at meanwhile clk d =
     (case bind_res (require_code given) (\<lambda>s.
             bind_res (get_user_phone phone_number_id user d) (\<lambda>p. Inr (s, p))) of
        Inl x \<Rightarrow> (Inl x, d, [])
      | Inr (s, p) \<Rightarrow>
          if is_verified p then (Inr already_approved, d, [])
          else case gateway of
            None \<Rightarrow> (Inl (raise ValueError ''A verification gateway is required.''), d, [])
          | Some g \<Rightarrow> finish_check g p s verified_at meanwhile clk d)"

end
