(* ===== verification/Accounts_Properties.thy ===== *)
theory Accounts_Properties
  imports Accounts_Services Samples
begin

text \<open>
  What enrolling and verifying guarantee, and masking.
\<close>

section \<open>Facts\<close>

lemma get_user_phone_Inr_iff [simp]:
  "get_user_phone i user d = Inr p \<longleftrightarrow> get_phone i d = Some p \<and> ph_user p = user"
  by (auto simp: get_user_phone_def split: option.splits)

lemma require_code_Inr_iff [simp]: "require_code given = Inr s \<longleftrightarrow> given = Some s \<and> valid_code s"
  by (auto simp: require_code_def split: option.splits)

lemma find_phone_member: "get_phone i d = Some p \<Longrightarrow> p \<in> set (rows (db_phones d))"
  by (auto simp: get_phone_def dest: find_row_in_rows)

text \<open>A write that keeps owner and number and never takes a verification away keeps the invariant.\<close>

lemma wf_put_phone:
  assumes wf: "wf_db d"
    and f: "\<And>r. ph_id (f r) = ph_id r" "\<And>r. ph_user (f r) = ph_user r" "\<And>r. ph_number (f r) = ph_number r"
      "\<And>r. is_verified r \<Longrightarrow> is_verified (f r)"
  shows "wf_db (put_phone i f d)"
proof -
  let ?g = "\<lambda>r. if ph_id r = i then f r else r"
  have number: "map ph_number (map ?g rs) = map ph_number rs" for rs
    using f by simp
  have "event_ok (put_phone i f d) e" if ok: "event_ok d e" for e
  proof -
    from ok obtain p where p: "p \<in> set (rows (db_phones d))" "ph_id p = ev_phone_number e"
        "ph_user p = ev_user e" "is_verified p"
      by (auto simp: event_ok_def)
    have "?g p \<in> set (rows (db_phones (put_phone i f d)))"
      using p(1) by (simp add: rows_update_row)
    moreover have "ph_id (?g p) = ev_phone_number e \<and> ph_user (?g p) = ev_user e \<and> is_verified (?g p)"
      using p f by simp
    ultimately show ?thesis using ok unfolding event_ok_def attempts_of_put_phone by blast
  qed
  then show ?thesis
    using wf f(1) unfolding wf_db_def by (simp add: rows_update_row number del: map_map)
qed

lemma wf_add_phone:
  assumes wf: "wf_db d" and mk: "\<And>i. ph_id (mk i) = i" "\<And>i. ph_number (mk i) = number"
    and new: "number \<notin> ph_number ` set (rows (db_phones d))"
  shows "wf_db (d\<lparr>db_phones := snd (insert_row mk (db_phones d))\<rparr>)"
proof -
  have "event_ok (d\<lparr>db_phones := snd (insert_row mk (db_phones d))\<rparr>) e" if "event_ok d e" for e
    using that by (auto simp: event_ok_def insert_row_simps attempts_of_def)
  then show ?thesis
    using wf mk new by (auto simp: wf_db_def insert_row_simps intro!: wf_insert_row)
qed

text \<open>The marking, as one equation on the rows.\<close>

lemma mark_phone_verified_Inr:
  assumes "mark_phone_verified i number t now d = Inr (u, d')"
  obtains p where "get_phone i d = Some p" "ph_number p = number"
    "d' = (if is_verified p then d else put_phone i (\<lambda>r. r\<lparr>ph_verified_at := Some t, ph_updated_at := now\<rparr>) d)"
  using assms by (auto simp: mark_phone_verified_def is_verified_def)

lemma mark_phone_verified_wf:
  assumes "wf_db d" and "mark_phone_verified i number t now d = Inr (u, d')"
  shows "wf_db d'"
  using assms(2) by (cases rule: mark_phone_verified_Inr)
    (auto intro!: wf_put_phone [OF assms(1)] simp: assms(1) is_verified_def)

text \<open>
  How a check ends: it changed nothing of its own, or the provider approved the code for the number
  and the phone is now marked.
\<close>

lemma finish_check_cases:
  assumes "finish_check g p s t meanwhile clk d = (r, d', calls)"
  obtains (unchanged) "d' = meanwhile d" "calls = [Check_Call (ph_number p) s]"
      "\<And>v. r = Inr v \<Longrightarrow> vr_status v = V_APPROVED \<Longrightarrow>
        \<exists>q. get_phone (ph_id p) d' = Some q \<and> ph_number q = ph_number p \<and> is_verified q"
  | (marked) v q where "check_verification g (ph_number p) s = Inr v" "vr_status v = V_APPROVED" "r = Inr v"
      "calls = [Check_Call (ph_number p) s]" "get_phone (ph_id p) (meanwhile d) = Some q" "ph_number q = ph_number p"
      "ph_verified_at q = None"
      "d' = put_phone (ph_id p) (\<lambda>r. r\<lparr>ph_verified_at := Some (or_now t (clk 0)), ph_updated_at := clk 1\<rparr>) (meanwhile d)"
proof -
  show thesis
  proof (cases "check_verification g (ph_number p) s")
    case (Inl x)
    then show thesis using assms by (intro unchanged) (auto simp: finish_check_def)
  next
    case (Inr v)
    show thesis
    proof (cases "vr_status v = V_APPROVED")
      case False
      then show thesis using assms Inr by (intro unchanged) (auto simp: finish_check_def)
    next
      case True
      show thesis
      proof (cases "mark_phone_verified (ph_id p) (ph_number p) (or_now t (clk 0)) (clk 1) (meanwhile d)")
        case (Inl x)
        then show thesis using assms Inr True by (intro unchanged) (auto simp: finish_check_def)
      next
        case m: (Inr u)
        obtain w d1 where "u = (w, d1)" by (cases u)
        with m assms Inr True have run: "mark_phone_verified (ph_id p) (ph_number p) (or_now t (clk 0)) (clk 1) (meanwhile d) = Inr (w, d')"
          and res: "r = Inr v" "calls = [Check_Call (ph_number p) s]"
          by (auto simp: finish_check_def)
        from run show thesis
        proof (cases rule: mark_phone_verified_Inr)
          case (1 q)
          show thesis
          proof (cases "is_verified q")
            case True
            with 1 res show thesis
              by (intro unchanged) (auto simp: phones.get_key)
          next
            case False
            with 1 show thesis
              by (intro marked [OF Inr \<open>vr_status v = V_APPROVED\<close> res, of q]) (simp_all add: is_verified_def)
          qed
        qed
      qed
    qed
  qed
qed

section \<open>Properties\<close>

text \<open>Enrolling a number succeeds exactly when it passes the validator, fits the column and nobody has it;
  then the new row is the owner's, unverified, with a fresh identifier, and the database stays well-formed.\<close>

theorem create_phone_number_iff:
  "create_phone_number user number clk d = Inr (p, d') \<longleftrightarrow>
    e164_validator number \<and> length number \<le> 16 \<and> number \<notin> ph_number ` set (rows (db_phones d)) \<and>
    p = \<lparr>ph_id = next_id (db_phones d), ph_user = user, ph_number = number, ph_verified_at = None,
         ph_created_at = clk 0, ph_updated_at = clk 1\<rparr> \<and>
    d' = d\<lparr>db_phones := \<lparr>rows = rows (db_phones d) @ [p], next_id = next_id (db_phones d) + 1\<rparr>\<rparr>"
  by (auto simp: create_phone_number_def Let_def clean_phone_number_Nil_iff insert_row_def)

lemma create_phone_number_wf:
  assumes "wf_db d" and "create_phone_number user number clk d = Inr (p, d')"
  shows "wf_db d'"
proof -
  let ?mk = "\<lambda>i. \<lparr>ph_id = i, ph_user = user, ph_number = number, ph_verified_at = None,
                  ph_created_at = clk 0, ph_updated_at = clk 1\<rparr>"
  have "number \<notin> ph_number ` set (rows (db_phones d))" "d' = d\<lparr>db_phones := snd (insert_row ?mk (db_phones d))\<rparr>"
    using assms(2) by (auto simp: create_phone_number_def Let_def insert_row_def)
  with wf_add_phone [OF assms(1), of ?mk number] show ?thesis by simp
qed

text \<open>C22. A phone becomes verified only by the provider's approval. Whatever other transactions commit
  during a user's check, either no call was made and nothing changed; or the user owned the unverified
  phone and exactly this number and code were sent, and then the check changed nothing itself, or the
  provider approved, the number is still the one that was sent, and exactly the verification time, not set
  before, is written. An approved answer means that the phone is verified afterwards.\<close>

theorem check_user_phone_verification_sound:
  assumes "check_user_phone_verification i given user (Some g) t meanwhile clk d = (r, d', calls)"
  shows "(calls = [] \<and> d' = d \<or>
     (\<exists>p s. get_phone i d = Some p \<and> ph_user p = user \<and> \<not> is_verified p \<and> given = Some s \<and> valid_code s \<and>
        calls = [Check_Call (ph_number p) s] \<and>
        (d' = meanwhile d \<or>
         (\<exists>v q. check_verification g (ph_number p) s = Inr v \<and> vr_status v = V_APPROVED \<and> r = Inr v \<and>
            get_phone i (meanwhile d) = Some q \<and> ph_number q = ph_number p \<and> ph_verified_at q = None \<and>
            d' = put_phone i (\<lambda>r. r\<lparr>ph_verified_at := Some (or_now t (clk 0)), ph_updated_at := clk 1\<rparr>)
              (meanwhile d))))) \<and>
    (\<forall>v. r = Inr v \<and> vr_status v = V_APPROVED \<longrightarrow> (\<exists>q. get_phone i d' = Some q \<and> is_verified q))"
proof -
  consider (refused) x where "r = Inl x" "d' = d" "calls = []"
    | (known) p where "get_phone i d = Some p" "is_verified p" "r = Inr already_approved" "d' = d" "calls = []"
    | (asked) p s where "given = Some s" "valid_code s" "get_phone i d = Some p" "ph_user p = user" "\<not> is_verified p"
        "finish_check g p s t meanwhile clk d = (r, d', calls)"
  proof (cases "bind_res (require_code given) (\<lambda>s. bind_res (get_user_phone i user d) (\<lambda>p. Inr (s, p)))")
    case (Inl x)
    with assms show thesis by (intro refused [of x]) (auto simp: check_user_phone_verification_def)
  next
    case (Inr sp)
    then obtain s p where sp: "sp = (s, p)" "given = Some s" "valid_code s" "get_phone i d = Some p" "ph_user p = user"
      by auto
    have "(if is_verified p then (Inr already_approved, d, []) else finish_check g p s t meanwhile clk d) = (r, d', calls)"
      using assms unfolding check_user_phone_verification_def Inr sp(1) by (simp split: if_splits)
    then show thesis using known [OF sp(4)] asked [OF sp(2-5)] by (auto split: if_splits)
  qed
  then show ?thesis
  proof cases
    case (asked p s)
    have i: "ph_id p = i" using phones.get_key [OF asked(3)] .
    from asked(6) show ?thesis
    proof (cases rule: finish_check_cases)
      case unchanged
      then show ?thesis using asked i by blast
    next
      case (marked v q)
      have "get_phone i d' = Some (q\<lparr>ph_verified_at := Some (or_now t (clk 0)), ph_updated_at := clk 1\<rparr>)"
        using marked(5,8) i by (simp add: phones.get_put)
      then show ?thesis using asked i marked by (auto simp: is_verified_def)
    qed
  qed auto
qed

definition sample_gateway :: verification_gateway where
  "sample_gateway = \<lparr>start_verification = \<lambda>to. Inr \<lparr>vr_status = V_PENDING, vr_provider_sid = Some ''VE1''\<rparr>,
     check_verification = \<lambda>to s. Inr \<lparr>vr_status = (if s = ''123456'' then V_APPROVED else V_REJECTED),
       vr_provider_sid = Some ''VE1''\<rparr>\<rparr>"

lemma check_user_phone_verification_sound_witness:
  "\<exists>d' q. check_user_phone_verification 2 (Some ''123456'') 8 (Some sample_gateway) (Some 50) (\<lambda>d. d) (\<lambda>n. 60) sample_db =
     (Inr \<lparr>vr_status = V_APPROVED, vr_provider_sid = Some ''VE1''\<rparr>, d', [Check_Call ''+14155550102'' ''123456'']) \<and>
   get_phone 2 d' = Some q \<and> is_verified q"
proof -
  have "valid_code ''123456''" by code_simp
  then obtain d' where run: "check_user_phone_verification 2 (Some ''123456'') 8 (Some sample_gateway) (Some 50) (\<lambda>d. d) (\<lambda>n. 60) sample_db =
     (Inr \<lparr>vr_status = V_APPROVED, vr_provider_sid = Some ''VE1''\<rparr>, d', [Check_Call ''+14155550102'' ''123456''])"
    using sample_phones
    by (simp add: check_user_phone_verification_def require_code_def get_user_phone_def is_verified_def sample_unverified_def
        finish_check_def sample_gateway_def mark_phone_verified_def bind_require)
  with check_user_phone_verification_sound [OF run] show ?thesis by auto
qed

text \<open>The two masking functions agree, and the masked number keeps the length and shows nothing but the
  last four characters, and nothing at all of a shorter string.\<close>

theorem masks_agree:
  "serializer_mask_phone_number n = gateway_mask_phone_number n \<and>
   length (gateway_mask_phone_number n) = length n \<and>
   take (length n - 4) (gateway_mask_phone_number n) = replicate (length n - 4) (CHR ''*'') \<and>
   drop (length n - 4) (gateway_mask_phone_number n) =
     (if length n \<le> 4 then replicate (length n) (CHR ''*'') else drop (length n - 4) n)"
  by (simp add: serializer_mask_phone_number_def gateway_mask_phone_number_def Let_def)

end
