(* ===== verification/Twilio.thy ===== *)
theory Twilio
  imports Weather Accounts_Services Delivery_Services
begin

text \<open>
  The Twilio adapters: \<open>apps/accounts/twilio_verify.py\<close>, \<open>apps/delivery/twilio_sms.py\<close>,
  \<open>twilio_voice.py\<close> and \<open>twilio_sender.py\<close>. The Twilio client is a parameter: for the arguments of a
  call, what the call gives. Everything the adapters do with that is written out.
\<close>

section \<open>What a client call gives\<close>

text \<open>
  A value, a \<open>TwilioRestException\<close> with its \<open>code\<close> and \<open>status\<close>, a \<open>requests.Timeout\<close>, another
  \<open>requests.RequestException\<close>, or any other exception.
\<close>

datatype 'a client_reply =
    Replied 'a
  | Rest_Error "int option" "int option"
  | Timed_Out
  | Unreachable
  | Raised exn

definition code_in :: "int option \<Rightarrow> int list \<Rightarrow> bool" where
  "code_in c codes = (case c of None \<Rightarrow> False | Some n \<Rightarrow> n \<in> set codes)"

definition server_error :: "int option \<Rightarrow> bool" where
  "server_error status = (case status of None \<Rightarrow> False | Some n \<Rightarrow> 500 \<le> n)"

text \<open>The \<open>except\<close> clauses around every client call.\<close>

definition client_call ::
  "(int option \<Rightarrow> int option \<Rightarrow> exn) \<Rightarrow> exn \<Rightarrow> exn \<Rightarrow> 'a client_reply \<Rightarrow> exn + 'a" where
  "client_call map_rest_error timeout unreachable reply =
     (case reply of
        Replied v \<Rightarrow> Inr v
      | Rest_Error c status \<Rightarrow> Inl (map_rest_error c status)
      | Timed_Out \<Rightarrow> Inl timeout
      | Unreachable \<Rightarrow> Inl unreachable
      | Raised x \<Rightarrow> Inl x)"

section \<open>Settings\<close>

record twilio_settings =
  TWILIO_ACCOUNT_SID :: string
  TWILIO_AUTH_TOKEN :: string
  TWILIO_VERIFY_SERVICE_SID :: string
  TWILIO_SMS_FROM_NUMBER :: string
  TWILIO_SMS_INBOUND_CALLBACK_URL :: string
  TWILIO_HTTP_TIMEOUT :: pyfloat
  TWILIO_VOICE_FROM_NUMBER :: string
  TWILIO_VOICE_STATUS_CALLBACK_URL :: string
  TWILIO_VOICE_ACTION_CALLBACK_URL :: string

section \<open>Verification\<close>

text \<open>\<open>getattr(verification, "status", None)\<close> and \<open>getattr(verification, "sid", None)\<close>.\<close>

type_synonym verification_reply = "(string option \<times> string option) client_reply"

record verify_client =
  verifications_create :: "string \<Rightarrow> string \<Rightarrow> verification_reply"
  verification_checks_create :: "string \<Rightarrow> string \<Rightarrow> verification_reply"

definition REJECTED_STATUSES :: "string set" where
  "REJECTED_STATUSES = {''canceled'', ''deleted'', ''expired'', ''failed'', ''max_attempts_reached''}"

definition verify_map_result :: "string option \<times> string option \<Rightarrow> exn + verification_result" where
  "verify_map_result v =
     (case v of (status, provider_sid) \<Rightarrow>
        if status = Some ''pending'' then Inr \<lparr>vr_status = V_PENDING, vr_provider_sid = provider_sid\<rparr>
        else if status = Some ''approved'' then Inr \<lparr>vr_status = V_APPROVED, vr_provider_sid = provider_sid\<rparr>
        else if \<exists>s \<in> REJECTED_STATUSES. status = Some s
        then Inr \<lparr>vr_status = V_REJECTED, vr_provider_sid = provider_sid\<rparr>
        else Inl (verification_exn VerificationMalformedResponse
          ''The verification provider returned an unknown status.''))"

text \<open>The error codes the adapter tells apart.\<close>

definition VERIFY_RATE_LIMIT_CODES :: "int list" where
  "VERIFY_RATE_LIMIT_CODES = [20429, 60203, 60207, 60212, 60624, 60626, 60728]"

definition VERIFY_BLOCKED_CODES :: "int list" where
  "VERIFY_BLOCKED_CODES = [60238, 60410, 60412, 60605]"

definition VERIFY_AUTHENTICATION_CODES :: "int list" where
  "VERIFY_AUTHENTICATION_CODES = [20003, 20403, 60361]"

definition VERIFY_EXPIRED_CODES :: "int list" where
  "VERIFY_EXPIRED_CODES = [20404, 60202, 60623]"

lemmas verify_codes = VERIFY_RATE_LIMIT_CODES_def VERIFY_BLOCKED_CODES_def VERIFY_AUTHENTICATION_CODES_def VERIFY_EXPIRED_CODES_def

definition verify_map_rest_error :: "int option \<Rightarrow> int option \<Rightarrow> exn" where
  "verify_map_rest_error c status =
     (if code_in c VERIFY_RATE_LIMIT_CODES \<or> status = Some 429
      then verification_exn VerificationRateLimited ''Too many verification attempts. Try again later.''
      else if code_in c VERIFY_BLOCKED_CODES
      then verification_exn VerificationBlocked ''The verification provider blocked this attempt.''
      else if code_in c VERIFY_EXPIRED_CODES \<or> status = Some 404
      then verification_exn VerificationExpired ''The verification challenge expired or was not found.''
      else if code_in c VERIFY_AUTHENTICATION_CODES \<or> status = Some 401 \<or> status = Some 403
      then verification_exn VerificationAuthenticationError
        ''The verification provider credentials or access are invalid.''
      else if c = Some 60200 \<or> status = Some 400
      then verification_exn VerificationInputInvalid ''The phone number or verification code was invalid.''
      else if server_error status
      then verification_exn VerificationProviderUnavailable
        ''The verification provider is temporarily unavailable.''
      else verification_exn VerificationProviderUnavailable
        ''The verification provider rejected the request.'')"

definition verify_call :: "verification_reply \<Rightarrow> exn + verification_result" where
  "verify_call reply =
     bind_res (client_call verify_map_rest_error
       (verification_exn VerificationProviderTimeout ''The verification provider timed out.'')
       (verification_exn VerificationProviderUnavailable ''The verification provider could not be reached.'')
       reply) verify_map_result"

definition twilio_start_verification :: "verify_client \<Rightarrow> string \<Rightarrow> exn + verification_result" where
  "twilio_start_verification client phone_number = verify_call (verifications_create client phone_number ''sms'')"

definition twilio_check_verification :: "verify_client \<Rightarrow> string \<Rightarrow> string \<Rightarrow> exn + verification_result" where
  "twilio_check_verification client phone_number s = verify_call (verification_checks_create client phone_number s)"

definition make_twilio_verify_gateway ::
  "string \<Rightarrow> string \<Rightarrow> string \<Rightarrow> pyfloat \<Rightarrow> verify_client \<Rightarrow> exn + verification_gateway" where
  "make_twilio_verify_gateway account_sid auth_token service_sid timeout client =
     (if account_sid = [] \<or> auth_token = [] \<or> service_sid = []
      then Inl (verification_exn VerificationConfigurationError
        ''Twilio account SID, auth token, and Verify service SID are required.'')
      else if le_zero timeout
      then Inl (verification_exn VerificationConfigurationError ''Twilio timeout must be positive.'')
      else Inr \<lparr>start_verification = twilio_start_verification client,
                check_verification = twilio_check_verification client\<rparr>)"

definition verify_gateway_from_settings :: "twilio_settings \<Rightarrow> verify_client \<Rightarrow> exn + verification_gateway" where
  "verify_gateway_from_settings s client =
     make_twilio_verify_gateway (TWILIO_ACCOUNT_SID s) (TWILIO_AUTH_TOKEN s) (TWILIO_VERIFY_SERVICE_SID s)
       (TWILIO_HTTP_TIMEOUT s) client"

section \<open>Text messages\<close>

abbreviation delivery_exn :: "delivery_error \<Rightarrow> string \<Rightarrow> exn" where
  "delivery_exn c text \<equiv> raise (DeliveryExn c) text"

text \<open>The client call takes the destination, the origin and the body, and gives the \<open>sid\<close> attribute
  (\<open>None\<close> when it is not a string).\<close>

type_synonym sms_client = "string \<Rightarrow> string \<Rightarrow> string \<Rightarrow> string option client_reply"

record twilio_sms_sender =
  sms_from_number :: string
  sms_messages_create :: sms_client

definition make_twilio_sms_sender ::
  "string \<Rightarrow> string \<Rightarrow> string \<Rightarrow> pyfloat \<Rightarrow> sms_client \<Rightarrow> exn + twilio_sms_sender" where
  "make_twilio_sms_sender account_sid auth_token from_number timeout client =
     (if account_sid = [] \<or> auth_token = [] \<or> from_number = []
      then Inl (delivery_exn DeliveryConfigurationError
        ''Twilio account SID, auth token, and SMS from number are required.'')
      else if \<not> e164 from_number
      then Inl (delivery_exn DeliveryConfigurationError ''The Twilio SMS from number must use E.164 format.'')
      else if le_zero timeout
      then Inl (delivery_exn DeliveryConfigurationError ''Twilio timeout must be positive.'')
      else Inr \<lparr>sms_from_number = from_number, sms_messages_create = client\<rparr>)"

definition sms_sender_from_settings :: "twilio_settings \<Rightarrow> sms_client \<Rightarrow> exn + twilio_sms_sender" where
  "sms_sender_from_settings s client =
     make_twilio_sms_sender (TWILIO_ACCOUNT_SID s) (TWILIO_AUTH_TOKEN s) (TWILIO_SMS_FROM_NUMBER s)
       (TWILIO_HTTP_TIMEOUT s) client"

definition sms_validate_request :: "string \<Rightarrow> string \<Rightarrow> string \<Rightarrow> exn + unit" where
  "sms_validate_request chan to message =
     (if chan \<noteq> ''sms''
      then Inl (delivery_exn DeliveryInputInvalid ''The Twilio SMS sender only supports SMS.'')
      else if \<not> e164 to
      then Inl (delivery_exn DeliveryInputInvalid ''The SMS destination must use E.164 format.'')
      else if message = [] \<or> 1600 < length message
      then Inl (delivery_exn DeliveryInputInvalid ''The SMS message must contain between 1 and 1600 characters.'')
      else Inr ())"

text \<open>The error codes the adapter tells apart.\<close>

definition SMS_RATE_LIMIT_CODES :: "int list" where
  "SMS_RATE_LIMIT_CODES = [20429]"

definition SMS_AUTHENTICATION_CODES :: "int list" where
  "SMS_AUTHENTICATION_CODES = [20003, 20005, 20403]"

definition SMS_CONFIGURATION_CODES :: "int list" where
  "SMS_CONFIGURATION_CODES = [21212, 21606, 21659]"

definition SMS_INVALID_REQUEST_CODES :: "int list" where
  "SMS_INVALID_REQUEST_CODES = [21211, 21614, 21617]"

definition SMS_REJECTION_CODES :: "int list" where
  "SMS_REJECTION_CODES = [21408, 21608, 21610, 21612]"

definition SMS_UNAVAILABLE_CODES :: "int list" where
  "SMS_UNAVAILABLE_CODES = [21611, 21702]"

lemmas sms_codes = SMS_RATE_LIMIT_CODES_def SMS_AUTHENTICATION_CODES_def SMS_CONFIGURATION_CODES_def SMS_INVALID_REQUEST_CODES_def SMS_REJECTION_CODES_def SMS_UNAVAILABLE_CODES_def

definition sms_map_rest_error :: "int option \<Rightarrow> int option \<Rightarrow> exn" where
  "sms_map_rest_error c status =
     (if code_in c SMS_RATE_LIMIT_CODES \<or> status = Some 429
      then delivery_exn DeliveryRateLimited ''The SMS provider rate limit was reached. Try again later.''
      else if code_in c SMS_AUTHENTICATION_CODES \<or> status = Some 401 \<or> status = Some 403
      then delivery_exn DeliveryAuthenticationError ''The SMS provider credentials or access are invalid.''
      else if code_in c SMS_CONFIGURATION_CODES
      then delivery_exn DeliveryConfigurationError ''The SMS sender configuration was rejected by the provider.''
      else if code_in c SMS_REJECTION_CODES
      then delivery_exn DeliveryProviderRejected ''The SMS provider rejected the request.''
      else if code_in c SMS_UNAVAILABLE_CODES
      then delivery_exn DeliveryProviderUnavailable ''The SMS provider is temporarily unavailable.''
      else if code_in c SMS_INVALID_REQUEST_CODES \<or> status = Some 400
      then delivery_exn DeliveryInputInvalid ''The SMS destination or request was invalid.''
      else if server_error status
      then delivery_exn DeliveryProviderUnavailable ''The SMS provider is temporarily unavailable.''
      else delivery_exn DeliveryProviderRejected ''The SMS provider rejected the request.'')"

definition twilio_sms_send :: "twilio_sms_sender \<Rightarrow> string \<Rightarrow> string \<Rightarrow> string \<Rightarrow> exn + string option" where
  "twilio_sms_send s chan to message =
     bind_res (sms_validate_request chan to message) (\<lambda>_.
     bind_res (client_call sms_map_rest_error
       (delivery_exn DeliveryProviderTimeout ''The SMS provider timed out before confirming submission.'')
       (delivery_exn DeliveryProviderUnavailable ''The SMS provider could not be reached.'')
       (sms_messages_create s to (sms_from_number s) message)) (\<lambda>provider_sid.
     case provider_sid of
       None \<Rightarrow> Inl (delivery_exn DeliveryMalformedResponse ''The SMS provider returned an invalid message identifier.'')
     | Some sid \<Rightarrow>
         if hex_sid [''SM'', ''MM''] sid then Inr (Some sid)
         else Inl (delivery_exn DeliveryMalformedResponse
           ''The SMS provider returned an invalid message identifier.'')))"

end
