(* ===== verification/Twilio_Voice.thy ===== *)
theory Twilio_Voice
  imports Twilio
begin

text \<open>
  \<open>apps/delivery/twilio_voice.py\<close> and \<open>twilio_sender.py\<close>: calls with an announcement and a menu, and
  the sender that picks the adapter of the channel. A TwiML document is the tree of verbs the code
  builds; the library's rendering of it as XML is outside the model.
\<close>

section \<open>TwiML\<close>

datatype twiml_verb =
    Say string
  | Message string
  | Gather (gather_input: string) (gather_num_digits: nat) (gather_timeout: nat) (gather_action: string)
      (gather_method: string) (gather_body: "twiml_verb list")

definition menu_gather :: "string \<Rightarrow> twiml_verb" where
  "menu_gather action_url = Gather ''dtmf'' 1 5 action_url ''POST''
     [Say (''Press 1 to cancel your next scheduled wake-up. ''
        @ ''Press 2 to receive it by text message instead.'')]"

definition call_twiml :: "string \<Rightarrow> string \<Rightarrow> twiml_verb list" where
  "call_twiml action_url message =
     [Say message, menu_gather action_url, Say ''No selection received. Goodbye.'']"

section \<open>\<open>urllib.parse.urlparse\<close>\<close>

text \<open>
  The scheme and the network location. \<open>bracketed_ok\<close> stands for the check of a bracketed IPv6 host,
  which raises \<open>ValueError\<close> when it fails.
\<close>

definition is_letter :: "char \<Rightarrow> bool" where
  "is_letter c \<longleftrightarrow> (65 \<le> code c \<and> code c \<le> 90) \<or> (97 \<le> code c \<and> code c \<le> 122)"

definition lower :: "string \<Rightarrow> string" where
  "lower s = map (\<lambda>c. if 65 \<le> code c \<and> code c \<le> 90 then char_of (code c + 32) else c) s"

definition scheme_char :: "char \<Rightarrow> bool" where
  "scheme_char c \<longleftrightarrow> is_letter c \<or> is_digit c \<or> c \<in> {CHR ''+'', CHR ''-'', CHR ''.''}"

definition clean_url :: "string \<Rightarrow> string" where
  "clean_url url = filter (\<lambda>c. code c \<notin> {9, 10, 13}) (dropWhile (\<lambda>c. code c \<le> 32) url)"

definition split_scheme :: "string \<Rightarrow> string \<times> string" where
  "split_scheme url =
     (let before = takeWhile (\<lambda>c. c \<noteq> CHR '':'') url
      in if before \<noteq> [] \<and> length before < length url \<and> is_letter (hd before) \<and> (\<forall>c \<in> set before. scheme_char c)
         then (lower before, drop (length before + 1) url) else ([], url))"

definition urlparse :: "(string \<Rightarrow> bool) \<Rightarrow> string \<Rightarrow> exn + string \<times> string" where
  "urlparse bracketed_ok url =
     (case split_scheme (clean_url url) of (scheme, rest) \<Rightarrow>
        if take 2 rest = ''//''
        then let netloc = takeWhile (\<lambda>c. c \<notin> {CHR ''/'', CHR ''?'', CHR ''#''}) (drop 2 rest);
                 opening = CHR ''['' \<in> set netloc; closing = CHR '']'' \<in> set netloc
             in if opening \<noteq> closing then Inl (raise ValueError ''Invalid IPv6 URL'')
                else if opening \<and> \<not> bracketed_ok netloc
                then Inl (raise ValueError ''netloc is not a valid bracketed host'')
                else Inr (scheme, netloc)
        else Inr (scheme, []))"

section \<open>Voice calls\<close>

text \<open>The client call: destination, origin, document, status callback, its events and its method.\<close>

type_synonym voice_client =
  "string \<Rightarrow> string \<Rightarrow> twiml_verb list \<Rightarrow> string \<Rightarrow> string list \<Rightarrow> string \<Rightarrow> string option client_reply"

record twilio_voice_sender =
  voice_from_number :: string
  voice_status_callback_url :: string
  voice_action_callback_url :: string
  voice_calls_create :: voice_client

definition require_https :: "(string \<Rightarrow> bool) \<Rightarrow> string \<Rightarrow> string \<Rightarrow> exn + unit" where
  "require_https bracketed_ok url complaint =
     bind_res (urlparse bracketed_ok url) (\<lambda>(scheme, netloc).
       require (scheme = ''https'' \<and> netloc \<noteq> []) (delivery_exn DeliveryConfigurationError complaint))"

definition make_twilio_voice_sender ::
  "(string \<Rightarrow> bool) \<Rightarrow> string \<Rightarrow> string \<Rightarrow> string \<Rightarrow> string \<Rightarrow> string \<Rightarrow> pyfloat \<Rightarrow> voice_client \<Rightarrow>
    exn + twilio_voice_sender" where
  "make_twilio_voice_sender bracketed_ok account_sid auth_token from_number status_callback_url
      action_callback_url timeout client =
     (if account_sid = [] \<or> auth_token = [] \<or> from_number = []
      then Inl (delivery_exn DeliveryConfigurationError
        ''Twilio account SID, auth token, and voice from number are required.'')
      else if \<not> e164 from_number
      then Inl (delivery_exn DeliveryConfigurationError ''The Twilio voice from number must use E.164 format.'')
      else bind_res (require_https bracketed_ok status_callback_url
          ''The Twilio voice status callback must be an absolute HTTPS URL.'') (\<lambda>_.
        bind_res (require_https bracketed_ok action_callback_url
          ''The Twilio voice action callback must be an absolute HTTPS URL.'') (\<lambda>_.
        if le_zero timeout
        then Inl (delivery_exn DeliveryConfigurationError ''Twilio timeout must be positive.'')
        else Inr \<lparr>voice_from_number = from_number, voice_status_callback_url = status_callback_url,
                  voice_action_callback_url = action_callback_url, voice_calls_create = client\<rparr>)))"

definition voice_sender_from_settings ::
  "(string \<Rightarrow> bool) \<Rightarrow> twilio_settings \<Rightarrow> voice_client \<Rightarrow> exn + twilio_voice_sender" where
  "voice_sender_from_settings bracketed_ok s client =
     make_twilio_voice_sender bracketed_ok (TWILIO_ACCOUNT_SID s) (TWILIO_AUTH_TOKEN s)
       (TWILIO_VOICE_FROM_NUMBER s) (TWILIO_VOICE_STATUS_CALLBACK_URL s)
       (TWILIO_VOICE_ACTION_CALLBACK_URL s) (TWILIO_HTTP_TIMEOUT s) client"

definition voice_validate_request :: "string \<Rightarrow> string \<Rightarrow> string \<Rightarrow> exn + unit" where
  "voice_validate_request chan to message =
     (if chan \<noteq> ''voice''
      then Inl (delivery_exn DeliveryInputInvalid ''The Twilio voice sender only supports voice.'')
      else if \<not> e164 to
      then Inl (delivery_exn DeliveryInputInvalid ''The voice destination must use E.164 format.'')
      else if message = [] \<or> 1600 < length message
      then Inl (delivery_exn DeliveryInputInvalid
        ''The voice announcement must contain between 1 and 1600 characters.'')
      else Inr ())"

text \<open>The error codes the adapter tells apart.\<close>

definition VOICE_RATE_LIMIT_CODES :: "int list" where
  "VOICE_RATE_LIMIT_CODES = [20429]"

definition VOICE_AUTHENTICATION_CODES :: "int list" where
  "VOICE_AUTHENTICATION_CODES = [20003, 20005, 20403]"

definition VOICE_CONFIGURATION_CODES :: "int list" where
  "VOICE_CONFIGURATION_CODES = [21210, 21212]"

definition VOICE_INVALID_REQUEST_CODES :: "int list" where
  "VOICE_INVALID_REQUEST_CODES = [21211, 21214, 21217]"

definition VOICE_REJECTION_CODES :: "int list" where
  "VOICE_REJECTION_CODES = [21215, 21216]"

lemmas voice_codes = VOICE_RATE_LIMIT_CODES_def VOICE_AUTHENTICATION_CODES_def VOICE_CONFIGURATION_CODES_def VOICE_INVALID_REQUEST_CODES_def VOICE_REJECTION_CODES_def

definition voice_map_rest_error :: "int option \<Rightarrow> int option \<Rightarrow> exn" where
  "voice_map_rest_error c status =
     (if code_in c VOICE_RATE_LIMIT_CODES \<or> status = Some 429
      then delivery_exn DeliveryRateLimited ''The voice provider rate limit was reached. Try again later.''
      else if code_in c VOICE_AUTHENTICATION_CODES \<or> status = Some 401 \<or> status = Some 403
      then delivery_exn DeliveryAuthenticationError ''The voice provider credentials or access are invalid.''
      else if code_in c VOICE_CONFIGURATION_CODES
      then delivery_exn DeliveryConfigurationError ''The voice sender configuration was rejected by the provider.''
      else if code_in c VOICE_REJECTION_CODES
      then delivery_exn DeliveryProviderRejected ''The voice provider rejected the request.''
      else if code_in c VOICE_INVALID_REQUEST_CODES \<or> status = Some 400
      then delivery_exn DeliveryInputInvalid ''The voice destination or request was invalid.''
      else if server_error status
      then delivery_exn DeliveryProviderUnavailable ''The voice provider is temporarily unavailable.''
      else delivery_exn DeliveryProviderRejected ''The voice provider rejected the request.'')"

definition twilio_voice_send :: "twilio_voice_sender \<Rightarrow> string \<Rightarrow> string \<Rightarrow> string \<Rightarrow> exn + string option" where
  "twilio_voice_send s chan to message =
     bind_res (voice_validate_request chan to message) (\<lambda>_.
     bind_res (client_call voice_map_rest_error
       (delivery_exn DeliveryProviderTimeout ''The voice provider timed out before confirming submission.'')
       (delivery_exn DeliveryProviderUnavailable ''The voice provider could not be reached.'')
       (voice_calls_create s to (voice_from_number s) (call_twiml (voice_action_callback_url s) message)
          (voice_status_callback_url s) [''initiated'', ''ringing'', ''answered'', ''completed''] ''POST''))
       (\<lambda>provider_sid.
     case provider_sid of
       None \<Rightarrow> Inl (delivery_exn DeliveryMalformedResponse ''The voice provider returned an invalid call identifier.'')
     | Some sid \<Rightarrow>
         if hex_sid [''CA''] sid then Inr (Some sid)
         else Inl (delivery_exn DeliveryMalformedResponse
           ''The voice provider returned an invalid call identifier.'')))"

section \<open>The sender of both channels\<close>

record twilio_world =
  tw_settings :: twilio_settings
  tw_bracketed_ok :: "string \<Rightarrow> bool"
  tw_sms_client :: sms_client
  tw_voice_client :: voice_client

text \<open>\<open>TwilioMessageSender\<close> keeps the adapters it has built.\<close>

record twilio_message_sender =
  tms_sms_sender :: "twilio_sms_sender option"
  tms_voice_sender :: "twilio_voice_sender option"

definition new_twilio_message_sender :: twilio_message_sender where
  "new_twilio_message_sender = \<lparr>tms_sms_sender = None, tms_voice_sender = None\<rparr>"

definition cached :: "'a option \<Rightarrow> exn + 'a \<Rightarrow> exn + 'a" where
  "cached known build = (case known of Some x \<Rightarrow> Inr x | None \<Rightarrow> build)"

definition twilio_message_send ::
  "twilio_world \<Rightarrow> string \<Rightarrow> string \<Rightarrow> string \<Rightarrow> twilio_message_sender \<Rightarrow>
    (exn + string option) \<times> twilio_message_sender" where
  "twilio_message_send w chan to message s =
     (if chan = ''sms''
      then case cached (tms_sms_sender s) (sms_sender_from_settings (tw_settings w) (tw_sms_client w)) of
        Inl x \<Rightarrow> (Inl x, s)
      | Inr sms \<Rightarrow> (twilio_sms_send sms chan to message, s\<lparr>tms_sms_sender := Some sms\<rparr>)
      else if chan = ''voice''
      then case cached (tms_voice_sender s)
             (voice_sender_from_settings (tw_bracketed_ok w) (tw_settings w) (tw_voice_client w)) of
        Inl x \<Rightarrow> (Inl x, s)
      | Inr voice \<Rightarrow> (twilio_voice_send voice chan to message, s\<lparr>tms_voice_sender := Some voice\<rparr>)
      else (Inl (raise ValueError ''Unsupported delivery channel.''), s))"

text \<open>The states a sender can be in, and the stateless sender it behaves as.\<close>

definition sender_reachable :: "twilio_world \<Rightarrow> twilio_message_sender \<Rightarrow> bool" where
  "sender_reachable w s \<longleftrightarrow>
     (\<forall>x. tms_sms_sender s = Some x \<longrightarrow> sms_sender_from_settings (tw_settings w) (tw_sms_client w) = Inr x) \<and>
     (\<forall>x. tms_voice_sender s = Some x \<longrightarrow>
        voice_sender_from_settings (tw_bracketed_ok w) (tw_settings w) (tw_voice_client w) = Inr x)"

definition twilio_sender :: "twilio_world \<Rightarrow> sender_call" where
  "twilio_sender w ch to message =
     (case ch of
        SMS \<Rightarrow> bind_res (sms_sender_from_settings (tw_settings w) (tw_sms_client w))
          (\<lambda>s. twilio_sms_send s ''sms'' to message)
      | VOICE \<Rightarrow> bind_res (voice_sender_from_settings (tw_bracketed_ok w) (tw_settings w) (tw_voice_client w))
          (\<lambda>s. twilio_voice_send s ''voice'' to message))"

lemma sender_reachable_new: "sender_reachable w new_twilio_message_sender"
  by (simp add: sender_reachable_def new_twilio_message_sender_def)

lemma twilio_message_send_step:
  assumes "sender_reachable w s"
  shows "fst (twilio_message_send w (channel_value ch) to message s) = twilio_sender w ch to message \<and>
    sender_reachable w (snd (twilio_message_send w (channel_value ch) to message s))"
proof (cases ch)
  case SMS
  show ?thesis
  proof (cases "tms_sms_sender s")
    case None
    with assms SMS show ?thesis
      by (cases "sms_sender_from_settings (tw_settings w) (tw_sms_client w)")
        (auto simp: twilio_message_send_def twilio_sender_def cached_def sender_reachable_def)
  qed (use assms SMS in \<open>auto simp: twilio_message_send_def twilio_sender_def cached_def sender_reachable_def\<close>)
next
  case VOICE
  show ?thesis
  proof (cases "tms_voice_sender s")
    case None
    with assms VOICE show ?thesis
      by (cases "voice_sender_from_settings (tw_bracketed_ok w) (tw_settings w) (tw_voice_client w)")
        (auto simp: twilio_message_send_def twilio_sender_def cached_def sender_reachable_def)
  qed (use assms VOICE in \<open>auto simp: twilio_message_send_def twilio_sender_def cached_def sender_reachable_def\<close>)
qed

section \<open>What an accepted message means\<close>

lemma twilio_sms_send_Inr:
  assumes "twilio_sms_send s chan to message = Inr r"
  obtains sid where "r = Some sid" "hex_sid [''SM'', ''MM''] sid" "e164 to" "chan = ''sms''" "message \<noteq> []"
    "length message \<le> 1600" "sms_messages_create s to (sms_from_number s) message = Replied (Some sid)"
  using assms
  by (auto simp: twilio_sms_send_def sms_validate_request_def client_call_def
      split: if_splits client_reply.splits option.splits)

lemma twilio_voice_send_Inr:
  assumes "twilio_voice_send s chan to message = Inr r"
  obtains sid where "r = Some sid" "hex_sid [''CA''] sid" "e164 to" "chan = ''voice''" "message \<noteq> []"
    "length message \<le> 1600"
    "voice_calls_create s to (voice_from_number s) (call_twiml (voice_action_callback_url s) message)
       (voice_status_callback_url s) [''initiated'', ''ringing'', ''answered'', ''completed''] ''POST'' = Replied (Some sid)"
  using assms
  by (auto simp: twilio_voice_send_def voice_validate_request_def client_call_def
      split: if_splits client_reply.splits option.splits)

lemma hex_sid_length: "hex_sid ps s \<Longrightarrow> length s = 34"
  by (simp add: hex_sid_def)

lemma hex_sid_storable:
  assumes "hex_sid ps s" and "set ps \<subseteq> {''CA'', ''SM'', ''MM''}"
  shows "text_storable s"
proof -
  have "\<not> is_hex (CHR 0x00)" by code_simp
  then have "CHR 0x00 \<notin> set (drop 2 s)" using assms(1) unfolding hex_sid_def by blast
  moreover have "take 2 s \<in> {''CA'', ''SM'', ''MM''}" using assms by (auto simp: hex_sid_def)
  then have "CHR 0x00 \<notin> set (take 2 s)" by auto
  ultimately show ?thesis
    unfolding text_storable_def by (metis Un_iff append_take_drop_id set_append)
qed

lemma hex_sid_CA: "hex_sid [''CA''] s \<Longrightarrow> starts_with ''CA'' s"
  by (simp add: hex_sid_def starts_with_def numeral_2_eq_2)

lemma twilio_sender_Inr:
  assumes "twilio_sender w ch to message = Inr r"
  shows "\<exists>sid. r = Some sid \<and> e164 to \<and> message \<noteq> [] \<and> length message \<le> 1600 \<and>
    hex_sid (if ch = SMS then [''SM'', ''MM''] else [''CA'']) sid"
  using assms
  by (cases ch) (auto simp: twilio_sender_def elim!: twilio_sms_send_Inr twilio_voice_send_Inr)

end
