(* ===== verification/Twilio_Properties.thy ===== *)
theory Twilio_Properties
  imports Twilio_Voice Delivery_Properties Voice_Callbacks
begin

text \<open>
  What the Twilio adapters guarantee to the delivery services: only valid requests leave, only
  well-formed identifiers come back, provider errors become project errors, and a placed call can be
  found by its callbacks.
\<close>

section \<open>The caching sender\<close>

fun send_all ::
  "twilio_world \<Rightarrow> (channel \<times> string \<times> string) list \<Rightarrow> twilio_message_sender \<Rightarrow> (exn + string option) list" where
  "send_all w [] s = []"
| "send_all w ((ch, to, message) # ms) s =
     (case twilio_message_send w (channel_value ch) to message s of (r, s') \<Rightarrow> r # send_all w ms s')"

lemma send_all_reachable:
  "sender_reachable w s \<Longrightarrow> send_all w ms s = map (\<lambda>(ch, to, message). twilio_sender w ch to message) ms"
proof (induction ms arbitrary: s)
  case (Cons m ms)
  obtain ch to message where m: "m = (ch, to, message)" by (cases m) auto
  obtain r s' where run: "twilio_message_send w (channel_value ch) to message s = (r, s')" by fastforce
  with twilio_message_send_step [OF Cons.prems, of ch to message] m Cons.IH [of s'] show ?case by simp
qed simp

text \<open>The sender that builds its channel adapters on first use and keeps them answers every sequence of
  messages like one that builds a fresh adapter for each message.\<close>

theorem caching_sender_refines_stateless:
  "send_all w ms new_twilio_message_sender = map (\<lambda>(ch, to, message). twilio_sender w ch to message) ms"
  by (rule send_all_reachable [OF sender_reachable_new])

text \<open>What the sender accepts: the destination is E.164, the message has 1 to 1600 characters, and the
  identifier it returns has the channel's prefix and 34 characters, which the column of the attempt
  can hold.\<close>

theorem accepted_messages_are_valid:
  assumes "twilio_sender w ch to message = Inr r"
  shows "\<exists>sid. r = Some sid \<and> e164 to \<and> 1 \<le> length message \<and> length message \<le> 1600 \<and>
    hex_sid (if ch = SMS then [''SM'', ''MM''] else [''CA'']) sid \<and> length sid = 34 \<and> length sid \<le> 64"
proof -
  obtain sid where sid: "r = Some sid" "e164 to" "message \<noteq> []" "length message \<le> 1600"
    "hex_sid (if ch = SMS then [''SM'', ''MM''] else [''CA'']) sid"
    using twilio_sender_Inr [OF assms] by blast
  moreover have "1 \<le> length message" using sid(3) by (simp add: Suc_le_eq)
  ultimately show ?thesis using hex_sid_length [OF sid(5)] by simp
qed

definition sample_settings :: twilio_settings where
  "sample_settings = \<lparr>TWILIO_ACCOUNT_SID = ''AC1'', TWILIO_AUTH_TOKEN = ''token'', TWILIO_VERIFY_SERVICE_SID = ''VA1'',
     TWILIO_SMS_FROM_NUMBER = ''+14155550199'', TWILIO_SMS_INBOUND_CALLBACK_URL = ''https://w.example/twilio/sms/inbound/'',
     TWILIO_HTTP_TIMEOUT = Fin 5, TWILIO_VOICE_FROM_NUMBER = ''+14155550198'',
     TWILIO_VOICE_STATUS_CALLBACK_URL = ''https://w.example/twilio/voice/status/'',
     TWILIO_VOICE_ACTION_CALLBACK_URL = ''https://w.example/twilio/voice/action/''\<rparr>"

definition sample_sid :: "string \<Rightarrow> string" where
  "sample_sid prefix = prefix @ replicate 32 (CHR ''a'')"

definition sample_world :: twilio_world where
  "sample_world = \<lparr>tw_settings = sample_settings, tw_bracketed_ok = (\<lambda>_. False),
     tw_sms_client = (\<lambda>to origin body. Replied (Some (sample_sid ''SM''))),
     tw_voice_client = (\<lambda>to origin doc url evs m. Replied (Some (sample_sid ''CA'')))\<rparr>"

lemma sample_world_sends:
  "twilio_sender sample_world VOICE ''+14155550101'' ''hi'' = Inr (Some (sample_sid ''CA''))"
  "twilio_sender sample_world SMS ''+14155550101'' ''hi'' = Inr (Some (sample_sid ''SM''))"
  by code_simp+

lemma accepted_messages_are_valid_witness:
  "e164 ''+14155550101'' \<and> length (sample_sid ''CA'') = 34"
  using accepted_messages_are_valid [OF sample_world_sends(1)] by simp

section \<open>Errors\<close>

text \<open>Provider errors whose code is none of the listed ones are classified by the HTTP status alone: for
  both channels 429 is a rate limit, 401 and 403 authentication, 400 invalid input, 5xx unavailable, and
  anything else a rejection; exactly 429 and 5xx may be retried.\<close>

theorem unlisted_errors_by_status:
  assumes "\<not> code_in c [20429, 20003, 20005, 20403, 21212, 21606, 21659, 21408, 21608, 21610, 21612, 21611, 21702,
      21211, 21614, 21617]"
    and "\<not> code_in c' [20429, 20003, 20005, 20403, 21210, 21212, 21215, 21216, 21211, 21214, 21217]"
  shows "exn_class (sms_map_rest_error c status) = DeliveryExn (
      if status = Some 429 then DeliveryRateLimited else if status = Some 401 \<or> status = Some 403
      then DeliveryAuthenticationError else if status = Some 400 then DeliveryInputInvalid
      else if server_error status then DeliveryProviderUnavailable else DeliveryProviderRejected) \<and>
    exn_class (voice_map_rest_error c' status) = exn_class (sms_map_rest_error c status) \<and>
    (retryable (exn_class (sms_map_rest_error c status)) \<longleftrightarrow> status = Some 429 \<or> server_error status)"
  using assms
  by (cases c; cases c'; cases status)
    (simp_all add: sms_map_rest_error_def voice_map_rest_error_def sms_codes voice_codes code_in_def server_error_def)

lemma unlisted_errors_by_status_witness:
  "exn_class (sms_map_rest_error None (Some 503)) = DeliveryExn DeliveryProviderUnavailable"
  using unlisted_errors_by_status [of None None "Some 503"] by (simp add: code_in_def server_error_def)

section \<open>A placed call\<close>

text \<open>C21. A due real voice event that Twilio accepts: afterwards its attempt is the one that callbacks with
  the returned call identifier find, no status or digit recorded, and a first menu digit in that call is
  accepted and applied.\<close>

theorem placed_call_can_be_steered:
  assumes "wf_db d" and "get_event i d = Some e" and "ev_status e = E_SCHEDULED"
    and "ev_scheduled_for e \<le> or_now now (clk 0)" and "get_phone (ev_phone_number e) d = Some p"
    and "ev_channel e = VOICE" and "\<not> ev_is_demo e" and "env_message_sender env = Some (twilio_sender w)"
    and "env_weather env (ev_zip_code e) = Inr cw"
    and "twilio_sender w VOICE (ph_number p) (render_weather_announcement cw) = Inr (Some sid)"
    and "storable (as_snapshot cw)" and "sid_free (Some sid) d"
  shows "\<exists>a d' calls. deliver_scheduled_event i env now clk d = (Inr a, d', calls) \<and> wf_db d' \<and>
    starts_with ''CA'' sid \<and> get_voice_attempt sid d' = Inr a \<and>
    (\<forall>digit \<in> {''1'', ''2''}. \<exists>r d''. apply_voice_menu_action sid digit t clk' d' = Inr (r, d'') \<and> vma_applied r)"
proof -
  have sid: "hex_sid [''CA''] sid" using twilio_sender_Inr [OF assms(10)] by simp
  have rec: "recordable (as_snapshot cw) (Some sid) d"
    using assms(11,12) hex_sid_length [OF sid] hex_sid_storable [OF sid] by (simp add: recordable_def)
  have sel: "select_sender e env = Inr (Real_Send, twilio_sender w)"
    using assms(7,8) by (simp add: select_sender_def)
  have e: "ev_channel e = VOICE" "\<not> ev_is_demo e" "twilio_sender w (ev_channel e) (ph_number p)
      (render_weather_announcement cw) = Inr (Some sid)"
    using assms(6,7,10) by simp_all
  obtain a d' e' calls where run: "deliver_scheduled_event i env now clk d = (Inr a, d', calls)"
    and a: "at_status a = A_SUBMITTED" "at_provider_sid a = Some sid" "attempts_of i d' = [a]"
      "at_event a = i" "at_voice_action_result a = None"
    and e': "get_event i d' = Some e'" "ev_channel e' = VOICE" and wf: "wf_db d'"
    using deliver_success_effect [where now = now and clk = clk and send = "twilio_sender w", OF assms(1-5,9) sel e(3) rec] e(1,2) by auto
  have row: "a \<in> set (rows (db_attempts d'))"
    using a(3) attempts_of_member [of a i d'] by simp
  have found: "get_voice_attempt sid d' = Inr a"
    by (rule get_voice_attempt_unique [OF wf row])
      (use a e' hex_sid_storable [OF sid] in \<open>simp_all add: submitted_voice_def\<close>)
  have "\<exists>r d''. apply_voice_menu_action sid digit t clk' d' = Inr (r, d'') \<and> vma_applied r"
    if digit: "digit \<in> {''1'', ''2''}" for digit
  proof -
    obtain out tgt d1 where ch: "menu_change digit (ev_user e') t clk' d' out tgt d1"
      using menu_change_exists [OF wf] by blast
    have "get_event (at_event a) d' = Some e'" using a(4) e'(1) by simp
    from menu_action_first [OF digit found a(5) this ch] show ?thesis by (simp add: Let_def)
  qed
  then show ?thesis using run wf found hex_sid_CA [OF sid] by blast
qed

lemma placed_call_can_be_steered_witness:
  "\<exists>a d' calls. deliver_scheduled_event 2
      \<lparr>env_weather = fake_get_current_weather 0, env_message_sender = Some (twilio_sender sample_world),
       env_demo_sender = None\<rparr> (Some (seconds 2000)) (\<lambda>n. int n) sample_db = (Inr a, d', calls) \<and>
    get_voice_attempt (sample_sid ''CA'') d' = Inr a"
proof -
  let ?cw = "\<lparr>cw_location = ''ZIP 10001'', cw_temperature_f = Fin 72, cw_condition = ''clear skies'',
    cw_observed_at = 0\<rparr>"
  have sent: "twilio_sender sample_world VOICE (ph_number sample_phone) (render_weather_announcement ?cw) =
      Inr (Some (sample_sid ''CA''))"
    by code_simp
  have "text_storable ''ZIP 10001'' \<and> text_storable ''clear skies'' \<and> text_storable (isoformat_utc 0)" by code_simp
  then have "storable (as_snapshot ?cw)" by (simp add: storable_def as_snapshot_def)
  moreover have "sid_free (Some (sample_sid ''CA'')) sample_db"
    by code_simp
  ultimately show ?thesis
    using placed_call_can_be_steered [OF wf_sample_db sample_events(2), of "Some (seconds 2000)" "\<lambda>n. int n" sample_phone
        "\<lparr>env_weather = fake_get_current_weather 0, env_message_sender = Some (twilio_sender sample_world),
          env_demo_sender = None\<rparr>" sample_world ?cw "sample_sid ''CA''", OF _ _ _ _ _ _ _ sent]
    by (simp add: sample_phones sample_real_def fake_get_current_weather_def) blast
qed

section \<open>Verification\<close>

text \<open>Only a reply with the status \<open>approved\<close> is an approval, only \<open>pending\<close> is pending; a rejection is one of
  the five final statuses; everything else is an exception, and a provider or transport failure is one of the
  project's verification errors.\<close>

theorem verify_call_spec:
  "(verify_call reply = Inr v \<longleftrightarrow>
     (\<exists>status. reply = Replied (Some status, vr_provider_sid v) \<and>
        (case vr_status v of V_APPROVED \<Rightarrow> status = ''approved'' | V_PENDING \<Rightarrow> status = ''pending''
           | V_REJECTED \<Rightarrow> status \<in> REJECTED_STATUSES))) \<and>
   (verify_call reply = Inl x \<and> (\<forall>y. reply \<noteq> Raised y) \<longrightarrow> (\<exists>c. exn_class x = VerificationExn c))"
proof -
  have apart: "''pending'' \<notin> REJECTED_STATUSES" "''approved'' \<notin> REJECTED_STATUSES"
    by (simp_all add: REJECTED_STATUSES_def)
  have mapped: "verify_map_result (Some status, sid) = Inr v \<longleftrightarrow> sid = vr_provider_sid v \<and>
      (case vr_status v of V_APPROVED \<Rightarrow> status = ''approved'' | V_PENDING \<Rightarrow> status = ''pending''
         | V_REJECTED \<Rightarrow> status \<in> REJECTED_STATUSES)" for status sid
    by (cases v; cases "vr_status v"; cases "status = ''pending''"; cases "status = ''approved''")
      (use apart in \<open>auto simp: verify_map_result_def\<close>)
  have none: "verify_map_result (None, sid) \<noteq> Inr v" for sid
    by (simp add: verify_map_result_def)
  have iff: "verify_call reply = Inr v \<longleftrightarrow> (\<exists>status. reply = Replied (Some status, vr_provider_sid v) \<and>
      (case vr_status v of V_APPROVED \<Rightarrow> status = ''approved'' | V_PENDING \<Rightarrow> status = ''pending''
         | V_REJECTED \<Rightarrow> status \<in> REJECTED_STATUSES))"
  proof (cases reply)
    case (Replied r)
    obtain st sid where "r = (st, sid)" by (cases r)
    with Replied show ?thesis using none
      by (cases st) (auto simp: verify_call_def client_call_def mapped)
  qed (auto simp: verify_call_def client_call_def)
  have errors: "\<exists>c. exn_class x = VerificationExn c" if "verify_call reply = Inl x" "\<forall>y. reply \<noteq> Raised y"
  proof (cases reply)
    case (Replied r)
    with that show ?thesis
      by (cases r) (auto simp: verify_call_def client_call_def verify_map_result_def split: if_splits)
  next
    case (Rest_Error c status)
    have "\<exists>k. exn_class (verify_map_rest_error c status) = VerificationExn k"
      by (simp add: verify_map_rest_error_def)
    with that Rest_Error show ?thesis by (auto simp: verify_call_def client_call_def)
  qed (use that in \<open>auto simp: verify_call_def client_call_def\<close>)
  show ?thesis by (intro conjI iff impI errors) blast+
qed

lemma verify_call_spec_witness:
  "verify_call (Replied (Some ''approved'', Some ''VE1'')) = Inr \<lparr>vr_status = V_APPROVED, vr_provider_sid = Some ''VE1''\<rparr>"
  by (simp add: verify_call_spec)

end
