(* ===== verification/Json_Text.thy ===== *)
theory Json_Text
  imports Json
begin

text \<open>
  The text side of Python's \<open>json\<close> module, as the queue messages use it: \<open>json.loads\<close> and the compact
  \<open>json.dumps\<close> with sorted keys. Reading is a scanner over the characters and a stack automaton over its
  tokens; every malformed text is a \<open>ValueError\<close>, nesting deeper than the interpreter's limit a
  \<open>RecursionError\<close>. An escape that names a character above 255 is read as the placeholder \<open>SUB\<close>.
\<close>

section \<open>Scanning\<close>

datatype json_token =
    T_Open_Object | T_Close_Object | T_Open_List | T_Close_List | T_Colon | T_Comma
  | T_String string
  | T_Value json
  | T_Bad

datatype scan_state =
    S_Start
  | S_String string
  | S_Escape string
  | S_Unicode string nat nat
  | S_Number string
  | S_Word string
  | S_Dead

definition json_space :: "char \<Rightarrow> bool" where
  "json_space c \<longleftrightarrow> code c \<in> {32, 9, 10, 13}"

definition json_letter :: "char \<Rightarrow> bool" where
  "json_letter c \<longleftrightarrow> (65 \<le> code c \<and> code c \<le> 90) \<or> (97 \<le> code c \<and> code c \<le> 122)"

definition number_char :: "char \<Rightarrow> bool" where
  "number_char c \<longleftrightarrow> is_digit c \<or> c \<in> {CHR ''-'', CHR ''+'', CHR ''.'', CHR ''e'', CHR ''E''}"

text \<open>
  The number pattern: an optional minus, digits without a leading zero, an optional fraction, an
  optional exponent.
\<close>

definition integer_part :: "string \<Rightarrow> bool" where
  "integer_part s \<longleftrightarrow> s \<noteq> [] \<and> all_digits s \<and> (hd s = CHR ''0'' \<longrightarrow> length s = 1)"

definition exponent_part :: "string \<Rightarrow> bool" where
  "exponent_part s \<longleftrightarrow>
     s = [] \<or>
     (hd s \<in> {CHR ''e'', CHR ''E''} \<and>
      (let t = (if tl s \<noteq> [] \<and> hd (tl s) \<in> {CHR ''+'', CHR ''-''} then tl (tl s) else tl s)
       in t \<noteq> [] \<and> all_digits t))"

definition fraction_part :: "string \<Rightarrow> bool" where
  "fraction_part s \<longleftrightarrow>
     (if s \<noteq> [] \<and> hd s = CHR ''.''
      then takeWhile is_digit (tl s) \<noteq> [] \<and> exponent_part (dropWhile is_digit (tl s))
      else exponent_part s)"

definition MAX_INT_DIGITS :: nat where
  "MAX_INT_DIGITS = 4300"

definition number_token :: "float_runtime \<Rightarrow> string \<Rightarrow> json_token" where
  "number_token rt text =
     (let negative = starts_with ''-'' text; body = (if negative then tl text else text);
          whole = takeWhile is_digit body; rest = dropWhile is_digit body
      in if \<not> integer_part whole \<or> \<not> fraction_part rest then T_Bad
         else if rest = []
         then if MAX_INT_DIGITS < length whole then T_Bad
              else T_Value (JInt ((if negative then - 1 else 1) * digits_value 0 whole))
         else case float_of_text rt text of Some f \<Rightarrow> T_Value (JFloat f) | None \<Rightarrow> T_Bad)"

definition word_token :: "string \<Rightarrow> json_token" where
  "word_token w =
     (if w = ''null'' then T_Value JNull
      else if w = ''true'' then T_Value (JBool True)
      else if w = ''false'' then T_Value (JBool False)
      else if w = ''NaN'' then T_Value (JFloat NaN)
      else if w = ''Infinity'' then T_Value (JFloat PosInf)
      else if w = ''-Infinity'' then T_Value (JFloat NegInf)
      else T_Bad)"

definition scan_start :: "char \<Rightarrow> json_token list \<times> scan_state" where
  "scan_start c =
     (if json_space c then ([], S_Start)
      else if c = CHR ''{'' then ([T_Open_Object], S_Start)
      else if c = CHR ''}'' then ([T_Close_Object], S_Start)
      else if c = CHR ''['' then ([T_Open_List], S_Start)
      else if c = CHR '']'' then ([T_Close_List], S_Start)
      else if c = CHR '':'' then ([T_Colon], S_Start)
      else if c = CHR '','' then ([T_Comma], S_Start)
      else if c = CHR 0x22 then ([], S_String [])
      else if is_digit c \<or> c = CHR ''-'' then ([], S_Number [c])
      else if json_letter c then ([], S_Word [c])
      else ([T_Bad], S_Dead))"

definition escape_char :: "char \<Rightarrow> char option" where
  "escape_char c =
     (if c \<in> {CHR 0x22, CHR 0x5C, CHR ''/''} then Some c
      else if c = CHR ''b'' then Some (CHR 0x08)
      else if c = CHR ''f'' then Some (CHR 0x0C)
      else if c = CHR ''n'' then Some (CHR 0x0A)
      else if c = CHR ''r'' then Some (CHR 0x0D)
      else if c = CHR ''t'' then Some (CHR 0x09)
      else None)"

definition hex_value :: "char \<Rightarrow> nat" where
  "hex_value c = (if is_digit c then code c - 48 else if code c < 97 then code c - 55 else code c - 87)"

definition unicode_char :: "nat \<Rightarrow> char" where
  "unicode_char n = (if n < 256 then char_of n else CHR 0x1A)"

fun scan_char :: "float_runtime \<Rightarrow> scan_state \<Rightarrow> char \<Rightarrow> json_token list \<times> scan_state" where
  "scan_char rt S_Start c = scan_start c"
| "scan_char rt (S_String acc) c =
     (if c = CHR 0x22 then ([T_String (rev acc)], S_Start)
      else if c = CHR 0x5C then ([], S_Escape acc)
      else if code c < 32 then ([T_Bad], S_Dead)
      else ([], S_String (c # acc)))"
| "scan_char rt (S_Escape acc) c =
     (if c = CHR ''u'' then ([], S_Unicode acc 0 0)
      else case escape_char c of Some e \<Rightarrow> ([], S_String (e # acc)) | None \<Rightarrow> ([T_Bad], S_Dead))"
| "scan_char rt (S_Unicode acc k n) c =
     (if \<not> is_hex c then ([T_Bad], S_Dead)
      else if k < 3 then ([], S_Unicode acc (k + 1) (16 * n + hex_value c))
      else ([], S_String (unicode_char (16 * n + hex_value c) # acc)))"
| "scan_char rt (S_Number acc) c =
     (if number_char c then ([], S_Number (c # acc))
      else if acc = ''-'' \<and> c = CHR ''I'' then ([], S_Word (c # acc))
      else case scan_start c of (ts, st) \<Rightarrow> (number_token rt (rev acc) # ts, st))"
| "scan_char rt (S_Word acc) c =
     (if json_letter c then ([], S_Word (c # acc))
      else case scan_start c of (ts, st) \<Rightarrow> (word_token (rev acc) # ts, st))"
| "scan_char rt S_Dead c = ([], S_Dead)"

fun scan_end :: "float_runtime \<Rightarrow> scan_state \<Rightarrow> json_token list" where
  "scan_end rt S_Start = []"
| "scan_end rt S_Dead = []"
| "scan_end rt (S_Number acc) = [number_token rt (rev acc)]"
| "scan_end rt (S_Word acc) = [word_token (rev acc)]"
| "scan_end rt _ = [T_Bad]"

fun scan :: "float_runtime \<Rightarrow> scan_state \<Rightarrow> string \<Rightarrow> json_token list" where
  "scan rt st [] = scan_end rt st"
| "scan rt st (c # s) = (case scan_char rt st c of (ts, st') \<Rightarrow> ts @ scan rt st' s)"

section \<open>Parsing\<close>

text \<open>A dict keeps a key at its first position and its last value.\<close>

fun dict_set :: "string \<Rightarrow> json \<Rightarrow> (string \<times> json) list \<Rightarrow> (string \<times> json) list" where
  "dict_set k v [] = [(k, v)]"
| "dict_set k v ((k', v') # kvs) = (if k' = k then (k, v) # kvs else (k', v') # dict_set k v kvs)"

datatype json_frame =
    F_List "json list"
  | F_Object "(string \<times> json) list"
  | F_Key "(string \<times> json) list" string

datatype json_mode =
    M_Value | M_Value_Or_Close | M_Key_Or_Close | M_Key | M_Colon | M_Have json

type_synonym parse_state = "json_mode \<times> json_frame list"

definition json_invalid :: exn where
  "json_invalid = raise ValueError ''invalid JSON''"

definition recursion_error :: exn where
  "recursion_error = raise (OtherExn ''RecursionError'' False) ''maximum recursion depth exceeded''"

definition open_frame :: "nat \<Rightarrow> json_mode \<Rightarrow> json_frame \<Rightarrow> json_frame list \<Rightarrow> exn + parse_state" where
  "open_frame limit m f st = (if length st < limit then Inr (m, f # st) else Inl recursion_error)"

fun start_value :: "nat \<Rightarrow> json_token \<Rightarrow> json_frame list \<Rightarrow> exn + parse_state" where
  "start_value limit (T_Value v) st = Inr (M_Have v, st)"
| "start_value limit (T_String s) st = Inr (M_Have (JString s), st)"
| "start_value limit T_Open_Object st = open_frame limit M_Key_Or_Close (F_Object []) st"
| "start_value limit T_Open_List st = open_frame limit M_Value_Or_Close (F_List []) st"
| "start_value limit _ st = Inl json_invalid"

fun parse_step :: "nat \<Rightarrow> json_token \<Rightarrow> parse_state \<Rightarrow> exn + parse_state" where
  "parse_step limit t (M_Value, st) = start_value limit t st"
| "parse_step limit t (M_Value_Or_Close, st) =
     (case (t, st) of
        (T_Close_List, F_List vs # st') \<Rightarrow> Inr (M_Have (JList vs), st')
      | _ \<Rightarrow> start_value limit t st)"
| "parse_step limit t (M_Key_Or_Close, st) =
     (case (t, st) of
        (T_Close_Object, F_Object kvs # st') \<Rightarrow> Inr (M_Have (JObject kvs), st')
      | (T_String k, F_Object kvs # st') \<Rightarrow> Inr (M_Colon, F_Key kvs k # st')
      | _ \<Rightarrow> Inl json_invalid)"
| "parse_step limit t (M_Key, st) =
     (case (t, st) of
        (T_String k, F_Object kvs # st') \<Rightarrow> Inr (M_Colon, F_Key kvs k # st')
      | _ \<Rightarrow> Inl json_invalid)"
| "parse_step limit t (M_Colon, st) = (if t = T_Colon then Inr (M_Value, st) else Inl json_invalid)"
| "parse_step limit t (M_Have v, st) =
     (case (t, st) of
        (T_Comma, F_List vs # st') \<Rightarrow> Inr (M_Value, F_List (vs @ [v]) # st')
      | (T_Close_List, F_List vs # st') \<Rightarrow> Inr (M_Have (JList (vs @ [v])), st')
      | (T_Comma, F_Key kvs k # st') \<Rightarrow> Inr (M_Key, F_Object (dict_set k v kvs) # st')
      | (T_Close_Object, F_Key kvs k # st') \<Rightarrow> Inr (M_Have (JObject (dict_set k v kvs)), st')
      | _ \<Rightarrow> Inl json_invalid)"

fun parse_tokens :: "nat \<Rightarrow> json_token list \<Rightarrow> parse_state \<Rightarrow> exn + json" where
  "parse_tokens limit [] ps = (case ps of (M_Have v, []) \<Rightarrow> Inr v | _ \<Rightarrow> Inl json_invalid)"
| "parse_tokens limit (t # ts) ps = bind_res (parse_step limit t ps) (parse_tokens limit ts)"

definition json_loads :: "nat \<Rightarrow> float_runtime \<Rightarrow> string \<Rightarrow> exn + json" where
  "json_loads limit rt s = parse_tokens limit (scan rt S_Start s) (M_Value, [])"

section \<open>Printing\<close>

definition hex_digit :: "nat \<Rightarrow> char" where
  "hex_digit n = (if n < 10 then char_of (48 + n) else char_of (87 + n))"

definition escaped :: "char \<Rightarrow> string" where
  "escaped c =
     (if c \<in> {CHR 0x22, CHR 0x5C} then [CHR 0x5C, c]
      else if c = CHR 0x08 then [CHR 0x5C, CHR ''b'']
      else if c = CHR 0x0C then [CHR 0x5C, CHR ''f'']
      else if c = CHR 0x0A then [CHR 0x5C, CHR ''n'']
      else if c = CHR 0x0D then [CHR 0x5C, CHR ''r'']
      else if c = CHR 0x09 then [CHR 0x5C, CHR ''t'']
      else if 32 \<le> code c \<and> code c \<le> 126 then [c]
      else [CHR 0x5C, CHR ''u'', CHR ''0'', CHR ''0'', hex_digit (code c div 16), hex_digit (code c mod 16)])"

definition json_quote :: "string \<Rightarrow> string" where
  "json_quote s = CHR 0x22 # concat (map escaped s) @ [CHR 0x22]"

text \<open>A payload of ints and strings, its keys sorted by code points.\<close>

datatype payload_value = P_Int int | P_String string

fun payload_text :: "payload_value \<Rightarrow> string" where
  "payload_text (P_Int n) = integer_text n"
| "payload_text (P_String s) = json_quote s"

definition member_text :: "string \<times> payload_value \<Rightarrow> string" where
  "member_text kv = json_quote (fst kv) @ '':'' @ payload_text (snd kv)"

fun join_comma :: "string list \<Rightarrow> string" where
  "join_comma [] = []"
| "join_comma [s] = s"
| "join_comma (s # t # ss) = s @ '','' @ join_comma (t # ss)"

fun string_le :: "string \<Rightarrow> string \<Rightarrow> bool" where
  "string_le [] t = True"
| "string_le (c # s) [] = False"
| "string_le (c # s) (e # t) = (if c = e then string_le s t else code c < code e)"

fun insert_member :: "string \<times> payload_value \<Rightarrow> (string \<times> payload_value) list \<Rightarrow> (string \<times> payload_value) list" where
  "insert_member kv [] = [kv]"
| "insert_member kv (kv' # kvs) =
     (if string_le (fst kv) (fst kv') then kv # kv' # kvs else kv' # insert_member kv kvs)"

definition json_dumps :: "(string \<times> payload_value) list \<Rightarrow> string" where
  "json_dumps kvs = ''{'' @ join_comma (map member_text (fold insert_member kvs [])) @ ''}''"

section \<open>Reading back what was printed\<close>

lemma code_less_256: "code c < 256"
  by (simp add: code_def)

lemma char_of_code [simp]: "char_of (code c) = c"
  by (simp add: code_def)

lemma code_char_of: "n < 256 \<Longrightarrow> code (char_of n) = n"
  by (simp add: code_def)

lemma hex_digit_value: "n < 16 \<Longrightarrow> is_hex (hex_digit n) \<and> hex_value (hex_digit n) = n"
  by (auto simp: hex_digit_def is_hex_def hex_value_def is_digit_def code_char_of)

lemma hex_zero: "is_hex (CHR ''0'')" "hex_value (CHR ''0'') = 0"
  by code_simp+

lemma code_hex_digits: "16 * (code c div 16) + code c mod 16 = code c"
  by simp

lemma scan_unicode:
  "scan rt (S_Escape acc) ([CHR ''u'', CHR ''0'', CHR ''0'', hex_digit (code c div 16), hex_digit (code c mod 16)] @ rest) =
    scan rt (S_String (c # acc)) rest"
proof -
  have d: "code c div 16 < 16" "code c mod 16 < 16" using code_less_256 [of c] by simp_all
  note h = hex_digit_value [OF d(1)] hex_digit_value [OF d(2)]
  show ?thesis
    using h hex_zero code_less_256 [of c] by (simp add: unicode_char_def)
qed

lemma scan_escaped: "scan rt (S_String acc) (escaped c @ rest) = scan rt (S_String (c # acc)) rest"
proof -
  let ?special = "{CHR 0x22, CHR 0x5C, CHR 0x08, CHR 0x0C, CHR 0x0A, CHR 0x0D, CHR 0x09}"
  have plain: "escaped c = (if 32 \<le> code c \<and> code c \<le> 126 then [c] else
      CHR 0x5C # [CHR ''u'', CHR ''0'', CHR ''0'', hex_digit (code c div 16), hex_digit (code c mod 16)])"
    if "c \<notin> ?special"
    using that by (simp add: escaped_def)
  consider "c \<in> ?special" | "c \<notin> ?special" "32 \<le> code c" "code c \<le> 126"
    | "escaped c = CHR 0x5C # [CHR ''u'', CHR ''0'', CHR ''0'', hex_digit (code c div 16), hex_digit (code c mod 16)]"
    using plain by (metis (no_types))
  then show ?thesis
  proof cases
    case 1
    then show ?thesis by (auto simp: escaped_def escape_char_def)
  next
    case 2
    with plain have "escaped c = [c]" by simp
    with 2 show ?thesis by simp
  next
    case 3
    show ?thesis unfolding 3 using scan_unicode [of rt acc c rest] by simp
  qed
qed

lemma scan_quoted:
  "scan rt (S_String acc) (concat (map escaped s) @ CHR 0x22 # rest) = T_String (rev acc @ s) # scan rt S_Start rest"
  by (induction s arbitrary: acc) (simp_all add: scan_escaped)

lemma scan_json_quote: "scan rt S_Start (json_quote s @ rest) = T_String s # scan rt S_Start rest"
proof -
  have "scan_start (CHR 0x22) = ([], S_String [])" by code_simp
  then show ?thesis using scan_quoted [of rt "[]" s rest] by (simp add: json_quote_def)
qed

lemma scan_digits:
  "all_digits ds \<Longrightarrow> scan rt (S_Number acc) (ds @ rest) = scan rt (S_Number (rev ds @ acc)) rest"
  by (induction ds arbitrary: acc) (simp_all add: all_digits_def number_char_def)

lemma takeWhile_digits: "all_digits ds \<Longrightarrow> takeWhile is_digit ds = ds \<and> dropWhile is_digit ds = []"
  by (simp add: all_digits_def)

lemma minus_not_digit [simp]: "\<not> is_digit (CHR ''-'')"
  by code_simp

lemma number_token_digits:
  assumes "all_digits ds" and "integer_part ds" and "length ds \<le> MAX_INT_DIGITS"
  shows "number_token rt ds = T_Value (JInt (digits_value 0 ds))"
    and "number_token rt (CHR ''-'' # ds) = T_Value (JInt (- digits_value 0 ds))"
proof -
  have parts: "takeWhile is_digit ds = ds" "dropWhile is_digit ds = []"
    using takeWhile_digits [OF assms(1)] by blast+
  have "fraction_part []" by (simp add: fraction_part_def exponent_part_def)
  moreover have "\<not> starts_with ''-'' ds" "starts_with ''-'' (CHR ''-'' # ds)"
    using assms(1,2) by (cases ds; auto simp: starts_with_def all_digits_def integer_part_def)+
  ultimately show "number_token rt ds = T_Value (JInt (digits_value 0 ds))"
    and "number_token rt (CHR ''-'' # ds) = T_Value (JInt (- digits_value 0 ds))"
    using assms(2,3) by (simp_all add: number_token_def Let_def parts)
qed

lemma decimal_integer_part: "integer_part (decimal n)"
proof (cases "n = 0")
  case True
  have "integer_part (decimal 0)" by code_simp
  then show ?thesis using True by simp
next
  case False
  with decimal_nonzero_head [of n] decimal_digits [of n] show ?thesis by (auto simp: integer_part_def)
qed

lemma number_token_integer:
  assumes "length (decimal (nat \<bar>n\<bar>)) \<le> MAX_INT_DIGITS"
  shows "number_token rt (integer_text n) = T_Value (JInt n)"
  using number_token_digits [OF conjunct1 [OF decimal_digits] decimal_integer_part assms, of rt]
  by (cases "n < 0") (simp_all add: integer_text_def digits_value_decimal)

lemma scan_start_digit: "is_digit c \<Longrightarrow> scan_start c = ([], S_Number [c])"
proof -
  assume c: "is_digit c"
  then have "c \<noteq> CHR ''{''" "c \<noteq> CHR ''}''" "c \<noteq> CHR ''[''" "c \<noteq> CHR '']''" "c \<noteq> CHR '':''" "c \<noteq> CHR '',''" "c \<noteq> CHR 0x22"
    by (auto simp: is_digit_def code_def)
  with c show ?thesis by (simp add: scan_start_def) (simp add: is_digit_def json_space_def)
qed

lemma scan_integer:
  assumes "length (decimal (nat \<bar>n\<bar>)) \<le> MAX_INT_DIGITS" and "\<not> number_char c"
  shows "scan rt S_Start (integer_text n @ c # rest) = T_Value (JInt n) # scan rt S_Start (c # rest)"
proof -
  let ?ds = "decimal (nat \<bar>n\<bar>)"
  note ds = decimal_digits [of "nat \<bar>n\<bar>"]
  have stop: "scan rt (S_Number acc) (c # rest) = number_token rt (rev acc) # scan rt S_Start (c # rest)"
    if "acc \<noteq> ''-''" for acc
    using assms(2) that by (simp split: prod.splits)
  have first: "scan rt S_Start (x # s) = scan rt (S_Number [x]) s" if "scan_start x = ([], S_Number [x])" for x s
    using that by simp
  show ?thesis
  proof (cases "n < 0")
    case True
    have "scan_start (CHR ''-'') = ([], S_Number ''-'')" by code_simp
    then have "scan rt S_Start (integer_text n @ c # rest) = scan rt (S_Number ''-'') (?ds @ c # rest)"
      using first [of "CHR ''-''" "?ds @ c # rest"] True by (simp add: integer_text_def)
    also have "\<dots> = scan rt (S_Number (rev ?ds @ ''-'')) (c # rest)"
      by (rule scan_digits [OF conjunct1 [OF ds]])
    also have "\<dots> = number_token rt (rev (rev ?ds @ ''-'')) # scan rt S_Start (c # rest)"
      using ds by (intro stop) simp
    also have "rev (rev ?ds @ ''-'') = integer_text n" using True by (simp add: integer_text_def)
    finally show ?thesis by (simp only: number_token_integer [OF assms(1)])
  next
    case False
    obtain x xs where x: "?ds = x # xs" using ds by (cases ?ds) auto
    then have d: "is_digit x" "all_digits xs" using ds by (simp_all add: all_digits_def)
    have txt_eq: "integer_text n = x # xs" using False x by (simp add: integer_text_def)
    have "scan rt S_Start (integer_text n @ c # rest) = scan rt (S_Number [x]) (xs @ c # rest)"
      using first [OF scan_start_digit [OF d(1)], of "xs @ c # rest"] txt_eq by simp
    also have "\<dots> = scan rt (S_Number (rev xs @ [x])) (c # rest)" by (rule scan_digits [OF d(2)])
    also have "\<dots> = number_token rt (rev (rev xs @ [x])) # scan rt S_Start (c # rest)"
      using d(1) by (intro stop) auto
    also have "rev (rev xs @ [x]) = integer_text n" using txt_eq by simp
    finally show ?thesis by (simp only: number_token_integer [OF assms(1)])
  qed
qed

text \<open>The members of an object, token by token.\<close>

fun payload_json :: "payload_value \<Rightarrow> json" where
  "payload_json (P_Int n) = JInt n"
| "payload_json (P_String s) = JString s"

fun payload_fits :: "payload_value \<Rightarrow> bool" where
  "payload_fits (P_Int n) = (length (decimal (nat \<bar>n\<bar>)) \<le> MAX_INT_DIGITS)"
| "payload_fits (P_String s) = True"

fun payload_token :: "payload_value \<Rightarrow> json_token" where
  "payload_token (P_Int n) = T_Value (JInt n)"
| "payload_token (P_String s) = T_String s"

lemma punctuation:
  "scan_start (CHR ''{'') = ([T_Open_Object], S_Start)" "scan_start (CHR ''}'') = ([T_Close_Object], S_Start)"
  "scan_start (CHR '':'') = ([T_Colon], S_Start)" "scan_start (CHR '','') = ([T_Comma], S_Start)"
  "\<not> number_char (CHR '','')" "\<not> number_char (CHR ''}'')"
  by code_simp+

lemma scan_payload:
  "payload_fits v \<Longrightarrow> \<not> number_char c \<Longrightarrow>
    scan rt S_Start (payload_text v @ c # rest) = payload_token v # scan rt S_Start (c # rest)"
  by (cases v) (simp_all add: scan_integer scan_json_quote del: scan.simps(2))

lemma scan_member:
  assumes "payload_fits v" and "\<not> number_char c"
  shows "scan rt S_Start (member_text (k, v) @ c # rest) =
    T_String k # T_Colon # payload_token v # scan rt S_Start (c # rest)"
proof -
  have colon: "scan rt S_Start (CHR '':'' # s) = T_Colon # scan rt S_Start s" for s
    by (simp add: punctuation)
  show ?thesis
    by (simp only: member_text_def fst_conv snd_conv append_assoc scan_json_quote append_Cons append_Nil colon
        scan_payload [OF assms])
qed

fun member_tokens :: "(string \<times> payload_value) list \<Rightarrow> json_token list" where
  "member_tokens [] = []"
| "member_tokens [(k, v)] = [T_String k, T_Colon, payload_token v]"
| "member_tokens ((k, v) # kv # kvs) = T_String k # T_Colon # payload_token v # T_Comma # member_tokens (kv # kvs)"

lemma scan_members:
  "\<forall>kv \<in> set kvs. payload_fits (snd kv) \<Longrightarrow>
    scan rt S_Start (join_comma (map member_text kvs) @ ''}'') = member_tokens kvs @ [T_Close_Object]"
proof (induction kvs rule: member_tokens.induct)
  case 1
  then show ?case by (simp add: punctuation)
next
  case (2 k v)
  have "scan rt S_Start ''}'' = [T_Close_Object]" by (simp add: punctuation)
  with 2 scan_member [of v "CHR ''}''" rt k "[]"] show ?case by (simp add: punctuation del: scan.simps(2))
next
  case (3 k v kv kvs)
  have comma: "scan rt S_Start (CHR '','' # s) = T_Comma # scan rt S_Start s" for s
    by (simp add: punctuation)
  have "scan rt S_Start (member_text (k, v) @ CHR '','' # join_comma (map member_text (kv # kvs)) @ ''}'') =
      T_String k # T_Colon # payload_token v # T_Comma # member_tokens (kv # kvs) @ [T_Close_Object]"
    using 3 scan_member [of v "CHR '',''" rt k] by (simp add: comma punctuation del: scan.simps(2) join_comma.simps)
  then show ?case by (simp del: scan.simps(2))
qed

lemma dict_set_new: "k \<notin> fst ` set kvs \<Longrightarrow> dict_set k v kvs = kvs @ [(k, v)]"
  by (induction kvs) auto

lemma payload_token_value: "start_value limit (payload_token v) st = Inr (M_Have (payload_json v), st)"
  by (cases v) simp_all

lemma parse_members:
  assumes "kvs \<noteq> []" and "distinct (map fst kvs)" and "fst ` set seen \<inter> fst ` set kvs = {}"
    and "m = M_Key_Or_Close \<or> m = M_Key"
  shows "parse_tokens limit (member_tokens kvs @ [T_Close_Object]) (m, F_Object seen # []) =
    Inr (JObject (seen @ map (\<lambda>kv. (fst kv, payload_json (snd kv))) kvs))"
  using assms
proof (induction kvs arbitrary: seen m rule: member_tokens.induct)
  case (2 k v)
  then show ?case by (auto simp: payload_token_value dict_set_new)
next
  case (3 k v kv kvs)
  let ?seen = "seen @ [(k, payload_json v)]"
  have "parse_tokens limit (member_tokens (kv # kvs) @ [T_Close_Object]) (M_Key, F_Object ?seen # []) =
      Inr (JObject (?seen @ map (\<lambda>kv. (fst kv, payload_json (snd kv))) (kv # kvs)))"
    using 3(3,4) by (intro 3(1)) auto
  moreover have "dict_set k (payload_json v) seen = ?seen" using 3(4) by (intro dict_set_new) auto
  ultimately show ?case using 3(5) by (auto simp: payload_token_value)
qed simp

lemma set_insert_member: "set (insert_member kv kvs) = insert kv (set kvs)"
  by (induction kvs) auto

lemma map_insert_member: "mset (map f (insert_member kv kvs)) = add_mset (f kv) (mset (map f kvs))"
  by (induction kvs) auto

lemma sorted_members: "mset (fold insert_member kvs acc) = mset kvs + mset acc"
  using map_insert_member [of id] by (induction kvs arbitrary: acc) auto

text \<open>Reading a printed payload gives it back, with its keys in sorted order.\<close>

theorem json_loads_dumps:
  assumes "kvs \<noteq> []" and "distinct (map fst kvs)" and "\<forall>kv \<in> set kvs. payload_fits (snd kv)" and "0 < limit"
  shows "json_loads limit rt (json_dumps kvs) =
    Inr (JObject (map (\<lambda>kv. (fst kv, payload_json (snd kv))) (fold insert_member kvs [])))"
proof -
  let ?s = "fold insert_member kvs []"
  have m: "mset ?s = mset kvs" using sorted_members [of kvs "[]"] by simp
  have props: "?s \<noteq> []" "distinct (map fst ?s)" "\<forall>kv \<in> set ?s. payload_fits (snd kv)"
    using assms(1-3) m by (metis mset_zero_iff, metis mset_map mset_eq_imp_distinct_iff, metis mset_eq_setD)
  have brace: "scan rt S_Start (CHR ''{'' # s) = T_Open_Object # scan rt S_Start s" for s
    by (simp add: punctuation)
  have "scan rt S_Start (json_dumps kvs) = T_Open_Object # member_tokens ?s @ [T_Close_Object]"
    using scan_members [OF props(3), of rt] brace by (simp add: json_dumps_def del: scan.simps(2))
  then show ?thesis
    using parse_members [OF props(1,2), of "[]" M_Key_Or_Close limit] assms(4)
    by (simp add: json_loads_def open_frame_def)
qed

end
