(* ===== verification/Queueing.thy ===== *)
theory Queueing
  imports Json_Text Delivery_Services
begin

text \<open>
  \<open>apps/delivery/queueing.py\<close>: the envelope a queue message carries, its text form, the received
  message, and the operations the services need of a queue. A queue's state is a type parameter.
\<close>

section \<open>Envelopes\<close>

definition ENVELOPE_VERSION :: int where
  "ENVELOPE_VERSION = 1"

definition DISPATCH_DUE_EVENTS :: string where
  "DISPATCH_DUE_EVENTS = ''dispatch_due_events''"

definition DELIVER_SCHEDULED_EVENT :: string where
  "DELIVER_SCHEDULED_EVENT = ''deliver_scheduled_event''"

record queue_envelope =
  qe_message_type :: string
  qe_event_id :: "int option"
  qe_version :: int

definition dispatch_tick :: queue_envelope where
  "dispatch_tick = \<lparr>qe_message_type = DISPATCH_DUE_EVENTS, qe_event_id = None, qe_version = ENVELOPE_VERSION\<rparr>"

text \<open>The argument may be any Python value; a bool is refused although it is an int.\<close>

definition deliver_event :: "json \<Rightarrow> exn + queue_envelope" where
  "deliver_event event_id =
     (let invalid = Inl (raise ValueError ''The event identifier must be a positive integer.'')
      in case event_id of
           JInt n \<Rightarrow> if n \<le> 0 then invalid
             else Inr \<lparr>qe_message_type = DELIVER_SCHEDULED_EVENT, qe_event_id = Some n, qe_version = ENVELOPE_VERSION\<rparr>
         | _ \<Rightarrow> invalid)"

definition envelope_to_json :: "queue_envelope \<Rightarrow> string" where
  "envelope_to_json e = json_dumps
     ([(''version'', P_Int (qe_version e)), (''type'', P_String (qe_message_type e))]
      @ (case qe_event_id e of None \<Rightarrow> [] | Some n \<Rightarrow> [(''event_id'', P_Int n)]))"

definition malformed :: "string \<Rightarrow> exn + 'a" where
  "malformed text = Inl (raise (QueueExn MalformedQueueMessage) text)"

text \<open>\<open>set(payload) == {...}\<close> of a dict's keys.\<close>

fun has_keys :: "json \<Rightarrow> string set \<Rightarrow> bool" where
  "has_keys (JObject kvs) ks = (fst ` set kvs = ks)"
| "has_keys _ ks = False"

text \<open>
  \<open>from_json\<close>: the checks in the order of the code. \<open>payload.get("version") != 1\<close> is Python's
  comparison, for which \<open>true\<close> and \<open>1.0\<close> equal 1.
\<close>

definition envelope_of_payload :: "json \<Rightarrow> exn + queue_envelope" where
  "envelope_of_payload payload =
     (if \<not> is_object payload \<or>
         (case json_get payload ''version'' of None \<Rightarrow> True | Some v \<Rightarrow> \<not> equals_int v ENVELOPE_VERSION)
      then malformed ''The queue message version is unsupported.''
      else let message_type = json_get payload ''type''
      in if message_type = Some (JString DISPATCH_DUE_EVENTS)
         then if \<not> has_keys payload {''version'', ''type''}
              then malformed ''The dispatcher tick has unexpected fields.''
              else Inr dispatch_tick
         else if message_type = Some (JString DELIVER_SCHEDULED_EVENT)
         then if \<not> has_keys payload {''version'', ''type'', ''event_id''}
              then malformed ''The delivery message has unexpected fields.''
              else bind_res (json_item payload ''event_id'') (\<lambda>event_id.
                case deliver_event event_id of
                  Inr e \<Rightarrow> Inr e
                | Inl _ \<Rightarrow> malformed ''The delivery message event identifier is invalid.'')
         else malformed ''The queue message type is unsupported.'')"

definition envelope_from_json :: "nat \<Rightarrow> float_runtime \<Rightarrow> string \<Rightarrow> exn + queue_envelope" where
  "envelope_from_json limit rt body =
     (if 4096 < length body then malformed ''The queue message body is invalid.''
      else case json_loads limit rt body of
        Inl x \<Rightarrow> if exn_class x \<in> {ValueError, TypeError} then malformed ''The queue message is not valid JSON.''
          else Inl x
      | Inr payload \<Rightarrow> envelope_of_payload payload)"

section \<open>Messages and queues\<close>

record received_queue_message =
  rm_body :: string
  rm_receipt_handle :: string
  rm_receive_count :: int
  rm_message_id :: "json option"

text \<open>What an operation returns or raises, and the queue afterwards.\<close>

type_synonym ('q, 'a) queue_op = "'q \<Rightarrow> (exn + 'a) \<times> 'q"

record 'q delivery_queue =
  q_publish :: "queue_envelope \<Rightarrow> ('q, unit) queue_op"
  q_receive :: "int \<Rightarrow> int \<Rightarrow> int \<Rightarrow> ('q, received_queue_message list) queue_op"
  q_delete :: "received_queue_message \<Rightarrow> ('q, unit) queue_op"
  q_change_visibility :: "received_queue_message \<Rightarrow> int \<Rightarrow> ('q, unit) queue_op"

text \<open>
  The contract a queue gives its users: a call returns or raises \<open>QueueUnavailable\<close>, provided its numbers
  are in range, and only messages with a positive receive count are received.
\<close>

locale queue_contract =
  fixes queue :: "'q delivery_queue"
  assumes publish_raises: "fst (q_publish queue e q) = Inl x \<Longrightarrow> exn_class x = QueueExn QueueUnavailable"
    and delete_raises: "fst (q_delete queue m q) = Inl x \<Longrightarrow> exn_class x = QueueExn QueueUnavailable"
    and change_raises: "0 \<le> v \<Longrightarrow> v \<le> 43200 \<Longrightarrow> fst (q_change_visibility queue m v q) = Inl x \<Longrightarrow>
      exn_class x = QueueExn QueueUnavailable"
    and receive_counts: "fst (q_receive queue n w v q) = Inr ms \<Longrightarrow> m \<in> set ms \<Longrightarrow> 1 \<le> rm_receive_count m"

section \<open>Facts\<close>

lemma decimal_length: "0 < k \<Longrightarrow> n < 10 ^ k \<Longrightarrow> length (decimal n) \<le> k"
proof (induction k arbitrary: n)
  case (Suc k)
  show ?case
  proof (cases "n < 10")
    case True
    then show ?thesis by (subst decimal.simps) simp
  next
    case False
    with Suc.prems have "0 < k" by (cases k) simp_all
    moreover have "n div 10 < 10 ^ k" using Suc.prems by (simp add: less_mult_imp_div_less mult.commute)
    ultimately have "length (decimal (n div 10)) \<le> k" by (rule Suc.IH)
    with False show ?thesis by (subst decimal.simps) simp
  qed
qed simp

lemma row_id_digits: "0 < n \<Longrightarrow> n < 2 ^ 63 \<Longrightarrow> length (decimal (nat \<bar>n\<bar>)) \<le> 19"
proof -
  assume "0 < n" "n < 2 ^ 63"
  then have "nat \<bar>n\<bar> < 10 ^ 19" by (simp add: nat_less_iff)
  then show ?thesis by (intro decimal_length) simp_all
qed

lemma envelope_texts:
  "envelope_to_json dispatch_tick =
     json_dumps [(''version'', P_Int 1), (''type'', P_String ''dispatch_due_events'')]"
  "envelope_to_json \<lparr>qe_message_type = DELIVER_SCHEDULED_EVENT, qe_event_id = Some n, qe_version = ENVELOPE_VERSION\<rparr> =
     json_dumps [(''version'', P_Int 1), (''type'', P_String ''deliver_scheduled_event''), (''event_id'', P_Int n)]"
  by (simp_all add: envelope_to_json_def dispatch_tick_def ENVELOPE_VERSION_def DISPATCH_DUE_EVENTS_def
      DELIVER_SCHEDULED_EVENT_def)

lemma key_order:
  "fold insert_member [(''version'', u), (''type'', v), (''event_id'', w)] [] = [(''event_id'', w), (''type'', v), (''version'', u)]"
  "fold insert_member [(''version'', u), (''type'', v)] [] = [(''type'', v), (''version'', u)]"
  by (simp_all add: code_def)

lemma delivery_text:
  "envelope_to_json \<lparr>qe_message_type = DELIVER_SCHEDULED_EVENT, qe_event_id = Some n, qe_version = ENVELOPE_VERSION\<rparr> =
    [CHR ''{'', CHR 0x22] @ ''event_id'' @ [CHR 0x22, CHR '':''] @ integer_text n @
    [CHR '','', CHR 0x22] @ ''type'' @ [CHR 0x22, CHR '':'', CHR 0x22] @ ''deliver_scheduled_event'' @
    [CHR 0x22, CHR '','', CHR 0x22] @ ''version'' @ [CHR 0x22, CHR '':'', CHR ''1'', CHR ''}'']"
proof -
  have q: "json_quote ''event_id'' = CHR 0x22 # ''event_id'' @ [CHR 0x22]" "json_quote ''type'' = CHR 0x22 # ''type'' @ [CHR 0x22]"
    "json_quote ''version'' = CHR 0x22 # ''version'' @ [CHR 0x22]" "integer_text 1 = ''1''"
    "json_quote ''deliver_scheduled_event'' = CHR 0x22 # ''deliver_scheduled_event'' @ [CHR 0x22]"
    by code_simp+
  show ?thesis
    unfolding envelope_texts json_dumps_def key_order by (simp add: member_text_def q)
qed

end
