(* ===== verification/Envelope_Properties.thy ===== *)
theory Envelope_Properties
  imports Queueing
begin

text \<open>
  The queue envelope: what is written is read back, and what is read is valid.
\<close>

lemma envelope_of_delivery:
  "0 < n \<Longrightarrow> envelope_of_payload (JObject [(''event_id'', JInt n), (''type'', JString DELIVER_SCHEDULED_EVENT),
      (''version'', JInt 1)]) =
    Inr \<lparr>qe_message_type = DELIVER_SCHEDULED_EVENT, qe_event_id = Some n, qe_version = ENVELOPE_VERSION\<rparr>"
proof -
  assume n: "0 < n"
  have keys: "has_keys (JObject [(''event_id'', JInt n), (''type'', v), (''version'', JInt 1)])
      {''version'', ''type'', ''event_id''}" for v
    by auto
  have "DELIVER_SCHEDULED_EVENT \<noteq> DISPATCH_DUE_EVENTS"
    by (simp add: DELIVER_SCHEDULED_EVENT_def DISPATCH_DUE_EVENTS_def)
  with n keys show ?thesis
    by (simp add: envelope_of_payload_def deliver_event_def ENVELOPE_VERSION_def Let_def del: has_keys.simps)
qed

lemma envelope_of_tick:
  "envelope_of_payload (JObject [(''type'', JString DISPATCH_DUE_EVENTS), (''version'', JInt 1)]) = Inr dispatch_tick"
proof -
  have "has_keys (JObject [(''type'', v), (''version'', JInt 1)]) {''version'', ''type''}" for v
    by auto
  then show ?thesis
    by (simp add: envelope_of_payload_def ENVELOPE_VERSION_def Let_def del: has_keys.simps)
qed

lemma delivery_read_back:
  assumes "0 < n" and "n < 2 ^ 63" and "0 < limit"
  defines "e \<equiv> \<lparr>qe_message_type = DELIVER_SCHEDULED_EVENT, qe_event_id = Some n, qe_version = ENVELOPE_VERSION\<rparr>"
  shows "envelope_from_json limit rt (envelope_to_json e) = Inr e"
proof -
  have digits: "length (decimal (nat \<bar>n\<bar>)) \<le> 19" using row_id_digits assms(1,2) by blast
  have fits: "payload_fits (P_Int n)" "payload_fits (P_Int 1)"
    using digits decimal_length [of 1 1] by (simp_all add: MAX_INT_DIGITS_def)
  have distinct: "distinct [''version'', ''type'', ''event_id'']" by simp
  have "json_loads limit rt (envelope_to_json e) =
      Inr (JObject [(''event_id'', JInt n), (''type'', JString DELIVER_SCHEDULED_EVENT), (''version'', JInt 1)])"
    using json_loads_dumps [of "[(''version'', P_Int 1), (''type'', P_String ''deliver_scheduled_event''),
        (''event_id'', P_Int n)]" limit rt] assms(3) fits distinct
    unfolding e_def envelope_texts(2) key_order by (simp add: DELIVER_SCHEDULED_EVENT_def)
  moreover have "length (envelope_to_json e) \<le> 4096"
    unfolding e_def delivery_text using digits assms(1) by (simp add: integer_text_def)
  ultimately show ?thesis
    using envelope_of_delivery [OF assms(1)] by (simp add: envelope_from_json_def e_def)
qed

lemma tick_read_back:
  assumes "0 < limit"
  shows "envelope_from_json limit rt (envelope_to_json dispatch_tick) = Inr dispatch_tick"
proof -
  have fits: "payload_fits (P_Int 1)" using decimal_length [of 1 1] by (simp add: MAX_INT_DIGITS_def)
  have distinct: "distinct [''version'', ''type'', ''event_id'']" by simp
  have "json_loads limit rt (envelope_to_json dispatch_tick) =
      Inr (JObject [(''type'', JString DISPATCH_DUE_EVENTS), (''version'', JInt 1)])"
    using json_loads_dumps [of "[(''version'', P_Int 1), (''type'', P_String ''dispatch_due_events'')]" limit rt]
      assms fits distinct
    unfolding envelope_texts(1) key_order by (simp add: DISPATCH_DUE_EVENTS_def)
  moreover have "length (envelope_to_json dispatch_tick) \<le> 4096" by code_simp
  ultimately show ?thesis
    using envelope_of_tick by (simp add: envelope_from_json_def)
qed

text \<open>C19. Every envelope the program publishes is read back as itself: the dispatcher tick, and the delivery of
  any identifier a 64-bit column can hold.\<close>

theorem envelope_roundtrip:
  assumes "0 < n" and "n < 2 ^ 63" and "0 < limit"
  shows "envelope_from_json limit rt (envelope_to_json dispatch_tick) = Inr dispatch_tick \<and>
    (\<exists>e. deliver_event (JInt n) = Inr e \<and> qe_event_id e = Some n \<and>
       envelope_from_json limit rt (envelope_to_json e) = Inr e)"
  using tick_read_back [OF assms(3), of rt] delivery_read_back [OF assms, of rt] assms(1)
  by (auto simp: deliver_event_def)

lemma envelope_roundtrip_witness:
  "\<exists>e. deliver_event (JInt 42) = Inr e \<and>
    envelope_from_json 1000 \<lparr>float_of_int = \<lambda>_. None, float_of_text = \<lambda>_. None, repr_of = \<lambda>_. ''''\<rparr> (envelope_to_json e) = Inr e"
  using envelope_roundtrip [of 42 1000] by auto

text \<open>What \<open>json.loads\<close> raises, and what the checks on the decoded payload accept.\<close>

lemma json_loads_raises:
  assumes "json_loads limit rt body = Inl x"
  shows "exn_class x = ValueError \<or> x = recursion_error"
proof -
  have step: "exn_class x = ValueError \<or> x = recursion_error" if "parse_step limit t ps = Inl x" for t ps x
    using that
    by (cases "(limit, t, ps)" rule: parse_step.cases; cases t)
      (auto simp: json_invalid_def open_frame_def split: list.splits json_frame.splits if_splits)
  have "exn_class x = ValueError \<or> x = recursion_error" if "parse_tokens limit ts ps = Inl x" for ts ps x
    using that
  proof (induction ts arbitrary: ps)
    case Nil
    then show ?case by (auto simp: json_invalid_def split: prod.splits json_mode.splits list.splits)
  next
    case (Cons t ts)
    then show ?case using step [of t ps x] unfolding parse_tokens.simps bind_res_Inl_iff by blast
  qed
  then show ?thesis
    using assms by (simp add: json_loads_def)
qed

lemma envelope_of_payload_cases:
  "case envelope_of_payload p of
      Inr e \<Rightarrow> qe_version e = 1 \<and> (e = dispatch_tick \<or>
        qe_message_type e = ''deliver_scheduled_event'' \<and> (\<exists>n. qe_event_id e = Some n \<and> 0 < n))
    | Inl x \<Rightarrow> exn_class x = QueueExn MalformedQueueMessage"
proof (cases "envelope_of_payload p")
  case (Inl x)
  have found: "json_item p ''event_id'' \<noteq> Inl y" if keys: "has_keys p {''version'', ''type'', ''event_id''}" for y
  proof -
    obtain kvs where p: "p = JObject kvs" "fst ` set kvs = {''version'', ''type'', ''event_id''}"
      using keys by (cases p) auto
    then have "map_of kvs ''event_id'' \<noteq> None" by (simp add: map_of_eq_None_iff)
    with p show ?thesis by auto
  qed
  have refused: "exn_class y = QueueExn MalformedQueueMessage"
    if "(case deliver_event v of Inr e \<Rightarrow> Inr e | Inl _ \<Rightarrow> malformed m) = Inl y" for v m y
    using that by (cases "deliver_event v") (auto simp: malformed_def)
  show ?thesis
    using Inl found
    by (auto simp: envelope_of_payload_def Let_def bind_res_Inl_iff split: if_splits dest: refused)
      (auto simp: malformed_def)
next
  case (Inr e)
  then show ?thesis
    by (auto simp: envelope_of_payload_def malformed_def Let_def dispatch_tick_def ENVELOPE_VERSION_def
        deliver_event_def DELIVER_SCHEDULED_EVENT_def split: if_splits sum.splits json.splits)
qed

lemma envelope_from_json_cases:
  "case envelope_from_json limit rt body of
     Inr e \<Rightarrow> length body \<le> 4096 \<and> qe_version e = 1 \<and>
       (e = dispatch_tick \<or>
        qe_message_type e = ''deliver_scheduled_event'' \<and> (\<exists>n. qe_event_id e = Some n \<and> 0 < n))
   | Inl x \<Rightarrow> exn_class x = QueueExn MalformedQueueMessage \<or> x = recursion_error"
proof (cases "4096 < length body")
  case True
  then show ?thesis by (simp add: envelope_from_json_def malformed_def)
next
  case False
  show ?thesis
  proof (cases "json_loads limit rt body")
    case (Inl x)
    with False json_loads_raises [OF Inl] show ?thesis by (auto simp: envelope_from_json_def malformed_def)
  next
    case (Inr p)
    with False envelope_of_payload_cases [of p] show ?thesis by (simp add: envelope_from_json_def split: sum.splits)
  qed
qed

lemma envelope_refusal:
  "envelope_from_json limit rt body = Inl x \<Longrightarrow> exn_class x = QueueExn MalformedQueueMessage \<or> x = recursion_error"
  using envelope_from_json_cases [where limit = limit and rt = rt and body = body] by simp

lemma envelope_accepted:
  "envelope_from_json limit rt body = Inr e \<Longrightarrow>
    e = dispatch_tick \<or> qe_message_type e = DELIVER_SCHEDULED_EVENT \<and> (\<exists>n. qe_event_id e = Some n \<and> 0 < n)"
  using envelope_from_json_cases [where limit = limit and rt = rt and body = body] by (auto simp: DELIVER_SCHEDULED_EVENT_def)

text \<open>The JSON values that Python calls equal to 1.\<close>

lemma equals_one: "equals_int v 1 \<longleftrightarrow> v \<in> {JInt 1, JBool True, JFloat (Fin 1)}"
  by (cases "(v, 1 :: int)" rule: equals_int.cases) auto

text \<open>What an object must hold to be the tick or a delivery, and the envelope it then is.\<close>

definition envelope_fields :: "(string \<times> json) list \<Rightarrow> queue_envelope \<Rightarrow> bool" where
  "envelope_fields kvs e \<longleftrightarrow>
     (\<exists>v \<in> {JInt 1, JBool True, JFloat (Fin 1)}. map_of kvs ''version'' = Some v) \<and>
     (map_of kvs ''type'' = Some (JString ''dispatch_due_events'') \<and> fst ` set kvs = {''version'', ''type''} \<and>
        e = \<lparr>qe_message_type = ''dispatch_due_events'', qe_event_id = None, qe_version = 1\<rparr> \<or>
      map_of kvs ''type'' = Some (JString ''deliver_scheduled_event'') \<and>
        fst ` set kvs = {''version'', ''type'', ''event_id''} \<and>
        (\<exists>n. map_of kvs ''event_id'' = Some (JInt n) \<and> 0 < n \<and>
           e = \<lparr>qe_message_type = ''deliver_scheduled_event'', qe_event_id = Some n, qe_version = 1\<rparr>))"

lemma delivery_accepted:
  "(case deliver_event j of Inr e \<Rightarrow> Inr e | Inl _ \<Rightarrow> malformed t) = Inr e \<longleftrightarrow>
    (\<exists>n. j = JInt n \<and> 0 < n \<and>
      e = \<lparr>qe_message_type = ''deliver_scheduled_event'', qe_event_id = Some n, qe_version = 1\<rparr>)"
  by (cases j) (auto simp: deliver_event_def malformed_def DELIVER_SCHEDULED_EVENT_def ENVELOPE_VERSION_def)

lemma envelope_of_payload_iff: "envelope_of_payload p = Inr e \<longleftrightarrow> (\<exists>kvs. p = JObject kvs \<and> envelope_fields kvs e)"
proof (cases p)
  case (JObject kvs)
  have version: "(case map_of kvs ''version'' of None \<Rightarrow> True | Some v \<Rightarrow> \<not> equals_int v ENVELOPE_VERSION) \<longleftrightarrow>
      \<not> (\<exists>v \<in> {JInt 1, JBool True, JFloat (Fin 1)}. map_of kvs ''version'' = Some v)"
    unfolding ENVELOPE_VERSION_def equals_one by (cases "map_of kvs ''version''") auto
  have "envelope_of_payload (JObject kvs) = Inr e \<longleftrightarrow> envelope_fields kvs e"
  proof (cases "\<exists>v \<in> {JInt 1, JBool True, JFloat (Fin 1)}. map_of kvs ''version'' = Some v")
    case False
    then show ?thesis unfolding envelope_of_payload_def json_get.simps version envelope_fields_def
      by (simp add: malformed_def)
  next
    case True
    consider "map_of kvs ''type'' = Some (JString ''dispatch_due_events'')"
      | "map_of kvs ''type'' = Some (JString ''deliver_scheduled_event'')"
      | "map_of kvs ''type'' \<notin> {Some (JString ''dispatch_due_events''), Some (JString ''deliver_scheduled_event'')}"
      by blast
    then show ?thesis
    proof cases
      case 1
      show ?thesis
        unfolding envelope_of_payload_def json_get.simps version envelope_fields_def
        using True 1 by (auto simp: malformed_def dispatch_tick_def ENVELOPE_VERSION_def DISPATCH_DUE_EVENTS_def Let_def)
    next
      case 2
      show ?thesis
        unfolding envelope_of_payload_def json_get.simps version envelope_fields_def
        using True 2 by (simp add: bind_res_Inr_iff delivery_accepted malformed_def DISPATCH_DUE_EVENTS_def
            DELIVER_SCHEDULED_EVENT_def Let_def) auto
    next
      case 3
      then show ?thesis
        unfolding envelope_of_payload_def json_get.simps version envelope_fields_def
        by (simp add: malformed_def DISPATCH_DUE_EVENTS_def DELIVER_SCHEDULED_EVENT_def Let_def)
    qed
  qed
  with JObject show ?thesis by simp
qed (simp_all add: envelope_of_payload_def malformed_def)

text \<open>C20. Whatever bytes a message carries: it is accepted exactly when it has at most 4096 characters and is the
  JSON text of an object whose version is 1 (or, for Python, equal to 1: \<open>true\<close> and \<open>1.0\<close>) and whose fields
  are exactly those of the tick or those of a delivery with a positive integer identifier; the envelope is
  then that tick or that delivery, at the current version. A refusal is \<open>MalformedQueueMessage\<close>, unless the
  nesting exceeded the interpreter's limit.\<close>

theorem envelope_from_json_sound:
  "(envelope_from_json limit rt body = Inr e \<longleftrightarrow> length body \<le> 4096 \<and>
     (\<exists>kvs. json_loads limit rt body = Inr (JObject kvs) \<and> envelope_fields kvs e)) \<and>
   (case envelope_from_json limit rt body of
      Inl x \<Rightarrow> exn_class x = QueueExn MalformedQueueMessage \<or> x = recursion_error
    | Inr _ \<Rightarrow> True)"
proof (rule conjI)
  show "envelope_from_json limit rt body = Inr e \<longleftrightarrow> length body \<le> 4096 \<and>
     (\<exists>kvs. json_loads limit rt body = Inr (JObject kvs) \<and> envelope_fields kvs e)"
    by (cases "json_loads limit rt body") (auto simp: envelope_from_json_def malformed_def envelope_of_payload_iff)
  show "case envelope_from_json limit rt body of
      Inl x \<Rightarrow> exn_class x = QueueExn MalformedQueueMessage \<or> x = recursion_error
    | Inr _ \<Rightarrow> True"
    by (cases "envelope_from_json limit rt body") (simp_all add: envelope_refusal)
qed

end
