(* ===== verification/Queue_Services.thy ===== *)
theory Queue_Services
  imports Queueing
begin

text \<open>
  \<open>apps/delivery/queue_services.py\<close>: publishing the identifiers of due events, and processing a batch
  of received messages: each one is acknowledged (deleted) or made visible again later.
\<close>

record queue_publication_result =
  qp_selected_count :: nat
  qp_published_count :: nat

record queue_batch_result =
  qb_received_count :: nat
  qb_acknowledged_count :: nat
  qb_retry_count :: nat
  qb_published_count :: nat
  qb_malformed_count :: nat

section \<open>Publishing\<close>

definition due_candidate :: "time \<Rightarrow> bool \<Rightarrow> scheduled_event \<Rightarrow> bool" where
  "due_candidate now include_real e \<longleftrightarrow>
     ev_status e = E_SCHEDULED \<and> ev_scheduled_for e \<le> now \<and> (include_real \<or> ev_is_demo e)"

definition due_event_ids :: "time \<Rightarrow> int \<Rightarrow> bool \<Rightarrow> db \<Rightarrow> row_id list" where
  "due_event_ids now batch_size include_real d =
     map ev_id (take (nat batch_size) (order_by event_order (events_where (due_candidate now include_real) d)))"

text \<open>The loop: it stops at the first exception.\<close>

fun publish_each :: "'q delivery_queue \<Rightarrow> row_id list \<Rightarrow> nat \<Rightarrow> ('q, nat) queue_op" where
  "publish_each queue [] published_count q = (Inr published_count, q)"
| "publish_each queue (event_id # ids) published_count q =
     (case deliver_event (JInt event_id) of
        Inl x \<Rightarrow> (Inl x, q)
      | Inr envelope \<Rightarrow>
          (case q_publish queue envelope q of
             (Inl x, q) \<Rightarrow> (Inl x, q)
           | (Inr _, q) \<Rightarrow> publish_each queue ids (published_count + 1) q))"

text \<open>The clock reading is the dispatch time when none is given.\<close>

definition publish_due_event_messages ::
  "'q delivery_queue \<Rightarrow> time option \<Rightarrow> int \<Rightarrow> bool \<Rightarrow> clock \<Rightarrow> db \<Rightarrow> ('q, queue_publication_result) queue_op" where
  "publish_due_event_messages queue now batch_size include_real clk d q =
     (if \<not> (1 \<le> batch_size \<and> batch_size \<le> MAX_BATCH_SIZE)
      then (Inl (raise ValueError ''Batch size must be between 1 and 100.''), q)
      else let ids = due_event_ids (or_now now (clk 0)) batch_size include_real d
           in case publish_each queue ids 0 q of
                (Inl x, q) \<Rightarrow> (Inl x, q)
              | (Inr published_count, q) \<Rightarrow>
                  (Inr \<lparr>qp_selected_count = length ids, qp_published_count = published_count\<rparr>, q))"

section \<open>Processing\<close>

definition retry_visibility :: "int \<Rightarrow> int \<Rightarrow> int \<Rightarrow> int" where
  "retry_visibility retry_base_seconds retry_max_seconds receive_count =
     min (retry_base_seconds * 2 ^ nat (max (receive_count - 1) 0)) retry_max_seconds"

text \<open>What the worker is configured with, and what it meets.\<close>

record worker_config =
  wc_batch_size :: int
  wc_max_receive_count :: int
  wc_retry_base_seconds :: int
  wc_retry_max_seconds :: int
  wc_grace_period :: time
  wc_allow_real :: bool

record json_runtime =
  jr_limit :: nat
  jr_floats :: float_runtime

text \<open>
  The decision on one message: the action, how many identifiers it published, whether it was malformed.
  A delivery without an identifier, which no accepted envelope is, finds no event.
\<close>

type_synonym ('q, 'a) worker_op = "(exn + 'a) \<times> db \<times> 'q \<times> call_made list"

definition decide_message ::
  "worker_config \<Rightarrow> json_runtime \<Rightarrow> 'q delivery_queue \<Rightarrow> delivery_env \<Rightarrow> clock \<Rightarrow> received_queue_message \<Rightarrow>
    db \<Rightarrow> 'q \<Rightarrow> ('q, queue_action \<times> nat \<times> bool) worker_op" where
  "decide_message config rt queue env clk message d q =
     (case envelope_from_json (jr_limit rt) (jr_floats rt) (rm_body message) of
        Inl x \<Rightarrow>
          if exn_class x = QueueExn MalformedQueueMessage then (Inr (RETRY, 0, True), d, q, [])
          else (Inl x, d, q, [])
      | Inr envelope \<Rightarrow>
          if qe_message_type envelope = DISPATCH_DUE_EVENTS
          then (case publish_due_event_messages queue None (wc_batch_size config) (wc_allow_real config) clk d q of
                  (Inl x, q) \<Rightarrow> (Inl x, d, q, [])
                | (Inr result, q) \<Rightarrow> (Inr (ACKNOWLEDGE, qp_published_count result, False), d, q, []))
          else if qe_message_type envelope = DELIVER_SCHEDULED_EVENT
          then (case qe_event_id envelope of
                  None \<Rightarrow>
                    if rm_receive_count message < 1 \<or> wc_max_receive_count config < 1
                    then (Inl (raise ValueError ''Queue receive counts must be positive.''), d, q, [])
                    else if wc_grace_period config < 0
                    then (Inl (raise ValueError ''Grace period cannot be negative.''), d, q, [])
                    else (Inr (ACKNOWLEDGE, 0, False), d, q, [])
                | Some event_id \<Rightarrow>
                    (case process_queued_delivery event_id (rm_receive_count message)
                            (wc_max_receive_count config) env None (wc_grace_period config)
                            (wc_allow_real config) clk d of
                       (Inl x, d, calls) \<Rightarrow> (Inl x, d, q, calls)
                     | (Inr action, d, calls) \<Rightarrow> (Inr (action, 0, False), d, q, calls)))
          else (Inl (raise RuntimeError ''A validated queue message had an unknown type.''), d, q, []))"

definition settle_message ::
  "worker_config \<Rightarrow> 'q delivery_queue \<Rightarrow> queue_action \<Rightarrow> received_queue_message \<Rightarrow> ('q, unit) queue_op" where
  "settle_message config queue action message q =
     (if action = ACKNOWLEDGE then q_delete queue message q
      else q_change_visibility queue message
        (retry_visibility (wc_retry_base_seconds config) (wc_retry_max_seconds config) (rm_receive_count message)) q)"

text \<open>The n-th message meets the environment \<open>envs n\<close> and reads the clock \<open>clks n\<close>.\<close>

fun process_messages ::
  "worker_config \<Rightarrow> json_runtime \<Rightarrow> 'q delivery_queue \<Rightarrow> (nat \<Rightarrow> delivery_env) \<Rightarrow> (nat \<Rightarrow> clock) \<Rightarrow>
    received_queue_message list \<Rightarrow> queue_batch_result \<Rightarrow> db \<Rightarrow> 'q \<Rightarrow> ('q, queue_batch_result) worker_op" where
  "process_messages config rt queue envs clks [] counts d q = (Inr counts, d, q, [])"
| "process_messages config rt queue envs clks (message # messages) counts d q =
     (case decide_message config rt queue (envs 0) (clks 0) message d q of
        (Inl x, d, q, calls) \<Rightarrow> (Inl x, d, q, calls)
      | (Inr (action, published, bad), d, q, calls) \<Rightarrow>
          (case settle_message config queue action message q of
             (Inl x, q) \<Rightarrow> (Inl x, d, q, calls)
           | (Inr _, q) \<Rightarrow>
               (case process_messages config rt queue (\<lambda>n. envs (n + 1)) (\<lambda>n. clks (n + 1)) messages
                       (counts\<lparr>qb_acknowledged_count :=
                          qb_acknowledged_count counts + (if action = ACKNOWLEDGE then 1 else 0),
                        qb_retry_count := qb_retry_count counts + (if action = ACKNOWLEDGE then 0 else 1),
                        qb_published_count := qb_published_count counts + published,
                        qb_malformed_count := qb_malformed_count counts + (if bad then 1 else 0)\<rparr>) d q of
                  (r, d, q, calls') \<Rightarrow> (r, d, q, calls @ calls'))))"

definition process_queue_batch ::
  "worker_config \<Rightarrow> json_runtime \<Rightarrow> 'q delivery_queue \<Rightarrow> (nat \<Rightarrow> delivery_env) \<Rightarrow> (nat \<Rightarrow> clock) \<Rightarrow>
    received_queue_message list \<Rightarrow> db \<Rightarrow> 'q \<Rightarrow> ('q, queue_batch_result) worker_op" where
  "process_queue_batch config rt queue envs clks messages d q =
     (if wc_max_receive_count config < 1
      then (Inl (raise ValueError ''Maximum receive count must be positive.''), d, q, [])
      else if \<not> (1 \<le> wc_retry_base_seconds config \<and>
                  wc_retry_base_seconds config \<le> wc_retry_max_seconds config \<and>
                  wc_retry_max_seconds config \<le> 43200)
      then (Inl (raise ValueError ''Retry visibility must be positive, ordered, and at most 43200 seconds.''), d, q, [])
      else process_messages config rt queue envs clks messages
        \<lparr>qb_received_count = length messages, qb_acknowledged_count = 0, qb_retry_count = 0,
         qb_published_count = 0, qb_malformed_count = 0\<rparr> d q)"

end
