(* ===== verification/Sqs.thy ===== *)
theory Sqs
  imports Queue_Services Twilio
begin

text \<open>
  \<open>apps/delivery/sqs.py\<close>: the queue on Amazon SQS. The boto3 client is a parameter over a state of its
  own; a call of it gives a reply or raises one of the library's two exception bases (\<open>BotoCoreError\<close>,
  \<open>ClientError\<close>), which is what boto3 documents. A reply of \<open>receive_message\<close> is an arbitrary value.
\<close>

datatype 'a aws_reply = Aws_Replied 'a | Aws_Error

record 's sqs_client =
  sqs_send_message :: "string \<Rightarrow> string \<Rightarrow> 's \<Rightarrow> unit aws_reply \<times> 's"
  sqs_receive_message :: "string \<Rightarrow> int \<Rightarrow> int \<Rightarrow> int \<Rightarrow> 's \<Rightarrow> json aws_reply \<times> 's"
  sqs_delete_message :: "string \<Rightarrow> string \<Rightarrow> 's \<Rightarrow> unit aws_reply \<times> 's"
  sqs_change_message_visibility :: "string \<Rightarrow> string \<Rightarrow> int \<Rightarrow> 's \<Rightarrow> unit aws_reply \<times> 's"

abbreviation queue_exn :: "queue_error \<Rightarrow> string \<Rightarrow> exn" where
  "queue_exn c text \<equiv> raise (QueueExn c) text"

definition aws_call :: "string \<Rightarrow> 'a aws_reply \<times> 's \<Rightarrow> (exn + 'a) \<times> 's" where
  "aws_call complaint r =
     (case r of (Aws_Replied v, s) \<Rightarrow> (Inr v, s) | (Aws_Error, s) \<Rightarrow> (Inl (queue_exn QueueUnavailable complaint), s))"

section \<open>The operations\<close>

definition sqs_publish :: "string \<Rightarrow> 's sqs_client \<Rightarrow> queue_envelope \<Rightarrow> ('s, unit) queue_op" where
  "sqs_publish url client envelope s =
     aws_call ''The delivery queue could not accept a message.''
       (sqs_send_message client url (envelope_to_json envelope) s)"

definition malformed_metadata :: "exn + 'a" where
  "malformed_metadata = Inl (queue_exn QueueUnavailable ''The delivery queue returned malformed message metadata.'')"

text \<open>The three lookups in the \<open>try\<close>, and its \<open>except\<close>.\<close>

definition message_fields :: "json \<Rightarrow> exn + json \<times> json \<times> int" where
  "message_fields raw =
     (case bind_res (json_item raw ''Body'') (\<lambda>body.
             bind_res (json_item raw ''ReceiptHandle'') (\<lambda>handle.
             bind_res (json_item raw ''Attributes'') (\<lambda>attributes.
             bind_res (json_item attributes ''ApproximateReceiveCount'') (\<lambda>count.
             bind_res (json_int count) (\<lambda>n. Inr (body, handle, n)))))) of
        Inr v \<Rightarrow> Inr v
      | Inl x \<Rightarrow> if exn_class x \<in> {KeyError, TypeError, ValueError} then malformed_metadata else Inl x)"

definition parse_message :: "json \<Rightarrow> exn + received_queue_message" where
  "parse_message raw =
     (if \<not> is_object raw then malformed_metadata
      else bind_res (message_fields raw) (\<lambda>(body, handle, n).
        case (body, handle) of
          (JString b, JString h) \<Rightarrow>
            if n < 1 then malformed_metadata
            else Inr \<lparr>rm_body = b, rm_receipt_handle = h, rm_receive_count = n,
                      rm_message_id = json_get raw ''MessageId''\<rparr>
        | _ \<Rightarrow> malformed_metadata))"

fun parse_messages :: "json list \<Rightarrow> exn + received_queue_message list" where
  "parse_messages [] = Inr []"
| "parse_messages (raw # raws) =
     bind_res (parse_message raw) (\<lambda>m. bind_res (parse_messages raws) (\<lambda>ms. Inr (m # ms)))"

definition parse_response :: "json \<Rightarrow> exn + received_queue_message list" where
  "parse_response response =
     (if \<not> is_object response
      then Inl (queue_exn QueueUnavailable ''The delivery queue returned an invalid response.'')
      else case json_get response ''Messages'' of
        None \<Rightarrow> Inr []
      | Some (JList raws) \<Rightarrow> parse_messages raws
      | Some _ \<Rightarrow> Inl (queue_exn QueueUnavailable ''The delivery queue returned an invalid response.''))"

definition sqs_receive ::
  "string \<Rightarrow> 's sqs_client \<Rightarrow> int \<Rightarrow> int \<Rightarrow> int \<Rightarrow> ('s, received_queue_message list) queue_op" where
  "sqs_receive url client max_messages wait_time_seconds visibility_timeout s =
     (if \<not> (1 \<le> max_messages \<and> max_messages \<le> 10)
      then (Inl (raise ValueError ''SQS receive batch size must be between 1 and 10.''), s)
      else if \<not> (0 \<le> wait_time_seconds \<and> wait_time_seconds \<le> 20)
      then (Inl (raise ValueError ''SQS wait time must be between 0 and 20 seconds.''), s)
      else if \<not> (0 \<le> visibility_timeout \<and> visibility_timeout \<le> 43200)
      then (Inl (raise ValueError ''SQS visibility timeout must be between 0 and 43200 seconds.''), s)
      else case aws_call ''The delivery queue could not be read.''
             (sqs_receive_message client url max_messages wait_time_seconds visibility_timeout s) of
        (Inl x, s) \<Rightarrow> (Inl x, s)
      | (Inr response, s) \<Rightarrow> (parse_response response, s))"

definition sqs_delete :: "string \<Rightarrow> 's sqs_client \<Rightarrow> received_queue_message \<Rightarrow> ('s, unit) queue_op" where
  "sqs_delete url client m s =
     aws_call ''The delivery queue message could not be deleted.''
       (sqs_delete_message client url (rm_receipt_handle m) s)"

definition sqs_change_visibility ::
  "string \<Rightarrow> 's sqs_client \<Rightarrow> received_queue_message \<Rightarrow> int \<Rightarrow> ('s, unit) queue_op" where
  "sqs_change_visibility url client m visibility_timeout s =
     (if \<not> (0 \<le> visibility_timeout \<and> visibility_timeout \<le> 43200)
      then (Inl (raise ValueError ''SQS visibility timeout must be between 0 and 43200 seconds.''), s)
      else aws_call ''The delivery queue message visibility could not be changed.''
        (sqs_change_message_visibility client url (rm_receipt_handle m) visibility_timeout s))"

definition sqs_queue :: "string \<Rightarrow> 's sqs_client \<Rightarrow> 's delivery_queue" where
  "sqs_queue url client = \<lparr>q_publish = sqs_publish url client, q_receive = sqs_receive url client,
     q_delete = sqs_delete url client, q_change_visibility = sqs_change_visibility url client\<rparr>"

definition make_sqs_delivery_queue ::
  "string \<Rightarrow> string \<Rightarrow> pyfloat \<Rightarrow> pyfloat \<Rightarrow> 's sqs_client \<Rightarrow> exn + 's delivery_queue" where
  "make_sqs_delivery_queue queue_url region_name connect_timeout read_timeout client =
     (if queue_url = [] \<or> region_name = []
      then Inl (queue_exn QueueConfigurationError ''The SQS queue URL and AWS region are required.'')
      else if le_zero connect_timeout \<or> le_zero read_timeout
      then Inl (queue_exn QueueConfigurationError ''SQS timeouts must be positive.'')
      else Inr (sqs_queue queue_url client))"

section \<open>The contract\<close>

lemma aws_call_Inl: "fst (aws_call complaint r) = Inl x \<Longrightarrow> exn_class x = QueueExn QueueUnavailable"
  by (auto simp: aws_call_def split: prod.splits aws_reply.splits)

lemma parse_message_count:
  assumes "parse_message raw = Inr m"
  shows "1 \<le> rm_receive_count m"
proof -
  obtain body handle n where "message_fields raw = Inr (body, handle, n)"
    using assms by (auto simp: parse_message_def malformed_metadata_def split: if_splits)
  with assms show ?thesis
    by (cases body; cases handle) (auto simp: parse_message_def malformed_metadata_def split: if_splits)
qed

lemma parse_messages_counts: "parse_messages raws = Inr ms \<Longrightarrow> m \<in> set ms \<Longrightarrow> 1 \<le> rm_receive_count m"
  by (induction raws arbitrary: ms) (auto dest: parse_message_count)

lemma parse_messages_length: "parse_messages raws = Inr ms \<Longrightarrow> length ms = length raws"
  by (induction raws arbitrary: ms) auto

interpretation sqs: queue_contract "sqs_queue url client" for url and client :: "'s sqs_client"
proof unfold_locales
  fix q n w v ms m
  assume "fst (q_receive (sqs_queue url client) n w v q) = Inr ms" and "m \<in> set ms"
  then show "1 \<le> rm_receive_count m"
    by (auto simp: sqs_queue_def sqs_receive_def parse_response_def
        split: if_splits prod.splits sum.splits option.splits json.splits dest: parse_messages_counts)
qed (auto simp: sqs_queue_def sqs_publish_def sqs_delete_def sqs_change_visibility_def dest: aws_call_Inl)

end
