(* ===== verification/Worker_Properties.thy ===== *)
theory Worker_Properties
  imports Sqs Queue_Properties Envelope_Properties
begin

text \<open>
  What the queue services guarantee: which identifiers are published, how each received message is
  settled, what a batch may raise, and the bounds of the retry delay.
\<close>

section \<open>Due events\<close>

text \<open>A queue that takes everything and remembers what it was asked, as the tests use one.\<close>

datatype queue_request = Published queue_envelope | Deleted received_queue_message | Postponed received_queue_message int

definition recording_queue :: "queue_request list delivery_queue" where
  "recording_queue = \<lparr>q_publish = \<lambda>e q. (Inr (), q @ [Published e]), q_receive = \<lambda>n w v q. (Inr [], q),
     q_delete = \<lambda>m q. (Inr (), q @ [Deleted m]), q_change_visibility = \<lambda>m v q. (Inr (), q @ [Postponed m v])\<rparr>"

definition delivery_envelope :: "row_id \<Rightarrow> queue_envelope" where
  "delivery_envelope i = \<lparr>qe_message_type = DELIVER_SCHEDULED_EVENT, qe_event_id = Some i, qe_version = ENVELOPE_VERSION\<rparr>"

lemma publish_each_recorded:
  "\<forall>i \<in> set ids. 0 < i \<Longrightarrow> publish_each recording_queue ids k q =
    (Inr (k + length ids), q @ map (\<lambda>i. Published (delivery_envelope i)) ids)"
  by (induction ids arbitrary: k q) (auto simp: recording_queue_def deliver_event_def delivery_envelope_def)

text \<open>Requests made of a queue one after the other, up to the first one it refuses.\<close>

fun ask :: "'q delivery_queue \<Rightarrow> queue_request \<Rightarrow> ('q, unit) queue_op" where
  "ask queue (Published e) q = q_publish queue e q"
| "ask queue (Deleted m) q = q_delete queue m q"
| "ask queue (Postponed m v) q = q_change_visibility queue m v q"

fun ask_each :: "'q delivery_queue \<Rightarrow> queue_request list \<Rightarrow> ('q, unit) queue_op" where
  "ask_each queue [] q = (Inr (), q)"
| "ask_each queue (x # xs) q = (case ask queue x q of (Inl e, q) \<Rightarrow> (Inl e, q) | (Inr _, q) \<Rightarrow> ask_each queue xs q)"

lemma ask_each_append:
  "ask_each queue xs q = (Inr (), q1) \<Longrightarrow> ask_each queue (xs @ ys) q = ask_each queue ys q1"
  by (induction xs arbitrary: q) (auto split: prod.splits sum.splits)

lemma publish_each_asks:
  "\<forall>i \<in> set ids. 0 < i \<Longrightarrow> publish_each queue ids k q =
    (case ask_each queue (map (\<lambda>i. Published (delivery_envelope i)) ids) q of
       (Inl x, q') \<Rightarrow> (Inl x, q')
     | (Inr _, q') \<Rightarrow> (Inr (k + length ids), q'))"
proof (induction ids arbitrary: k q)
  case (Cons i ids)
  have "deliver_event (JInt i) = Inr (delivery_envelope i)"
    using Cons.prems by (simp add: deliver_event_def delivery_envelope_def)
  with Cons show ?case by (auto split: prod.splits sum.splits)
qed simp

lemma publish_each_Inr:
  "\<forall>i \<in> set ids. 0 < i \<Longrightarrow> publish_each queue ids k q = (Inr n, q') \<Longrightarrow>
    n = k + length ids \<and> ask_each queue (map (\<lambda>i. Published (delivery_envelope i)) ids) q = (Inr (), q')"
  by (auto simp: publish_each_asks split: prod.splits sum.splits)

lemma due_event_ids_mem:
  assumes wf: "wf_db d" and i: "i \<in> set (due_event_ids now n incl d)"
  shows "\<exists>e. get_event i d = Some e \<and> due_candidate now incl e \<and> ev_id e = i \<and> 0 < i"
proof -
  from i obtain e where e: "e \<in> set (rows (db_events d))" "due_candidate now incl e" "ev_id e = i"
    by (fastforce simp: due_event_ids_def events_where_def dest: in_set_takeD)
  moreover have "get_event (ev_id e) d = Some e" by (rule wf_get_event_of_member [OF wf e(1)])
  moreover have "0 < ev_id e" using wf e(1) by (auto simp: wf_db_def wf_table_def)
  ultimately show ?thesis by blast
qed

lemma due_event_ids_distinct: "wf_db d \<Longrightarrow> distinct (due_event_ids now n incl d)"
proof -
  assume "wf_db d"
  then have "distinct (map ev_id (rows (db_events d)))" by (simp add: wf_db_def wf_table_def)
  then have "distinct (map ev_id (order_by event_order (events_where (due_candidate now incl) d)))"
    by (simp add: events_where_def distinct_map_filter)
  then show ?thesis by (simp add: due_event_ids_def take_map [symmetric] distinct_take)
qed

lemma take_sorted_least:
  fixes k :: "'r \<Rightarrow> 'k::linorder"
  assumes "x \<in> set xs" and "x \<notin> set (take n (order_by k xs))" and "y \<in> set (take n (order_by k xs))"
  shows "length (take n (order_by k xs)) = n \<and> k y \<le> k x"
proof -
  let ?s = "order_by k xs"
  have parts: "?s = take n ?s @ drop n ?s" by simp
  have x: "x \<in> set (drop n ?s)"
    using assms(1,2) by (metis parts UnE set_append set_order_by)
  have "sorted (map k (take n ?s) @ map k (drop n ?s))"
    by (metis map_append append_take_drop_id sorted_order_by)
  then have "k y \<le> k x" using x assms(3) unfolding sorted_append by auto
  moreover have "length (take n ?s) = n" using x by (cases "n \<le> length ?s") auto
  ultimately show ?thesis by simp
qed

lemma take_sorted_full:
  assumes "x \<in> set xs" and "x \<notin> set (take n (order_by k xs))"
  shows "length (take n (order_by k xs)) = n"
proof -
  have "set (drop n (order_by k xs)) \<noteq> {}"
    using assms by (metis UnE append_take_drop_id empty_iff set_append set_order_by)
  then show ?thesis by auto
qed

lemma due_ids_oldest:
  assumes wf: "wf_db d" and n: "1 \<le> n"
    and e: "get_event i d = Some e" "due_candidate now incl e" "i \<notin> set (due_event_ids now n incl d)"
  shows "int (length (due_event_ids now n incl d)) = n"
    and "\<forall>j \<in> set (due_event_ids now n incl d). \<forall>e'. get_event j d = Some e' \<longrightarrow> event_order e' \<le> event_order e"
proof -
  let ?all = "events_where (due_candidate now incl) d"
  have id: "ev_id e = i" using e(1) by (rule events.get_key)
  have all: "e \<in> set ?all" using get_event_member [OF e(1)] e(2) by (simp add: events_where_def)
  have out: "e \<notin> set (take (nat n) (order_by event_order ?all))"
    using e(3) id by (auto simp: due_event_ids_def)
  show "int (length (due_event_ids now n incl d)) = n"
    using take_sorted_full [OF all out] n by (simp add: due_event_ids_def)
  show "\<forall>j \<in> set (due_event_ids now n incl d). \<forall>e'. get_event j d = Some e' \<longrightarrow> event_order e' \<le> event_order e"
  proof (intro ballI allI impI)
    fix j e' assume j: "j \<in> set (due_event_ids now n incl d)" "get_event j d = Some e'"
    then obtain f where f: "f \<in> set (take (nat n) (order_by event_order ?all))" "ev_id f = j"
      by (auto simp: due_event_ids_def)
    then have "f \<in> set (rows (db_events d))" by (auto simp: events_where_def dest: in_set_takeD)
    then have "f = e'" using wf_get_event_of_member [OF wf] f(2) j(2) by fastforce
    with take_sorted_least [OF all out f(1)] show "event_order e' \<le> event_order e" by simp
  qed
qed

text \<open>C40. A dispatcher tick publishes the oldest due events, on any queue. The identifiers belong to scheduled, due
  events (demo events unless real ones are asked for), each once, at most \<open>batch_size\<close>; an eligible event is
  left out only when that many at least as old ones were chosen. The queue is asked to publish a delivery for
  each of them, and for nothing else, in one pass that ends at its first refusal; without one all are counted
  as selected and published.\<close>

theorem publish_oldest_due:
  assumes "wf_db d" and "1 \<le> n" and "n \<le> 100"
  shows "\<exists>ids. distinct ids \<and> int (length ids) \<le> n \<and>
    (\<forall>i \<in> set ids. \<exists>e. get_event i d = Some e \<and> ev_status e = E_SCHEDULED \<and>
       ev_scheduled_for e \<le> or_now now (clk 0) \<and> (incl \<or> ev_is_demo e)) \<and>
    (\<forall>i e. get_event i d = Some e \<and> ev_status e = E_SCHEDULED \<and> ev_scheduled_for e \<le> or_now now (clk 0) \<and>
       (incl \<or> ev_is_demo e) \<and> i \<notin> set ids \<longrightarrow>
       int (length ids) = n \<and> (\<forall>j \<in> set ids. \<forall>e'. get_event j d = Some e' \<longrightarrow> event_order e' \<le> event_order e)) \<and>
    publish_due_event_messages queue now n incl clk d q =
      (case ask_each queue (map (\<lambda>i. Published (delivery_envelope i)) ids) q of
         (Inl x, q') \<Rightarrow> (Inl x, q')
       | (Inr _, q') \<Rightarrow> (Inr \<lparr>qp_selected_count = length ids, qp_published_count = length ids\<rparr>, q'))"
proof (rule exI [of _ "due_event_ids (or_now now (clk 0)) n incl d"], intro conjI)
  let ?ids = "due_event_ids (or_now now (clk 0)) n incl d"
  show "distinct ?ids" by (rule due_event_ids_distinct [OF assms(1)])
  show "int (length ?ids) \<le> n" using assms(2) by (simp add: due_event_ids_def)
  show "\<forall>i \<in> set ?ids. \<exists>e. get_event i d = Some e \<and> ev_status e = E_SCHEDULED \<and>
       ev_scheduled_for e \<le> or_now now (clk 0) \<and> (incl \<or> ev_is_demo e)"
    using due_event_ids_mem [OF assms(1)] unfolding due_candidate_def by blast
  show "\<forall>i e. get_event i d = Some e \<and> ev_status e = E_SCHEDULED \<and> ev_scheduled_for e \<le> or_now now (clk 0) \<and>
       (incl \<or> ev_is_demo e) \<and> i \<notin> set ?ids \<longrightarrow>
       int (length ?ids) = n \<and> (\<forall>j \<in> set ?ids. \<forall>e'. get_event j d = Some e' \<longrightarrow> event_order e' \<le> event_order e)"
  proof (intro allI impI)
    fix i e
    assume e: "get_event i d = Some e \<and> ev_status e = E_SCHEDULED \<and> ev_scheduled_for e \<le> or_now now (clk 0) \<and>
       (incl \<or> ev_is_demo e) \<and> i \<notin> set ?ids"
    then have "get_event i d = Some e" "due_candidate (or_now now (clk 0)) incl e" "i \<notin> set ?ids"
      by (simp_all add: due_candidate_def)
    from due_ids_oldest [OF assms(1,2) this] show "int (length ?ids) = n \<and>
        (\<forall>j \<in> set ?ids. \<forall>e'. get_event j d = Some e' \<longrightarrow> event_order e' \<le> event_order e)" by (rule conjI)
  qed
  have "\<forall>i \<in> set ?ids. 0 < i" using due_event_ids_mem [OF assms(1)] by blast
  then show "publish_due_event_messages queue now n incl clk d q =
      (case ask_each queue (map (\<lambda>i. Published (delivery_envelope i)) ?ids) q of
         (Inl x, q') \<Rightarrow> (Inl x, q')
       | (Inr _, q') \<Rightarrow> (Inr \<lparr>qp_selected_count = length ?ids, qp_published_count = length ?ids\<rparr>, q'))"
    using assms(2,3)
    by (simp add: publish_due_event_messages_def MAX_BATCH_SIZE_def publish_each_asks Let_def split: prod.splits sum.splits)
qed

lemma ask_each_recording: "ask_each recording_queue (map Published es) q = (Inr (), q @ map Published es)"
  by (induction es arbitrary: q) (simp_all add: recording_queue_def)

lemma publish_oldest_due_witness:
  "\<exists>ids. distinct ids \<and> publish_due_event_messages recording_queue (Some (seconds 3000)) 5 True (\<lambda>_. 0) sample_db [] =
    (Inr \<lparr>qp_selected_count = length ids, qp_published_count = length ids\<rparr>, map (\<lambda>i. Published (delivery_envelope i)) ids)"
proof -
  have asks: "ask_each recording_queue (map (\<lambda>i. Published (delivery_envelope i)) ids) [] =
      (Inr (), map (\<lambda>i. Published (delivery_envelope i)) ids)" for ids
    using ask_each_recording [of "map delivery_envelope ids" "[]"] by (simp add: comp_def)
  show ?thesis
    using publish_oldest_due [OF wf_sample_db, where n = 5 and now = "Some (seconds 3000)" and clk = "\<lambda>_. 0" and incl = True
        and queue = recording_queue and q = "[]"]
    unfolding asks by auto
qed

section \<open>The retry delay\<close>

text \<open>C18. The delay before a message is seen again lies between the base and the maximum, is the base on the
  first receipt, never decreases with the receive count, and is within what SQS accepts.\<close>

theorem retry_visibility_bounds:
  assumes "1 \<le> base" and "base \<le> maximum" and "maximum \<le> 43200"
  shows "base \<le> retry_visibility base maximum rc \<and> retry_visibility base maximum rc \<le> maximum \<and>
    0 \<le> retry_visibility base maximum rc \<and> retry_visibility base maximum rc \<le> 43200 \<and>
    (rc \<le> 1 \<longrightarrow> retry_visibility base maximum rc = base) \<and>
    (rc \<le> rc' \<longrightarrow> retry_visibility base maximum rc \<le> retry_visibility base maximum rc')"
proof -
  have pow: "(1::int) \<le> 2 ^ k" for k by simp
  have low: "base \<le> base * 2 ^ k" for k using assms(1) pow [of k] by (simp add: mult_le_cancel_left1)
  have "base * 2 ^ nat (max (rc - 1) 0) \<le> base * 2 ^ nat (max (rc' - 1) 0)" if "rc \<le> rc'"
    using that assms(1) by (intro mult_left_mono power_increasing) auto
  then have mono: "retry_visibility base maximum rc \<le> retry_visibility base maximum rc'" if "rc \<le> rc'"
    using that unfolding retry_visibility_def by (intro min.mono) simp_all
  have first: "retry_visibility base maximum rc = base" if "rc \<le> 1"
    using that assms(2) by (simp add: retry_visibility_def)
  have "base \<le> retry_visibility base maximum rc" "retry_visibility base maximum rc \<le> maximum"
    using low [of "nat (max (rc - 1) 0)"] assms(2) by (simp_all add: retry_visibility_def)
  with mono first assms show ?thesis by auto
qed

lemma retry_visibility_bounds_witness:
  "retry_visibility 30 300 1 = 30 \<and> retry_visibility 30 300 9 \<le> 300"
  using retry_visibility_bounds [of 30 300 1] retry_visibility_bounds [of 30 300 9] by simp

section \<open>One message\<close>

text \<open>What deciding on a message leaves: the invariant, at most one send, and none if it is to be retried.\<close>

lemma decide_message_effect:
  assumes wf: "wf_db d" and run: "decide_message config rt queue env clk m d q = (r, d', q', calls)"
  shows "wf_db d' \<and> length (real_sends calls) + length (demo_sends calls) \<le> 1 \<and>
    (\<forall>n bad. r = Inr (RETRY, n, bad) \<longrightarrow> real_sends calls = [] \<and> demo_sends calls = []) \<and>
    (\<forall>a n. r = Inr (a, n, True) \<longrightarrow> a = RETRY)"
proof -
  have delivery: "wf_db d1 \<and> length (real_sends cs) + length (demo_sends cs) \<le> 1 \<and>
      (a = Inr RETRY \<longrightarrow> real_sends cs = [] \<and> demo_sends cs = [])"
    if "process_queued_delivery i rc mx env None grace allow clk d = (a, d1, cs)" for i rc mx grace allow a d1 cs
    using process_effect [OF wf that] by blast
  show ?thesis
  proof (cases "envelope_from_json (jr_limit rt) (jr_floats rt) (rm_body m)")
    case (Inl x)
    with run wf show ?thesis by (auto simp: decide_message_def split: if_splits)
  next
    case (Inr e)
    show ?thesis
    proof (cases "qe_message_type e = DISPATCH_DUE_EVENTS")
      case True
      with run wf Inr show ?thesis
        by (auto simp: decide_message_def split: prod.splits sum.splits)
    next
      case False
      show ?thesis
      proof (cases "qe_message_type e = DELIVER_SCHEDULED_EVENT \<and> qe_event_id e \<noteq> None")
        case True
        then obtain i where i: "qe_event_id e = Some i" by auto
        obtain a d1 cs where p: "process_queued_delivery i (rm_receive_count m) (wc_max_receive_count config) env None
            (wc_grace_period config) (wc_allow_real config) clk d = (a, d1, cs)" by (metis prod_cases3)
        from run Inr False True i p have "d' = d1" "calls = cs" "r = (case a of Inl x \<Rightarrow> Inl x | Inr b \<Rightarrow> Inr (b, 0, False))"
          by (auto simp: decide_message_def split: sum.splits)
        with delivery [OF p] show ?thesis by (auto split: sum.splits)
      next
        case False
        with run wf Inr \<open>qe_message_type e \<noteq> DISPATCH_DUE_EVENTS\<close> show ?thesis
          by (cases "qe_event_id e") (auto simp: decide_message_def split: if_splits)
      qed
    qed
  qed
qed

section \<open>A batch\<close>

text \<open>What \<open>n\<close> messages with some sends add to the counts.\<close>

definition adds_up :: "nat \<Rightarrow> nat \<Rightarrow> queue_batch_result \<Rightarrow> queue_batch_result \<Rightarrow> bool" where
  "adds_up n sends c0 c \<longleftrightarrow> qb_received_count c = qb_received_count c0 \<and>
     qb_acknowledged_count c + qb_retry_count c = qb_acknowledged_count c0 + qb_retry_count c0 + n \<and>
     qb_malformed_count c + qb_retry_count c0 \<le> qb_malformed_count c0 + qb_retry_count c \<and>
     sends + qb_acknowledged_count c0 \<le> qb_acknowledged_count c"

lemma adds_up_then: "adds_up n s c0 c1 \<Longrightarrow> adds_up m t c1 c2 \<Longrightarrow> adds_up (n + m) (s + t) c0 c2"
  by (simp add: adds_up_def)

abbreviation counted :: "queue_action \<Rightarrow> nat \<Rightarrow> bool \<Rightarrow> queue_batch_result \<Rightarrow> queue_batch_result" where
  "counted a n bad c \<equiv> c\<lparr>qb_acknowledged_count := qb_acknowledged_count c + (if a = ACKNOWLEDGE then 1 else 0),
     qb_retry_count := qb_retry_count c + (if a = ACKNOWLEDGE then 0 else 1),
     qb_published_count := qb_published_count c + n,
     qb_malformed_count := qb_malformed_count c + (if bad then 1 else 0)\<rparr>"

lemma adds_up_one:
  "s \<le> (if a = ACKNOWLEDGE then 1 else 0) \<Longrightarrow> (bad \<Longrightarrow> a = RETRY) \<Longrightarrow> adds_up 1 s c (counted a n bad c)"
  by (auto simp: adds_up_def)

lemma process_messages_effect:
  assumes "wf_db d" and "process_messages config rt queue envs clks ms counts d q = (r, d', q', calls)"
  shows "wf_db d' \<and> length (real_sends calls) + length (demo_sends calls) \<le> length ms \<and>
    (\<forall>c. r = Inr c \<longrightarrow> adds_up (length ms) (length (real_sends calls) + length (demo_sends calls)) counts c)"
  using assms
proof (induction ms arbitrary: envs clks counts d q r d' q' calls)
  case Nil
  then show ?case by (auto simp: adds_up_def)
next
  case (Cons m ms)
  obtain r1 d1 q1 cs1 where dec: "decide_message config rt queue (envs 0) (clks 0) m d q = (r1, d1, q1, cs1)"
    by (metis prod_cases4)
  note eff = decide_message_effect [OF Cons.prems(1) dec]
  consider (raised) x where "r = Inl x" "d' = d1" "calls = cs1"
    | (settled) a n bad q2 r2 d2 q3 cs2 where "r1 = Inr (a, n, bad)"
        "process_messages config rt queue (\<lambda>n. envs (n + 1)) (\<lambda>n. clks (n + 1)) ms (counted a n bad counts) d1 q2 =
           (r2, d2, q3, cs2)" "r = r2" "d' = d2" "calls = cs1 @ cs2"
  proof (cases r1)
    case (Inl x)
    with Cons.prems(2) dec show thesis by (intro that(1) [of x]) simp_all
  next
    case (Inr abn)
    obtain a n bad where abn: "abn = (a, n, bad)" by (metis prod_cases3)
    obtain u q2 where settle: "settle_message config queue a m q1 = (u, q2)" by fastforce
    obtain r2 d2 q3 cs2 where rest: "process_messages config rt queue (\<lambda>n. envs (n + 1)) (\<lambda>n. clks (n + 1)) ms
        (counted a n bad counts) d1 q2 = (r2, d2, q3, cs2)" by (metis prod_cases4)
    show thesis
    proof (cases u)
      case (Inl x)
      with Cons.prems(2) dec \<open>r1 = Inr abn\<close> abn settle show thesis by (intro that(1) [of x]) simp_all
    next
      case (Inr v)
      with Cons.prems(2) dec \<open>r1 = Inr abn\<close> abn settle rest show thesis
        by (intro that(2) [of a n bad q2 r2 d2 q3 cs2]) simp_all
    qed
  qed
  then show ?case
  proof cases
    case raised
    with eff show ?thesis by auto
  next
    case settled
    let ?s1 = "length (real_sends cs1) + length (demo_sends cs1)"
    have "wf_db d1" using eff by simp
    note ih = Cons.IH [OF this settled(2)]
    have "a \<noteq> ACKNOWLEDGE \<Longrightarrow> a = RETRY" by (cases a) simp_all
    then have ack: "?s1 \<le> (if a = ACKNOWLEDGE then 1 else 0)" and bad: "bad \<Longrightarrow> a = RETRY"
      using eff settled(1) by auto
    have "?s1 \<le> 1" using ack by (auto split: if_splits)
    moreover have "adds_up (length (m # ms)) (?s1 + (length (real_sends cs2) + length (demo_sends cs2))) counts c"
      if "r2 = Inr c" for c
      using adds_up_then [OF adds_up_one [OF ack bad]] ih that by fastforce
    ultimately show ?thesis using ih by (simp add: settled add_ac)
  qed
qed

text \<open>What a message led to: the answer, the identifiers published, whether it was malformed, the calls made.\<close>

record handled =
  hd_action :: queue_action
  hd_published :: "row_id list"
  hd_malformed :: bool
  hd_calls :: "call_made list"

definition handled_as ::
  "worker_config \<Rightarrow> json_runtime \<Rightarrow> delivery_env \<Rightarrow> clock \<Rightarrow> received_queue_message \<Rightarrow> db \<Rightarrow> handled \<Rightarrow> db \<Rightarrow> bool" where
  "handled_as config rt env clk m d h d' \<longleftrightarrow>
     (case envelope_from_json (jr_limit rt) (jr_floats rt) (rm_body m) of
        Inl x \<Rightarrow> exn_class x = QueueExn MalformedQueueMessage \<and> d' = d \<and>
          h = \<lparr>hd_action = RETRY, hd_published = [], hd_malformed = True, hd_calls = []\<rparr>
      | Inr e \<Rightarrow>
          (case qe_event_id e of
             None \<Rightarrow> d' = d \<and> h = \<lparr>hd_action = ACKNOWLEDGE,
               hd_published = due_event_ids (clk 0) (wc_batch_size config) (wc_allow_real config) d,
               hd_malformed = False, hd_calls = []\<rparr>
           | Some i \<Rightarrow> hd_published h = [] \<and> \<not> hd_malformed h \<and>
               process_queued_delivery i (rm_receive_count m) (wc_max_receive_count config) env None
                 (wc_grace_period config) (wc_allow_real config) clk d = (Inr (hd_action h), d', hd_calls h)))"

text \<open>The messages of a batch, one after the other.\<close>

fun handled_each ::
  "worker_config \<Rightarrow> json_runtime \<Rightarrow> (nat \<Rightarrow> delivery_env) \<Rightarrow> (nat \<Rightarrow> clock) \<Rightarrow> received_queue_message list \<Rightarrow> db \<Rightarrow>
    handled list \<Rightarrow> db \<Rightarrow> bool" where
  "handled_each config rt envs clks [] d hs d' = (hs = [] \<and> d' = d)"
| "handled_each config rt envs clks (m # ms) d hs d' =
     (case hs of [] \<Rightarrow> False
      | h # hs \<Rightarrow> (\<exists>d1. handled_as config rt (envs 0) (clks 0) m d h d1 \<and>
          handled_each config rt (\<lambda>n. envs (n + 1)) (\<lambda>n. clks (n + 1)) ms d1 hs d'))"

text \<open>
  What the queue is asked for a message: publish its identifiers, then delete the message, or hide it for the
  retry delay of its receive count.
\<close>

definition requests :: "worker_config \<Rightarrow> received_queue_message \<Rightarrow> handled \<Rightarrow> queue_request list" where
  "requests config m h = map (\<lambda>i. Published (delivery_envelope i)) (hd_published h) @
     [if hd_action h = ACKNOWLEDGE then Deleted m
      else Postponed m (retry_visibility (wc_retry_base_seconds config) (wc_retry_max_seconds config) (rm_receive_count m))]"

definition summed :: "queue_batch_result \<Rightarrow> handled list \<Rightarrow> queue_batch_result" where
  "summed c hs = c\<lparr>
     qb_acknowledged_count := qb_acknowledged_count c + length (filter (\<lambda>h. hd_action h = ACKNOWLEDGE) hs),
     qb_retry_count := qb_retry_count c + length (filter (\<lambda>h. hd_action h \<noteq> ACKNOWLEDGE) hs),
     qb_published_count := qb_published_count c + sum_list (map (\<lambda>h. length (hd_published h)) hs),
     qb_malformed_count := qb_malformed_count c + length (filter hd_malformed hs)\<rparr>"

lemma summed_Cons:
  "summed (counted (hd_action h) (length (hd_published h)) (hd_malformed h) c) hs = summed c (h # hs)"
  by (simp add: summed_def)

lemma decide_message_handled:
  assumes wf: "wf_db d" and run: "decide_message config rt queue env clk m d q = (Inr (a, n, bad), d', q', calls)"
  obtains ids where "n = length ids"
    and "handled_as config rt env clk m d \<lparr>hd_action = a, hd_published = ids, hd_malformed = bad, hd_calls = calls\<rparr> d'"
    and "ask_each queue (map (\<lambda>i. Published (delivery_envelope i)) ids) q = (Inr (), q')"
proof (cases "envelope_from_json (jr_limit rt) (jr_floats rt) (rm_body m)")
  case (Inl x)
  with run show thesis
    by (intro that [of "[]"]) (auto simp: decide_message_def handled_as_def split: if_splits)
next
  case (Inr e)
  have types: "DELIVER_SCHEDULED_EVENT \<noteq> DISPATCH_DUE_EVENTS"
    by (simp add: DELIVER_SCHEDULED_EVENT_def DISPATCH_DUE_EVENTS_def)
  show thesis
  proof (cases "e = dispatch_tick")
    case True
    let ?ids = "due_event_ids (clk 0) (wc_batch_size config) (wc_allow_real config) d"
    have pos: "\<forall>i \<in> set ?ids. 0 < i" using due_event_ids_mem [OF wf] by blast
    from run Inr True have "publish_each queue ?ids 0 q = (Inr n, q')" "a = ACKNOWLEDGE" "\<not> bad" "d' = d" "calls = []"
      by (auto simp: decide_message_def dispatch_tick_def publish_due_event_messages_def Let_def
          split: prod.splits sum.splits if_splits)
    with publish_each_Inr [OF pos this(1)] True Inr show thesis
      by (intro that [of ?ids]) (simp_all add: handled_as_def dispatch_tick_def)
  next
    case False
    then obtain i where i: "qe_message_type e = DELIVER_SCHEDULED_EVENT" "qe_event_id e = Some i"
      using envelope_accepted [OF Inr] by blast
    with run Inr types show thesis
      by (intro that [of "[]"]) (auto simp: decide_message_def handled_as_def split: prod.splits sum.splits)
  qed
qed

lemma settle_message_asks:
  "settle_message config queue (hd_action h) m q = (Inr u, q') \<Longrightarrow>
    ask_each queue (map (\<lambda>i. Published (delivery_envelope i)) (hd_published h)) q0 = (Inr (), q) \<Longrightarrow>
    ask_each queue (requests config m h) q0 = (Inr (), q')"
  by (simp add: requests_def ask_each_append settle_message_def split: if_splits)

lemma process_messages_handled:
  assumes "wf_db d" and "process_messages config rt queue envs clks ms counts d q = (Inr c, d', q', calls)"
  shows "\<exists>hs. handled_each config rt envs clks ms d hs d' \<and> length hs = length ms \<and> c = summed counts hs \<and>
    calls = concat (map hd_calls hs) \<and> ask_each queue (concat (map2 (requests config) ms hs)) q = (Inr (), q')"
  using assms
proof (induction ms arbitrary: envs clks counts d q calls)
  case Nil
  then show ?case by (simp add: summed_def)
next
  case (Cons m ms)
  obtain r1 d1 q1 cs1 where dec: "decide_message config rt queue (envs 0) (clks 0) m d q = (r1, d1, q1, cs1)"
    by (metis prod_cases4)
  obtain a n bad where r1: "r1 = Inr (a, n, bad)" using Cons.prems(2) dec by (cases r1) auto
  obtain u q2 where settle: "settle_message config queue a m q1 = (u, q2)" by fastforce
  obtain v where u: "u = Inr v" using Cons.prems(2) dec r1 settle by (cases u) simp_all
  obtain cs2 where rest: "process_messages config rt queue (\<lambda>n. envs (n + 1)) (\<lambda>n. clks (n + 1)) ms
      (counted a n bad counts) d1 q2 = (Inr c, d', q', cs2)" and calls: "calls = cs1 @ cs2"
    using Cons.prems(2) dec r1 settle u by (auto split: prod.splits)
  obtain ids where n: "n = length ids"
    and own: "handled_as config rt (envs 0) (clks 0) m d
      \<lparr>hd_action = a, hd_published = ids, hd_malformed = bad, hd_calls = cs1\<rparr> d1"
    and asks: "ask_each queue (map (\<lambda>i. Published (delivery_envelope i)) ids) q = (Inr (), q1)"
    by (rule decide_message_handled [OF Cons.prems(1) dec [unfolded r1]])
  let ?h = "\<lparr>hd_action = a, hd_published = ids, hd_malformed = bad, hd_calls = cs1\<rparr>"
  have settled: "ask_each queue (requests config m ?h) q = (Inr (), q2)"
    by (rule settle_message_asks) (use settle u asks in simp_all)
  have "wf_db d1" using decide_message_effect [OF Cons.prems(1) dec] by simp
  from Cons.IH [OF this rest] obtain hs where
    hs: "handled_each config rt (\<lambda>n. envs (n + 1)) (\<lambda>n. clks (n + 1)) ms d1 hs d'" "length hs = length ms"
      "c = summed (counted a n bad counts) hs" "cs2 = concat (map hd_calls hs)"
      "ask_each queue (concat (map2 (requests config) ms hs)) q2 = (Inr (), q')" by blast
  have "c = summed counts (?h # hs)" using hs(3) summed_Cons [where h = ?h and c = counts and hs = hs] n by simp
  then show ?case
    using own hs calls settled by (intro exI [of _ "?h # hs"]) (auto simp: ask_each_append)
qed

text \<open>C16. A batch, whatever the messages are and the queue answers: the database stays well-formed and there
  are at most as many sends as messages. If it returns, every message was handled in order, on the
  database the previous ones left: a body that is no envelope is malformed and retried, a tick publishes the due
  events and is acknowledged, a delivery is answered as its processing says. For each message the queue
  was asked exactly to publish those events and then to delete the message if it was acknowledged, or else to
  hide it for its retry delay; nothing else was asked, no request was refused, and the queue is what these
  requests made of it. The counts are those of the answers, and no more messages were sent than
  acknowledged, so that one that sent something is not seen again.\<close>

theorem queue_batch_adds_up:
  assumes "wf_db d" and "process_queue_batch config rt queue envs clks ms d q = (r, d', q', calls)"
  shows "wf_db d' \<and> length (real_sends calls) + length (demo_sends calls) \<le> length ms \<and>
    (\<forall>c. r = Inr c \<longrightarrow> qb_received_count c = length ms \<and>
       qb_acknowledged_count c + qb_retry_count c = length ms \<and> qb_malformed_count c \<le> qb_retry_count c \<and>
       length (real_sends calls) + length (demo_sends calls) \<le> qb_acknowledged_count c \<and>
       (\<exists>hs. handled_each config rt envs clks ms d hs d' \<and> length hs = length ms \<and> calls = concat (map hd_calls hs) \<and>
          ask_each queue (concat (map2 (requests config) ms hs)) q = (Inr (), q') \<and>
          qb_acknowledged_count c = length (filter (\<lambda>h. hd_action h = ACKNOWLEDGE) hs) \<and>
          qb_retry_count c = length (filter (\<lambda>h. hd_action h \<noteq> ACKNOWLEDGE) hs) \<and>
          qb_published_count c = sum_list (map (\<lambda>h. length (hd_published h)) hs) \<and>
          qb_malformed_count c = length (filter hd_malformed hs)))"
proof -
  let ?zero = "\<lparr>qb_received_count = length ms, qb_acknowledged_count = 0, qb_retry_count = 0,
         qb_published_count = 0, qb_malformed_count = 0\<rparr>"
  from assms(2) consider x where "r = Inl x" "d' = d" "calls = []"
    | "process_messages config rt queue envs clks ms ?zero d q = (r, d', q', calls)"
    by (auto simp: process_queue_batch_def split: if_splits)
  then show ?thesis
  proof cases
    case 1
    with assms(1) show ?thesis by simp
  next
    case 2
    have "\<exists>hs. handled_each config rt envs clks ms d hs d' \<and> length hs = length ms \<and> calls = concat (map hd_calls hs) \<and>
        ask_each queue (concat (map2 (requests config) ms hs)) q = (Inr (), q') \<and> c = summed ?zero hs"
      if "r = Inr c" for c
      using process_messages_handled [OF assms(1) 2 [unfolded that]] by blast
    with process_messages_effect [OF assms(1) 2] show ?thesis by (fastforce simp: adds_up_def summed_def)
  qed
qed

definition sample_config :: worker_config where
  "sample_config = \<lparr>wc_batch_size = 25, wc_max_receive_count = 3, wc_retry_base_seconds = 30,
     wc_retry_max_seconds = 300, wc_grace_period = minutes 15, wc_allow_real = False\<rparr>"

definition sample_floats :: float_runtime where
  "sample_floats = \<lparr>float_of_int = \<lambda>_. None, float_of_text = \<lambda>_. None, repr_of = \<lambda>_. ''''\<rparr>"

definition sample_env :: delivery_env where
  "sample_env = \<lparr>env_weather = fake_get_current_weather 0, env_message_sender = None, env_demo_sender = None\<rparr>"

definition sample_messages :: "received_queue_message list" where
  "sample_messages =
     [\<lparr>rm_body = envelope_to_json (delivery_envelope 1), rm_receipt_handle = ''r1'', rm_receive_count = 1, rm_message_id = None\<rparr>,
      \<lparr>rm_body = ''{'', rm_receipt_handle = ''r2'', rm_receive_count = 2, rm_message_id = None\<rparr>]"

definition sample_batch_run :: "(queue_request list, queue_batch_result) worker_op" where
  "sample_batch_run = process_queue_batch sample_config \<lparr>jr_limit = 100, jr_floats = sample_floats\<rparr> recording_queue
     (\<lambda>_. sample_env) (\<lambda>_ n. seconds 1000 + int n) sample_messages sample_db []"

lemma sample_batch_result:
  "fst sample_batch_run = Inr \<lparr>qb_received_count = 2, qb_acknowledged_count = 1, qb_retry_count = 1,
     qb_published_count = 0, qb_malformed_count = 1\<rparr>"
  "fst (snd (snd sample_batch_run)) = [Deleted (sample_messages ! 0), Postponed (sample_messages ! 1) 60]"
  "length (demo_sends (snd (snd (snd sample_batch_run)))) = 1"
  by code_simp+

lemma queue_batch_adds_up_witness: "wf_db (fst (snd sample_batch_run))"
proof -
  obtain r d' q' calls where run: "sample_batch_run = (r, d', q', calls)" by (metis prod_cases4)
  from queue_batch_adds_up [OF wf_sample_db run [unfolded sample_batch_run_def]] show ?thesis by (simp add: run)
qed

section \<open>What a batch may raise\<close>

lemma process_raises:
  assumes wf: "wf_db d" and args: "1 \<le> rc" "1 \<le> m" "0 \<le> grace" "in_datetime_range (or_now now (clk 0) - grace)"
    and run: "process_queued_delivery i rc m env now grace allow clk d = (Inl x, d', calls)"
  shows "exn_class x \<in> {DataError, IntegrityError}"
  using wf run
proof (cases rule: process_cases)
  case (refused y)
  have "\<exists>r. claim_queued_event i (or_now now (clk 0)) grace allow (\<lambda>n. clk (n + 1)) d = Inr r"
    using claim_queued_implements [OF wf args(3)] args(4) by blast
  with refused args show ?thesis by auto
next
  case (tried c r d1)
  show ?thesis by (cases rule: finish_cases [OF tried(1,3,7)]) auto
qed auto

lemma publish_each_raises:
  assumes queue: "queue_contract queue" and ids: "\<forall>i \<in> set ids. 0 < i"
    and run: "publish_each queue ids k q = (Inl x, q')"
  shows "exn_class x = QueueExn QueueUnavailable"
  using ids run
proof (induction ids arbitrary: k q)
  case (Cons i ids)
  obtain u q1 where p: "q_publish queue (delivery_envelope i) q = (u, q1)" by fastforce
  have "deliver_event (JInt i) = Inr (delivery_envelope i)"
    using Cons.prems(1) by (simp add: deliver_event_def delivery_envelope_def)
  with Cons p show ?case
    using queue_contract.publish_raises [OF queue, of "delivery_envelope i" q] by (cases u) auto
qed simp

lemma decide_message_raises:
  assumes queue: "queue_contract queue" and wf: "wf_db d"
    and args: "1 \<le> wc_batch_size config" "wc_batch_size config \<le> 100" "1 \<le> wc_max_receive_count config"
      "0 \<le> wc_grace_period config" "1 \<le> rm_receive_count m" "in_datetime_range (clk 0 - wc_grace_period config)"
    and run: "decide_message config rt queue env clk m d q = (Inl x, d', q', calls)"
  shows "exn_class x \<in> {QueueExn QueueUnavailable, DataError, IntegrityError} \<or> x = recursion_error"
proof (cases "envelope_from_json (jr_limit rt) (jr_floats rt) (rm_body m)")
  case (Inl y)
  then show ?thesis
    using run envelope_refusal [OF Inl] by (auto simp: decide_message_def split: if_splits)
next
  case (Inr e)
  note e = envelope_accepted [OF Inr]
  show ?thesis
  proof (cases "e = dispatch_tick")
    case True
    have "\<forall>i \<in> set (due_event_ids (clk 0) (wc_batch_size config) (wc_allow_real config) d). 0 < i"
      using due_event_ids_mem [OF wf] by blast
    with True run Inr args(1,2) show ?thesis
      by (auto simp: decide_message_def dispatch_tick_def publish_due_event_messages_def MAX_BATCH_SIZE_def Let_def
          dest: publish_each_raises [OF queue] split: prod.splits sum.splits)
  next
    case False
    then obtain i where i: "qe_message_type e = DELIVER_SCHEDULED_EVENT" "qe_event_id e = Some i" using e by blast
    have "DELIVER_SCHEDULED_EVENT \<noteq> DISPATCH_DUE_EVENTS"
      by (simp add: DELIVER_SCHEDULED_EVENT_def DISPATCH_DUE_EVENTS_def)
    with run Inr i obtain d1 cs where "process_queued_delivery i (rm_receive_count m) (wc_max_receive_count config) env None
        (wc_grace_period config) (wc_allow_real config) clk d = (Inl x, d1, cs)"
      by (auto simp: decide_message_def split: prod.splits sum.splits)
    from process_raises [OF wf args(5,3,4) _ this] args(6) show ?thesis by simp
  qed
qed

lemma settle_message_raises:
  assumes queue: "queue_contract queue"
    and args: "1 \<le> wc_retry_base_seconds config" "wc_retry_base_seconds config \<le> wc_retry_max_seconds config"
      "wc_retry_max_seconds config \<le> 43200"
    and run: "settle_message config queue a m q = (Inl x, q')"
  shows "exn_class x = QueueExn QueueUnavailable"
proof (cases "a = ACKNOWLEDGE")
  case True
  with run queue_contract.delete_raises [OF queue, of m q x] show ?thesis by (simp add: settle_message_def)
next
  case False
  let ?v = "retry_visibility (wc_retry_base_seconds config) (wc_retry_max_seconds config) (rm_receive_count m)"
  have "(0::int) < 2 ^ nat (max (rm_receive_count m - 1) 0)" by simp
  then have "0 \<le> ?v" using args(1,2) by (simp add: retry_visibility_def)
  moreover have "?v \<le> 43200" using args(3) by (auto simp: retry_visibility_def)
  ultimately show ?thesis
    using False run queue_contract.change_raises [OF queue, of ?v m q x] by (simp add: settle_message_def)
qed

lemma process_messages_raises:
  assumes "queue_contract queue" and "wf_db d"
    and "1 \<le> wc_batch_size config" "wc_batch_size config \<le> 100" "1 \<le> wc_max_receive_count config"
      "0 \<le> wc_grace_period config" "1 \<le> wc_retry_base_seconds config"
      "wc_retry_base_seconds config \<le> wc_retry_max_seconds config" "wc_retry_max_seconds config \<le> 43200"
    and "\<forall>m \<in> set ms. 1 \<le> rm_receive_count m"
    and "\<forall>n. in_datetime_range (clks n 0 - wc_grace_period config)"
    and "process_messages config rt queue envs clks ms counts d q = (Inl x, d', q', calls)"
  shows "exn_class x \<in> {QueueExn QueueUnavailable, DataError, IntegrityError} \<or> x = recursion_error"
  using assms(2,10-)
proof (induction ms arbitrary: envs clks counts d q calls)
  case (Cons m ms)
  obtain r1 d1 q1 cs1 where dec: "decide_message config rt queue (envs 0) (clks 0) m d q = (r1, d1, q1, cs1)"
    by (metis prod_cases4)
  have wf1: "wf_db d1" using decide_message_effect [OF Cons.prems(1) dec] by blast
  show ?case
  proof (cases r1)
    case (Inl y)
    with Cons.prems(4) dec have "y = x" by simp
    with decide_message_raises [OF assms(1) Cons.prems(1) assms(3-6) _ _ dec [unfolded Inl]] Cons.prems(2,3)
    show ?thesis by simp
  next
    case (Inr abn)
    obtain a n bad where abn: "abn = (a, n, bad)" by (metis prod_cases3)
    obtain u q2 where settle: "settle_message config queue a m q1 = (u, q2)" by fastforce
    show ?thesis
    proof (cases u)
      case (Inl y)
      with Cons.prems(4) dec \<open>r1 = Inr abn\<close> abn settle have "y = x" by simp
      with settle_message_raises [OF assms(1,7-9) settle [unfolded Inl]] show ?thesis by simp
    next
      case u: (Inr v)
      let ?counts = "counts\<lparr>qb_acknowledged_count :=
              qb_acknowledged_count counts + (if a = ACKNOWLEDGE then 1 else 0),
            qb_retry_count := qb_retry_count counts + (if a = ACKNOWLEDGE then 0 else 1),
            qb_published_count := qb_published_count counts + n,
            qb_malformed_count := qb_malformed_count counts + (if bad then 1 else 0)\<rparr>"
      obtain r2 d2 q3 cs2 where rest: "process_messages config rt queue (\<lambda>n. envs (n + 1)) (\<lambda>n. clks (n + 1)) ms ?counts d1 q2 =
          (r2, d2, q3, cs2)" by (metis prod_cases4)
      have "r2 = Inl x" "d2 = d'" "q3 = q'"
        using Cons.prems(4) dec Inr abn settle u rest by simp_all
      with rest Cons.IH [OF wf1, of "\<lambda>n. clks (n + 1)" "\<lambda>n. envs (n + 1)" ?counts q2 cs2] Cons.prems(2,3)
      show ?thesis by simp
    qed
  qed
qed simp

text \<open>C17. On SQS, with settings the worker accepts, a batch of received messages raises only when the queue is
  unavailable, when a message is nested too deeply, or when the database refuses what a provider returned
  for a message that was sent; no message content, event state or provider error gets out.\<close>

theorem worker_batch_raises:
  assumes "wf_db d"
    and "1 \<le> wc_batch_size config \<and> wc_batch_size config \<le> 100 \<and> 1 \<le> wc_max_receive_count config \<and>
      0 \<le> wc_grace_period config \<and> 1 \<le> wc_retry_base_seconds config \<and>
      wc_retry_base_seconds config \<le> wc_retry_max_seconds config \<and> wc_retry_max_seconds config \<le> 43200"
    and "fst (sqs_receive url client k w v s) = Inr ms"
    and "\<forall>n. in_datetime_range (clks n 0 - wc_grace_period config)"
    and "process_queue_batch config rt (sqs_queue url client) envs clks ms d q = (Inl x, d', q', calls)"
  shows "exn_class x \<in> {QueueExn QueueUnavailable, DataError, IntegrityError} \<or> x = recursion_error"
proof -
  have counts: "\<forall>m \<in> set ms. 1 \<le> rm_receive_count m"
    using sqs.receive_counts [of url client k w v s ms] assms(3) by (simp add: sqs_queue_def)
  obtain zero where run: "process_messages config rt (sqs_queue url client) envs clks ms zero d q = (Inl x, d', q', calls)"
    using assms(2,5) by (auto simp: process_queue_batch_def split: if_splits)
  show ?thesis
    using assms(2) by (intro process_messages_raises [OF sqs.queue_contract_axioms assms(1) _ _ _ _ _ _ _ counts assms(4) run]) auto
qed

definition sample_sqs :: "nat sqs_client" where
  "sample_sqs = \<lparr>sqs_send_message = \<lambda>url body s. (Aws_Replied (), s),
     sqs_receive_message = \<lambda>url k w v s. (Aws_Replied (JObject [(''Messages'', JList [JObject [
       (''Body'', JString (envelope_to_json (delivery_envelope 1))), (''ReceiptHandle'', JString ''r1''),
       (''Attributes'', JObject [(''ApproximateReceiveCount'', JString ''1'')])]])]), s),
     sqs_delete_message = \<lambda>url handle s. (Aws_Error, s),
     sqs_change_message_visibility = \<lambda>url handle v s. (Aws_Replied (), s)\<rparr>"

definition sample_received :: "received_queue_message list" where
  "sample_received = [\<lparr>rm_body = envelope_to_json (delivery_envelope 1), rm_receipt_handle = ''r1'', rm_receive_count = 1,
     rm_message_id = None\<rparr>]"

lemma sample_sqs_runs:
  "fst (sqs_receive ''q'' sample_sqs 10 20 120 0) = Inr sample_received"
  "fst (process_queue_batch sample_config \<lparr>jr_limit = 100, jr_floats = sample_floats\<rparr> (sqs_queue ''q'' sample_sqs)
     (\<lambda>_. sample_env) (\<lambda>_ n. seconds 1000 + int n) sample_received sample_db 0) =
   Inl (queue_exn QueueUnavailable ''The delivery queue message could not be deleted.'')"
  by code_simp+

lemma worker_batch_raises_witness:
  "\<exists>x. fst (process_queue_batch sample_config \<lparr>jr_limit = 100, jr_floats = sample_floats\<rparr> (sqs_queue ''q'' sample_sqs)
     (\<lambda>_. sample_env) (\<lambda>_ n. seconds 1000 + int n) sample_received sample_db 0) = Inl x \<and>
     (exn_class x \<in> {QueueExn QueueUnavailable, DataError, IntegrityError} \<or> x = recursion_error)"
proof -
  obtain r d' q' calls where run: "process_queue_batch sample_config \<lparr>jr_limit = 100, jr_floats = sample_floats\<rparr>
     (sqs_queue ''q'' sample_sqs) (\<lambda>_. sample_env) (\<lambda>_ n. seconds 1000 + int n) sample_received sample_db 0 = (r, d', q', calls)"
    by (metis prod_cases4)
  obtain x where x: "r = Inl x" using sample_sqs_runs(2) run by simp
  have "exn_class x \<in> {QueueExn QueueUnavailable, DataError, IntegrityError} \<or> x = recursion_error"
    by (rule worker_batch_raises [OF wf_sample_db _ sample_sqs_runs(1) _ run [unfolded x]])
      (simp_all add: sample_config_def in_datetime_range_def MAX_DATETIME_def)
  with run x show ?thesis by simp
qed

end
