(* ===== verification/Webhooks.thy ===== *)
theory Webhooks
  imports Twilio_Voice Inbound_Sms
begin

text \<open>
  \<open>apps/delivery/twilio_webhooks.py\<close> and \<open>apps/delivery/views.py\<close>: the three Twilio webhooks. A request
  is its form parameters and its signature header; Twilio's signature validator is a parameter (for the
  token, the URL, the parameters and the signature, whether they fit). An answer is the HTTP status and
  the TwiML document, if there is one.
\<close>

section \<open>Requests\<close>

type_synonym form_params = "(string \<times> string) list"

type_synonym signature_validator = "string \<Rightarrow> string \<Rightarrow> form_params \<Rightarrow> string \<Rightarrow> bool"

text \<open>\<open>params.get(name, "")\<close> of a Django \<open>QueryDict\<close>: the last value given for the name.\<close>

definition param :: "form_params \<Rightarrow> string \<Rightarrow> string" where
  "param ps name = (case map_of (rev ps) name of None \<Rightarrow> [] | Some v \<Rightarrow> v)"

record twilio_request =
  tr_params :: form_params
  tr_signature :: string

abbreviation webhook_exn :: "webhook_error \<Rightarrow> string \<Rightarrow> exn" where
  "webhook_exn c text \<equiv> raise (WebhookExn c) text"

definition require_signature ::
  "signature_validator \<Rightarrow> string \<Rightarrow> string \<Rightarrow> twilio_request \<Rightarrow> exn + unit" where
  "require_signature validate auth_token callback_url request =
     require (tr_signature request \<noteq> [] \<and>
         validate auth_token callback_url (tr_params request) (tr_signature request))
       (webhook_exn InvalidTwilioSignature ''Invalid Twilio webhook signature.'')"

section \<open>Parsing\<close>

record voice_status_callback =
  vs_provider_sid :: string
  vs_provider_status :: string
  vs_sequence_number :: int

record voice_action_callback =
  va_provider_sid :: string
  va_digit :: string

record inbound_sms_callback =
  is_provider_sid :: string
  is_sender :: string
  is_body :: string
  is_opt_out_type :: string

text \<open>Each \<open>parse\<close> takes the webhook's configuration, its constructor's check first.\<close>

definition inbound_sms_webhook_parse ::
  "signature_validator \<Rightarrow> string \<Rightarrow> string \<Rightarrow> string \<Rightarrow> twilio_request \<Rightarrow> exn + inbound_sms_callback" where
  "inbound_sms_webhook_parse validate auth_token callback_url own_recipient request =
     bind_res (require (auth_token \<noteq> [] \<and> callback_url \<noteq> [] \<and> own_recipient \<noteq> [])
       (webhook_exn MalformedInboundSmsCallback ''Twilio inbound SMS validation is not configured.'')) (\<lambda>_.
     bind_res (require_signature validate auth_token callback_url request) (\<lambda>_.
       let provider_sid = param (tr_params request) ''MessageSid'';
           sender = param (tr_params request) ''From'';
           recipient = param (tr_params request) ''To'';
           body = param (tr_params request) ''Body'';
           opt_out_type = param (tr_params request) ''OptOutType''
       in if \<not> hex_sid [''SM''] provider_sid \<or> \<not> e164 sender \<or> recipient \<noteq> own_recipient \<or>
             1600 < length body \<or> opt_out_type \<notin> {'''', ''STOP'', ''START'', ''HELP''}
          then Inl (webhook_exn MalformedInboundSmsCallback ''The inbound SMS callback was malformed.'')
          else Inr \<lparr>is_provider_sid = provider_sid, is_sender = sender, is_body = body,
                    is_opt_out_type = opt_out_type\<rparr>))"

definition voice_action_webhook_parse ::
  "signature_validator \<Rightarrow> string \<Rightarrow> string \<Rightarrow> twilio_request \<Rightarrow> exn + voice_action_callback" where
  "voice_action_webhook_parse validate auth_token callback_url request =
     bind_res (require (auth_token \<noteq> [] \<and> callback_url \<noteq> [])
       (webhook_exn MalformedVoiceActionCallback ''Twilio voice action validation is not configured.'')) (\<lambda>_.
     bind_res (require_signature validate auth_token callback_url request) (\<lambda>_.
       let provider_sid = param (tr_params request) ''CallSid'';
           digit = param (tr_params request) ''Digits''
       in if \<not> hex_sid [''CA''] provider_sid \<or> \<not> (length digit = 1 \<and> all_digits digit)
          then Inl (webhook_exn MalformedVoiceActionCallback ''The voice action callback was malformed.'')
          else Inr \<lparr>va_provider_sid = provider_sid, va_digit = digit\<rparr>))"

definition STATUS_MAP :: "(string \<times> provider_status) list" where
  "STATUS_MAP =
     [(''queued'', P_QUEUED), (''initiated'', P_INITIATED), (''ringing'', P_RINGING),
      (''in-progress'', P_IN_PROGRESS), (''completed'', P_COMPLETED), (''busy'', P_BUSY),
      (''no-answer'', P_NO_ANSWER), (''failed'', P_FAILED), (''canceled'', P_CANCELED)]"

definition voice_status_webhook_parse ::
  "signature_validator \<Rightarrow> string \<Rightarrow> string \<Rightarrow> twilio_request \<Rightarrow> exn + voice_status_callback" where
  "voice_status_webhook_parse validate auth_token callback_url request =
     bind_res (require (auth_token \<noteq> [] \<and> callback_url \<noteq> [])
       (webhook_exn MalformedVoiceStatusCallback ''Twilio webhook validation is not configured.'')) (\<lambda>_.
     bind_res (require_signature validate auth_token callback_url request) (\<lambda>_.
       let malformed = Inl (webhook_exn MalformedVoiceStatusCallback ''The voice status callback was malformed.'');
           provider_sid = param (tr_params request) ''CallSid'';
           raw_status = param (tr_params request) ''CallStatus'';
           raw_sequence = param (tr_params request) ''SequenceNumber''
       in if \<not> starts_with ''CA'' provider_sid then malformed
          else case map_of STATUS_MAP raw_status of
            None \<Rightarrow> malformed
          | Some status \<Rightarrow>
              (case python_int raw_sequence of
                 None \<Rightarrow> malformed
               | Some sequence_number \<Rightarrow>
                   if sequence_number < 0 then malformed
                   else Inr \<lparr>vs_provider_sid = provider_sid, vs_provider_status = provider_status_value status,
                             vs_sequence_number = sequence_number\<rparr>)))"

section \<open>Answers\<close>

record http_answer =
  ha_status :: nat
  ha_twiml :: "twiml_verb list option"

definition status_only :: "nat \<Rightarrow> http_answer" where
  "status_only n = \<lparr>ha_status = n, ha_twiml = None\<rparr>"

definition twiml_answer :: "twiml_verb list \<Rightarrow> http_answer" where
  "twiml_answer doc = \<lparr>ha_status = 200, ha_twiml = Some doc\<rparr>"

definition voice_menu_twiml :: "string \<Rightarrow> string \<Rightarrow> twiml_verb list" where
  "voice_menu_twiml action_url prompt =
     (if prompt = [] then [] else [Say prompt]) @
     [menu_gather action_url, Say ''No selection received. Goodbye.'']"

definition voice_action_result_twiml :: "voice_action_result \<Rightarrow> twiml_verb list" where
  "voice_action_result_twiml outcome =
     [Say (case outcome of
        V_CANCELLED \<Rightarrow> ''Your next scheduled wake-up has been cancelled. Goodbye.''
      | V_SWITCHED_TO_SMS \<Rightarrow> ''Your next scheduled wake-up will be sent by text message. Goodbye.''
      | V_NO_PENDING_EVENT \<Rightarrow> ''You do not have a pending wake-up event. Goodbye.'')]"

definition inbound_sms_result_twiml :: "sms_result \<Rightarrow> bool \<Rightarrow> twiml_verb list" where
  "inbound_sms_result_twiml outcome suppress_message =
     (if suppress_message then []
      else [Message (case outcome of
        R_CANCELLED \<Rightarrow> ''Next wake-up cancelled.''
      | R_SWITCHED_TO_SMS \<Rightarrow> ''Next wake-up set to SMS.''
      | R_RESCHEDULED \<Rightarrow> ''Next wake-up time updated.''
      | R_NO_PENDING_EVENT \<Rightarrow> ''No pending wake-up.''
      | R_UNKNOWN_SENDER \<Rightarrow> ''Request could not be processed.''
      | R_INVALID_COMMAND \<Rightarrow> ''Use STOP, SMS, or TIME followed by an ISO 8601 time with an offset.''
      | R_INVALID_TIME \<Rightarrow> ''Use a future ISO 8601 time with an explicit offset.''
      | R_LIFECYCLE_CONFLICT \<Rightarrow> ''That wake-up can no longer be changed.'')])"

section \<open>Views\<close>

text \<open>
  A view returns an answer, or raises, which Django turns into a 500; the services it calls are one
  transaction each. Only POST requests reach the body.
\<close>

type_synonym view_outcome = "(exn + http_answer) \<times> db"

definition twilio_voice_status ::
  "signature_validator \<Rightarrow> twilio_settings \<Rightarrow> twilio_request \<Rightarrow> clock \<Rightarrow> db \<Rightarrow> view_outcome" where
  "twilio_voice_status validate settings request clk d =
     (case voice_status_webhook_parse validate (TWILIO_AUTH_TOKEN settings)
             (TWILIO_VOICE_STATUS_CALLBACK_URL settings) request of
        Inl x \<Rightarrow>
          if exn_class x = WebhookExn InvalidTwilioSignature then (Inr (status_only 403), d)
          else if exn_class x = WebhookExn MalformedVoiceStatusCallback then (Inr (status_only 400), d)
          else (Inl x, d)
      | Inr callback \<Rightarrow>
          (case record_voice_status_callback (vs_provider_sid callback) (vs_provider_status callback)
                  (vs_sequence_number callback) None clk d of
             Inl x \<Rightarrow> if exn_class x = DeliveryAttemptNotFound then (Inr (status_only 404), d) else (Inl x, d)
           | Inr (_, d) \<Rightarrow> (Inr (status_only 204), d)))"

definition twilio_voice_action ::
  "signature_validator \<Rightarrow> twilio_settings \<Rightarrow> twilio_request \<Rightarrow> clock \<Rightarrow> db \<Rightarrow> view_outcome" where
  "twilio_voice_action validate settings request clk d =
     (let menu = (\<lambda>prompt. twiml_answer (voice_menu_twiml (TWILIO_VOICE_ACTION_CALLBACK_URL settings) prompt))
      in case voice_action_webhook_parse validate (TWILIO_AUTH_TOKEN settings)
                (TWILIO_VOICE_ACTION_CALLBACK_URL settings) request of
        Inl x \<Rightarrow>
          if exn_class x = WebhookExn InvalidTwilioSignature then (Inr (status_only 403), d)
          else if exn_class x = WebhookExn MalformedVoiceActionCallback
          then (Inr (menu ''That selection could not be understood.''), d)
          else (Inl x, d)
      | Inr callback \<Rightarrow>
          if va_digit callback \<notin> {''1'', ''2''}
          then (Inr (menu ''That choice was not recognized.''), d)
          else (case apply_voice_menu_action (va_provider_sid callback) (va_digit callback) None clk d of
             Inl x \<Rightarrow>
               if exn_class x = DeliveryAttemptNotFound
               then (Inr (twiml_answer [Say ''This call can no longer change a scheduled wake-up. Goodbye.'']), d)
               else (Inl x, d)
           | Inr (result, d) \<Rightarrow> (Inr (twiml_answer (voice_action_result_twiml (vma_outcome result))), d)))"

definition twilio_inbound_sms ::
  "signature_validator \<Rightarrow> iso_parser \<Rightarrow> twilio_settings \<Rightarrow> twilio_request \<Rightarrow> clock \<Rightarrow> db \<Rightarrow> view_outcome" where
  "twilio_inbound_sms validate fromisoformat settings request clk d =
     (case inbound_sms_webhook_parse validate (TWILIO_AUTH_TOKEN settings)
             (TWILIO_SMS_INBOUND_CALLBACK_URL settings) (TWILIO_SMS_FROM_NUMBER settings) request of
        Inl x \<Rightarrow>
          if exn_class x = WebhookExn InvalidTwilioSignature then (Inr (status_only 403), d)
          else if exn_class x = WebhookExn MalformedInboundSmsCallback
          then (Inr (twiml_answer [Message ''Request could not be processed.'']), d)
          else (Inl x, d)
      | Inr callback \<Rightarrow>
          (case apply_inbound_sms_command fromisoformat (is_provider_sid callback) (is_sender callback)
                  (is_body callback) None clk d of
             Inl x \<Rightarrow> (Inl x, d)
           | Inr (result, d) \<Rightarrow>
               (Inr (twiml_answer (inbound_sms_result_twiml (isr_outcome result)
                  (is_opt_out_type callback = ''STOP''))), d)))"

end
