(* ===== verification/Webhook_Properties.thy ===== *)
theory Webhook_Properties
  imports Webhooks Callback_Properties Twilio_Properties
begin

text \<open>
  What the webhooks guarantee: unsigned requests do nothing, every request is answered but for two known
  exceptions, and a repeated request gets the same answer and changes nothing more.
\<close>

section \<open>Parsed requests\<close>

definition signed :: "signature_validator \<Rightarrow> twilio_settings \<Rightarrow> string \<Rightarrow> twilio_request \<Rightarrow> bool" where
  "signed validate settings url request \<longleftrightarrow>
     TWILIO_AUTH_TOKEN settings \<noteq> [] \<and> url \<noteq> [] \<and> tr_signature request \<noteq> [] \<and>
     validate (TWILIO_AUTH_TOKEN settings) url (tr_params request) (tr_signature request)"

lemmas parse_defs = inbound_sms_webhook_parse_def voice_action_webhook_parse_def voice_status_webhook_parse_def
  require_signature_def bind_require Let_def

lemma inbound_sms_parse_Inr:
  assumes "inbound_sms_webhook_parse v (TWILIO_AUTH_TOKEN s) url own r = Inr c"
  shows "signed v s url r \<and> hex_sid [''SM''] (is_provider_sid c) \<and> e164 (is_sender c) \<and> length (is_body c) \<le> 1600"
  using assms by (auto simp: parse_defs signed_def split: if_splits)

lemma voice_action_parse_Inr:
  assumes "voice_action_webhook_parse v (TWILIO_AUTH_TOKEN s) url r = Inr c"
  shows "signed v s url r \<and> hex_sid [''CA''] (va_provider_sid c) \<and> length (va_digit c) = 1"
  using assms by (auto simp: parse_defs signed_def split: if_splits)

lemma STATUS_MAP_covers: "provider_status_of (provider_status_value p) = Some p"
  by (rule provider_status_of_value)

lemma voice_status_parse_Inr:
  assumes "voice_status_webhook_parse v (TWILIO_AUTH_TOKEN s) url r = Inr c"
  shows "signed v s url r \<and> starts_with ''CA'' (vs_provider_sid c) \<and>
    (\<exists>p. vs_provider_status c = provider_status_value p) \<and> 0 \<le> vs_sequence_number c"
  using assms by (auto simp: parse_defs signed_def split: if_splits option.splits)

text \<open>What a parser raises, and that a signature failure is only reported when everything is configured.\<close>

lemma parse_raises:
  "inbound_sms_webhook_parse v t url own r = Inl x \<Longrightarrow>
    exn_class x \<in> {WebhookExn InvalidTwilioSignature, WebhookExn MalformedInboundSmsCallback}"
  "voice_action_webhook_parse v t url r = Inl x \<Longrightarrow>
    exn_class x \<in> {WebhookExn InvalidTwilioSignature, WebhookExn MalformedVoiceActionCallback}"
  "voice_status_webhook_parse v t url r = Inl x \<Longrightarrow>
    exn_class x \<in> {WebhookExn InvalidTwilioSignature, WebhookExn MalformedVoiceStatusCallback}"
  by (auto simp: parse_defs split: if_splits option.splits)

section \<open>What the services raise behind the webhooks\<close>

lemma status_callback_raises:
  assumes "starts_with ''CA'' sid" and "0 \<le> n"
    and "record_voice_status_callback sid (provider_status_value p) n t clk d = Inl x"
  shows "exn_class x = DeliveryAttemptNotFound \<or> (exn_class x = DataError \<and> (2147483647 < n \<or> \<not> text_storable sid))"
proof (cases "get_voice_attempt sid d")
  case (Inl y)
  with assms have "x = y" by (simp add: record_voice_status_callback_def bind_require)
  with Inl show ?thesis
    by (cases "text_storable sid") (auto simp: get_voice_attempt_def bind_require nul_refused_def)
next
  case (Inr a)
  obtain a' applied where app: "apply_provider_status (provider_status_value p) n (or_now t (clk 0)) a = Inr (a', applied)"
    using assms(2) apply_provider_status_Inr_iff [of "provider_status_value p" n "or_now t (clk 0)" a] by simp
  show ?thesis
  proof (cases applied)
    case True
    with assms Inr app show ?thesis
      by (auto simp: record_voice_status_callback_def bind_require MAX_POSITIVE_INTEGER_def split: if_splits)
  next
    case False
    with assms Inr app show ?thesis by (simp add: record_voice_status_callback_def bind_require)
  qed
qed

lemma voice_menu_raises:
  assumes wf: "wf_db d" and digit: "digit \<in> {''1'', ''2''}" and sid: "text_storable sid"
    and run: "apply_voice_menu_action sid digit t clk d = Inl x"
  shows "exn_class x = DeliveryAttemptNotFound"
proof (cases "get_voice_attempt sid d")
  case (Inl y)
  with run digit have "x = y" by (auto simp: apply_voice_menu_action_def bind_require)
  with Inl sid show ?thesis by (simp add: get_voice_attempt_def bind_require)
next
  case (Inr a)
  obtain e where e: "get_event (at_event a) d = Some e" using get_voice_attempt_Inr(4) [OF Inr] by blast
  show ?thesis
  proof (cases "at_voice_action_result a")
    case None
    obtain out tgt d1 where "menu_change digit (ev_user e) t clk d out tgt d1" using menu_change_exists [OF wf] by blast
    from menu_action_first [OF digit Inr None e this] run show ?thesis by (simp add: Let_def)
  next
    case (Some out)
    with menu_action_repeated [OF digit Inr Some] run show ?thesis by simp
  qed
qed

lemma e164_storable: "e164 s \<Longrightarrow> text_storable s"
proof -
  assume "e164 s"
  moreover have "\<not> is_digit (CHR 0x00)" by code_simp
  ultimately show ?thesis by (auto simp: e164_def text_storable_def all_digits_def split: list.splits)
qed

lemma sms_raises:
  assumes "wf_db d" and "sms_acceptable sid sender" and "apply_inbound_sms_command fromiso sid sender body t clk d = Inl x"
  shows "exn_class x = OverflowError \<and>
    (\<exists>w. parse_inbound_sms_command fromiso body = (C_TIME, Some w) \<and> \<not> in_datetime_range (instant w))"
  using assms(2,3) sms_acceptable_def
  by (cases rule: apply_sms_cases [OF assms(1), of sid fromiso sender body t clk]) (auto simp: Let_def)

section \<open>Properties\<close>

text \<open>C27. A request that Twilio has not signed for the webhook's URL, or that arrives while the token or the URL
  is not configured, changes nothing and is answered: 403, 400, or a fixed document.\<close>

theorem unsigned_requests_change_nothing:
  shows "(\<not> signed validate settings (TWILIO_VOICE_STATUS_CALLBACK_URL settings) request \<longrightarrow>
      (\<exists>n. twilio_voice_status validate settings request clk d = (Inr (status_only n), d) \<and> n \<in> {400, 403})) \<and>
    (\<not> signed validate settings (TWILIO_VOICE_ACTION_CALLBACK_URL settings) request \<longrightarrow>
      (\<exists>a. twilio_voice_action validate settings request clk d = (Inr a, d) \<and>
        a \<in> {status_only 403, twiml_answer (voice_menu_twiml (TWILIO_VOICE_ACTION_CALLBACK_URL settings)
               ''That selection could not be understood.'')})) \<and>
    (\<not> signed validate settings (TWILIO_SMS_INBOUND_CALLBACK_URL settings) request \<longrightarrow>
      (\<exists>a. twilio_inbound_sms validate fromiso settings request clk d = (Inr a, d) \<and>
        a \<in> {status_only 403, twiml_answer [Message ''Request could not be processed.'']}))"
proof (intro conjI impI)
  assume no: "\<not> signed validate settings (TWILIO_VOICE_STATUS_CALLBACK_URL settings) request"
  then obtain x where "voice_status_webhook_parse validate (TWILIO_AUTH_TOKEN settings)
      (TWILIO_VOICE_STATUS_CALLBACK_URL settings) request = Inl x"
    using voice_status_parse_Inr by (metis sum.exhaust)
  with parse_raises(3) [OF this] show "\<exists>n. twilio_voice_status validate settings request clk d = (Inr (status_only n), d) \<and> n \<in> {400, 403}"
    by (auto simp: twilio_voice_status_def)
next
  assume no: "\<not> signed validate settings (TWILIO_VOICE_ACTION_CALLBACK_URL settings) request"
  then obtain x where "voice_action_webhook_parse validate (TWILIO_AUTH_TOKEN settings)
      (TWILIO_VOICE_ACTION_CALLBACK_URL settings) request = Inl x"
    using voice_action_parse_Inr by (metis sum.exhaust)
  with parse_raises(2) [OF this] show "\<exists>a. twilio_voice_action validate settings request clk d = (Inr a, d) \<and>
        a \<in> {status_only 403, twiml_answer (voice_menu_twiml (TWILIO_VOICE_ACTION_CALLBACK_URL settings)
               ''That selection could not be understood.'')}"
    by (auto simp: twilio_voice_action_def Let_def)
next
  assume no: "\<not> signed validate settings (TWILIO_SMS_INBOUND_CALLBACK_URL settings) request"
  then obtain x where "inbound_sms_webhook_parse validate (TWILIO_AUTH_TOKEN settings)
      (TWILIO_SMS_INBOUND_CALLBACK_URL settings) (TWILIO_SMS_FROM_NUMBER settings) request = Inl x"
    using inbound_sms_parse_Inr by (metis sum.exhaust)
  with parse_raises(1) [OF this] show "\<exists>a. twilio_inbound_sms validate fromiso settings request clk d = (Inr a, d) \<and>
        a \<in> {status_only 403, twiml_answer [Message ''Request could not be processed.'']}"
    by (auto simp: twilio_inbound_sms_def)
qed

text \<open>The answers of each webhook, on every branch.\<close>

lemma voice_action_answers:
  assumes "wf_db d"
  shows "\<exists>a d'. twilio_voice_action validate settings request clk d = (Inr a, d') \<and> ha_status a \<in> {200, 403} \<and>
      wf_db d' \<and> (ha_status a = 403 \<longrightarrow> d' = d) \<and>
      (d' = d \<or> (\<exists>c. voice_action_webhook_parse validate (TWILIO_AUTH_TOKEN settings)
         (TWILIO_VOICE_ACTION_CALLBACK_URL settings) request = Inr c \<and> va_digit c \<in> {''1'', ''2''}))"
proof (cases "voice_action_webhook_parse validate (TWILIO_AUTH_TOKEN settings)
    (TWILIO_VOICE_ACTION_CALLBACK_URL settings) request")
  case (Inl x)
  with parse_raises(2) [OF Inl] assms show ?thesis
    by (auto simp: twilio_voice_action_def Let_def status_only_def twiml_answer_def)
next
  case (Inr c)
  show ?thesis
  proof (cases "va_digit c \<in> {''1'', ''2''}")
    case False
    with Inr assms show ?thesis by (simp add: twilio_voice_action_def Let_def twiml_answer_def)
  next
    case True
    have sid: "text_storable (va_provider_sid c)"
      using voice_action_parse_Inr [OF Inr] hex_sid_storable [of "[''CA'']"] by simp
    show ?thesis
    proof (cases "apply_voice_menu_action (va_provider_sid c) (va_digit c) None clk d")
      case (Inl x)
      with voice_menu_raises [OF assms True sid Inl] Inr True assms show ?thesis
        by (simp add: twilio_voice_action_def Let_def twiml_answer_def)
    next
      case r: (Inr rd)
      obtain r d' where rd: "rd = (r, d')" by (cases rd)
      from menu_action_wf [OF assms r [unfolded rd]] r rd Inr True show ?thesis
        by (simp add: twilio_voice_action_def Let_def twiml_answer_def)
    qed
  qed
qed

lemma voice_status_answers:
  assumes "wf_db d"
  shows "case twilio_voice_status validate settings request clk d of
       (Inr a, d') \<Rightarrow> ha_status a \<in> {204, 400, 403, 404} \<and> wf_db d' \<and> (ha_status a \<noteq> 204 \<longrightarrow> d' = d) \<and>
         (d' = d \<or> (\<exists>c. voice_status_webhook_parse validate (TWILIO_AUTH_TOKEN settings)
            (TWILIO_VOICE_STATUS_CALLBACK_URL settings) request = Inr c))
     | (Inl x, d') \<Rightarrow> d' = d \<and> exn_class x = DataError \<and>
         (\<exists>c. voice_status_webhook_parse validate (TWILIO_AUTH_TOKEN settings)
            (TWILIO_VOICE_STATUS_CALLBACK_URL settings) request = Inr c) \<and>
         ((\<exists>n. python_int (param (tr_params request) ''SequenceNumber'') = Some n \<and> 2147483647 < n) \<or>
          CHR 0x00 \<in> set (param (tr_params request) ''CallSid''))"
proof (cases "voice_status_webhook_parse validate (TWILIO_AUTH_TOKEN settings)
    (TWILIO_VOICE_STATUS_CALLBACK_URL settings) request")
  case (Inl x)
  with parse_raises(3) [OF Inl] assms show ?thesis
    by (auto simp: twilio_voice_status_def status_only_def)
next
  case (Inr c)
  from voice_status_parse_Inr [OF Inr] obtain p where c: "starts_with ''CA'' (vs_provider_sid c)"
    "vs_provider_status c = provider_status_value p" "0 \<le> vs_sequence_number c" by blast
  have n: "python_int (param (tr_params request) ''SequenceNumber'') = Some (vs_sequence_number c)"
    "vs_provider_sid c = param (tr_params request) ''CallSid''"
    using Inr by (auto simp: parse_defs split: if_splits option.splits)
  show ?thesis
  proof (cases "record_voice_status_callback (vs_provider_sid c) (vs_provider_status c) (vs_sequence_number c) None clk d")
    case (Inl x)
    with status_callback_raises [OF c(1,3), of p None clk d x] Inr c n assms show ?thesis
      by (auto simp: twilio_voice_status_def status_only_def text_storable_def)
  next
    case r: (Inr rd)
    obtain r d' where rd: "rd = (r, d')" by (cases rd)
    from status_callback_wf [OF assms r [unfolded rd]] r rd Inr show ?thesis
      by (simp add: twilio_voice_status_def status_only_def)
  qed
qed

lemma inbound_sms_answers:
  assumes "wf_db d"
  shows "case twilio_inbound_sms validate fromiso settings request clk d of
       (Inr a, d') \<Rightarrow> ha_status a \<in> {200, 403} \<and> wf_db d' \<and> (ha_status a = 403 \<longrightarrow> d' = d) \<and>
         (d' = d \<or> (\<exists>c. inbound_sms_webhook_parse validate (TWILIO_AUTH_TOKEN settings)
            (TWILIO_SMS_INBOUND_CALLBACK_URL settings) (TWILIO_SMS_FROM_NUMBER settings) request = Inr c))
     | (Inl x, d') \<Rightarrow> d' = d \<and> exn_class x = OverflowError \<and>
         (\<exists>c w. inbound_sms_webhook_parse validate (TWILIO_AUTH_TOKEN settings)
            (TWILIO_SMS_INBOUND_CALLBACK_URL settings) (TWILIO_SMS_FROM_NUMBER settings) request = Inr c \<and>
            parse_inbound_sms_command fromiso (is_body c) = (C_TIME, Some w) \<and> \<not> in_datetime_range (instant w))"
proof (cases "inbound_sms_webhook_parse validate (TWILIO_AUTH_TOKEN settings)
    (TWILIO_SMS_INBOUND_CALLBACK_URL settings) (TWILIO_SMS_FROM_NUMBER settings) request")
  case (Inl x)
  with parse_raises(1) [OF Inl] assms show ?thesis
    by (auto simp: twilio_inbound_sms_def status_only_def twiml_answer_def)
next
  case (Inr c)
  have ok: "sms_acceptable (is_provider_sid c) (is_sender c)"
    using inbound_sms_parse_Inr [OF Inr] hex_sid_length [of "[''SM'']"] hex_sid_storable [of "[''SM'']"] e164_storable
    by (simp add: sms_acceptable_def)
  show ?thesis
  proof (cases "apply_inbound_sms_command fromiso (is_provider_sid c) (is_sender c) (is_body c) None clk d")
    case (Inl x)
    with sms_raises [OF assms ok Inl] Inr show ?thesis by (simp add: twilio_inbound_sms_def)
  next
    case r: (Inr rd)
    obtain r d' where rd: "rd = (r, d')" by (cases rd)
    from apply_sms_wf [OF assms r [unfolded rd]] r rd Inr show ?thesis
      by (simp add: twilio_inbound_sms_def twiml_answer_def)
  qed
qed

text \<open>C28. On a well-formed database the voice menu webhook always answers 200 or 403; the status webhook answers
  204, 400, 403 or 404 and the text webhook 200 or 403, but for three known exceptions, which change nothing:
  a signed status request whose sequence number the column cannot hold or whose \<open>CallSid\<close> holds a NUL,
  and a text that moves an event to a time without a UTC representation. Only an accepted request changes the
  database: one that is signed and well-formed, for the menu with the digit 1 or 2; every malformed one
  leaves it as it was.\<close>

theorem webhooks_answer:
  assumes "wf_db d"
  shows "(\<exists>a d'. twilio_voice_action validate settings request clk d = (Inr a, d') \<and> ha_status a \<in> {200, 403} \<and>
      wf_db d' \<and> (ha_status a = 403 \<longrightarrow> d' = d) \<and>
      (d' = d \<or> (\<exists>c. voice_action_webhook_parse validate (TWILIO_AUTH_TOKEN settings)
         (TWILIO_VOICE_ACTION_CALLBACK_URL settings) request = Inr c \<and> va_digit c \<in> {''1'', ''2''}))) \<and>
    (case twilio_voice_status validate settings request clk d of
       (Inr a, d') \<Rightarrow> ha_status a \<in> {204, 400, 403, 404} \<and> wf_db d' \<and> (ha_status a \<noteq> 204 \<longrightarrow> d' = d) \<and>
         (d' = d \<or> (\<exists>c. voice_status_webhook_parse validate (TWILIO_AUTH_TOKEN settings)
            (TWILIO_VOICE_STATUS_CALLBACK_URL settings) request = Inr c))
     | (Inl x, d') \<Rightarrow> d' = d \<and> exn_class x = DataError \<and>
         (\<exists>c. voice_status_webhook_parse validate (TWILIO_AUTH_TOKEN settings)
            (TWILIO_VOICE_STATUS_CALLBACK_URL settings) request = Inr c) \<and>
         ((\<exists>n. python_int (param (tr_params request) ''SequenceNumber'') = Some n \<and> 2147483647 < n) \<or>
          CHR 0x00 \<in> set (param (tr_params request) ''CallSid''))) \<and>
    (case twilio_inbound_sms validate fromiso settings request clk d of
       (Inr a, d') \<Rightarrow> ha_status a \<in> {200, 403} \<and> wf_db d' \<and> (ha_status a = 403 \<longrightarrow> d' = d) \<and>
         (d' = d \<or> (\<exists>c. inbound_sms_webhook_parse validate (TWILIO_AUTH_TOKEN settings)
            (TWILIO_SMS_INBOUND_CALLBACK_URL settings) (TWILIO_SMS_FROM_NUMBER settings) request = Inr c))
     | (Inl x, d') \<Rightarrow> d' = d \<and> exn_class x = OverflowError \<and>
         (\<exists>c w. inbound_sms_webhook_parse validate (TWILIO_AUTH_TOKEN settings)
            (TWILIO_SMS_INBOUND_CALLBACK_URL settings) (TWILIO_SMS_FROM_NUMBER settings) request = Inr c \<and>
            parse_inbound_sms_command fromiso (is_body c) = (C_TIME, Some w) \<and> \<not> in_datetime_range (instant w)))"
  by (intro conjI voice_action_answers voice_status_answers inbound_sms_answers assms)

section \<open>Sample requests\<close>

definition sample_validator :: signature_validator where
  "sample_validator token url ps signature = (signature = token @ ''!'')"

definition sample_forged :: twilio_request where
  "sample_forged = \<lparr>tr_params = [(''CallSid'', ''CA1''), (''CallStatus'', ''completed''), (''SequenceNumber'', ''3'')],
     tr_signature = ''forged''\<rparr>"

definition sample_status :: "string \<Rightarrow> twilio_request" where
  "sample_status number = \<lparr>tr_params = [(''CallSid'', ''CA1''), (''CallStatus'', ''completed''),
       (''SequenceNumber'', number)], tr_signature = ''token!''\<rparr>"

lemma sample_forged_unsigned: "\<not> signed sample_validator sample_settings url sample_forged"
  by (simp add: signed_def sample_validator_def sample_forged_def sample_settings_def)

lemma unsigned_requests_change_nothing_witness:
  "\<exists>n. twilio_voice_status sample_validator sample_settings sample_forged int sample_db = (Inr (status_only n), sample_db) \<and>
    n \<in> {400, 403}"
  using unsigned_requests_change_nothing [of sample_validator sample_settings sample_forged int sample_db]
    sample_forged_unsigned by blast

lemma webhooks_answer_witness:
  "\<exists>a d'. twilio_voice_action sample_validator sample_settings sample_forged int sample_db = (Inr a, d') \<and>
    ha_status a \<in> {200, 403}"
  using webhooks_answer [OF wf_sample_db, of sample_validator sample_settings sample_forged int] by blast

text \<open>The answers to a status callback in time, repeated, and with a number too large for the column.\<close>

lemma sample_status_answers:
  "fst (twilio_voice_status sample_validator sample_settings (sample_status ''3'') int sample_db) = Inr (status_only 204)"
  "fst (twilio_voice_status sample_validator sample_settings (sample_status ''-3'') int sample_db) = Inr (status_only 400)"
  by code_simp+

text \<open>The two ways a signed status callback is not answered: the column overflow, and the NUL in the identifier.\<close>

lemma sequence_number_overflow:
  "case twilio_voice_status sample_validator sample_settings (sample_status ''2147483648'') int sample_db of
     (Inl x, _) \<Rightarrow> exn_class x = DataError | _ \<Rightarrow> False"
  by code_simp

lemma call_sid_nul:
  "case twilio_voice_status sample_validator sample_settings
       ((sample_status ''3'')\<lparr>tr_params := [(''CallSid'', ''CA'' @ [CHR 0x00]), (''CallStatus'', ''completed''),
         (''SequenceNumber'', ''3'')]\<rparr>) int sample_db of
     (Inl x, _) \<Rightarrow> exn_class x = DataError | _ \<Rightarrow> False"
  by code_simp

end
