(* ===== verification/Settings.thy ===== *)
theory Settings
  imports Twilio
begin

text \<open>
  \<open>config/settings\<close>: the settings the components read, their defaults, the choice of the database and
  what production insists on; and \<open>config/middleware.py\<close> with \<open>config/views.py\<close>, the health check. What
  django-environ makes of an environment variable is a parameter: nothing when the variable is not
  set, otherwise a value or, for a number or a flag it cannot read, an exception.
\<close>

section \<open>The environment\<close>

record env_reader =
  er_str :: "string \<Rightarrow> string option"
  er_bool :: "string \<Rightarrow> (exn + bool) option"
  er_int :: "string \<Rightarrow> (exn + int) option"
  er_float :: "string \<Rightarrow> (exn + pyfloat) option"
  er_list :: "string \<Rightarrow> string list option"
  er_db_url :: "string \<Rightarrow> exn + unit"
  er_base_dir :: string

definition improperly_configured :: "string \<Rightarrow> exn" where
  "improperly_configured text = raise (OtherExn ''ImproperlyConfigured'' False) text"

definition env_default :: "'a option \<Rightarrow> 'a \<Rightarrow> 'a" where
  "env_default given fallback = (case given of None \<Rightarrow> fallback | Some v \<Rightarrow> v)"

definition env_str :: "env_reader \<Rightarrow> string \<Rightarrow> string \<Rightarrow> string" where
  "env_str env name fallback = env_default (er_str env name) fallback"

definition env_bool :: "env_reader \<Rightarrow> string \<Rightarrow> bool \<Rightarrow> exn + bool" where
  "env_bool env name fallback = env_default (er_bool env name) (Inr fallback)"

definition env_int :: "env_reader \<Rightarrow> string \<Rightarrow> int \<Rightarrow> exn + int" where
  "env_int env name fallback = env_default (er_int env name) (Inr fallback)"

definition env_float :: "env_reader \<Rightarrow> string \<Rightarrow> pyfloat \<Rightarrow> exn + pyfloat" where
  "env_float env name fallback = env_default (er_float env name) (Inr fallback)"

definition env_required :: "string \<Rightarrow> 'a option \<Rightarrow> exn + 'a" where
  "env_required name given =
     or_raise given (improperly_configured (''Set the '' @ name @ '' environment variable''))"

section \<open>The settings\<close>

text \<open>A database is what \<open>env.db_url_config\<close> makes of a URL, or the PostgreSQL parameters one by one.\<close>

datatype database =
    Url_Config string
  | Postgres (db_host: string) (db_name: string) (db_user: string) (db_password: string) (db_port: int)

record database_settings =
  DATABASE_URL :: string
  DATABASE_HOST :: string
  DATABASE_NAME :: string
  DATABASE_USER :: string
  DATABASE_PASSWORD :: string
  DATABASE_PORT :: int

record settings = twilio_settings +
  SECRET_KEY :: string
  DEBUG :: bool
  ALLOWED_HOSTS :: "string list"
  DATABASE_PARTS :: database_settings
  DATABASES :: database
  PHONE_VERIFICATION_RATES :: "string \<times> string"
  CORS_ALLOWED_ORIGINS :: "string list"
  WEATHER_API_KEY :: string
  WEATHER_API_BASE_URL :: string
  WEATHER_API_TIMEOUTS :: "pyfloat \<times> pyfloat"
  TWILIO_SMS_SMOKE_ENABLED :: bool
  TWILIO_SMS_SMOKE_TO_NUMBER :: string
  TWILIO_VOICE_SMOKE_ENABLED :: bool
  TWILIO_VOICE_SMOKE_TO_NUMBER :: string
  DELIVERY_DISPATCH_BATCH_SIZE :: int
  DELIVERY_MISSED_GRACE_MINUTES :: int
  DELIVERY_REAL_DISPATCH_ENABLED :: bool
  AWS_REGION :: string
  DELIVERY_QUEUE_URL :: string
  DELIVERY_QUEUE_TIMEOUTS :: "pyfloat \<times> pyfloat"
  DELIVERY_QUEUE_RECEIVE_BATCH_SIZE :: int
  DELIVERY_QUEUE_WAIT_SECONDS :: int
  DELIVERY_QUEUE_VISIBILITY_SECONDS :: int
  DELIVERY_QUEUE_MAX_RECEIVES :: int
  DELIVERY_QUEUE_RETRY_BASE_SECONDS :: int
  DELIVERY_QUEUE_RETRY_MAX_SECONDS :: int
  DELIVERY_REAL_WORKER_ENABLED :: bool

text \<open>\<open>all((HOST, NAME, USER, PASSWORD))\<close>.\<close>

definition all_database_parts :: "database_settings \<Rightarrow> bool" where
  "all_database_parts p \<longleftrightarrow>
     DATABASE_HOST p \<noteq> [] \<and> DATABASE_NAME p \<noteq> [] \<and> DATABASE_USER p \<noteq> [] \<and> DATABASE_PASSWORD p \<noteq> []"

definition read_database_parts :: "env_reader \<Rightarrow> exn + database_settings" where
  "read_database_parts env =
     bind_res (env_int env ''DATABASE_PORT'' 5432) (\<lambda>port. Inr \<lparr>
       DATABASE_URL = env_str env ''DATABASE_URL'' '''', DATABASE_HOST = env_str env ''DATABASE_HOST'' '''',
       DATABASE_NAME = env_str env ''DATABASE_NAME'' '''', DATABASE_USER = env_str env ''DATABASE_USER'' '''',
       DATABASE_PASSWORD = env_str env ''DATABASE_PASSWORD'' '''', DATABASE_PORT = port\<rparr>)"

definition choose_database :: "env_reader \<Rightarrow> database_settings \<Rightarrow> exn + database" where
  "choose_database env p =
     (if DATABASE_URL p \<noteq> []
      then bind_res (er_db_url env (DATABASE_URL p)) (\<lambda>_. Inr (Url_Config (DATABASE_URL p)))
      else if all_database_parts p
      then Inr (Postgres (DATABASE_HOST p) (DATABASE_NAME p) (DATABASE_USER p) (DATABASE_PASSWORD p) (DATABASE_PORT p))
      else let url = ''sqlite:///'' @ er_base_dir env @ ''/db.sqlite3''
           in bind_res (er_db_url env url) (\<lambda>_. Inr (Url_Config url)))"

text \<open>Running the module \<open>config.settings.base\<close>: the first variable that cannot be read stops it.\<close>

definition base_settings :: "env_reader \<Rightarrow> exn + settings" where
  "base_settings env =
     bind_res (env_bool env ''DJANGO_DEBUG'' False) (\<lambda>debug.
     bind_res (read_database_parts env) (\<lambda>parts.
     bind_res (choose_database env parts) (\<lambda>databases.
     bind_res (env_float env ''WEATHER_API_CONNECT_TIMEOUT'' (Fin 2)) (\<lambda>weather_connect.
     bind_res (env_float env ''WEATHER_API_READ_TIMEOUT'' (Fin 5)) (\<lambda>weather_read.
     bind_res (env_float env ''TWILIO_HTTP_TIMEOUT'' (Fin 5)) (\<lambda>twilio_timeout.
     bind_res (env_bool env ''TWILIO_SMS_SMOKE_ENABLED'' False) (\<lambda>sms_smoke.
     bind_res (env_bool env ''TWILIO_VOICE_SMOKE_ENABLED'' False) (\<lambda>voice_smoke.
     bind_res (env_int env ''DELIVERY_DISPATCH_BATCH_SIZE'' 25) (\<lambda>batch_size.
     bind_res (env_int env ''DELIVERY_MISSED_GRACE_MINUTES'' 15) (\<lambda>grace_minutes.
     bind_res (env_bool env ''DELIVERY_REAL_DISPATCH_ENABLED'' False) (\<lambda>real_dispatch.
     bind_res (env_float env ''DELIVERY_QUEUE_CONNECT_TIMEOUT'' (Fin 2)) (\<lambda>queue_connect.
     bind_res (env_float env ''DELIVERY_QUEUE_READ_TIMEOUT'' (Fin 25)) (\<lambda>queue_read.
     bind_res (env_int env ''DELIVERY_QUEUE_RECEIVE_BATCH_SIZE'' 10) (\<lambda>receive_batch.
     bind_res (env_int env ''DELIVERY_QUEUE_WAIT_SECONDS'' 20) (\<lambda>wait_seconds.
     bind_res (env_int env ''DELIVERY_QUEUE_VISIBILITY_SECONDS'' 120) (\<lambda>visibility.
     bind_res (env_int env ''DELIVERY_QUEUE_MAX_RECEIVES'' 3) (\<lambda>max_receives.
     bind_res (env_int env ''DELIVERY_QUEUE_RETRY_BASE_SECONDS'' 30) (\<lambda>retry_base.
     bind_res (env_int env ''DELIVERY_QUEUE_RETRY_MAX_SECONDS'' 300) (\<lambda>retry_max.
     bind_res (env_bool env ''DELIVERY_REAL_WORKER_ENABLED'' False) (\<lambda>real_worker.
     Inr \<lparr>TWILIO_ACCOUNT_SID = env_str env ''TWILIO_ACCOUNT_SID'' '''',
       TWILIO_AUTH_TOKEN = env_str env ''TWILIO_AUTH_TOKEN'' '''',
       TWILIO_VERIFY_SERVICE_SID = env_str env ''TWILIO_VERIFY_SERVICE_SID'' '''',
       TWILIO_SMS_FROM_NUMBER = env_str env ''TWILIO_SMS_FROM_NUMBER'' '''',
       TWILIO_SMS_INBOUND_CALLBACK_URL = env_str env ''TWILIO_SMS_INBOUND_CALLBACK_URL'' '''',
       TWILIO_HTTP_TIMEOUT = twilio_timeout,
       TWILIO_VOICE_FROM_NUMBER = env_str env ''TWILIO_VOICE_FROM_NUMBER'' '''',
       TWILIO_VOICE_STATUS_CALLBACK_URL = env_str env ''TWILIO_VOICE_STATUS_CALLBACK_URL'' '''',
       TWILIO_VOICE_ACTION_CALLBACK_URL = env_str env ''TWILIO_VOICE_ACTION_CALLBACK_URL'' '''',
       SECRET_KEY = env_str env ''DJANGO_SECRET_KEY'' ''unsafe-development-only-key'',
       DEBUG = debug,
       ALLOWED_HOSTS = env_default (er_list env ''DJANGO_ALLOWED_HOSTS'') [],
       DATABASE_PARTS = parts, DATABASES = databases,
       PHONE_VERIFICATION_RATES = (env_str env ''PHONE_VERIFICATION_START_RATE'' ''3/hour'',
         env_str env ''PHONE_VERIFICATION_CHECK_RATE'' ''10/hour''),
       CORS_ALLOWED_ORIGINS = env_default (er_list env ''DJANGO_CORS_ALLOWED_ORIGINS'') [],
       WEATHER_API_KEY = env_str env ''WEATHER_API_KEY'' '''',
       WEATHER_API_BASE_URL = env_str env ''WEATHER_API_BASE_URL'' ''https://api.weatherapi.com/v1'',
       WEATHER_API_TIMEOUTS = (weather_connect, weather_read),
       TWILIO_SMS_SMOKE_ENABLED = sms_smoke,
       TWILIO_SMS_SMOKE_TO_NUMBER = env_str env ''TWILIO_SMS_SMOKE_TO_NUMBER'' '''',
       TWILIO_VOICE_SMOKE_ENABLED = voice_smoke,
       TWILIO_VOICE_SMOKE_TO_NUMBER = env_str env ''TWILIO_VOICE_SMOKE_TO_NUMBER'' '''',
       DELIVERY_DISPATCH_BATCH_SIZE = batch_size, DELIVERY_MISSED_GRACE_MINUTES = grace_minutes,
       DELIVERY_REAL_DISPATCH_ENABLED = real_dispatch,
       AWS_REGION = env_str env ''AWS_REGION'' ''us-east-1'',
       DELIVERY_QUEUE_URL = env_str env ''DELIVERY_QUEUE_URL'' '''',
       DELIVERY_QUEUE_TIMEOUTS = (queue_connect, queue_read),
       DELIVERY_QUEUE_RECEIVE_BATCH_SIZE = receive_batch, DELIVERY_QUEUE_WAIT_SECONDS = wait_seconds,
       DELIVERY_QUEUE_VISIBILITY_SECONDS = visibility, DELIVERY_QUEUE_MAX_RECEIVES = max_receives,
       DELIVERY_QUEUE_RETRY_BASE_SECONDS = retry_base, DELIVERY_QUEUE_RETRY_MAX_SECONDS = retry_max,
       DELIVERY_REAL_WORKER_ENABLED = real_worker\<rparr>))))))))))))))))))))"

section \<open>Development and production\<close>

definition development_settings :: "env_reader \<Rightarrow> exn + settings" where
  "development_settings env =
     bind_res (base_settings env) (\<lambda>s.
     bind_res (env_bool env ''DJANGO_DEBUG'' True) (\<lambda>debug.
       Inr (s\<lparr>DEBUG := debug,
         ALLOWED_HOSTS := env_default (er_list env ''DJANGO_ALLOWED_HOSTS'')
           [''localhost'', ''127.0.0.1'', ''0.0.0.0'']\<rparr>)))"

record production_settings = settings +
  SECURE_SSL_REDIRECT :: bool
  SESSION_COOKIE_SECURE :: bool
  CSRF_COOKIE_SECURE :: bool
  SECURE_HSTS_SECONDS :: int
  SECURE_HSTS_INCLUDE_SUBDOMAINS :: bool
  SECURE_HSTS_PRELOAD :: bool
  SECURE_CONTENT_TYPE_NOSNIFF :: bool
  SECURE_REFERRER_POLICY :: string
  X_FRAME_OPTIONS :: string
  SECURE_PROXY_SSL_HEADER :: "string \<times> string"

definition production_settings :: "env_reader \<Rightarrow> exn + production_settings" where
  "production_settings env =
     bind_res (base_settings env) (\<lambda>s.
     bind_res (env_required ''DJANGO_SECRET_KEY'' (er_str env ''DJANGO_SECRET_KEY'')) (\<lambda>key.
     bind_res (env_required ''DJANGO_ALLOWED_HOSTS'' (er_list env ''DJANGO_ALLOWED_HOSTS'')) (\<lambda>hosts.
     if DATABASE_URL (DATABASE_PARTS s) = [] \<and> \<not> all_database_parts (DATABASE_PARTS s)
     then Inl (improperly_configured (''Production requires DATABASE_URL or all of DATABASE_HOST, '' @
       ''DATABASE_NAME, DATABASE_USER, and DATABASE_PASSWORD.''))
     else
     bind_res (env_bool env ''DJANGO_SECURE_SSL_REDIRECT'' True) (\<lambda>ssl_redirect.
     bind_res (env_int env ''DJANGO_SECURE_HSTS_SECONDS'' 3600) (\<lambda>hsts_seconds.
       Inr (settings.extend (s\<lparr>DEBUG := False, SECRET_KEY := key, ALLOWED_HOSTS := hosts\<rparr>)
         (production_settings.fields ssl_redirect True True hsts_seconds True True True ''same-origin'' ''DENY''
           (''HTTP_X_FORWARDED_PROTO'', ''https''))))))))"

section \<open>The health check\<close>

text \<open>
  \<open>LoadBalancerHealthCheckMiddleware\<close> stands before all other middleware: for a request of the load
  balancer it answers like the view \<open>health\<close>, for any other it hands on to \<open>get_response\<close>.
\<close>

definition health :: "string \<times> string" where
  "health = (''status'', ''ok'')"

definition health_check_middleware ::
  "('request \<Rightarrow> 'answer) \<Rightarrow> ((string \<times> string) \<Rightarrow> 'answer) \<Rightarrow> ('request \<Rightarrow> string) \<Rightarrow> ('request \<Rightarrow> string option) \<Rightarrow>
    'request \<Rightarrow> 'answer" where
  "health_check_middleware get_response json_response path user_agent request =
     (if path request = ''/health/'' \<and> user_agent request = Some ''ELB-HealthChecker/2.0''
      then json_response health
      else get_response request)"

section \<open>Facts\<close>

text \<open>A setting is what its variable says, or its default.\<close>

lemma env_default_simps [simp]: "env_default None v = v" "env_default (Some w) v = w"
  by (simp_all add: env_default_def)

lemma env_required_Inr_iff [simp]: "env_required name given = Inr v \<longleftrightarrow> given = Some v"
  by (simp add: env_required_def)

lemmas env_defs = env_str_def env_bool_def env_int_def env_float_def

lemma base_settings_flags:
  assumes "base_settings env = Inr s"
  shows "env_bool env ''TWILIO_SMS_SMOKE_ENABLED'' False = Inr (TWILIO_SMS_SMOKE_ENABLED s)"
    and "env_bool env ''TWILIO_VOICE_SMOKE_ENABLED'' False = Inr (TWILIO_VOICE_SMOKE_ENABLED s)"
    and "env_bool env ''DELIVERY_REAL_DISPATCH_ENABLED'' False = Inr (DELIVERY_REAL_DISPATCH_ENABLED s)"
    and "env_bool env ''DELIVERY_REAL_WORKER_ENABLED'' False = Inr (DELIVERY_REAL_WORKER_ENABLED s)"
    and "env_bool env ''DJANGO_DEBUG'' False = Inr (DEBUG s)"
    and "choose_database env (DATABASE_PARTS s) = Inr (DATABASES s)"
  using assms by (auto simp: base_settings_def)

end
