(* ===== verification/Commands.thy ===== *)
theory Commands
  imports Settings Twilio_Voice Sqs
begin

text \<open>
  The management commands of \<open>apps/delivery/management/commands\<close> and \<open>apps/weather/management/commands\<close>:
  what each refuses, which services it calls with which providers, and the line it prints. An option
  that was not given has the default from the settings.
\<close>

section \<open>What the commands share\<close>

abbreviation command_error :: "string \<Rightarrow> exn" where
  "command_error text \<equiv> raise CommandError text"

definition natural_text :: "nat \<Rightarrow> string" where
  "natural_text n = integer_text (int n)"

text \<open>\<open>timedelta(minutes=n)\<close>: at most 999999999 days either way.\<close>

definition timedelta_minutes :: "int \<Rightarrow> exn + time" where
  "timedelta_minutes n =
     (if - 999999999 * 1440 \<le> n \<and> n < 1000000000 * 1440 then Inr (minutes n)
      else Inl (raise OverflowError ''timedelta days must have magnitude <= 999999999''))"

text \<open>The project's senders as the services call them, and what a database read in a command finds.\<close>

definition sms_only_sender :: "twilio_sms_sender \<Rightarrow> sender_call" where
  "sms_only_sender s = (\<lambda>ch to message. twilio_sms_send s (channel_value ch) to message)"

definition voice_only_sender :: "twilio_voice_sender \<Rightarrow> sender_call" where
  "voice_only_sender s = (\<lambda>ch to message. twilio_voice_send s (channel_value ch) to message)"

definition finished_line :: "row_id \<Rightarrow> delivery_attempt \<Rightarrow> string" where
  "finished_line event_id attempt =
     ''Event '' @ integer_text event_id @ '' finished with status '' @ attempt_status_value (at_status attempt) @ ''.''"

definition no_such_event :: "row_id \<Rightarrow> exn" where
  "no_such_event event_id = command_error (''Event '' @ integer_text event_id @ '' does not exist.'')"

text \<open>
  A command reads its event first; the service then runs on the database as it is by then:
  \<open>meanwhile\<close> is what other processes did in between.
\<close>

definition map_value :: "('a \<Rightarrow> 'b) \<Rightarrow> 'a outcome \<Rightarrow> 'b outcome" where
  "map_value f r = (case r of (Inl x, d, calls) \<Rightarrow> (Inl x, d, calls) | (Inr v, d, calls) \<Rightarrow> (Inr (f v), d, calls))"

section \<open>One event\<close>

definition deliver_demo_event_command ::
  "row_id \<Rightarrow> time \<Rightarrow> (db \<Rightarrow> db) \<Rightarrow> clock \<Rightarrow> db \<Rightarrow> string outcome" where
  "deliver_demo_event_command event_id observed meanwhile clk d =
     (case get_event event_id d of
        None \<Rightarrow> (Inl (no_such_event event_id), d, [])
      | Some event \<Rightarrow>
          if \<not> ev_is_demo event
          then (Inl (command_error ''This command only processes demo events.''), d, [])
          else map_value (finished_line event_id)
            (deliver_scheduled_event event_id
              \<lparr>env_weather = fake_get_current_weather observed, env_message_sender = None, env_demo_sender = None\<rparr>
              None clk (meanwhile d)))"

text \<open>\<open>except DeliveryError\<close>; what is caught is the class \<open>DeliveryError\<close> with its subclasses.\<close>

fun is_delivery_error :: "exn_class \<Rightarrow> bool" where
  "is_delivery_error (DeliveryExn _) = True"
| "is_delivery_error _ = False"

definition catch_delivery_error :: "'a outcome \<Rightarrow> 'a outcome" where
  "catch_delivery_error r =
     (case r of
        (Inl x, d, calls) \<Rightarrow>
          (if is_delivery_error (exn_class x) then (Inl (command_error (exn_text x)), d, calls) else (Inl x, d, calls))
      | (Inr v, d, calls) \<Rightarrow> (Inr v, d, calls))"

definition send_staging_sms_event ::
  "settings \<Rightarrow> row_id \<Rightarrow> bool \<Rightarrow> sms_client \<Rightarrow> time \<Rightarrow> (db \<Rightarrow> db) \<Rightarrow> clock \<Rightarrow> db \<Rightarrow> string outcome" where
  "send_staging_sms_event settings event_id confirm_send client observed meanwhile clk d =
     (if \<not> TWILIO_SMS_SMOKE_ENABLED settings
      then (Inl (command_error ''Twilio SMS staging smoke sends are disabled.''), d, [])
      else if \<not> confirm_send
      then (Inl (command_error ''Pass --confirm-send to authorize a real SMS request.''), d, [])
      else if TWILIO_SMS_SMOKE_TO_NUMBER settings = []
      then (Inl (command_error ''The staging smoke destination is not configured.''), d, [])
      else case get_event event_id d of
        None \<Rightarrow> (Inl (no_such_event event_id), d, [])
      | Some event \<Rightarrow>
          (case with_phone d event of
             None \<Rightarrow> (Inl (no_such_event event_id), d, [])
           | Some (_, number) \<Rightarrow>
               if ev_is_demo event
               then (Inl (command_error ''Demo events cannot be sent through Twilio.''), d, [])
               else if ev_channel event \<noteq> SMS
               then (Inl (command_error ''This command only processes SMS events.''), d, [])
               else if number \<noteq> TWILIO_SMS_SMOKE_TO_NUMBER settings
               then (Inl (command_error ''The event destination does not match the authorized smoke destination.''), d, [])
               else map_value (finished_line event_id) (catch_delivery_error
                 (case sms_sender_from_settings (twilio_settings.truncate settings) client of
                    Inl x \<Rightarrow> (Inl x, meanwhile d, [])
                  | Inr sender \<Rightarrow>
                      deliver_scheduled_event event_id
                        \<lparr>env_weather = fake_get_current_weather observed,
                         env_message_sender = Some (sms_only_sender sender), env_demo_sender = None\<rparr>
                        None clk (meanwhile d)))))"

definition send_staging_voice_event ::
  "settings \<Rightarrow> row_id \<Rightarrow> bool \<Rightarrow> (string \<Rightarrow> bool) \<Rightarrow> voice_client \<Rightarrow> time \<Rightarrow> (db \<Rightarrow> db) \<Rightarrow> clock \<Rightarrow> db \<Rightarrow> string outcome" where
  "send_staging_voice_event settings event_id confirm_call bracketed_ok client observed meanwhile clk d =
     (if \<not> TWILIO_VOICE_SMOKE_ENABLED settings
      then (Inl (command_error ''Twilio voice staging smoke calls are disabled.''), d, [])
      else if \<not> confirm_call
      then (Inl (command_error ''Pass --confirm-call to authorize a real voice call.''), d, [])
      else if TWILIO_VOICE_SMOKE_TO_NUMBER settings = []
      then (Inl (command_error ''The staging voice destination is not configured.''), d, [])
      else case get_event event_id d of
        None \<Rightarrow> (Inl (no_such_event event_id), d, [])
      | Some event \<Rightarrow>
          (case with_phone d event of
             None \<Rightarrow> (Inl (no_such_event event_id), d, [])
           | Some (_, number) \<Rightarrow>
               if ev_is_demo event
               then (Inl (command_error ''Demo events cannot be sent through Twilio.''), d, [])
               else if ev_channel event \<noteq> VOICE
               then (Inl (command_error ''This command only processes voice events.''), d, [])
               else if number \<noteq> TWILIO_VOICE_SMOKE_TO_NUMBER settings
               then (Inl (command_error ''The event destination does not match the authorized voice destination.''), d, [])
               else map_value (finished_line event_id) (catch_delivery_error
                 (case voice_sender_from_settings bracketed_ok (twilio_settings.truncate settings) client of
                    Inl x \<Rightarrow> (Inl x, meanwhile d, [])
                  | Inr sender \<Rightarrow>
                      deliver_scheduled_event event_id
                        \<lparr>env_weather = fake_get_current_weather observed,
                         env_message_sender = Some (voice_only_sender sender), env_demo_sender = None\<rparr>
                        None clk (meanwhile d)))))"

section \<open>A batch\<close>

definition given_or :: "int option \<Rightarrow> int \<Rightarrow> int" where
  "given_or given fallback = (case given of None \<Rightarrow> fallback | Some n \<Rightarrow> n)"

definition dispatch_line :: "dispatch_result \<Rightarrow> string" where
  "dispatch_line result =
     ''Dispatch finished: selected='' @ natural_text (dr_selected_count result) @
     '' delivered='' @ natural_text (dr_delivered_count result) @
     '' missed='' @ natural_text (dr_missed_count result) @
     '' failed='' @ natural_text (dr_failed_count result) @ ''.''"

text \<open>
  The n-th delivery meets the fake weather of \<open>observed n\<close> and, with real delivery allowed, the Twilio
  clients \<open>worlds n\<close> under the command's settings.
\<close>

definition twilio_under :: "settings \<Rightarrow> twilio_world \<Rightarrow> sender_call" where
  "twilio_under settings w = twilio_sender (w\<lparr>tw_settings := twilio_settings.truncate settings\<rparr>)"

definition dispatch_due_events_command ::
  "settings \<Rightarrow> int option \<Rightarrow> int option \<Rightarrow> bool \<Rightarrow> (nat \<Rightarrow> twilio_world) \<Rightarrow> (nat \<Rightarrow> time) \<Rightarrow> (row_id \<Rightarrow> bool) \<Rightarrow>
    clock \<Rightarrow> db \<Rightarrow> string outcome" where
  "dispatch_due_events_command settings batch_size grace_minutes allow_real worlds observed locked clk d =
     (let batch_size = given_or batch_size (DELIVERY_DISPATCH_BATCH_SIZE settings);
          grace_minutes = given_or grace_minutes (DELIVERY_MISSED_GRACE_MINUTES settings)
      in if \<not> (1 \<le> batch_size \<and> batch_size \<le> MAX_BATCH_SIZE)
      then (Inl (command_error ''Batch size must be between 1 and 100.''), d, [])
      else if grace_minutes < 0
      then (Inl (command_error ''Grace minutes cannot be negative.''), d, [])
      else if allow_real \<and> \<not> DELIVERY_REAL_DISPATCH_ENABLED settings
      then (Inl (command_error ''Real dispatcher delivery is disabled by configuration.''), d, [])
      else case timedelta_minutes grace_minutes of
        Inl x \<Rightarrow> (Inl x, d, [])
      | Inr grace_period \<Rightarrow>
          map_value dispatch_line (dispatch_due_events
            (\<lambda>n. \<lparr>env_weather = fake_get_current_weather (observed n),
               env_message_sender = (if allow_real then Some (twilio_under settings (worlds n)) else None),
               env_demo_sender = None\<rparr>)
            None batch_size grace_period allow_real locked clk d))"

definition queue_from_settings :: "settings \<Rightarrow> 's sqs_client \<Rightarrow> exn + 's delivery_queue" where
  "queue_from_settings settings client =
     make_sqs_delivery_queue (DELIVERY_QUEUE_URL settings) (AWS_REGION settings)
       (fst (DELIVERY_QUEUE_TIMEOUTS settings)) (snd (DELIVERY_QUEUE_TIMEOUTS settings)) client"

definition publication_line :: "queue_publication_result \<Rightarrow> string" where
  "publication_line result =
     ''Queue publication finished: selected='' @ natural_text (qp_selected_count result) @
     '' published='' @ natural_text (qp_published_count result) @ ''.''"

definition publish_due_events_command ::
  "settings \<Rightarrow> int option \<Rightarrow> bool \<Rightarrow> 's sqs_client \<Rightarrow> clock \<Rightarrow> db \<Rightarrow> 's \<Rightarrow> (exn + string) \<times> 's" where
  "publish_due_events_command settings batch_size allow_real client clk d q =
     (let batch_size = given_or batch_size (DELIVERY_DISPATCH_BATCH_SIZE settings)
      in if \<not> (1 \<le> batch_size \<and> batch_size \<le> MAX_BATCH_SIZE)
      then (Inl (command_error ''Batch size must be between 1 and 100.''), q)
      else if allow_real \<and> \<not> DELIVERY_REAL_WORKER_ENABLED settings
      then (Inl (command_error ''Real queue delivery is disabled by configuration.''), q)
      else case queue_from_settings settings client of
        Inl x \<Rightarrow> (Inl x, q)
      | Inr queue \<Rightarrow>
          (case publish_due_event_messages queue None batch_size allow_real clk d q of
             (Inl x, q) \<Rightarrow> (Inl x, q)
           | (Inr result, q) \<Rightarrow> (Inr (publication_line result), q)))"

section \<open>The worker\<close>

definition check_range :: "string \<Rightarrow> int \<Rightarrow> int \<Rightarrow> int \<Rightarrow> exn + unit" where
  "check_range name value minimum maximum =
     require (minimum \<le> value \<and> value \<le> maximum)
       (command_error (name @ '' must be between '' @ integer_text minimum @ '' and '' @ integer_text maximum @ ''.''))"

definition validate_settings :: "settings \<Rightarrow> exn + unit" where
  "validate_settings s =
     bind_res (check_range ''DELIVERY_QUEUE_RECEIVE_BATCH_SIZE'' (DELIVERY_QUEUE_RECEIVE_BATCH_SIZE s) 1 10) (\<lambda>_.
     bind_res (check_range ''DELIVERY_QUEUE_WAIT_SECONDS'' (DELIVERY_QUEUE_WAIT_SECONDS s) 0 20) (\<lambda>_.
     bind_res (check_range ''DELIVERY_QUEUE_VISIBILITY_SECONDS'' (DELIVERY_QUEUE_VISIBILITY_SECONDS s) 1 43200) (\<lambda>_.
     bind_res (check_range ''DELIVERY_QUEUE_MAX_RECEIVES'' (DELIVERY_QUEUE_MAX_RECEIVES s) 1 1000) (\<lambda>_.
     bind_res (require (1 \<le> DELIVERY_QUEUE_RETRY_BASE_SECONDS s)
       (command_error ''DELIVERY_QUEUE_RETRY_BASE_SECONDS must be positive.'')) (\<lambda>_.
     require (\<not> (DELIVERY_QUEUE_RETRY_MAX_SECONDS s < DELIVERY_QUEUE_RETRY_BASE_SECONDS s \<or>
         43200 < DELIVERY_QUEUE_RETRY_MAX_SECONDS s))
       (command_error ''DELIVERY_QUEUE_RETRY_MAX_SECONDS must be between the retry base and 43200.''))))))"

definition worker_line :: "queue_batch_result \<Rightarrow> string" where
  "worker_line result =
     ''Worker poll: received='' @ natural_text (qb_received_count result) @
     '' acknowledged='' @ natural_text (qb_acknowledged_count result) @
     '' retry='' @ natural_text (qb_retry_count result) @
     '' published='' @ natural_text (qb_published_count result) @
     '' malformed='' @ natural_text (qb_malformed_count result) @ ''.''"

text \<open>
  What one poll meets: what others did to the database while it waited, what each message's delivery
  meets, and the clock readings for each message.
\<close>

record poll_env =
  pe_meanwhile :: "db \<Rightarrow> db"
  pe_http :: "nat \<Rightarrow> http_session"
  pe_twilio :: "nat \<Rightarrow> twilio_world"
  pe_clock :: "nat \<Rightarrow> clock"

definition worker_config_of :: "settings \<Rightarrow> time \<Rightarrow> bool \<Rightarrow> worker_config" where
  "worker_config_of s grace_period allow_real = \<lparr>wc_batch_size = DELIVERY_DISPATCH_BATCH_SIZE s,
     wc_max_receive_count = DELIVERY_QUEUE_MAX_RECEIVES s,
     wc_retry_base_seconds = DELIVERY_QUEUE_RETRY_BASE_SECONDS s,
     wc_retry_max_seconds = DELIVERY_QUEUE_RETRY_MAX_SECONDS s,
     wc_grace_period = grace_period, wc_allow_real = allow_real\<rparr>"

definition delivery_env_of ::
  "settings \<Rightarrow> weather_api_provider \<Rightarrow> json_runtime \<Rightarrow> bool \<Rightarrow> poll_env \<Rightarrow> nat \<Rightarrow> delivery_env" where
  "delivery_env_of s provider rt allow_real pe n =
     \<lparr>env_weather = weather_api_get_current_weather (jr_floats rt) (pe_http pe n) provider,
      env_message_sender = (if allow_real then Some (twilio_under s (pe_twilio pe n)) else None),
      env_demo_sender = None\<rparr>"

text \<open>One turn of the loop; while it waits for messages, other processes act.\<close>

definition worker_poll ::
  "settings \<Rightarrow> bool \<Rightarrow> json_runtime \<Rightarrow> 's delivery_queue \<Rightarrow> weather_api_provider \<Rightarrow> poll_env \<Rightarrow> db \<Rightarrow> 's \<Rightarrow>
    ('s, string) worker_op" where
  "worker_poll s allow_real rt queue provider pe d q =
     (let d = pe_meanwhile pe d
      in case q_receive queue (DELIVERY_QUEUE_RECEIVE_BATCH_SIZE s) (DELIVERY_QUEUE_WAIT_SECONDS s)
                (DELIVERY_QUEUE_VISIBILITY_SECONDS s) q of
        (Inl x, q) \<Rightarrow> (Inl x, d, q, [])
      | (Inr messages, q) \<Rightarrow>
          (case timedelta_minutes (DELIVERY_MISSED_GRACE_MINUTES s) of
             Inl x \<Rightarrow> (Inl x, d, q, [])
           | Inr grace_period \<Rightarrow>
               (case process_queue_batch (worker_config_of s grace_period allow_real) rt queue
                       (delivery_env_of s provider rt allow_real pe) (pe_clock pe) messages d q of
                  (Inl x, d, q, calls) \<Rightarrow> (Inl x, d, q, calls)
                | (Inr result, d, q, calls) \<Rightarrow> (Inr (worker_line result), d, q, calls))))"

text \<open>
  The loop, for at most \<open>fuel\<close> polls (\<open>None\<close>: still running after them); the n-th poll meets \<open>pes n\<close>. It
  returns what it printed, or raises.
\<close>

type_synonym 's worker_run = "(exn + unit) \<times> string list \<times> db \<times> 's \<times> call_made list"

fun worker_loop ::
  "nat \<Rightarrow> bool \<Rightarrow> (poll_env \<Rightarrow> db \<Rightarrow> 's \<Rightarrow> ('s, string) worker_op) \<Rightarrow> (nat \<Rightarrow> poll_env) \<Rightarrow> string list \<Rightarrow>
    db \<Rightarrow> 's \<Rightarrow> call_made list \<Rightarrow> 's worker_run option" where
  "worker_loop 0 once poll pes printed d q calls = None"
| "worker_loop (Suc fuel) once poll pes printed d q calls =
     (case poll (pes 0) d q of
        (Inl x, d, q, calls') \<Rightarrow> Some (Inl x, printed, d, q, calls @ calls')
      | (Inr line, d, q, calls') \<Rightarrow>
          if once then Some (Inr (), printed @ [line], d, q, calls @ calls')
          else worker_loop fuel once poll (\<lambda>n. pes (n + 1)) (printed @ [line]) d q (calls @ calls'))"

definition weather_from_settings :: "settings \<Rightarrow> exn + weather_api_provider" where
  "weather_from_settings s =
     make_weather_api_provider (WEATHER_API_KEY s) (WEATHER_API_BASE_URL s)
       (fst (WEATHER_API_TIMEOUTS s)) (snd (WEATHER_API_TIMEOUTS s))"

definition run_delivery_worker ::
  "nat \<Rightarrow> settings \<Rightarrow> bool \<Rightarrow> bool \<Rightarrow> json_runtime \<Rightarrow> 's sqs_client \<Rightarrow> (nat \<Rightarrow> poll_env) \<Rightarrow> db \<Rightarrow> 's \<Rightarrow>
    's worker_run option" where
  "run_delivery_worker fuel s once allow_real rt client pes d q =
     (if allow_real \<and> \<not> DELIVERY_REAL_WORKER_ENABLED s
      then Some (Inl (command_error ''Real queue delivery is disabled by configuration.''), [], d, q, [])
      else case bind_res (validate_settings s) (\<lambda>_.
             bind_res (queue_from_settings s client) (\<lambda>queue.
             bind_res (weather_from_settings s) (\<lambda>provider. Inr (queue, provider)))) of
        Inl x \<Rightarrow> Some (Inl x, [], d, q, [])
      | Inr (queue, provider) \<Rightarrow>
          worker_loop fuel once (worker_poll s allow_real rt queue provider) pes [] d q [])"

section \<open>The weather on the command line\<close>

text \<open>\<open>str.isdigit\<close> also holds of the superscript digits of Latin-1.\<close>

definition isdigit :: "string \<Rightarrow> bool" where
  "isdigit s \<longleftrightarrow> s \<noteq> [] \<and> (\<forall>c \<in> set s. is_digit c \<or> code c \<in> {178, 179, 185})"

fun is_weather_error :: "exn_class \<Rightarrow> bool" where
  "is_weather_error (WeatherExn _) = True"
| "is_weather_error _ = False"

definition check_weather_command :: "settings \<Rightarrow> string \<Rightarrow> float_runtime \<Rightarrow> http_session \<Rightarrow> exn + string" where
  "check_weather_command s zip_code rt session =
     (if length zip_code \<noteq> 5 \<or> \<not> isdigit zip_code
      then Inl (command_error ''ZIP code must contain exactly five digits.'')
      else case bind_res (weather_from_settings s) (\<lambda>provider.
                  weather_api_get_current_weather rt session provider zip_code) of
        Inl x \<Rightarrow> Inl (if is_weather_error (exn_class x) then command_error (exn_text x) else x)
      | Inr weather \<Rightarrow>
          Inr (cw_location weather @ '': '' @ format_0f (cw_temperature_f weather) @ [CHR 0xB0] @ ''F, '' @
            cw_condition weather @ '' (observed '' @ isoformat_utc (cw_observed_at weather) @ '')''))"

end
