(* ===== verification/Command_Properties.thy ===== *)
theory Command_Properties
  imports Commands Delivery_Properties Worker_Properties Twilio_Properties
begin

text \<open>
  What the management commands guarantee: nothing real is sent unless both a setting and an option allow
  it, a staging send goes to the authorized number, and the worker's loop keeps the database well-formed
  and ends only for the reasons listed.
\<close>

section \<open>Who calls a real sender\<close>

lemma no_sender_no_real_send:
  "env_message_sender env = None \<Longrightarrow> real_sends (snd (attempt_delivery env c)) = []"
  by (auto simp: attempt_delivery_def select_sender_def Let_def split: sum.splits option.splits)

lemma execute_calls: "snd (snd (execute_claimed_delivery env clk c d)) = snd (attempt_delivery env c)"
  by (auto simp: execute_eq committed_def recorded_def split: prod.splits delivery_result.splits sum.splits)

lemma claim_event_claims:
  assumes "claim_event i now clk d = Inr (Some c, d1)"
  obtains e p where "get_event i d = Some e" "get_phone (ev_phone_number e) d = Some p"
    "cl_to c = ph_number p" "ev_channel (cl_event c) = ev_channel e" "ev_is_demo (cl_event c) = ev_is_demo e"
proof -
  obtain e p where e: "get_event i d = Some e" "get_phone (ev_phone_number e) d = Some p"
    and c: "claim_locked_event (e, ph_number p) now clk d = Inr (c, d1)"
    using assms by (auto simp: claim_event_def with_phone_def Let_def bind_require split: if_splits)
  have "cl_to c = ph_number p \<and> ev_channel (cl_event c) = ev_channel e \<and> ev_is_demo (cl_event c) = ev_is_demo e"
    using c
    by (auto simp: claim_locked_event_def transition_event_def save_event_def write_event_fields_def Let_def
        split: prod.splits if_splits)
  with e that show thesis by blast
qed

lemma deliver_calls:
  assumes "deliver_scheduled_event i env now clk d = (r, d', calls)"
  shows "length (real_sends calls) \<le> 1 \<and> (env_message_sender env = None \<longrightarrow> real_sends calls = []) \<and>
    (\<forall>ch to m. Real_Send ch to m \<in> set calls \<longrightarrow>
       (\<exists>e p. get_event i d = Some e \<and> \<not> ev_is_demo e \<and> ch = ev_channel e \<and>
          get_phone (ev_phone_number e) d = Some p \<and> to = ph_number p))"
proof (cases "\<exists>c d1. claim_event i (or_now now (clk 0)) (\<lambda>n. clk (n + 1)) d = Inr (Some c, d1)")
  case True
  then obtain c d1 where c: "claim_event i (or_now now (clk 0)) (\<lambda>n. clk (n + 1)) d = Inr (Some c, d1)" by blast
  then have calls: "calls = snd (attempt_delivery env c)"
    using assms execute_calls [of env "\<lambda>n. clk (n + 3)" c d1] by (simp add: deliver_scheduled_event_def)
  obtain e p where e: "get_event i d = Some e" "get_phone (ev_phone_number e) d = Some p"
    "cl_to c = ph_number p" "ev_channel (cl_event c) = ev_channel e" "ev_is_demo (cl_event c) = ev_is_demo e"
    by (rule claim_event_claims [OF c])
  have "attempt_delivery env c = (fst (attempt_delivery env c), calls)" by (simp add: calls)
  note facts = attempt_delivery_calls(1,4) [OF this]
  show ?thesis using facts no_sender_no_real_send [of env c] e calls by auto
next
  case False
  then have "calls = []"
    using assms by (auto simp: deliver_scheduled_event_def split: sum.splits prod.splits option.splits)
  then show ?thesis by simp
qed

lemma deliver_real_sends:
  "real_sends (snd (snd (deliver_scheduled_event i env now clk d))) \<noteq> [] \<Longrightarrow> env_message_sender env \<noteq> None"
  using deliver_calls by (metis prod_cases3 snd_conv)

lemma map_value_calls [simp]: "snd (snd (map_value f r)) = snd (snd r)"
  by (auto simp: map_value_def split: prod.splits sum.splits)

lemma catch_delivery_error_calls [simp]: "snd (snd (catch_delivery_error r)) = snd (snd r)"
  by (auto simp: catch_delivery_error_def split: prod.splits sum.splits)

lemma dispatch_each_no_real:
  "\<forall>n. env_message_sender (envs n) = None \<Longrightarrow> real_sends (snd (snd (dispatch_each envs clk cs d))) = []"
proof (induction cs arbitrary: envs clk d)
  case (Cons c cs)
  obtain r d1 calls1 where run1: "execute_claimed_delivery (envs 0) clk c d = (r, d1, calls1)"
    by (metis prod_cases3)
  obtain n m d2 calls2 where run2: "dispatch_each (\<lambda>n. envs (n + 1)) (\<lambda>n. clk (n + 2)) cs d1 = ((n, m), d2, calls2)"
    by (metis prod_cases3 surj_pair)
  have "real_sends calls1 = []"
    using no_sender_no_real_send [of "envs 0" c] Cons.prems execute_calls [of "envs 0" clk c d] run1 by simp
  moreover have "real_sends calls2 = []"
    using Cons.IH [of "\<lambda>n. envs (n + 1)" "\<lambda>n. clk (n + 2)" d1] Cons.prems run2 by simp
  ultimately show ?case using run2 by (simp add: run1)
qed simp

lemma dispatch_no_real:
  "\<forall>n. env_message_sender (envs n) = None \<Longrightarrow>
    real_sends (snd (snd (dispatch_due_events envs now n grace incl locked clk d))) = []"
  using dispatch_each_no_real [of envs]
  by (simp add: dispatch_due_events_def split: sum.split prod.split) (metis snd_conv)

lemma process_no_real:
  assumes "env_message_sender env = None"
  shows "real_sends (snd (snd (process_queued_delivery i rc m env now grace allow clk d))) = []"
  using assms
  by (auto simp: process_queued_delivery_def select_sender_def recorded_def Let_def
      split: sum.splits prod.splits option.splits)

lemma decide_no_real:
  assumes "env_message_sender env = None"
    and "decide_message config rt queue env clk m d q = (r, d', q', calls)"
  shows "real_sends calls = []"
proof -
  have "real_sends cs = []" if "process_queued_delivery i rc mx env None grace allow clk d = (a, d1, cs)"
    for i rc mx grace allow a d1 cs
    using process_no_real [OF assms(1), of i rc mx None grace allow clk d] that by simp
  then show ?thesis
    using assms(2) unfolding decide_message_def
    by (auto split: sum.splits prod.splits option.splits if_splits)
qed

lemma process_messages_no_real:
  assumes "\<forall>n. env_message_sender (envs n) = None"
    and "process_messages config rt queue envs clks ms counts d q = (r, d', q', calls)"
  shows "real_sends calls = []"
  using assms
proof (induction ms arbitrary: envs clks counts d q calls)
  case (Cons m ms)
  obtain r1 d1 q1 calls1 where dec: "decide_message config rt queue (envs 0) (clks 0) m d q = (r1, d1, q1, calls1)"
    by (metis prod_cases4)
  have none: "real_sends calls1 = []" using decide_no_real [OF _ dec] Cons.prems(1) by simp
  have rest: "real_sends cs = []"
    if "process_messages config rt queue (\<lambda>n. envs (n + 1)) (\<lambda>n. clks (n + 1)) ms k d1 q2 = (r, d', q', cs)"
    for k q2 cs
    using Cons.IH [OF _ that] Cons.prems(1) by simp
  show ?case
    using Cons.prems(2) dec none rest
    by (auto split: sum.splits prod.splits)
qed simp

lemma process_queue_batch_no_real:
  assumes "\<forall>n. env_message_sender (envs n) = None"
    and "process_queue_batch config rt queue envs clks ms d q = (r, d', q', calls)"
  shows "real_sends calls = []"
  using assms process_messages_no_real [OF assms(1)] by (auto simp: process_queue_batch_def split: if_splits)

section \<open>The worker's loop\<close>

text \<open>What every poll of a loop keeps, and what a poll may raise, holds of the loop.\<close>

lemma worker_loop_invariant:
  assumes poll: "\<forall>n d q. P d \<longrightarrow>
      (case poll (pes n) d q of (r, d', _, calls) \<Rightarrow> P d' \<and> R calls \<and> (\<forall>x. r = Inl x \<longrightarrow> E x))"
    and R: "\<And>cs cs'. R cs \<Longrightarrow> R cs' \<Longrightarrow> R (cs @ cs')"
    and start: "P d" "R calls"
    and run: "worker_loop fuel once poll pes printed d q calls = Some (r, out, d', q', calls')"
  shows "P d' \<and> R calls' \<and> (r = Inr () \<longrightarrow> once) \<and> (once \<longrightarrow> length out \<le> length printed + 1) \<and>
    (\<forall>x. r = Inl x \<longrightarrow> E x)"
  using poll start run
proof (induction fuel arbitrary: pes printed d q calls)
  case (Suc fuel)
  obtain r1 d1 q1 cs1 where p: "poll (pes 0) d q = (r1, d1, q1, cs1)" by (metis prod_cases4)
  have step: "P d1 \<and> R cs1 \<and> (\<forall>x. r1 = Inl x \<longrightarrow> E x)"
    using spec [OF spec [OF spec [OF Suc.prems(1), of 0], of d], of q] Suc.prems(2) p by simp
  then have sofar: "R (calls @ cs1)" using R Suc.prems(3) by blast
  show ?case
  proof (cases r1)
    case (Inl x)
    with Suc.prems(4) p step sofar show ?thesis by auto
  next
    case (Inr line)
    show ?thesis
    proof (cases once)
      case True
      with Suc.prems(4) p step sofar Inr show ?thesis by auto
    next
      case False
      have rest: "worker_loop fuel once poll (\<lambda>n. pes (n + 1)) (printed @ [line]) d1 q1 (calls @ cs1) = Some (r, out, d', q', calls')"
        using Suc.prems(4) p Inr False by simp
      have "P d1" using step by simp
      from Suc.IH [OF _ this sofar rest] Suc.prems(1) False show ?thesis by simp
    qed
  qed
qed simp

lemma worker_loop_once: "0 < fuel \<Longrightarrow> worker_loop fuel True poll pes printed d q calls \<noteq> None"
  by (cases fuel) (auto split: prod.splits sum.splits)

lemma validate_settings_Inr:
  "validate_settings s = Inr u \<longleftrightarrow>
    1 \<le> DELIVERY_QUEUE_RECEIVE_BATCH_SIZE s \<and> DELIVERY_QUEUE_RECEIVE_BATCH_SIZE s \<le> 10 \<and>
    0 \<le> DELIVERY_QUEUE_WAIT_SECONDS s \<and> DELIVERY_QUEUE_WAIT_SECONDS s \<le> 20 \<and>
    1 \<le> DELIVERY_QUEUE_VISIBILITY_SECONDS s \<and> DELIVERY_QUEUE_VISIBILITY_SECONDS s \<le> 43200 \<and>
    1 \<le> DELIVERY_QUEUE_MAX_RECEIVES s \<and> DELIVERY_QUEUE_MAX_RECEIVES s \<le> 1000 \<and>
    1 \<le> DELIVERY_QUEUE_RETRY_BASE_SECONDS s \<and>
    DELIVERY_QUEUE_RETRY_BASE_SECONDS s \<le> DELIVERY_QUEUE_RETRY_MAX_SECONDS s \<and>
    DELIVERY_QUEUE_RETRY_MAX_SECONDS s \<le> 43200"
  by (auto simp: validate_settings_def check_range_def bind_require)

lemma validate_settings_Inl: "validate_settings s = Inl x \<Longrightarrow> exn_class x = CommandError"
  by (auto simp: validate_settings_def check_range_def bind_require split: if_splits)

lemma queue_from_settings_cases:
  "(\<exists>x. queue_from_settings s client = Inl x \<and> exn_class x = QueueExn QueueConfigurationError) \<or>
    queue_from_settings s client = Inr (sqs_queue (DELIVERY_QUEUE_URL s) client)"
  by (auto simp: queue_from_settings_def make_sqs_delivery_queue_def)

lemma weather_from_settings_Inl:
  "weather_from_settings s = Inl x \<Longrightarrow> exn_class x = WeatherExn WeatherConfigurationError"
  by (auto simp: weather_from_settings_def make_weather_api_provider_def weather_error_def split: if_splits)

lemma receive_raises:
  assumes "1 \<le> k" "k \<le> 10" "0 \<le> w" "w \<le> 20" "0 \<le> v" "v \<le> 43200"
    and "sqs_receive url client k w v q = (Inl x, q')"
  shows "exn_class x \<in> {QueueExn QueueUnavailable, OverflowError}"
proof -
  have json: "exn_class y \<in> {KeyError, TypeError, ValueError, OverflowError}"
    if "json_item j key = Inl y \<or> json_int j = Inl y" for j key y
    using that by (cases j; cases "case j of JFloat f \<Rightarrow> f | _ \<Rightarrow> NaN") (auto split: option.splits)
  have fields: "exn_class y \<in> {QueueExn QueueUnavailable, OverflowError}" if "message_fields raw = Inl y" for raw y
    using that json unfolding message_fields_def
    by (auto simp: malformed_metadata_def bind_res_Inl_iff split: sum.splits if_splits)
  have message: "exn_class y \<in> {QueueExn QueueUnavailable, OverflowError}" if y: "parse_message raw = Inl y" for raw y
  proof (cases "message_fields raw")
    case (Inl z)
    with y fields [OF Inl] show ?thesis by (auto simp: parse_message_def malformed_metadata_def split: if_splits)
  next
    case (Inr f)
    obtain body handle n where "f = (body, handle, n)" by (cases f)
    with Inr y show ?thesis
      by (cases body; cases handle) (auto simp: parse_message_def malformed_metadata_def split: if_splits)
  qed
  have "exn_class y \<in> {QueueExn QueueUnavailable, OverflowError}" if "parse_messages raws = Inl y" for raws y
    using that by (induction raws) (auto simp: bind_res_Inl_iff dest: message)
  then have "exn_class y \<in> {QueueExn QueueUnavailable, OverflowError}" if "parse_response resp = Inl y" for resp y
    using that by (auto simp: parse_response_def split: if_splits option.splits json.splits)
  moreover have "exn_class x = QueueExn QueueUnavailable" if "aws_call complaint reply = (Inl x, q')"
    for complaint and reply :: "json aws_reply \<times> 'a"
    using aws_call_Inl [of complaint reply x] that by simp
  ultimately show ?thesis
    using assms by (auto simp: sqs_receive_def split: prod.splits sum.splits)
qed

lemma process_queue_batch_wf:
  assumes "wf_db d" and "process_queue_batch config rt queue envs clks ms d q = (r, d', q', calls)"
  shows "wf_db d'"
  using assms by (auto simp: process_queue_batch_def split: if_splits intro: process_messages_effect [THEN conjunct1])

definition worker_errors :: "exn \<Rightarrow> bool" where
  "worker_errors x \<longleftrightarrow>
     exn_class x \<in> {QueueExn QueueUnavailable, OverflowError, DataError, IntegrityError} \<or> x = recursion_error"

text \<open>Settings the worker checks, and the two it does not.\<close>

definition worker_settings_ok :: "settings \<Rightarrow> bool" where
  "worker_settings_ok s \<longleftrightarrow> 1 \<le> DELIVERY_DISPATCH_BATCH_SIZE s \<and> DELIVERY_DISPATCH_BATCH_SIZE s \<le> 100 \<and>
     0 \<le> DELIVERY_MISSED_GRACE_MINUTES s \<and> DELIVERY_MISSED_GRACE_MINUTES s < 1440000000000"

lemma worker_poll_keeps:
  assumes "validate_settings s = Inr ()" and "worker_settings_ok s" and wf: "wf_db (pe_meanwhile pe d)"
    and clock: "\<forall>n. in_datetime_range (pe_clock pe n 0 - minutes (DELIVERY_MISSED_GRACE_MINUTES s))"
    and run: "worker_poll s allow rt (sqs_queue url client) provider pe d q = (r, d', q', calls)"
  shows "wf_db d' \<and> (\<not> allow \<longrightarrow> real_sends calls = []) \<and> (\<forall>x. r = Inl x \<longrightarrow> worker_errors x)"
proof -
  let ?d = "pe_meanwhile pe d" and ?grace = "minutes (DELIVERY_MISSED_GRACE_MINUTES s)"
  let ?receive = "sqs_receive url client (DELIVERY_QUEUE_RECEIVE_BATCH_SIZE s) (DELIVERY_QUEUE_WAIT_SECONDS s)
    (DELIVERY_QUEUE_VISIBILITY_SECONDS s) q"
  note ok = assms(1) [unfolded validate_settings_Inr]
  have grace: "timedelta_minutes (DELIVERY_MISSED_GRACE_MINUTES s) = Inr ?grace"
    using assms(2) by (simp add: timedelta_minutes_def worker_settings_ok_def)
  obtain m q1 where rec: "?receive = (m, q1)" by fastforce
  show ?thesis
  proof (cases m)
    case (Inl x)
    have "exn_class x \<in> {QueueExn QueueUnavailable, OverflowError}"
      by (rule receive_raises) (use ok rec Inl in auto)
    with run rec Inl wf show ?thesis by (auto simp: worker_poll_def sqs_queue_def worker_errors_def)
  next
    case (Inr ms)
    obtain r1 d1 q2 cs where batch: "process_queue_batch (worker_config_of s ?grace allow) rt (sqs_queue url client)
        (delivery_env_of s provider rt allow pe) (pe_clock pe) ms ?d q1 = (r1, d1, q2, cs)"
      by (metis prod_cases4)
    have res: "d' = d1" "calls = cs" "\<forall>x. r = Inl x \<longrightarrow> r1 = Inl x"
      using run rec Inr grace batch by (auto simp: worker_poll_def sqs_queue_def split: sum.splits)
    have "\<not> allow \<longrightarrow> real_sends cs = []"
      using process_queue_batch_no_real [OF _ batch] by (simp add: delivery_env_of_def)
    moreover have "wf_db d1" by (rule process_queue_batch_wf [OF wf batch])
    moreover have "worker_errors x" if r1: "r1 = Inl x" for x
    proof -
      obtain zero where msgs: "process_messages (worker_config_of s ?grace allow) rt (sqs_queue url client)
          (delivery_env_of s provider rt allow pe) (pe_clock pe) ms zero ?d q1 = (Inl x, d1, q2, cs)"
        using batch r1 ok by (auto simp: process_queue_batch_def worker_config_of_def split: if_splits)
      have counts: "\<forall>m \<in> set ms. 1 \<le> rm_receive_count m"
        using sqs.receive_counts [of url client _ _ _ q ms] rec Inr by (simp add: sqs_queue_def) (metis fst_conv)
      have "exn_class x \<in> {QueueExn QueueUnavailable, DataError, IntegrityError} \<or> x = recursion_error"
        by (rule process_messages_raises [OF sqs.queue_contract_axioms wf _ _ _ _ _ _ _ counts _ msgs])
          (use ok assms(2) clock in \<open>auto simp: worker_config_of_def worker_settings_ok_def\<close>)
      then show ?thesis by (auto simp: worker_errors_def)
    qed
    ultimately show ?thesis using res by auto
  qed
qed

text \<open>The worker either stops before its first poll, or runs the loop on a validated configuration.\<close>

lemma run_delivery_worker_cases:
  obtains (refused) x where "run_delivery_worker fuel s once allow rt client pes d q = Some (Inl x, [], d, q, [])"
      "exn_class x \<in> {CommandError, QueueExn QueueConfigurationError, WeatherExn WeatherConfigurationError}"
  | (running) provider where "run_delivery_worker fuel s once allow rt client pes d q =
        worker_loop fuel once (worker_poll s allow rt (sqs_queue (DELIVERY_QUEUE_URL s) client) provider) pes [] d q []"
      "validate_settings s = Inr ()" "allow \<longrightarrow> DELIVERY_REAL_WORKER_ENABLED s"
proof (cases "allow \<and> \<not> DELIVERY_REAL_WORKER_ENABLED s")
  case True
  then show thesis
    by (intro refused [of "command_error ''Real queue delivery is disabled by configuration.''"])
      (simp_all add: run_delivery_worker_def)
next
  case on: False
  show thesis
  proof (cases "validate_settings s")
    case (Inl x)
    with on validate_settings_Inl [OF Inl] show thesis
      by (intro refused [of x]) (auto simp: run_delivery_worker_def)
  next
    case valid: (Inr u)
    from queue_from_settings_cases [of s client] show thesis
    proof (elim disjE exE conjE)
      fix x assume "queue_from_settings s client = Inl x" "exn_class x = QueueExn QueueConfigurationError"
      with on valid show thesis by (intro refused [of x]) (auto simp: run_delivery_worker_def)
    next
      assume queue: "queue_from_settings s client = Inr (sqs_queue (DELIVERY_QUEUE_URL s) client)"
      show thesis
      proof (cases "weather_from_settings s")
        case (Inl x)
        with on valid queue weather_from_settings_Inl [OF Inl] show thesis
          by (intro refused [of x]) (auto simp: run_delivery_worker_def)
      next
        case (Inr provider)
        with on valid queue show thesis by (intro running [of provider]) (auto simp: run_delivery_worker_def)
      qed
    qed
  qed
qed

section \<open>Staging sends\<close>

text \<open>The calls of a staging command: none, or those of the delivery of an event that passed its checks.\<close>

definition staging_calls ::
  "row_id \<Rightarrow> db \<Rightarrow> (db \<Rightarrow> db) \<Rightarrow> clock \<Rightarrow> channel \<Rightarrow> string \<Rightarrow> call_made list \<Rightarrow> bool" where
  "staging_calls i d others clk ch number calls \<longleftrightarrow> calls = [] \<or>
     (\<exists>env e p. get_event i d = Some e \<and> ev_channel e = ch \<and> get_phone (ev_phone_number e) d = Some p \<and>
        ph_number p = number \<and> calls = snd (snd (deliver_scheduled_event i env None clk (others d))))"

lemma staging_sms_calls:
  "staging_calls i d others clk SMS (TWILIO_SMS_SMOKE_TO_NUMBER s)
    (snd (snd (send_staging_sms_event s i confirm client t others clk d)))"
  by (auto simp: send_staging_sms_event_def staging_calls_def with_phone_def split: option.split sum.split)

lemma staging_voice_calls:
  "staging_calls i d others clk VOICE (TWILIO_VOICE_SMOKE_TO_NUMBER s)
    (snd (snd (send_staging_voice_event s i confirm ok client t others clk d)))"
  by (auto simp: send_staging_voice_event_def staging_calls_def with_phone_def split: option.split sum.split)

section \<open>Properties\<close>

text \<open>C29. No command makes a real send unless the setting for it is on and the option for it was given: never the
  demo command; the staging commands with their flag, their confirmation and a configured destination; the
  dispatcher and the worker with \<open>--allow-real-delivery\<close> and their flag.\<close>

theorem real_delivery_needs_opt_in:
  shows "real_sends (snd (snd (deliver_demo_event_command i t others clk d))) = [] \<and>
    (real_sends (snd (snd (send_staging_sms_event s i confirm sms_client t others clk d))) \<noteq> [] \<longrightarrow>
       TWILIO_SMS_SMOKE_ENABLED s \<and> confirm \<and> TWILIO_SMS_SMOKE_TO_NUMBER s \<noteq> []) \<and>
    (real_sends (snd (snd (send_staging_voice_event s i confirm ok voice_client t others clk d))) \<noteq> [] \<longrightarrow>
       TWILIO_VOICE_SMOKE_ENABLED s \<and> confirm \<and> TWILIO_VOICE_SMOKE_TO_NUMBER s \<noteq> []) \<and>
    (real_sends (snd (snd (dispatch_due_events_command s n g allow worlds observed locked clk d))) \<noteq> [] \<longrightarrow>
       allow \<and> DELIVERY_REAL_DISPATCH_ENABLED s) \<and>
    (\<forall>r printed d' q' calls. run_delivery_worker fuel s once allow rt client pes d q = Some (r, printed, d', q', calls) \<and>
       real_sends calls \<noteq> [] \<longrightarrow> allow \<and> DELIVERY_REAL_WORKER_ENABLED s)"
proof (intro conjI impI allI)
  show "real_sends (snd (snd (deliver_demo_event_command i t others clk d))) = []"
    using deliver_real_sends by (fastforce simp: deliver_demo_event_command_def split: option.splits)
  fix r printed d' q' calls
  assume a: "run_delivery_worker fuel s once allow rt client pes d q = Some (r, printed, d', q', calls) \<and> real_sends calls \<noteq> []"
  have "allow \<and> DELIVERY_REAL_WORKER_ENABLED s"
  proof (cases rule: run_delivery_worker_cases [of fuel s once allow rt client pes d q])
    case (refused x)
    with a show ?thesis by auto
  next
    case (running provider)
    let ?poll = "worker_poll s allow rt (sqs_queue (DELIVERY_QUEUE_URL s) client) provider"
    have polls: "real_sends cs = []" if "\<not> allow" "?poll pe d1 q1 = (r1, d2, q2, cs)" for pe d1 q1 r1 d2 q2 cs
      using that process_queue_batch_no_real [of "delivery_env_of s provider rt allow pe"]
      by (auto simp: worker_poll_def delivery_env_of_def Let_def split: prod.splits sum.splits)
    have "real_sends calls = []" if no: "\<not> allow"
    proof -
      have keeps: "\<forall>n d q. True \<longrightarrow> (case ?poll (pes n) d q of
          (r, d', _, calls) \<Rightarrow> True \<and> real_sends calls = [] \<and> (\<forall>x. r = Inl x \<longrightarrow> True))"
        using polls [OF no] by (auto split: prod.split)
      have run: "worker_loop fuel once ?poll pes [] d q [] = Some (r, printed, d', q', calls)"
        using a running(1) by simp
      from worker_loop_invariant [OF keeps _ TrueI _ run] show ?thesis by simp
    qed
    with a running(3) show ?thesis by blast
  qed
  then show "allow" and "DELIVERY_REAL_WORKER_ENABLED s" by blast+
qed (cases allow; auto simp: send_staging_sms_event_def send_staging_voice_event_def dispatch_due_events_command_def
    dispatch_no_real Let_def split: if_splits option.splits sum.splits)+

text \<open>C30. When nobody else changes the event or its phone between the check and the claim, a staging send makes at
  most one real send, over the command's own channel, to the authorized number, for a non-demo event.\<close>

theorem staging_sends_only_to_authorized:
  assumes "\<forall>e p. get_event i d = Some e \<longrightarrow> get_event i (others d) = Some e \<and>
      get_phone (ev_phone_number e) (others d) = get_phone (ev_phone_number e) d"
  shows "(\<forall>r d' calls. send_staging_sms_event s i confirm sms_client t others clk d = (r, d', calls) \<longrightarrow>
      length (real_sends calls) \<le> 1 \<and>
      (\<forall>ch to m. Real_Send ch to m \<in> set calls \<longrightarrow> ch = SMS \<and> to = TWILIO_SMS_SMOKE_TO_NUMBER s)) \<and>
    (\<forall>r d' calls. send_staging_voice_event s i confirm ok voice_client t others clk d = (r, d', calls) \<longrightarrow>
      length (real_sends calls) \<le> 1 \<and>
      (\<forall>ch to m. Real_Send ch to m \<in> set calls \<longrightarrow> ch = VOICE \<and> to = TWILIO_VOICE_SMOKE_TO_NUMBER s))"
proof -
  have sends: "length (real_sends calls) \<le> 1 \<and>
      (\<forall>ch' to m. Real_Send ch' to m \<in> set calls \<longrightarrow> ch' = ch \<and> to = number)"
    if "staging_calls i d others clk ch number calls" for ch number calls
    using that unfolding staging_calls_def
  proof (elim disjE exE conjE)
    fix env e p
    assume e: "get_event i d = Some e" "ev_channel e = ch" "get_phone (ev_phone_number e) d = Some p" "ph_number p = number"
      and calls: "calls = snd (snd (deliver_scheduled_event i env None clk (others d)))"
    obtain r d' where run: "deliver_scheduled_event i env None clk (others d) = (r, d', calls)"
      using calls by (metis prod.collapse)
    have "get_event i (others d) = Some e" "get_phone (ev_phone_number e) (others d) = Some p" using assms e by simp_all
    with deliver_calls [OF run] e show ?thesis by auto
  qed simp
  show ?thesis using sends staging_sms_calls staging_voice_calls by (metis snd_conv)
qed

text \<open>A server on which no variable is set.\<close>

definition empty_environment :: env_reader where
  "empty_environment = \<lparr>er_str = \<lambda>_. None, er_bool = \<lambda>_. None, er_int = \<lambda>_. None, er_float = \<lambda>_. None,
     er_list = \<lambda>_. None, er_db_url = \<lambda>_. Inr (), er_base_dir = ''/srv''\<rparr>"

definition default_settings :: settings where
  "default_settings = (case base_settings empty_environment of Inr s \<Rightarrow> s | Inl _ \<Rightarrow> undefined)"

lemma base_settings_default: "base_settings empty_environment = Inr default_settings"
  by (simp add: default_settings_def base_settings_def empty_environment_def read_database_parts_def choose_database_def
      all_database_parts_def env_defs Let_def)

lemma default_settings_values:
  "TWILIO_SMS_SMOKE_ENABLED default_settings = False" "TWILIO_VOICE_SMOKE_ENABLED default_settings = False"
  "DELIVERY_REAL_DISPATCH_ENABLED default_settings = False" "DELIVERY_REAL_WORKER_ENABLED default_settings = False"
  "worker_settings_ok default_settings" "validate_settings default_settings = Inr ()"
  by (simp_all add: default_settings_def base_settings_def empty_environment_def read_database_parts_def choose_database_def
      all_database_parts_def env_defs Let_def worker_settings_ok_def validate_settings_Inr)

lemma real_delivery_needs_opt_in_witness:
  "real_sends (snd (snd (dispatch_due_events_command default_settings None None True (\<lambda>_. sample_world) (\<lambda>n. int n) (\<lambda>_. False)
     (\<lambda>n. int n) sample_db))) = []"
  using real_delivery_needs_opt_in [where s = default_settings and n = None and g = None and allow = True and
      worlds = "\<lambda>_. sample_world" and observed = "\<lambda>n. int n" and locked = "\<lambda>_. False" and clk = "\<lambda>n. int n" and d = sample_db,
      THEN conjunct2, THEN conjunct2, THEN conjunct2, THEN conjunct1]
    default_settings_values(3) by simp

text \<open>A staging server with the clients of the sample world.\<close>

definition staging_settings :: settings where
  "staging_settings = default_settings\<lparr>TWILIO_ACCOUNT_SID := ''AC1'', TWILIO_AUTH_TOKEN := ''token'',
     TWILIO_VOICE_FROM_NUMBER := ''+14155550198'', TWILIO_VOICE_STATUS_CALLBACK_URL := ''https://w.example/s/'',
     TWILIO_VOICE_ACTION_CALLBACK_URL := ''https://w.example/a/'', TWILIO_VOICE_SMOKE_ENABLED := True,
     TWILIO_VOICE_SMOKE_TO_NUMBER := ''+14155550101'', DELIVERY_QUEUE_URL := ''q'', WEATHER_API_KEY := ''k''\<rparr>"

definition sample_staging :: "string outcome" where
  "sample_staging = send_staging_voice_event staging_settings 2 True (\<lambda>_. False) (tw_voice_client sample_world) 0 (\<lambda>d. d)
     (\<lambda>n. seconds 2000 + int n) sample_db"

lemma staging_sends_only_to_authorized_witness:
  "list_all (\<lambda>c. case c of Real_Send ch to m \<Rightarrow> to = ''+14155550101'' | _ \<Rightarrow> True) (snd (snd sample_staging))"
proof -
  obtain r d' calls where run: "sample_staging = (r, d', calls)" by (metis prod_cases3)
  then show ?thesis
    using staging_sends_only_to_authorized [where others = "\<lambda>d. d" and s = staging_settings and i = 2 and d = sample_db and
        confirm = True and ok = "\<lambda>_. False" and voice_client = "tw_voice_client sample_world" and t = 0 and
        clk = "\<lambda>n. seconds 2000 + int n"]
    by (force simp: sample_staging_def staging_settings_def list_all_iff split: call_made.split)
qed

lemma sample_staging_sends:
  "fst sample_staging = Inr ''Event 2 finished with status submitted.''"
  "map (\<lambda>c. case c of Real_Send ch to m \<Rightarrow> (ch, to)) (real_sends (snd (snd sample_staging))) = [(VOICE, ''+14155550101'')]"
  by code_simp+

section \<open>The worker\<close>

text \<open>C31. The worker command: with \<open>--once\<close> it ends after at most one poll; otherwise it never returns, it runs
  until an exception ends it. Whatever happens, the database stays well-formed if the others keep it so.
  With a batch size and a grace period in range (which the command does not check), the exception is a
  refusal before the first poll, an unavailable queue, a reply that SQS does not send, a value the database
  refuses, or a message nested too deeply.\<close>

theorem worker_runs:
  assumes "wf_db d" and "\<forall>n d. wf_db d \<longrightarrow> wf_db (pe_meanwhile (pes n) d)" and "worker_settings_ok s"
    and "\<forall>n k. in_datetime_range (pe_clock (pes n) k 0 - minutes (DELIVERY_MISSED_GRACE_MINUTES s))"
  shows "(once \<and> 0 < fuel \<longrightarrow> run_delivery_worker fuel s once allow rt client pes d q \<noteq> None) \<and>
    (\<forall>r printed d' q' calls. run_delivery_worker fuel s once allow rt client pes d q = Some (r, printed, d', q', calls) \<longrightarrow>
       wf_db d' \<and> (r = Inr () \<longrightarrow> once) \<and> (once \<longrightarrow> length printed \<le> 1) \<and>
       (\<forall>x. r = Inl x \<longrightarrow> worker_errors x \<or>
          exn_class x \<in> {CommandError, QueueExn QueueConfigurationError, WeatherExn WeatherConfigurationError}))"
proof (cases rule: run_delivery_worker_cases [of fuel s once allow rt client pes d q])
  case (refused x)
  with assms(1) show ?thesis by auto
next
  case (running provider)
  let ?poll = "worker_poll s allow rt (sqs_queue (DELIVERY_QUEUE_URL s) client) provider"
  have keeps: "\<forall>n d q. wf_db d \<longrightarrow> (case ?poll (pes n) d q of
      (r, d', _, calls) \<Rightarrow> wf_db d' \<and> True \<and> (\<forall>x. r = Inl x \<longrightarrow> worker_errors x))"
    using worker_poll_keeps [OF running(2) assms(3)] assms(2,4) by (fastforce split: prod.split)
  have "wf_db d' \<and> (r = Inr () \<longrightarrow> once) \<and> (once \<longrightarrow> length printed \<le> 1) \<and> (\<forall>x. r = Inl x \<longrightarrow> worker_errors x)"
    if "worker_loop fuel once ?poll pes [] d q [] = Some (r, printed, d', q', calls)" for r printed d' q' calls
    using worker_loop_invariant [OF keeps _ assms(1) TrueI that] by simp
  moreover have "once \<and> 0 < fuel \<longrightarrow> worker_loop fuel once ?poll pes [] d q [] \<noteq> None"
    using worker_loop_once by auto
  ultimately show ?thesis unfolding running(1) by blast
qed

definition sample_poll :: poll_env where
  "sample_poll = \<lparr>pe_meanwhile = \<lambda>d. d, pe_http = \<lambda>_ _ _ _. HttpTimeout, pe_twilio = \<lambda>_. sample_world,
     pe_clock = \<lambda>_ n. seconds 1000 + int n\<rparr>"

lemma worker_runs_witness:
  "run_delivery_worker 1 staging_settings True False \<lparr>jr_limit = 100, jr_floats = sample_floats\<rparr> sample_sqs
     (\<lambda>_. sample_poll) sample_db 0 \<noteq> None"
proof -
  have "worker_settings_ok staging_settings" "DELIVERY_MISSED_GRACE_MINUTES staging_settings = 15"
    by (simp_all add: staging_settings_def worker_settings_ok_def default_settings_def base_settings_def
        empty_environment_def read_database_parts_def choose_database_def all_database_parts_def env_defs Let_def)
  then have "True \<and> 0 < (1::nat) \<longrightarrow> ?thesis"
    by (intro worker_runs [OF wf_sample_db, THEN conjunct1]) (simp_all add: sample_poll_def in_datetime_range_def MAX_DATETIME_def)
  then show ?thesis by simp
qed

section \<open>Settings\<close>

text \<open>C32. What is not configured is off, and production fails closed: a flag for real delivery is on only if its
  variable says so; production settings exist only with a secret key and hosts from the environment and a
  database from a URL or from its four parts (never the local file), without debugging and with secure
  cookies.\<close>

theorem settings_fail_safe:
  shows "(base_settings env = Inr s \<longrightarrow>
      (TWILIO_SMS_SMOKE_ENABLED s \<longrightarrow> er_bool env ''TWILIO_SMS_SMOKE_ENABLED'' = Some (Inr True)) \<and>
      (TWILIO_VOICE_SMOKE_ENABLED s \<longrightarrow> er_bool env ''TWILIO_VOICE_SMOKE_ENABLED'' = Some (Inr True)) \<and>
      (DELIVERY_REAL_DISPATCH_ENABLED s \<longrightarrow> er_bool env ''DELIVERY_REAL_DISPATCH_ENABLED'' = Some (Inr True)) \<and>
      (DELIVERY_REAL_WORKER_ENABLED s \<longrightarrow> er_bool env ''DELIVERY_REAL_WORKER_ENABLED'' = Some (Inr True)) \<and>
      (DEBUG s \<longrightarrow> er_bool env ''DJANGO_DEBUG'' = Some (Inr True))) \<and>
    (production_settings env = Inr p \<longrightarrow> \<not> DEBUG p \<and> SESSION_COOKIE_SECURE p \<and> CSRF_COOKIE_SECURE p \<and>
      er_str env ''DJANGO_SECRET_KEY'' = Some (SECRET_KEY p) \<and> er_list env ''DJANGO_ALLOWED_HOSTS'' = Some (ALLOWED_HOSTS p) \<and>
      (if DATABASE_URL (DATABASE_PARTS p) \<noteq> [] then DATABASES p = Url_Config (DATABASE_URL (DATABASE_PARTS p))
       else all_database_parts (DATABASE_PARTS p) \<and> DATABASES p = Postgres (DATABASE_HOST (DATABASE_PARTS p))
         (DATABASE_NAME (DATABASE_PARTS p)) (DATABASE_USER (DATABASE_PARTS p)) (DATABASE_PASSWORD (DATABASE_PARTS p))
         (DATABASE_PORT (DATABASE_PARTS p))))"
proof (intro conjI impI)
  assume base: "base_settings env = Inr s"
  note flags = base_settings_flags [OF base, unfolded env_bool_def env_default_def]
  show "TWILIO_SMS_SMOKE_ENABLED s \<Longrightarrow> er_bool env ''TWILIO_SMS_SMOKE_ENABLED'' = Some (Inr True)"
    and "TWILIO_VOICE_SMOKE_ENABLED s \<Longrightarrow> er_bool env ''TWILIO_VOICE_SMOKE_ENABLED'' = Some (Inr True)"
    and "DELIVERY_REAL_DISPATCH_ENABLED s \<Longrightarrow> er_bool env ''DELIVERY_REAL_DISPATCH_ENABLED'' = Some (Inr True)"
    and "DELIVERY_REAL_WORKER_ENABLED s \<Longrightarrow> er_bool env ''DELIVERY_REAL_WORKER_ENABLED'' = Some (Inr True)"
    and "DEBUG s \<Longrightarrow> er_bool env ''DJANGO_DEBUG'' = Some (Inr True)"
    using flags by (simp_all split: option.splits)
next
  assume "production_settings env = Inr p"
  then obtain s key hosts b n where base: "base_settings env = Inr s"
    and given: "er_str env ''DJANGO_SECRET_KEY'' = Some key" "er_list env ''DJANGO_ALLOWED_HOSTS'' = Some hosts"
    and db: "DATABASE_URL (DATABASE_PARTS s) \<noteq> [] \<or> all_database_parts (DATABASE_PARTS s)"
    and p: "p = settings.extend (s\<lparr>DEBUG := False, SECRET_KEY := key, ALLOWED_HOSTS := hosts\<rparr>)
         (production_settings.fields b True True n True True True ''same-origin'' ''DENY'' (''HTTP_X_FORWARDED_PROTO'', ''https''))"
    by (auto simp: production_settings_def split: if_splits)
  have fields: "DEBUG p = False" "SESSION_COOKIE_SECURE p" "CSRF_COOKIE_SECURE p" "SECRET_KEY p = key" "ALLOWED_HOSTS p = hosts"
    "DATABASE_PARTS p = DATABASE_PARTS s" "DATABASES p = DATABASES s"
    unfolding p by (simp_all add: settings.defs production_settings.defs)
  then show "\<not> DEBUG p" "SESSION_COOKIE_SECURE p" "CSRF_COOKIE_SECURE p"
    and "er_str env ''DJANGO_SECRET_KEY'' = Some (SECRET_KEY p)" "er_list env ''DJANGO_ALLOWED_HOSTS'' = Some (ALLOWED_HOSTS p)"
    using given by simp_all
  show "if DATABASE_URL (DATABASE_PARTS p) \<noteq> [] then DATABASES p = Url_Config (DATABASE_URL (DATABASE_PARTS p))
       else all_database_parts (DATABASE_PARTS p) \<and> DATABASES p = Postgres (DATABASE_HOST (DATABASE_PARTS p))
         (DATABASE_NAME (DATABASE_PARTS p)) (DATABASE_USER (DATABASE_PARTS p)) (DATABASE_PASSWORD (DATABASE_PARTS p))
         (DATABASE_PORT (DATABASE_PARTS p))"
    using base_settings_flags(6) [OF base] db
    by (auto simp: fields choose_database_def split: if_splits)
qed

lemma settings_fail_safe_witness: "\<not> DELIVERY_REAL_WORKER_ENABLED default_settings"
  using settings_fail_safe [of empty_environment default_settings] base_settings_default by (simp add: empty_environment_def)

end
