(* ===== verification/Processes.thy ===== *)
theory Processes
  imports Receivers Accounts_Properties Delivery_Properties Queue_Properties
begin

text \<open>
  The program as concurrent processes on one database. The delivery services are not atomic: a claim is
  one transaction, the calls happen outside any transaction, the recording is another. Here each of these
  is one step of a process; between any two of them other processes and the users' requests may act, and a
  process may die at any point.
\<close>

section \<open>Transactions of the users\<close>

text \<open>
  One committed transaction of a request, a callback, a message, an administrator's cancellation or an
  account service; what it returns does not matter here.
\<close>

inductive user_step :: "db \<Rightarrow> db \<Rightarrow> bool" where
  create: "create_scheduled_event user i z dt ch clk d = Inr (e, d') \<Longrightarrow> user_step d d'"
| cancel: "cancel_user_scheduled_event i user t clk d = Inr (e, d') \<Longrightarrow> user_step d d'"
| cancel_any: "cancel_scheduled_event i t clk d = Inr (e, d') \<Longrightarrow> user_step d d'"
| reschedule: "reschedule_user_scheduled_event i user dt_opt now clk d = Inr (e, d') \<Longrightarrow> user_step d d'"
| change_channel: "change_user_scheduled_event_channel i user ch clk d = Inr (e, d') \<Longrightarrow> user_step d d'"
| voice_status: "record_voice_status_callback sid s n t clk d = Inr (u, d') \<Longrightarrow> user_step d d'"
| voice_menu: "apply_voice_menu_action sid digit t clk d = Inr (r, d') \<Longrightarrow> user_step d d'"
| inbound_sms: "apply_inbound_sms_command fromiso sid sender body t clk d = Inr (c, d') \<Longrightarrow> user_step d d'"
| enrol_phone: "create_phone_number user number clk d = Inr (p, d') \<Longrightarrow> user_step d d'"
| verify_phone: "mark_phone_verified i number v now' d = Inr (w, d') \<Longrightarrow> user_step d d'"

text \<open>
  None of them touches an event that a worker has claimed or finished, nor the attempts of one being
  processed.
\<close>

definition undisturbed :: "db \<Rightarrow> db \<Rightarrow> bool" where
  "undisturbed d d' \<longleftrightarrow>
     (\<forall>i e. get_event i d = Some e \<and> ev_status e \<noteq> E_SCHEDULED \<longrightarrow>
        get_event i d' = Some e \<and> (ev_status e = E_PROCESSING \<longrightarrow> attempts_of i d' = attempts_of i d))"

lemma undisturbed_refl [simp]: "undisturbed d d"
  by (simp add: undisturbed_def)

lemma undisturbed_events:
  assumes "\<And>i e. get_event i d = Some e \<Longrightarrow> ev_status e \<noteq> E_SCHEDULED \<Longrightarrow> get_event i d' = Some e"
    and "db_attempts d' = db_attempts d"
  shows "undisturbed d d'"
  using assms by (simp add: undisturbed_def attempts_of_def)

lemma undisturbed_add_event: "undisturbed d (d\<lparr>db_events := snd (insert_row mk (db_events d))\<rparr>)"
proof -
  have "find p xs = Some y \<Longrightarrow> find p (xs @ ys) = Some y" for p xs ys and y :: scheduled_event
    by (induction xs) auto
  then show ?thesis
    by (intro undisturbed_events) (simp_all add: get_event_def find_row_def insert_row_simps)
qed

lemma undisturbed_put:
  assumes "get_event i d = Some e" and "ev_status e = E_SCHEDULED" and "\<And>r. ev_id (f r) = ev_id r"
  shows "undisturbed d (put_event i f d)"
  using assms by (intro undisturbed_events) (auto simp: events.get_put)

context pending_change
begin

lemma undisturbed_change:
  assumes "change i user d = Inr (e', d')"
  shows "undisturbed d d'"
  using owned_and_scheduled [OF assms] only_this_event [OF assms] by (auto intro: undisturbed_put)

end

text \<open>A submitted attempt does not belong to an event being processed.\<close>

lemma submitted_not_processing:
  assumes wf: "wf_db d" and a: "a \<in> set (rows (db_attempts d))" "at_status a = A_SUBMITTED"
    and e: "get_event i d = Some e" "ev_status e = E_PROCESSING"
  shows "at_event a \<noteq> i"
proof
  assume "at_event a = i"
  then have mem: "a \<in> set (attempts_of i d)" using a(1) by (simp add: attempts_of_member)
  have "attempts_ok E_PROCESSING (attempts_of i d)" using wf_db_attempts_ok [OF wf e(1)] e(2) by simp
  then have "\<forall>b \<in> set (butlast (attempts_of i d)). at_status b = A_FAILED"
    and "at_status (last (attempts_of i d)) \<noteq> A_SUBMITTED"
    by (auto simp: attempts_ok_def retry_marked_def)
  then show False
    using mem a(2) by (cases "attempts_of i d" rule: rev_cases) auto
qed

lemma undisturbed_put_attempt:
  assumes wf: "wf_db d" and a: "a \<in> set (rows (db_attempts d))" "at_status a = A_SUBMITTED"
    and d1: "undisturbed d d1" "wf_db d1" "db_attempts d1 = db_attempts d"
    and g: "\<And>r. at_id (g r) = at_id r" "\<And>r. at_event (g r) = at_event r"
  shows "undisturbed d (put_attempt (at_id a) g d1)"
proof -
  have row: "get_attempt (at_id a) d1 = Some a"
    using wf_get_attempt_of_member [OF wf a(1)] d1(3) by (simp add: get_attempt_def)
  have "attempts_of i (put_attempt (at_id a) g d1) = attempts_of i d"
    if "get_event i d = Some e" "ev_status e = E_PROCESSING" for i e
  proof -
    have "at_event a \<noteq> i" by (rule submitted_not_processing [OF wf a that])
    then have "attempts_of i (put_attempt (at_id a) g d1) = attempts_of i d1"
      using attempts_of_put_other [of d1 g "at_id a" a i, OF d1(2) _ row] g by simp
    then show ?thesis using d1(3) by (simp add: attempts_of_def)
  qed
  then show ?thesis using d1(1) by (simp add: undisturbed_def)
qed

lemma change_undisturbed:
  "menu_change digit user t clk d out tgt d1 \<Longrightarrow> undisturbed d d1"
  "sms_decides command sf sender t clk d outcome target d1 \<Longrightarrow> undisturbed d d1"
proof -
  assume "menu_change digit user t clk d out tgt d1"
  then show "undisturbed d d1"
    using cancelling.undisturbed_change channel_change.undisturbed_change
    by (fastforce simp: menu_change_def split: option.splits if_splits)
next
  assume "sms_decides command sf sender t clk d outcome target d1"
  then show "undisturbed d d1"
    using sms_changing.undisturbed_change
    by (fastforce simp: sms_decides_def split: option.splits if_splits sum.splits prod.splits)
qed

lemma user_step_safe:
  assumes "user_step d d'" and wf: "wf_db d"
  shows "wf_db d' \<and> undisturbed d d'"
  using assms(1)
proof cases
  case (create user i z dt ch clk e)
  then show ?thesis
    using create_scheduled_event_wf [OF wf create]
    by (cases rule: create_scheduled_event_Inr) (simp_all add: undisturbed_add_event)
next
  case (cancel i user t clk e)
  then show ?thesis using cancelling.keeps_wf [OF wf cancel] cancelling.undisturbed_change [OF cancel] by simp
next
  case (cancel_any i t clk e)
  then show ?thesis
    using cancel_scheduled_event_wf [OF wf cancel_any] events.get_key
    by (auto simp: cancel_scheduled_event_def cancel_locked_event_Inr_iff save_event_def intro!: undisturbed_put)
next
  case (reschedule i user dt_opt now clk e)
  then show ?thesis using rescheduling.keeps_wf [OF wf reschedule] rescheduling.undisturbed_change [OF reschedule] by simp
next
  case (change_channel i user ch clk e)
  then show ?thesis using channel_change.keeps_wf [OF wf change_channel] channel_change.undisturbed_change [OF change_channel] by simp
next
  case (voice_status sid s n t clk u)
  then show ?thesis
    using status_callback_wf [OF wf voice_status]
    by (cases rule: status_callback_Inr)
      (auto intro!: undisturbed_put_attempt [OF wf] dest: get_voice_attempt_Inr simp: wf)
next
  case (voice_menu sid digit t clk r)
  then show ?thesis
    using menu_action_wf [OF wf voice_menu] wf
  proof (cases rule: menu_action_Inr [OF wf voice_menu])
    case (2 a e out tgt d1)
    note fr = menu_change_frame [OF wf 2(5)]
    have "undisturbed d d'" unfolding 2(6)
      by (rule undisturbed_put_attempt [OF wf get_voice_attempt_Inr(1,3) [OF 2(2)] change_undisturbed(1) [OF 2(5)] fr(1,2)]) simp_all
    then show ?thesis using menu_action_wf [OF wf voice_menu] by simp
  qed simp
next
  case (inbound_sms fromiso sid sender body t clk c)
  show ?thesis
  proof (cases rule: apply_sms_cases [OF wf, of sid fromiso sender body t clk])
    case (4 command sf outcome target d2)
    let ?d1 = "with_new_command sid (or_now t (clk 0)) d"
    have "undisturbed ?d1 d2" by (rule change_undisturbed(2) [OF 4(4)])
    then have "undisturbed d d'"
      using 4(5) inbound_sms by (auto simp: Let_def undisturbed_def with_new_command_simps)
    then show ?thesis using apply_sms_wf [OF wf inbound_sms] by simp
  qed (use inbound_sms wf in simp_all)
next
  case (enrol_phone user number clk p)
  then show ?thesis
    using create_phone_number_wf [OF wf enrol_phone]
    by (auto simp: create_phone_number_def Let_def insert_row_def intro!: undisturbed_events)
      (simp_all add: get_event_def)
next
  case (verify_phone i number v now' w)
  then show ?thesis
    using mark_phone_verified_wf [OF wf verify_phone]
    by (cases rule: mark_phone_verified_Inr) (auto intro!: undisturbed_events)
qed

section \<open>Delivery processes\<close>

text \<open>
  A process is between deliveries, or holds claims it has yet to try (the dispatcher holds a batch), or has
  made its calls for one claim and has yet to record the result. A direct delivery and a queued one record
  differently.
\<close>

datatype mode = Direct | Queued int int

datatype process =
    Idle
  | Claimed mode "claimed_delivery list"
  | Called mode claimed_delivery delivery_result "claimed_delivery list"

record world =
  wo_db :: db
  wo_processes :: "nat \<Rightarrow> process"
  wo_sent :: "(row_id \<times> call_made) list"

definition resume :: "mode \<Rightarrow> claimed_delivery list \<Rightarrow> process" where
  "resume m cs = (if cs = [] then Idle else Claimed m cs)"

definition finish_direct ::
  "clock \<Rightarrow> claimed_delivery \<Rightarrow> delivery_result \<Rightarrow> call_made list \<Rightarrow> db \<Rightarrow> delivery_attempt outcome" where
  "finish_direct clk c r calls d =
     (case r of
        Delivered w sid \<Rightarrow> committed (record_delivered c w sid (clk 0) (clk 1) d) d calls
      | Weather_Failed x \<Rightarrow> recorded (record_failed c x None (clk 0) (clk 1) d) (Inl x) d calls
      | Send_Failed x \<Rightarrow> recorded (record_failed c x None (clk 0) (clk 1) d) (Inl x) d calls)"

definition record_result :: "mode \<Rightarrow> clock \<Rightarrow> claimed_delivery \<Rightarrow> delivery_result \<Rightarrow> db \<Rightarrow> db" where
  "record_result m clk c r d =
     (case m of
        Direct \<Rightarrow> fst (snd (finish_direct clk c r [] d))
      | Queued rc max_rc \<Rightarrow> fst (snd (finish_queued rc max_rc clk c r [] d)))"

definition sends_of :: "claimed_delivery \<Rightarrow> call_made list \<Rightarrow> (row_id \<times> call_made) list" where
  "sends_of c calls = map (Pair (ev_id (cl_event c))) (real_sends calls @ demo_sends calls)"

text \<open>
  The steps: a user's transaction; the four ways to claim (for one event, for a batch that leaves out the
  rows others hold, for a queue message that is processed or answered); the calls of one claim; the
  recording; and the death of a process, which loses what it held but nothing it committed.
\<close>

inductive step :: "world \<Rightarrow> world \<Rightarrow> bool" where
  user: "user_step (wo_db w) d' \<Longrightarrow> step w (w\<lparr>wo_db := d'\<rparr>)"
| claim: "wo_processes w p = Idle \<Longrightarrow> claim_event i now clk (wo_db w) = Inr (Some c, d') \<Longrightarrow>
    step w (w\<lparr>wo_db := d', wo_processes := (wo_processes w)(p := Claimed Direct [c])\<rparr>)"
| claim_batch: "wo_processes w p = Idle \<Longrightarrow>
    claim_due_delivery_batch now n grace incl locked clk (wo_db w) = Inr (b, d') \<Longrightarrow>
    step w (w\<lparr>wo_db := d', wo_processes := (wo_processes w)(p := resume Direct (cb_deliveries b))\<rparr>)"
| claim_queued: "wo_processes w p = Idle \<Longrightarrow>
    claim_queued_event i now grace allow clk (wo_db w) = Inr (proceed c, d') \<Longrightarrow>
    step w (w\<lparr>wo_db := d', wo_processes := (wo_processes w)(p := Claimed (Queued rc max_rc) [c])\<rparr>)"
| answer_queued: "claim_queued_event i now grace allow clk (wo_db w) = Inr (act a, d') \<Longrightarrow>
    step w (w\<lparr>wo_db := d'\<rparr>)"
| call: "wo_processes w p = Claimed m (c # cs) \<Longrightarrow> attempt_delivery env c = (r, calls) \<Longrightarrow>
    step w (w\<lparr>wo_processes := (wo_processes w)(p := Called m c r cs), wo_sent := wo_sent w @ sends_of c calls\<rparr>)"
| store: "wo_processes w p = Called m c r cs \<Longrightarrow>
    step w (w\<lparr>wo_db := record_result m clk c r (wo_db w), wo_processes := (wo_processes w)(p := resume m cs)\<rparr>)"
| die: "step w (w\<lparr>wo_processes := (wo_processes w)(p := Idle)\<rparr>)"

inductive_cases step_cases: "step w w'"

text \<open>A step concerns one process, and what was sent stays sent.\<close>

lemma step_local: "step w w' \<Longrightarrow> \<exists>p. \<forall>q. q \<noteq> p \<longrightarrow> wo_processes w' q = wo_processes w q"
  by (erule step_cases) auto

lemma step_sent: "step w w' \<Longrightarrow> \<exists>s. wo_sent w' = wo_sent w @ s"
  by (erule step_cases) auto

section \<open>What the steps keep\<close>

fun held :: "process \<Rightarrow> claimed_delivery list" where
  "held Idle = []"
| "held (Claimed m cs) = cs"
| "held (Called m c r cs) = c # cs"

text \<open>Claims nothing was sent for yet: those not tried, and the one whose weather lookup failed.\<close>

fun unsent :: "process \<Rightarrow> claimed_delivery list" where
  "unsent Idle = []"
| "unsent (Claimed m cs) = cs"
| "unsent (Called m c r cs) = (case r of Weather_Failed x \<Rightarrow> c # cs | _ \<Rightarrow> cs)"

definition ids :: "claimed_delivery list \<Rightarrow> row_id list" where
  "ids cs = map (\<lambda>c. ev_id (cl_event c)) cs"

definition sends_for :: "row_id \<Rightarrow> world \<Rightarrow> (row_id \<times> call_made) list" where
  "sends_for i w = filter (\<lambda>s. fst s = i) (wo_sent w)"

definition world_ok :: "world \<Rightarrow> bool" where
  "world_ok w \<longleftrightarrow> wf_db (wo_db w) \<and>
     (\<forall>p. \<forall>c \<in> set (held (wo_processes w p)). holds_claim c (wo_db w)) \<and>
     (\<forall>p. distinct (ids (held (wo_processes w p)))) \<and>
     (\<forall>p q. p \<noteq> q \<longrightarrow> set (ids (held (wo_processes w p))) \<inter> set (ids (held (wo_processes w q))) = {}) \<and>
     (\<forall>p. \<forall>c \<in> set (unsent (wo_processes w p)). sends_for (ev_id (cl_event c)) w = []) \<and>
     (\<forall>i. length (sends_for i w) \<le> 1) \<and>
     (\<forall>i. sends_for i w \<noteq> [] \<longrightarrow> settled i (wo_db w))"

lemma sends_for_update [simp]:
  "sends_for i (w\<lparr>wo_db := d\<rparr>) = sends_for i w" "sends_for i (w\<lparr>wo_processes := ps\<rparr>) = sends_for i w"
  "sends_for i (w\<lparr>wo_db := d, wo_processes := ps\<rparr>) = sends_for i w"
  by (simp_all add: sends_for_def)

lemma held_resume [simp]: "held (resume m cs) = cs" "unsent (resume m cs) = cs"
  by (simp_all add: resume_def)

lemma ids_member: "c \<in> set cs \<Longrightarrow> ev_id (cl_event c) \<in> set (ids cs)"
  by (simp add: ids_def)

lemma unsent_subset: "set (unsent p) \<subseteq> set (held p)"
  by (cases p) (auto split: delivery_result.splits)

lemma holds_claim_settled: "holds_claim c d \<Longrightarrow> settled (ev_id (cl_event c)) d"
  by (auto simp: holds_claim_def settled_def retry_marked_def)

lemma settled_frame: "settled i d \<Longrightarrow> only_events S d d' \<Longrightarrow> i \<notin> S \<Longrightarrow> settled i d'"
  by (simp add: settled_def only_events_def)

lemma settled_undisturbed: "settled i d \<Longrightarrow> undisturbed d d' \<Longrightarrow> settled i d'"
  unfolding settled_def undisturbed_def by metis

lemma holds_claim_undisturbed: "holds_claim c d \<Longrightarrow> undisturbed d d' \<Longrightarrow> holds_claim c d'"
  unfolding holds_claim_def undisturbed_def by fastforce

text \<open>A claim takes events that are not settled, and so neither held by another process nor sent for.\<close>

lemma claim_event_takes:
  assumes wf: "wf_db d" and run: "claim_event i now clk d = Inr (Some c, d')"
  shows "wf_db d' \<and> only_event i d d' \<and> holds_claim c d' \<and> ev_id (cl_event c) = i \<and> \<not> settled i d"
proof -
  from run obtain e p where e: "get_event i d = Some e" "ev_status e = E_SCHEDULED"
    and c: "claim_locked_event (e, p) now clk d = Inr (c, d')"
    by (auto simp: claim_event_def with_phone_def Let_def bind_require require_scheduled_def split: if_splits)
  obtain c1 d1 where "claim_locked_event (e, p) now clk d = Inr (c1, d1)" "wf_db d1" "only_event i d d1" "holds_claim c1 d1"
    "cl_event c1 = claimed_row now (clk 0) e"
    by (rule claim_locked_event_succeeds [OF wf e])
  with c e events.get_key [OF e(1)] show ?thesis by (auto simp: settled_def)
qed

lemma claim_batch_takes:
  assumes wf: "wf_db d" and run: "claim_due_delivery_batch now n grace incl locked clk d = Inr (b, d')"
  obtains S where "wf_db d'" "only_events S d d'" "\<forall>c \<in> set (cb_deliveries b). holds_claim c d'"
    "distinct (ids (cb_deliveries b))" "set (ids (cb_deliveries b)) \<subseteq> S" "\<forall>i \<in> S. \<not> settled i d"
proof -
  note c = claim_batch_ids [OF wf run]
  let ?S = "set (map (\<lambda>c. ev_id (cl_event c)) (cb_deliveries b) @ map at_event (cb_missed_attempts b))"
  have "\<not> settled i d" if i: "i \<in> ?S" for i
  proof -
    obtain row where "row \<in> set (batch_rows now n incl locked d)" "i = ev_id (fst row)"
      using i unfolding c(4) by blast
    with batch_rows_mem [OF wf this(1)] show ?thesis by (simp add: settled_def eligible_def)
  qed
  then show thesis
    using c(3,7-9) by (intro that [of ?S]) (auto simp: ids_def)
qed

lemma claim_queued_takes:
  assumes wf: "wf_db d" and run: "claim_queued_event i now grace allow clk d = Inr (qc, d')"
  shows "wf_db d' \<and> only_event i d d' \<and> (\<forall>c. qc = proceed c \<longrightarrow> holds_claim c d' \<and> ev_id (cl_event c) = i \<and> \<not> settled i d) \<and>
    (settled i d \<longrightarrow> d' = d)"
proof -
  note impl = claim_queued_Inr [OF wf run]
  have "d' = d \<and> (\<forall>c. qc \<noteq> proceed c)" if "settled i d"
    using impl(3) settled_decision [OF that, of now grace allow] by (auto simp: implements_decision_def)
  moreover have "holds_claim c d' \<and> ev_id (cl_event c) = i" if "qc = proceed c" for c
    by (rule implements_decision_cases [OF impl(3)]) (use that in \<open>auto simp: proceed_def act_def\<close>)
  ultimately show ?thesis using impl(1,2) by blast
qed

lemma world_okD:
  assumes "world_ok w"
  shows world_ok_wf: "wf_db (wo_db w)"
    and world_ok_held: "c \<in> set (held (wo_processes w p)) \<Longrightarrow> holds_claim c (wo_db w)"
    and world_ok_distinct: "distinct (ids (held (wo_processes w p)))"
    and world_ok_apart: "p \<noteq> q \<Longrightarrow> x \<in> set (ids (held (wo_processes w p))) \<Longrightarrow> x \<notin> set (ids (held (wo_processes w q)))"
    and world_ok_unsent: "c \<in> set (unsent (wo_processes w p)) \<Longrightarrow> sends_for (ev_id (cl_event c)) w = []"
    and world_ok_once: "length (sends_for i w) \<le> 1"
    and world_ok_settled: "sends_for i w \<noteq> [] \<Longrightarrow> settled i (wo_db w)"
proof -
  note ok = assms [unfolded world_ok_def]
  show "wf_db (wo_db w)" "length (sends_for i w) \<le> 1" "distinct (ids (held (wo_processes w p)))" using ok by blast+
  show "c \<in> set (held (wo_processes w p)) \<Longrightarrow> holds_claim c (wo_db w)"
    "p \<noteq> q \<Longrightarrow> x \<in> set (ids (held (wo_processes w p))) \<Longrightarrow> x \<notin> set (ids (held (wo_processes w q)))"
    "c \<in> set (unsent (wo_processes w p)) \<Longrightarrow> sends_for (ev_id (cl_event c)) w = []"
    "sends_for i w \<noteq> [] \<Longrightarrow> settled i (wo_db w)" using ok by blast+
qed

text \<open>
  What a transaction of a process does: events outside \<open>S\<close> are left alone, and nothing in \<open>S\<close> was settled.
\<close>

lemma world_ok_claim:
  assumes ok: "world_ok w" and idle: "wo_processes w p = Idle"
    and d': "wf_db d'" "only_events S (wo_db w) d'" "\<forall>i \<in> S. \<not> settled i (wo_db w)"
    and cs: "\<forall>c \<in> set cs. holds_claim c d'" "distinct (ids cs)" "set (ids cs) \<subseteq> S"
  shows "world_ok (w\<lparr>wo_db := d', wo_processes := (wo_processes w)(p := resume m cs)\<rparr>)"
proof -
  let ?ps = "wo_processes w"
  have unsettled: "i \<notin> S" if "settled i (wo_db w)" for i using d'(3) that by blast
  have other: "ev_id (cl_event c) \<notin> S" if "c \<in> set (held (?ps q))" for c q
    using ok that by (intro unsettled holds_claim_settled) (auto simp: world_ok_def)
  have held: "holds_claim c d'" if "c \<in> set (held (?ps q))" for c q
    using ok that by (intro holds_claim_frame [OF _ d'(2) other [OF that]]) (auto simp: world_ok_def)
  have apart: "\<not> (x \<in> set (ids cs) \<and> x \<in> set (ids (held (?ps q))))" for x q
    using other cs(3) by (fastforce simp: ids_def)
  have none: "sends_for (ev_id (cl_event c)) w = []" if "c \<in> set cs" for c
  proof -
    have "\<not> settled (ev_id (cl_event c)) (wo_db w)" using ids_member [OF that] cs(3) d'(3) by blast
    then show ?thesis using ok unfolding world_ok_def by blast
  qed
  have sent: "settled i d'" if "sends_for i w \<noteq> []" for i
    using that ok by (intro settled_frame [OF _ d'(2)] unsettled) (auto simp: world_ok_def)
  show ?thesis
    using ok d'(1) cs(1,2) held apart none sent unfolding world_ok_def
    by (auto simp: idle)
qed

lemma world_ok_user:
  assumes ok: "world_ok w" and d': "wf_db d'" "undisturbed (wo_db w) d'"
  shows "world_ok (w\<lparr>wo_db := d'\<rparr>)"
  using ok d'(1) holds_claim_undisturbed [OF _ d'(2)] settled_undisturbed [OF _ d'(2)]
  by (simp add: world_ok_def sends_for_def)

lemma sends_of_simps:
  "filter (\<lambda>s. fst s = i) (sends_of c calls) = (if i = ev_id (cl_event c) then sends_of c calls else [])"
  "length (sends_of c calls) = length (real_sends calls) + length (demo_sends calls)"
  by (simp_all add: sends_of_def filter_map o_def)

lemma world_ok_call:
  assumes ok: "world_ok w" and p: "wo_processes w p = Claimed m (c # cs)"
    and att: "attempt_delivery env c = (r, calls)"
  shows "world_ok (w\<lparr>wo_processes := (wo_processes w)(p := Called m c r cs), wo_sent := wo_sent w @ sends_of c calls\<rparr>)"
proof -
  let ?w = "w\<lparr>wo_processes := (wo_processes w)(p := Called m c r cs), wo_sent := wo_sent w @ sends_of c calls\<rparr>"
  let ?i = "ev_id (cl_event c)"
  have new: "sends_for i ?w = sends_for i w @ (if i = ?i then sends_of c calls else [])" for i
    by (simp add: sends_for_def sends_of_simps)
  have c: "holds_claim c (wo_db w)" "sends_for ?i w = []"
    using ok p unfolding world_ok_def by (metis held.simps(2) list.set_intros(1), metis unsent.simps(2) list.set_intros(1))
  have held: "held (wo_processes ?w q) = held (wo_processes w q)" for q using p by simp
  have own: "?i \<notin> set (ids cs)" "\<And>q. q \<noteq> p \<Longrightarrow> ?i \<notin> set (ids (held (wo_processes w q)))"
  proof -
    show "?i \<notin> set (ids cs)"
      using ok p unfolding world_ok_def by (metis distinct.simps(2) held.simps(2) ids_def list.simps(9))
    fix q assume "q \<noteq> p"
    then show "?i \<notin> set (ids (held (wo_processes w q)))"
      using ok p unfolding world_ok_def by (fastforce simp: ids_def)
  qed
  have unsent: "sends_for (ev_id (cl_event b)) ?w = []" if b: "b \<in> set (unsent (wo_processes ?w q))" for b q
  proof (cases "q = p")
    case True
    have old: "\<forall>b \<in> set (c # cs). sends_for (ev_id (cl_event b)) w = []"
      using ok p unfolding world_ok_def by (metis unsent.simps(2))
    show ?thesis
    proof (cases "b \<in> set cs")
      case True
      then have "ev_id (cl_event b) \<noteq> ?i" using own(1) ids_member by metis
      with old True show ?thesis by (simp add: new)
    next
      case False
      then obtain x where "b = c" "r = Weather_Failed x"
        using b \<open>q = p\<close> by (auto split: delivery_result.splits)
      then have "sends_of c calls = []" using sends_only_after_weather [of env c x calls] att by (simp add: sends_of_def)
      with old \<open>b = c\<close> show ?thesis by (simp add: new)
    qed
  next
    case False
    then have "b \<in> set (unsent (wo_processes w q))" using b by simp
    moreover from this have "ev_id (cl_event b) \<noteq> ?i"
      using own(2) [OF False] unsent_subset ids_member by (metis subsetD)
    ultimately show ?thesis using ok by (simp add: new world_ok_def)
  qed
  have one: "length (sends_for i ?w) \<le> 1" for i
    using ok c(2) attempt_delivery_calls(1) [OF att] unfolding new by (auto simp: world_ok_def sends_of_simps)
  have sent: "settled i (wo_db w)" if "sends_for i ?w \<noteq> []" for i
    using that ok holds_claim_settled [OF c(1)] unfolding new by (auto simp: world_ok_def split: if_splits)
  show ?thesis
    using ok unsent one sent unfolding world_ok_def held by simp
qed

text \<open>Recording closes one claim: the event it held is settled, unless nothing was sent for it.\<close>

definition closes :: "row_id \<Rightarrow> db \<Rightarrow> db \<Rightarrow> bool" where
  "closes i d d' \<longleftrightarrow> wf_db d' \<and> only_event i d d' \<and> settled i d'"

lemma closed_with_closes:
  assumes "closed_with c a (ended_event st t u (cl_event c)) d d'" and "st \<in> {E_FAILED, E_SUBMITTED, E_SUPPRESSED}"
  shows "closes (ev_id (cl_event c)) d d'"
  using assms by (auto simp: closes_def closed_with_def settled_def)

lemma terminal_status_ends: "event_status_of (terminal_status e) \<in> {E_FAILED, E_SUBMITTED, E_SUPPRESSED}"
  by (simp add: terminal_status_def)

lemma holds_claim_closes: "wf_db d \<Longrightarrow> holds_claim c d \<Longrightarrow> closes (ev_id (cl_event c)) d d"
  using holds_claim_settled by (simp add: closes_def)

lemma record_failed_closes:
  assumes "wf_db d" and "holds_claim c d"
  shows "closes (ev_id (cl_event c)) d (fst (snd (recorded (record_failed c x None t u d) res d [])))"
proof (cases "failure_recordable (class_name (exn_class x)) x")
  case True
  obtain d' where "record_failed c x None t u d = Inr ((), d')"
    "closed_with c (failed_attempt (class_name (exn_class x)) (take 1000 (exn_text x)) t (cl_attempt c))
       (ended_event E_FAILED t u (cl_event c)) d d'"
    using record_failure_held [OF assms, where ec = None and x = x and t = t and u = u] True by auto
  then show ?thesis using closed_with_closes by (simp add: recorded_def)
next
  case False
  then obtain y where "record_failed c x None t u d = Inl y"
    using record_failed_refused [OF assms, of x t u] unfolding class_code_def by metis
  with holds_claim_closes [OF assms] show ?thesis by (simp add: recorded_def)
qed

lemma record_delivered_closes:
  assumes wf: "wf_db d" and held: "holds_claim c d"
  shows "\<exists>out d'. committed (record_delivered c v sid t u d) d [] = (out, d', []) \<and> closes (ev_id (cl_event c)) d d'"
proof (cases "recordable (as_snapshot v) sid d")
  case True
  then have m: "text_storable (render_weather_announcement v)" by (simp add: recordable_def announcement_storable)
  obtain d' where "record_delivered c v sid t u d = Inr (successful_attempt (terminal_status (cl_event c))
      (render_weather_announcement v) (as_snapshot v) sid t (cl_attempt c), d')"
    "closed_with c (successful_attempt (terminal_status (cl_event c)) (render_weather_announcement v) (as_snapshot v) sid t
      (cl_attempt c)) (ended_event (event_status_of (terminal_status (cl_event c))) t u (cl_event c)) d d'"
    by (rule record_success_held [OF wf held terminal_status_terminal True m])
  with closed_with_closes [OF _ terminal_status_ends] show ?thesis by (auto simp: committed_def)
next
  case False
  obtain x where "record_delivered c v sid t u d = Inl x"
    using record_success_refused [OF wf held terminal_status_terminal False] by blast
  with holds_claim_closes [OF assms] show ?thesis by (simp add: committed_def)
qed

lemma record_direct_closes:
  assumes "wf_db d" and "holds_claim c d"
  shows "closes (ev_id (cl_event c)) d (record_result Direct clk c r d)"
proof (cases r)
  case (Delivered v sid)
  with record_delivered_closes [OF assms, of v sid "clk 0" "clk 1"] show ?thesis
    by (auto simp: record_result_def finish_direct_def)
next
  case (Weather_Failed x)
  with record_failed_closes [OF assms] show ?thesis
    by (simp add: record_result_def finish_direct_def)
next
  case (Send_Failed x)
  with record_failed_closes [OF assms] show ?thesis
    by (simp add: record_result_def finish_direct_def)
qed

lemma record_queued_closes:
  assumes wf: "wf_db d" and held: "holds_claim c d" and r: "\<forall>x. r \<noteq> Weather_Failed x"
    and fin: "finish_queued rc max_rc clk c r [] d = (q, d', calls)"
  shows "closes (ev_id (cl_event c)) d d'"
  using wf held fin
proof (cases rule: finish_cases)
  case (delivered v sid)
  then show ?thesis using closed_with_closes [OF _ terminal_status_ends] by (simp add: ended_delivered_def)
next
  case (failed x)
  then show ?thesis using closed_with_closes by (auto simp: ended_failed_def)
qed (use r holds_claim_closes [OF wf held] in auto)

lemma record_result_closes:
  assumes wf: "wf_db d" and held: "holds_claim c d"
  shows "wf_db (record_result m clk c r d) \<and> only_event (ev_id (cl_event c)) d (record_result m clk c r d) \<and>
    ((\<forall>x. r \<noteq> Weather_Failed x) \<longrightarrow> settled (ev_id (cl_event c)) (record_result m clk c r d))"
proof (cases m)
  case Direct
  with record_direct_closes [OF assms, of clk r] show ?thesis by (simp add: closes_def)
next
  case (Queued rc max_rc)
  obtain q d' calls where fin: "finish_queued rc max_rc clk c r [] d = (q, d', calls)" by (metis prod_cases3)
  with Queued finish_frame [OF wf held fin] record_queued_closes [OF wf held _ fin] show ?thesis
    by (simp add: record_result_def closes_def)
qed

lemma world_ok_store:
  assumes ok: "world_ok w" and p: "wo_processes w p = Called m c r cs"
  shows "world_ok (w\<lparr>wo_db := record_result m clk c r (wo_db w), wo_processes := (wo_processes w)(p := resume m cs)\<rparr>)"
proof -
  let ?ps = "wo_processes w" and ?i = "ev_id (cl_event c)" and ?d = "record_result m clk c r (wo_db w)"
  have mine: "held (?ps p) = c # cs" using p by simp
  have "wf_db (wo_db w)" "holds_claim c (wo_db w)" using ok mine unfolding world_ok_def by (auto dest: spec [of _ p])
  note d = record_result_closes [OF this, of m clk r]
  have own: "?i \<notin> set (ids cs)"
    using ok mine unfolding world_ok_def by (metis distinct.simps(2) ids_def list.simps(9))
  have theirs: "?i \<notin> set (ids (held (?ps q)))" if "q \<noteq> p" for q
    using ok mine that unfolding world_ok_def by (fastforce simp: ids_def)
  have held: "holds_claim b ?d" if "b \<in> set (held (?ps q))" "q \<noteq> p \<or> b \<in> set cs" for b q
  proof -
    have "ev_id (cl_event b) \<noteq> ?i" using that own theirs ids_member by metis
    with holds_claim_frame [OF world_ok_held [OF ok that(1)], of "{?i}" ?d] d show ?thesis by simp
  qed
  have cs: "\<forall>b \<in> set cs. holds_claim b ?d" using held [of _ p] mine by simp
  have sent: "settled i ?d" if i: "sends_for i w \<noteq> []" for i
  proof (cases "i = ?i")
    case True
    have "r \<noteq> Weather_Failed x" for x
    proof
      assume "r = Weather_Failed x"
      then have "c \<in> set (unsent (?ps p))" using p by simp
      with ok i True show False unfolding world_ok_def by blast
    qed
    with d True show ?thesis by blast
  next
    case False
    with settled_frame [OF world_ok_settled [OF ok i], of "{?i}" ?d] d show ?thesis by simp
  qed
  have distinct: "distinct (ids cs)" and subset: "x \<in> set (ids cs) \<Longrightarrow> x \<in> set (ids (held (?ps p)))" for x
    using world_ok_distinct [OF ok, of p] by (simp_all add: mine ids_def)
  have quiet: "sends_for (ev_id (cl_event b)) w = []" if "b \<in> set cs" for b
    using world_ok_unsent [OF ok, of b p] that p by (auto split: delivery_result.splits)
  let ?q = "\<lambda>q. held (((?ps)(p := resume m cs)) q)"
  have "holds_claim b ?d" if "b \<in> set (?q q)" for b q
    using that held [of b q] cs by (auto split: if_splits)
  moreover have "distinct (ids (?q q))" for q using distinct world_ok_distinct [OF ok] by simp
  moreover have "set (ids (?q k)) \<inter> set (ids (?q l)) = {}" if "k \<noteq> l" for k l
    using that subset world_ok_apart [OF ok] by (cases "k = p"; cases "l = p") fastforce+
  moreover have "sends_for (ev_id (cl_event b)) w = []" if "b \<in> set (unsent (((?ps)(p := resume m cs)) q))" for b q
    using that quiet world_ok_unsent [OF ok] by (auto split: if_splits)
  ultimately show ?thesis using d sent world_ok_once [OF ok] unfolding world_ok_def by simp
qed

lemma world_ok_die:
  assumes "world_ok w"
  shows "world_ok (w\<lparr>wo_processes := (wo_processes w)(p := Idle)\<rparr>)"
  using assms by (simp add: world_ok_def ids_def)

lemma step_ok:
  assumes "step w w'" and ok: "world_ok w"
  shows "world_ok w'"
  using assms(1)
proof (cases rule: step.cases)
  case (user d')
  have "wf_db (wo_db w)" by (rule world_ok_wf [OF ok])
  from user_step_safe [OF user(2) this] world_ok_user [OF ok] user(1) show ?thesis by simp
next
  case (claim p i now clk c d')
  have "wf_db (wo_db w)" by (rule world_ok_wf [OF ok])
  from claim_event_takes [OF this claim(3)] world_ok_claim [OF ok claim(2), of d' "{i}" "[c]" Direct] claim(1)
  show ?thesis by (simp add: resume_def ids_def)
next
  case (claim_batch p now n grace incl locked clk b d')
  have "wf_db (wo_db w)" by (rule world_ok_wf [OF ok])
  then obtain S where "wf_db d'" "only_events S (wo_db w) d'" "\<forall>c \<in> set (cb_deliveries b). holds_claim c d'"
    "distinct (ids (cb_deliveries b))" "set (ids (cb_deliveries b)) \<subseteq> S" "\<forall>i \<in> S. \<not> settled i (wo_db w)"
    by (rule claim_batch_takes [OF _ claim_batch(3)])
  with world_ok_claim [OF ok claim_batch(2)] claim_batch(1) show ?thesis by simp
next
  case (claim_queued p i now grace allow clk c d' rc max_rc)
  have "wf_db (wo_db w)" by (rule world_ok_wf [OF ok])
  from claim_queued_takes [OF this claim_queued(3)] world_ok_claim [OF ok claim_queued(2), of d' "{i}" "[c]" "Queued rc max_rc"] claim_queued(1)
  show ?thesis by (simp add: resume_def ids_def)
next
  case (answer_queued i now grace allow clk a d')
  have wf: "wf_db (wo_db w)" by (rule world_ok_wf [OF ok])
  note takes = claim_queued_takes [OF wf answer_queued(2)]
  show ?thesis
  proof (cases "settled i (wo_db w)")
    case True
    with takes answer_queued(1) ok show ?thesis by simp
  next
    case False
    have "holds_claim c d'" if "c \<in> set (held (wo_processes w q))" for c q
      using holds_claim_frame [OF world_ok_held [OF ok that], of "{i}" d'] holds_claim_settled [OF world_ok_held [OF ok that]]
        takes False by blast
    moreover have "settled j d'" if "sends_for j w \<noteq> []" for j
      using settled_frame [OF world_ok_settled [OF ok that], of "{i}" d'] world_ok_settled [OF ok that] takes False by blast
    ultimately show ?thesis using ok takes answer_queued(1) by (simp add: world_ok_def)
  qed
next
  case (call p m c cs env r calls)
  then show ?thesis using world_ok_call [OF ok call(2,3)] by simp
next
  case (store p m c r cs clk)
  then show ?thesis using world_ok_store [OF ok store(2)] by simp
next
  case (die p)
  then show ?thesis using world_ok_die [OF ok] by simp
qed

section \<open>Whole services as schedules\<close>

definition is_send :: "call_made \<Rightarrow> bool" where
  "is_send k \<longleftrightarrow> (case k of Weather_Lookup z \<Rightarrow> False | _ \<Rightarrow> True)"

lemma sends_of_attempt:
  assumes "attempt_delivery env c = (r, calls)"
  shows "map snd (sends_of c calls) = filter is_send calls"
  using assms
  by (auto simp: attempt_delivery_def select_sender_def sends_of_def is_send_def Let_def
      split: sum.splits if_splits option.splits)

text \<open>The calls of one claim and its recording, without interruption.\<close>

lemma run_claim:
  assumes p: "wo_processes w p = Claimed m (c # cs)" and att: "attempt_delivery env c = (r, calls)"
  shows "step\<^sup>*\<^sup>* w (w\<lparr>wo_db := record_result m clk c r (wo_db w), wo_processes := (wo_processes w)(p := resume m cs),
    wo_sent := wo_sent w @ sends_of c calls\<rparr>)"
proof -
  let ?w = "w\<lparr>wo_processes := (wo_processes w)(p := Called m c r cs), wo_sent := wo_sent w @ sends_of c calls\<rparr>"
  have "step w ?w" by (rule call [OF p att])
  moreover have "step ?w (?w\<lparr>wo_db := record_result m clk c r (wo_db ?w), wo_processes := (wo_processes ?w)(p := resume m cs)\<rparr>)"
    by (rule store) simp
  then have "step ?w (w\<lparr>wo_db := record_result m clk c r (wo_db w), wo_processes := (wo_processes w)(p := resume m cs),
      wo_sent := wo_sent w @ sends_of c calls\<rparr>)"
    by (cases w) simp
  ultimately show ?thesis by (rule converse_rtranclp_into_rtranclp [OF _ r_into_rtranclp])
qed

lemma execute_record:
  assumes "attempt_delivery env c = (r, calls)"
  shows "fst (snd (execute_claimed_delivery env clk c d)) = record_result Direct clk c r d"
    and "snd (snd (execute_claimed_delivery env clk c d)) = calls"
  using assms
  by (auto simp: execute_eq record_result_def finish_direct_def committed_def recorded_def
      split: delivery_result.splits sum.splits prod.splits)

text \<open>What a schedule from \<open>w\<close> to \<open>w'\<close> amounts to, for a service that changed the database and made calls.\<close>

definition schedules :: "nat \<Rightarrow> world \<Rightarrow> db \<Rightarrow> call_made list \<Rightarrow> bool" where
  "schedules p w d calls \<longleftrightarrow>
     (\<exists>w'. step\<^sup>*\<^sup>* w w' \<and> wo_db w' = d \<and> wo_processes w' = (wo_processes w)(p := Idle) \<and>
        map snd (wo_sent w') = map snd (wo_sent w) @ filter is_send calls)"

lemma schedules_nothing: "wo_processes w p = Idle \<Longrightarrow> schedules p w (wo_db w) []"
  unfolding schedules_def by (intro exI [of _ w]) auto

lemma schedules_step: "step w w1 \<Longrightarrow> wo_processes w1 = (wo_processes w)(p := x) \<Longrightarrow> wo_sent w1 = wo_sent w \<Longrightarrow>
    schedules p w1 d calls \<Longrightarrow> schedules p w d calls"
  unfolding schedules_def by (auto intro: converse_rtranclp_into_rtranclp)

lemma dispatch_each_schedules:
  assumes "wo_processes w p = resume Direct cs" and "dispatch_each envs clk cs (wo_db w) = (n, d', calls)"
  shows "schedules p w d' calls"
  using assms
proof (induction cs arbitrary: w envs clk n d' calls)
  case Nil
  then show ?case using schedules_nothing by (auto simp: resume_def)
next
  case (Cons c cs)
  obtain r calls1 where att: "attempt_delivery (envs 0) c = (r, calls1)" by fastforce
  let ?d1 = "record_result Direct clk c r (wo_db w)"
  let ?w1 = "w\<lparr>wo_db := ?d1, wo_processes := (wo_processes w)(p := resume Direct cs), wo_sent := wo_sent w @ sends_of c calls1\<rparr>"
  obtain q where exe: "execute_claimed_delivery (envs 0) clk c (wo_db w) = (q, ?d1, calls1)"
    using execute_record [OF att, of clk "wo_db w"] by (metis prod.collapse)
  obtain n2 calls2 where rest: "dispatch_each (\<lambda>n. envs (n + 1)) (\<lambda>n. clk (n + 2)) cs ?d1 = (n2, d', calls2)"
    and calls: "calls = calls1 @ calls2"
    using Cons.prems(2) exe by (auto split: prod.splits)
  have first: "step\<^sup>*\<^sup>* w ?w1" by (rule run_claim [OF _ att]) (use Cons.prems(1) in \<open>simp add: resume_def\<close>)
  have "schedules p ?w1 d' calls2"
    by (rule Cons.IH [of _ "\<lambda>n. envs (n + 1)" "\<lambda>n. clk (n + 2)" n2]) (use rest in simp_all)
  then obtain w' where w': "step\<^sup>*\<^sup>* ?w1 w'" "wo_db w' = d'" "wo_processes w' = (wo_processes w)(p := Idle)"
    "map snd (wo_sent w') = map snd (wo_sent w) @ filter is_send calls"
    unfolding schedules_def calls by (auto simp: sends_of_attempt [OF att])
  with rtranclp_trans [OF first w'(1)] show ?case unfolding schedules_def by blast
qed

lemma schedules_claimed:
  assumes "wo_processes w p = Claimed m [c]" and att: "attempt_delivery env c = (r, calls)"
  shows "schedules p w (record_result m clk c r (wo_db w)) calls"
proof -
  have p: "wo_processes w p = Claimed m (c # [])" using assms(1) by simp
  show ?thesis
    unfolding schedules_def
    by (intro exI conjI, rule run_claim [OF p att]) (simp_all add: resume_def sends_of_attempt [OF att])
qed

lemma deliver_schedules:
  assumes idle: "wo_processes w p = Idle" and run: "deliver_scheduled_event i env now clk (wo_db w) = (q, d', calls)"
  shows "schedules p w d' calls"
proof (cases "claim_event i (or_now now (clk 0)) (\<lambda>n. clk (n + 1)) (wo_db w)")
  case (Inl x)
  with run schedules_nothing [OF idle] show ?thesis by (simp add: deliver_scheduled_event_def)
next
  case (Inr cd)
  obtain claimed d1 where cd: "cd = (claimed, d1)" by (cases cd)
  show ?thesis
  proof (cases claimed)
    case None
    then have "d1 = wo_db w"
      using Inr cd by (auto simp: claim_event_def Let_def split: if_splits)
    with None run Inr cd schedules_nothing [OF idle] show ?thesis by (auto simp: deliver_scheduled_event_def)
  next
    case (Some c)
    let ?w1 = "w\<lparr>wo_db := d1, wo_processes := (wo_processes w)(p := Claimed Direct [c])\<rparr>"
    obtain r cs where att: "attempt_delivery env c = (r, cs)" by fastforce
    have eqs: "d' = record_result Direct (\<lambda>n. clk (n + 3)) c r d1" "calls = cs"
      using run Inr cd Some execute_record [OF att, of "\<lambda>n. clk (n + 3)" d1]
      by (simp_all add: deliver_scheduled_event_def)
    have "schedules p ?w1 d' calls" unfolding eqs
      using schedules_claimed [of ?w1 p Direct c env r cs "\<lambda>n. clk (n + 3)", OF _ att] by simp
    then show ?thesis
      by (rule schedules_step [rotated 3]) (use Inr cd Some in \<open>auto intro: claim [OF idle]\<close>)
  qed
qed

lemma process_schedules:
  assumes idle: "wo_processes w p = Idle" and wf: "wf_db (wo_db w)"
    and run: "process_queued_delivery i rc m env now grace allow clk (wo_db w) = (q, d', calls)"
  shows "schedules p w d' calls"
proof (cases "1 \<le> rc \<and> 1 \<le> m")
  case False
  with run schedules_nothing [OF idle] show ?thesis by (auto simp: process_queued_delivery_def)
next
  case counts: True
  let ?claim = "claim_queued_event i (or_now now (clk 0)) grace allow (\<lambda>n. clk (n + 1)) (wo_db w)"
  show ?thesis
  proof (cases ?claim)
    case (Inl x)
    with run counts schedules_nothing [OF idle] show ?thesis by (auto simp: process_queued_delivery_def)
  next
    case (Inr cd)
    obtain qc d1 where cd: "cd = (qc, d1)" by (cases cd)
    show ?thesis
    proof (rule implements_decision_cases [OF claim_queued_Inr(3) [OF wf Inr [unfolded cd]]])
      fix a assume qc: "qc = act a"
      with counts run Inr cd have eqs: "d' = d1" "calls = []"
        using process_act_eq [of rc m i now clk grace allow "wo_db w" a d1 env] by simp_all
      have "step w (w\<lparr>wo_db := d1\<rparr>)" using Inr cd qc by (intro answer_queued) simp
      then show ?thesis
        using schedules_nothing [of "w\<lparr>wo_db := d1\<rparr>" p] idle unfolding eqs
        by (intro schedules_step [of w "w\<lparr>wo_db := d1\<rparr>" p Idle]) auto
    next
      fix c assume qc: "qc = proceed c"
      obtain r cs where att: "attempt_delivery env c = (r, cs)" by fastforce
      have fin: "finish_queued rc m clk c r cs d1 = (q, d', calls)"
        using process_eq [of rc m i now clk grace allow "wo_db w" c d1 env] counts Inr cd qc att run by simp
      let ?w1 = "w\<lparr>wo_db := d1, wo_processes := (wo_processes w)(p := Claimed (Queued rc m) [c])\<rparr>"
      have "fst (snd (finish_queued rc m clk c r cs d1)) = record_result (Queued rc m) clk c r d1"
        "snd (snd (finish_queued rc m clk c r cs d1)) = cs"
        by (simp_all add: record_result_def finish_queued_def recorded_def split: delivery_result.split sum.split prod.split)
      with fin have eqs: "d' = record_result (Queued rc m) clk c r d1" "calls = cs" by simp_all
      have "schedules p ?w1 d' calls" unfolding eqs
        using schedules_claimed [of ?w1 p "Queued rc m" c env r cs clk, OF _ att] by simp
      then show ?thesis
        by (rule schedules_step [rotated 3]) (use Inr cd qc in \<open>auto intro: claim_queued [OF idle]\<close>)
    qed
  qed
qed

lemma dispatch_schedules:
  assumes idle: "wo_processes w p = Idle"
    and run: "dispatch_due_events envs now n grace incl locked clk (wo_db w) = (q, d', calls)"
  shows "schedules p w d' calls"
proof (cases "claim_due_delivery_batch (or_now now (clk 0)) n grace incl locked (\<lambda>n. clk (2 * n + 1)) (wo_db w)")
  case (Inl x)
  with run schedules_nothing [OF idle] show ?thesis by (simp add: dispatch_due_events_def)
next
  case (Inr bd)
  obtain b d1 where bd: "bd = (b, d1)" by (cases bd)
  let ?w1 = "w\<lparr>wo_db := d1, wo_processes := (wo_processes w)(p := resume Direct (cb_deliveries b))\<rparr>"
  obtain k where "dispatch_each envs (\<lambda>n. clk (2 * n + 2)) (cb_deliveries b) d1 = (k, d', calls)"
    using run Inr bd by (auto simp: dispatch_due_events_def split: prod.splits)
  then have "schedules p ?w1 d' calls" using dispatch_each_schedules [of ?w1 p] by simp
  then show ?thesis
    by (rule schedules_step [rotated 3]) (use Inr bd in \<open>auto intro: claim_batch [OF idle]\<close>)
qed

section \<open>Properties\<close>

lemma steps_ok: "step\<^sup>*\<^sup>* w w' \<Longrightarrow> world_ok w \<Longrightarrow> world_ok w'"
  by (induction rule: rtranclp_induct) (auto intro: step_ok)

definition start :: "db \<Rightarrow> world" where
  "start d = \<lparr>wo_db = d, wo_processes = \<lambda>_. Idle, wo_sent = []\<rparr>"

lemma start_ok: "wf_db d \<Longrightarrow> world_ok (start d)"
  by (simp add: world_ok_def start_def sends_for_def ids_def)

text \<open>C1. However any number of deliveries, dispatchers, queue workers, users' requests, callbacks, messages and
  crashes interleave: the database stays well-formed, no event is held by two processes, and over the whole
  history at most one message is sent for an event.\<close>

theorem at_most_one_send:
  assumes "wf_db d" and "step\<^sup>*\<^sup>* (start d) w"
  shows "wf_db (wo_db w) \<and> (\<forall>i. length (filter (\<lambda>s. fst s = i) (wo_sent w)) \<le> 1) \<and>
    (\<forall>p q c c'. c \<in> set (held (wo_processes w p)) \<and> c' \<in> set (held (wo_processes w q)) \<and>
       ev_id (cl_event c) = ev_id (cl_event c') \<longrightarrow> p = q)"
proof -
  have ok: "world_ok w" by (rule steps_ok [OF assms(2) start_ok [OF assms(1)]])
  have "p = q" if "c \<in> set (held (wo_processes w p))" "c' \<in> set (held (wo_processes w q))"
    "ev_id (cl_event c) = ev_id (cl_event c')" for p q c c'
    using world_ok_apart [OF ok, of p q "ev_id (cl_event c)"] ids_member [OF that(1)] ids_member [OF that(2)] that(3) by auto
  then show ?thesis using world_ok_wf [OF ok] world_ok_once [OF ok] unfolding sends_for_def by blast
qed

text \<open>C2. The steps are those of the services: each service, run alone by an idle process, is a schedule of
  steps with its final database and its sends, in their order.\<close>

theorem services_are_schedules:
  assumes "wf_db (wo_db w)" and "wo_processes w p = Idle"
    and "deliver_scheduled_event i env now clk (wo_db w) = (r, d', calls) \<or>
      process_queued_delivery i rc m env now grace allow clk (wo_db w) = (r', d', calls) \<or>
      dispatch_due_events envs now n grace incl locked clk (wo_db w) = (r'', d', calls)"
  shows "\<exists>w'. step\<^sup>*\<^sup>* w w' \<and> wo_db w' = d' \<and> wo_processes w' p = Idle \<and>
    (\<forall>q. q \<noteq> p \<longrightarrow> wo_processes w' q = wo_processes w q) \<and>
    map snd (wo_sent w') = map snd (wo_sent w) @ filter is_send calls"
proof -
  have "schedules p w d' calls"
    using assms(3)
    by (elim disjE) (erule deliver_schedules [OF assms(2)] process_schedules [OF assms(2,1)] dispatch_schedules [OF assms(2)])+
  then show ?thesis unfolding schedules_def by (metis fun_upd_other fun_upd_same)
qed

text \<open>On the sample database: the demo event delivered by one process.\<close>

definition sample_delivery :: "delivery_attempt outcome" where
  "sample_delivery = deliver_scheduled_event 1 sample_env (Some (seconds 1000)) (\<lambda>n. int n) sample_db"

lemma sample_delivery_sends: "length (filter is_send (snd (snd sample_delivery))) = 1"
  by code_simp

lemma sample_schedule:
  obtains w where "step\<^sup>*\<^sup>* (start sample_db) w" "length (wo_sent w) = 1"
proof -
  obtain r d' calls where run: "sample_delivery = (r, d', calls)" by (metis prod_cases3)
  then have "schedules 0 (start sample_db) d' calls"
    by (intro deliver_schedules [of _ _ 1 sample_env "Some (seconds 1000)" "\<lambda>n. int n"]) (simp_all add: start_def sample_delivery_def)
  then obtain w where "step\<^sup>*\<^sup>* (start sample_db) w" "map snd (wo_sent w) = filter is_send calls"
    by (auto simp: schedules_def start_def)
  moreover from this(2) have "length (wo_sent w) = 1"
    using sample_delivery_sends run by (metis length_map snd_conv)
  ultimately show thesis using that by blast
qed

lemma at_most_one_send_witness:
  "\<exists>w. step\<^sup>*\<^sup>* (start sample_db) w \<and> length (wo_sent w) = 1 \<and> wf_db (wo_db w)"
proof -
  obtain w where w: "step\<^sup>*\<^sup>* (start sample_db) w" "length (wo_sent w) = 1" by (rule sample_schedule)
  with at_most_one_send [OF wf_sample_db w(1)] show ?thesis by blast
qed

lemma services_are_schedules_witness:
  "\<exists>w'. step\<^sup>*\<^sup>* (start sample_db) w' \<and> wo_db w' = fst (snd sample_delivery)"
proof -
  obtain r d' calls where run: "sample_delivery = (r, d', calls)" by (metis prod_cases3)
  have "deliver_scheduled_event 1 sample_env (Some (seconds 1000)) (\<lambda>n. int n) (wo_db (start sample_db)) = (r, d', calls)"
    using run by (simp add: sample_delivery_def start_def)
  from services_are_schedules [of "start sample_db" 0, OF _ _ disjI1 [OF this]] wf_sample_db run
  show ?thesis by (auto simp add: start_def [of sample_db] simp del: snd_conv) (metis fst_conv snd_conv)
qed

end
