(* ===== verification/Request_Forms.thy ===== *)
theory Request_Forms
  imports Accounts_Properties Webhooks
begin

text \<open>
  What a request carries and how it is validated: \<open>apps/accounts/forms.py\<close>, \<open>apps/scheduling/forms.py\<close> and
  both \<open>serializers.py\<close>. The conversions Django and Django REST framework make of one submitted value are the
  parameters collected in \<open>framework\<close>; the checks the project declares or writes on top of them are modelled,
  and so is the documented way a form or serializer runs them: every field in order, a \<open>ValidationError\<close>
  recorded under the field's name, any other exception raised out of \<open>is_valid\<close>.
\<close>

section \<open>The framework's conversions\<close>

text \<open>
  \<open>fw_form_text\<close>: \<open>forms.CharField.to_python\<close>, which strips; \<open>fw_form_pk\<close>: the key a submitted model choice
  denotes; \<open>fw_parse_datetime\<close>: \<open>django.utils.dateparse.parse_datetime\<close>, documented to return \<open>None\<close> for a text
  that is not well formatted and to raise \<open>ValueError\<close> for one that is but names no date; \<open>fw_json_text\<close>,
  \<open>fw_json_datetime\<close>: \<open>to_internal_value\<close> of the serializer fields for text and times; \<open>fw_json_pk\<close>: the key a
  JSON value denotes to \<open>PrimaryKeyRelatedField\<close>, which catches the \<open>TypeError\<close> and the \<open>ValueError\<close> of the
  conversion (\<open>None\<close>) but not the \<open>OverflowError\<close> of an infinite number such as \<open>1e400\<close>; \<open>fw_str\<close>: Python's
  \<open>str\<close> of a JSON value.
\<close>

record framework =
  fw_form_text :: "string \<Rightarrow> string"
  fw_form_pk :: "string \<Rightarrow> row_id option"
  fw_parse_datetime :: "string \<Rightarrow> exn + pydatetime option"
  fw_json_text :: "json \<Rightarrow> exn + string"
  fw_json_pk :: "json \<Rightarrow> exn + row_id option"
  fw_json_datetime :: "json \<Rightarrow> exn + pydatetime"
  fw_str :: "json \<Rightarrow> string"

abbreviation invalid :: "string \<Rightarrow> exn + 'a" where
  "invalid text \<equiv> Inl (raise ValidationError text)"

text \<open>The outcome of validating: an escaping exception, the errors by field, or the cleaned value.\<close>

type_synonym field_errors = "(string \<times> string) list"
type_synonym 'a validated = "exn + (field_errors + 'a)"

text \<open>\<open>ValidationError.messages\<close>, and the run of a field's validators, which collects every refusal.\<close>

definition messages_of :: "exn \<Rightarrow> string list" where
  "messages_of x = (if exn_fields x = [] then [exn_text x] else map snd (exn_fields x))"

definition run_validators :: "((string \<Rightarrow> bool) \<times> string) list \<Rightarrow> string \<Rightarrow> exn + string" where
  "run_validators vs s =
     (let errors = map snd (filter (\<lambda>(ok, _). \<not> ok s) vs)
      in if errors = [] then Inr s else Inl (Exn ValidationError '''' (map (Pair '''') errors)))"

definition under_name :: "string \<Rightarrow> exn + 'a \<Rightarrow> 'a validated" where
  "under_name name r =
     (case r of
        Inl x \<Rightarrow> if is_validation_error (exn_class x) then Inr (Inl (map (Pair name) (messages_of x))) else Inl x
      | Inr v \<Rightarrow> Inr (Inr v))"

fun and_field :: "'a validated \<Rightarrow> 'b validated \<Rightarrow> ('a \<times> 'b) validated" where
  "and_field (Inl x) r = Inl x"
| "and_field (Inr a) (Inl y) = Inl y"
| "and_field (Inr (Inl es)) (Inr (Inl fs)) = Inr (Inl (es @ fs))"
| "and_field (Inr (Inl es)) (Inr (Inr b)) = Inr (Inl es)"
| "and_field (Inr (Inr a)) (Inr (Inl fs)) = Inr (Inl fs)"
| "and_field (Inr (Inr a)) (Inr (Inr b)) = Inr (Inr (a, b))"

section \<open>Form fields\<close>

text \<open>\<open>ExplicitOffsetDateTimeField\<close>; its \<open>validate\<close> first makes the framework's check for a required value.\<close>

definition explicit_offset_to_python :: "framework \<Rightarrow> string \<Rightarrow> exn + time option" where
  "explicit_offset_to_python fw raw =
     (let v = fw_form_text fw raw
      in if v = [] then Inr None
         else bind_res (fw_parse_datetime fw v) (\<lambda>parsed.
           case parsed of
             None \<Rightarrow> invalid ''Enter a valid ISO 8601 date and time.''
           | Some dt \<Rightarrow>
               if is_naive dt then invalid ''Include an explicit UTC offset, such as Z or +00:00.''
               else bind_res (astimezone_utc dt) (\<lambda>t. Inr (Some t))))"

definition explicit_offset_validate :: "time \<Rightarrow> time option \<Rightarrow> exn + time" where
  "explicit_offset_validate now v =
     (case v of
        None \<Rightarrow> invalid ''This field is required.''
      | Some t \<Rightarrow> if t \<le> now then invalid ''The scheduled time must be in the future.'' else Inr t)"

definition explicit_offset_field :: "framework \<Rightarrow> time \<Rightarrow> string \<Rightarrow> exn + time" where
  "explicit_offset_field fw now raw =
     bind_res (explicit_offset_to_python fw raw) (explicit_offset_validate now)"

text \<open>\<open>forms.ChoiceField(choices=ScheduledEvent.Channel.choices)\<close>.\<close>

definition channel_field :: "string \<Rightarrow> exn + string" where
  "channel_field raw =
     (if raw = [] then invalid ''This field is required.''
      else if channel_of raw = None then invalid ''Select a valid choice.''
      else Inr raw)"

text \<open>\<open>MaskedPhoneChoiceField\<close> over the queryset the form sets: the user's verified phones.\<close>

definition own_verified_phones :: "row_id \<Rightarrow> db \<Rightarrow> phone_number list" where
  "own_verified_phones user d = filter (\<lambda>p. ph_user p = user \<and> is_verified p) (rows (db_phones d))"

definition phone_choice_field :: "framework \<Rightarrow> row_id \<Rightarrow> db \<Rightarrow> string \<Rightarrow> exn + phone_number" where
  "phone_choice_field fw user d raw =
     (if raw = [] then invalid ''This field is required.''
      else case Option.bind (fw_form_pk fw raw) (\<lambda>i. find (\<lambda>p. ph_id p = i) (own_verified_phones user d)) of
        None \<Rightarrow> invalid ''Select a valid choice. That choice is not one of the available choices.''
      | Some p \<Rightarrow> Inr p)"

definition zip_code_field :: "framework \<Rightarrow> string \<Rightarrow> exn + string" where
  "zip_code_field fw raw =
     (let v = fw_form_text fw raw
      in if v = [] then invalid ''This field is required.''
         else run_validators [(zip_code_validator, ''Enter a five-digit US ZIP code.''),
           (\<lambda>z. length z \<le> 5, ''Ensure this value has at most 5 characters.'')] v)"

section \<open>Forms\<close>

record event_input =
  in_phone :: row_id
  in_zip_code :: string
  in_scheduled_for :: pydatetime
  in_channel :: string

abbreviation utc_datetime :: "time \<Rightarrow> pydatetime" where
  "utc_datetime t \<equiv> \<lparr>dt_local = t, dt_offset = Some 0\<rparr>"

definition scheduled_event_create_form ::
  "framework \<Rightarrow> row_id \<Rightarrow> db \<Rightarrow> time \<Rightarrow> form_params \<Rightarrow> event_input validated" where
  "scheduled_event_create_form fw user d now post =
     map_sum id (map_sum id (\<lambda>(((p, z), t), c).
         \<lparr>in_phone = ph_id p, in_zip_code = z, in_scheduled_for = utc_datetime t, in_channel = c\<rparr>))
       (and_field (and_field (and_field
         (under_name ''phone_number'' (phone_choice_field fw user d (param post ''phone_number'')))
         (under_name ''zip_code'' (zip_code_field fw (param post ''zip_code''))))
         (under_name ''scheduled_for'' (explicit_offset_field fw now (param post ''scheduled_for''))))
         (under_name ''channel'' (channel_field (param post ''channel''))))"

definition reschedule_event_form :: "framework \<Rightarrow> time \<Rightarrow> form_params \<Rightarrow> time validated" where
  "reschedule_event_form fw now post =
     under_name ''scheduled_for'' (explicit_offset_field fw now (param post ''scheduled_for''))"

definition change_event_channel_form :: "form_params \<Rightarrow> string validated" where
  "change_event_channel_form post = under_name ''channel'' (channel_field (param post ''channel''))"

definition phone_enrollment_form :: "framework \<Rightarrow> form_params \<Rightarrow> string validated" where
  "phone_enrollment_form fw post =
     under_name ''number''
       (let v = fw_form_text fw (param post ''number'')
        in if v = [] then invalid ''This field is required.''
           else run_validators [(e164_validator, ''Enter a phone number in E.164 format, such as +14155552671.''),
             (\<lambda>n. length n \<le> 16, ''Ensure this value has at most 16 characters.'')] v)"

text \<open>\<open>forms.RegexField\<close> does not strip.\<close>

definition verification_code_form :: "form_params \<Rightarrow> string validated" where
  "verification_code_form post =
     under_name ''code''
       (let v = param post ''code''
        in if v = [] then invalid ''This field is required.''
           else run_validators [(dollar_match valid_code, ''The verification code must contain 4 to 10 digits.'')] v)"

section \<open>Serializers\<close>

text \<open>A field of the request's JSON object: required, not null, then converted.\<close>

fun data_get :: "json \<Rightarrow> string \<Rightarrow> json option" where
  "data_get (JObject kvs) name = map_of kvs name"
| "data_get _ name = None"

definition serializer_field :: "json \<Rightarrow> string \<Rightarrow> (json \<Rightarrow> exn + 'a) \<Rightarrow> 'a validated" where
  "serializer_field data name convert =
     under_name name
       (case data_get data name of
          None \<Rightarrow> invalid ''This field is required.''
        | Some JNull \<Rightarrow> invalid ''This field may not be null.''
        | Some v \<Rightarrow> convert v)"

definition explicit_timezone_to_internal_value :: "framework \<Rightarrow> json \<Rightarrow> exn + pydatetime" where
  "explicit_timezone_to_internal_value fw v =
     bind_res (case v of JString s \<Rightarrow> fw_parse_datetime fw s | _ \<Rightarrow> Inr None) (\<lambda>parsed.
       if (case parsed of Some dt \<Rightarrow> is_naive dt | None \<Rightarrow> False)
       then invalid ''Include an explicit UTC offset, such as Z or +00:00.''
       else fw_json_datetime fw v)"

text \<open>\<open>validate_scheduled_for\<close>; comparing a naive value with an aware one is a \<open>TypeError\<close>.\<close>

definition validate_scheduled_for :: "time \<Rightarrow> pydatetime \<Rightarrow> exn + pydatetime" where
  "validate_scheduled_for now dt =
     (if is_naive dt then Inl (raise TypeError ''can't compare offset-naive and offset-aware datetimes'')
      else if instant dt \<le> now then invalid ''The scheduled time must be in the future.''
      else Inr dt)"

definition scheduled_for_value :: "framework \<Rightarrow> time \<Rightarrow> json \<Rightarrow> exn + pydatetime" where
  "scheduled_for_value fw now v =
     bind_res (explicit_timezone_to_internal_value fw v) (validate_scheduled_for now)"

definition channel_choice :: "framework \<Rightarrow> json \<Rightarrow> exn + string" where
  "channel_choice fw v =
     (if channel_of (fw_str fw v) = None then invalid ''\"value\" is not a valid choice.'' else Inr (fw_str fw v))"

definition zip_code_value :: "framework \<Rightarrow> json \<Rightarrow> exn + string" where
  "zip_code_value fw v =
     bind_res (fw_json_text fw v) (run_validators
       [(zip_code_validator, ''Enter a five-digit US ZIP code.''),
        (\<lambda>z. length z \<le> 5, ''Ensure this field has no more than 5 characters.'')])"

definition related_phone :: "framework \<Rightarrow> row_id \<Rightarrow> db \<Rightarrow> json \<Rightarrow> exn + phone_number" where
  "related_phone fw user d v =
     bind_res (fw_json_pk fw v) (\<lambda>key.
       case Option.bind key (\<lambda>i. find (\<lambda>p. ph_id p = i) (own_verified_phones user d)) of
         None \<Rightarrow> invalid ''Invalid pk - object does not exist.''
       | Some p \<Rightarrow> Inr p)"

definition scheduled_event_serializer ::
  "framework \<Rightarrow> row_id \<Rightarrow> db \<Rightarrow> time \<Rightarrow> json \<Rightarrow> event_input validated" where
  "scheduled_event_serializer fw user d now data =
     map_sum id (map_sum id (\<lambda>(((p, z), dt), c).
         \<lparr>in_phone = ph_id p, in_zip_code = z, in_scheduled_for = dt, in_channel = c\<rparr>))
       (and_field (and_field (and_field
         (serializer_field data ''phone_number_id'' (related_phone fw user d))
         (serializer_field data ''zip_code'' (zip_code_value fw)))
         (serializer_field data ''scheduled_for'' (scheduled_for_value fw now)))
         (serializer_field data ''channel'' (channel_choice fw)))"

definition reschedule_serializer :: "framework \<Rightarrow> time \<Rightarrow> json \<Rightarrow> pydatetime validated" where
  "reschedule_serializer fw now data =
     serializer_field data ''scheduled_for'' (scheduled_for_value fw now)"

definition channel_serializer :: "framework \<Rightarrow> json \<Rightarrow> string validated" where
  "channel_serializer fw data = serializer_field data ''channel'' (channel_choice fw)"

definition phone_number_serializer :: "framework \<Rightarrow> json \<Rightarrow> string validated" where
  "phone_number_serializer fw data =
     serializer_field data ''number'' (\<lambda>v. bind_res (fw_json_text fw v) (run_validators
       [(e164_validator, ''Enter a phone number in E.164 format, such as +14155552671.'')]))"

definition verification_check_serializer :: "framework \<Rightarrow> json \<Rightarrow> string validated" where
  "verification_check_serializer fw data =
     serializer_field data ''code'' (\<lambda>v. bind_res (fw_json_text fw v) (run_validators
       [(dollar_match valid_code, ''The verification code must contain 4 to 10 digits.'')]))"

section \<open>What a serializer shows\<close>

datatype api_value = A_Int int | A_Text string | A_Bool bool | A_Time time | A_Null

definition time_or_null :: "time option \<Rightarrow> api_value" where
  "time_or_null t = (case t of None \<Rightarrow> A_Null | Some u \<Rightarrow> A_Time u)"

type_synonym representation = "(string \<times> api_value) list"

definition event_representation :: "scheduled_event \<Rightarrow> representation" where
  "event_representation e =
     [(''id'', A_Int (ev_id e)), (''phone_number_id'', A_Int (ev_phone_number e)),
      (''zip_code'', A_Text (ev_zip_code e)), (''scheduled_for'', A_Time (ev_scheduled_for e)),
      (''channel'', A_Text (channel_value (ev_channel e))), (''status'', A_Text (event_status_value (ev_status e))),
      (''is_demo'', A_Bool (ev_is_demo e)), (''processing_started_at'', time_or_null (ev_processing_started_at e)),
      (''completed_at'', time_or_null (ev_completed_at e)), (''created_at'', A_Time (ev_created_at e)),
      (''updated_at'', A_Time (ev_updated_at e))]"

definition phone_representation :: "phone_number \<Rightarrow> representation" where
  "phone_representation p =
     [(''id'', A_Int (ph_id p)), (''masked_number'', A_Text (serializer_mask_phone_number (ph_number p))),
      (''is_verified'', A_Bool (is_verified p)), (''verified_at'', time_or_null (ph_verified_at p)),
      (''created_at'', A_Time (ph_created_at p)), (''updated_at'', A_Time (ph_updated_at p))]"

section \<open>Facts\<close>

lemma under_name_cases:
  "under_name name r = Inl x \<longleftrightarrow> r = Inl x \<and> \<not> is_validation_error (exn_class x)"
  "under_name name r = Inr (Inr v) \<longleftrightarrow> r = Inr v"
  by (auto simp: under_name_def split: sum.splits)

lemma and_field_Inr_iff: "and_field r s = Inr (Inr v) \<longleftrightarrow> r = Inr (Inr (fst v)) \<and> s = Inr (Inr (snd v))"
  by (cases "(r, s)" rule: and_field.cases) auto

lemma and_field_InlD: "and_field r s = Inl x \<Longrightarrow> r = Inl x \<or> s = Inl x"
  by (cases "(r, s)" rule: and_field.cases) auto

end
