(* ===== verification/Event_Views.thy ===== *)
theory Event_Views
  imports Request_Forms "HOL-Library.List_Lexorder"
begin

text \<open>
  \<open>apps/scheduling/web_views.py\<close>, \<open>apps/scheduling/views.py\<close> and \<open>apps/scheduling/admin.py\<close>: the pages and the
  API through which a user sees and changes events, and the administrator's bulk cancellation. A view gets the
  authenticated user, whom the decorators of the dispatcher establish.
\<close>

section \<open>Requests and answers\<close>

text \<open>
  What a request meets: the framework's conversions, what others commit between the view's own read and the
  transaction of the service it calls (\<open>re_before\<close>) and while a gateway call is running (\<open>re_during\<close>), the
  gateway built from the settings, whether the throttle lets the request through, and the clock.
\<close>

record request_env =
  re_framework :: framework
  re_before :: "db \<Rightarrow> db"
  re_during :: "db \<Rightarrow> db"
  re_gateway :: "exn + verification_gateway"
  re_allowed :: bool
  re_clock :: clock

text \<open>
  A page is a redirect to a named view (with the object it names and the flash message, tagged with its
  level), or a template with its status and the part of its context that the views compute: the choice that
  the channel form starts with and the labels are determined by the event.
\<close>

datatype page =
    Redirect string "row_id option" "(string \<times> string) option"
  | No_Such_Page
  | Event_List_Page "(scheduled_event \<times> string) list"
  | Event_Detail_Page nat scheduled_event string bool field_errors
  | Event_Form_Page nat field_errors
  | Phone_List_Page "(phone_number \<times> string) list"
  | Phone_Form_Page nat field_errors
  | Phone_Verify_Page nat phone_number string field_errors

datatype api_body =
    No_Body
  | Detail_Body string
  | Errors_Body field_errors
  | Object_Body representation
  | List_Body nat "representation list"
  | Verification_Body string representation

record api_answer =
  aa_status :: nat
  aa_body :: api_body

type_synonym page_outcome = "(exn + page) \<times> db"
type_synonym api_outcome = "(exn + api_answer) \<times> db"

text \<open>\<open>form.add_error(None, "; ".join(exc.messages))\<close>.\<close>

definition joined_messages :: "exn \<Rightarrow> string" where
  "joined_messages x = concat (case messages_of x of [] \<Rightarrow> [] | m # ms \<Rightarrow> m # concat (map (\<lambda>m. [''; '', m]) ms))"

definition non_field_error :: "string \<Rightarrow> field_errors" where
  "non_field_error text = [(''__all__'', text)]"

section \<open>Pages\<close>

text \<open>The event with its phone's number, for its owner only.\<close>

definition event_for_user :: "row_id \<Rightarrow> row_id \<Rightarrow> db \<Rightarrow> (scheduled_event \<times> string) option" where
  "event_for_user event_id user d =
     (case get_event event_id d of
        None \<Rightarrow> None
      | Some e \<Rightarrow> if ev_user e = user then with_phone d e else None)"

definition render_event_detail :: "nat \<Rightarrow> scheduled_event \<times> string \<Rightarrow> field_errors \<Rightarrow> page" where
  "render_event_detail status row errors =
     Event_Detail_Page status (fst row) (serializer_mask_phone_number (snd row))
       (ev_status (fst row) = E_SCHEDULED) errors"

text \<open>\<open>event.refresh_from_db()\<close> before the page is rendered again.\<close>

definition render_refreshed :: "row_id \<Rightarrow> field_errors \<Rightarrow> db \<Rightarrow> page_outcome" where
  "render_refreshed event_id errors d =
     (case Option.bind (get_event event_id d) (with_phone d) of
        None \<Rightarrow> (Inl event_missing, d)
      | Some row \<Rightarrow> (Inr (render_event_detail 409 row errors), d))"

definition events_of_user :: "row_id \<Rightarrow> db \<Rightarrow> scheduled_event list" where
  "events_of_user user d = order_by event_order (events_where (\<lambda>e. ev_user e = user) d)"

definition event_list :: "row_id \<Rightarrow> db \<Rightarrow> page" where
  "event_list user d =
     Event_List_Page (map (\<lambda>(e, number). (e, serializer_mask_phone_number number))
       (List.map_filter (with_phone d) (events_of_user user d)))"

definition detail_redirect :: "row_id \<Rightarrow> string \<Rightarrow> string \<Rightarrow> page" where
  "detail_redirect event_id level text = Redirect ''scheduling_web:event-detail'' (Some event_id) (Some (level, text))"

text \<open>
  \<open>request.POST or None\<close> leaves the form unbound when nothing was posted. Clock readings: 0 is the form's,
  the later ones the service's.
\<close>

definition event_create :: "request_env \<Rightarrow> row_id \<Rightarrow> bool \<Rightarrow> form_params \<Rightarrow> db \<Rightarrow> page_outcome" where
  "event_create env user posted post d =
     (if \<not> posted then (Inr (Event_Form_Page 200 []), d)
      else if post = [] then (Inr (Event_Form_Page 400 []), d)
      else case scheduled_event_create_form (re_framework env) user d (re_clock env 0) post of
        Inl x \<Rightarrow> (Inl x, d)
      | Inr (Inl errors) \<Rightarrow> (Inr (Event_Form_Page 400 errors), d)
      | Inr (Inr input) \<Rightarrow>
          (case create_scheduled_event user (in_phone input) (in_zip_code input) (in_scheduled_for input)
                  (in_channel input) (\<lambda>n. re_clock env (n + 1)) (re_before env d) of
             Inl x \<Rightarrow> if is_validation_error (exn_class x)
               then (Inr (Event_Form_Page 400 (non_field_error (joined_messages x))), re_before env d)
               else (Inl x, re_before env d)
           | Inr (event, d') \<Rightarrow>
               (Inr (detail_redirect (ev_id event) ''success'' ''Demo wake-up event scheduled.''), d')))"

definition event_detail :: "row_id \<Rightarrow> row_id \<Rightarrow> db \<Rightarrow> page" where
  "event_detail user event_id d =
     (case event_for_user event_id user d of
        None \<Rightarrow> No_Such_Page
      | Some row \<Rightarrow> render_event_detail 200 row [])"

definition event_reschedule :: "request_env \<Rightarrow> row_id \<Rightarrow> row_id \<Rightarrow> form_params \<Rightarrow> db \<Rightarrow> page_outcome" where
  "event_reschedule env user event_id post d =
     (case event_for_user event_id user d of
        None \<Rightarrow> (Inr No_Such_Page, d)
      | Some row \<Rightarrow>
          (case reschedule_event_form (re_framework env) (re_clock env 0) post of
             Inl x \<Rightarrow> (Inl x, d)
           | Inr (Inl errors) \<Rightarrow> (Inr (render_event_detail 400 row errors), d)
           | Inr (Inr t) \<Rightarrow>
               (case reschedule_user_scheduled_event event_id user (Some (utc_datetime t)) None
                       (\<lambda>n. re_clock env (n + 1)) (re_before env d) of
                  Inl x \<Rightarrow> if exn_class x = ScheduledEventLifecycleConflict
                    then render_refreshed event_id (non_field_error (joined_messages x)) (re_before env d)
                    else (Inl x, re_before env d)
                | Inr (event, d') \<Rightarrow> (Inr (detail_redirect (ev_id event) ''success'' ''Event rescheduled.''), d'))))"

definition event_channel :: "request_env \<Rightarrow> row_id \<Rightarrow> row_id \<Rightarrow> form_params \<Rightarrow> db \<Rightarrow> page_outcome" where
  "event_channel env user event_id post d =
     (case event_for_user event_id user d of
        None \<Rightarrow> (Inr No_Such_Page, d)
      | Some row \<Rightarrow>
          (case change_event_channel_form post of
             Inl x \<Rightarrow> (Inl x, d)
           | Inr (Inl errors) \<Rightarrow> (Inr (render_event_detail 400 row errors), d)
           | Inr (Inr chan) \<Rightarrow>
               (case change_user_scheduled_event_channel event_id user chan (re_clock env) (re_before env d) of
                  Inl x \<Rightarrow> if exn_class x = ScheduledEventLifecycleConflict
                    then render_refreshed event_id (non_field_error (joined_messages x)) (re_before env d)
                    else (Inl x, re_before env d)
                | Inr (event, d') \<Rightarrow>
                    (Inr (detail_redirect (ev_id event) ''success'' ''Delivery channel updated.''), d'))))"

definition event_cancel :: "request_env \<Rightarrow> row_id \<Rightarrow> row_id \<Rightarrow> db \<Rightarrow> page_outcome" where
  "event_cancel env user event_id d =
     (case event_for_user event_id user d of
        None \<Rightarrow> (Inr No_Such_Page, d)
      | Some row \<Rightarrow>
          (case cancel_user_scheduled_event event_id user None (re_clock env) (re_before env d) of
             Inl x \<Rightarrow> if exn_class x = ScheduledEventLifecycleConflict
               then (Inr (detail_redirect event_id ''error'' (joined_messages x)), re_before env d)
               else (Inl x, re_before env d)
           | Inr (event, d') \<Rightarrow> (Inr (detail_redirect event_id ''success'' ''Event cancelled.''), d')))"

section \<open>API\<close>

definition answer :: "nat \<Rightarrow> api_body \<Rightarrow> exn + api_answer" where
  "answer status body = Inr \<lparr>aa_status = status, aa_body = body\<rparr>"

text \<open>\<open>is_valid(raise_exception=True)\<close>: the framework answers a serializer's \<open>ValidationError\<close> with 400.\<close>

abbreviation bad_request :: "field_errors \<Rightarrow> exn + api_answer" where
  "bad_request errors \<equiv> answer 400 (Errors_Body errors)"

definition not_found :: "exn + api_answer" where
  "not_found = answer 404 (Detail_Body ''Not found.'')"

text \<open>\<open>_validation_detail\<close>: the messages by field when the error has fields, the list of messages otherwise.\<close>

definition validation_detail :: "exn \<Rightarrow> field_errors" where
  "validation_detail x = (if exn_fields x \<noteq> [] then exn_fields x else map (Pair '''') (messages_of x))"

text \<open>
  The clauses around a service call: \<open>DoesNotExist\<close> is a 404, a lifecycle conflict 409, and, where the view
  has that clause, any other validation error 400.
\<close>

definition changed_event ::
  "bool \<Rightarrow> exn + (scheduled_event \<times> db) \<Rightarrow> db \<Rightarrow> api_outcome" where
  "changed_event catches_validation r d =
     (case r of
        Inr (event, d') \<Rightarrow> (answer 200 (Object_Body (event_representation event)), d')
      | Inl x \<Rightarrow>
          (if exn_class x = DoesNotExist then not_found
           else if exn_class x = ScheduledEventLifecycleConflict then answer 409 (Errors_Body (validation_detail x))
           else if catches_validation \<and> is_validation_error (exn_class x)
           then answer 400 (Errors_Body (validation_detail x))
           else Inl x, d))"

definition scheduled_event_cancel_view :: "request_env \<Rightarrow> row_id \<Rightarrow> row_id \<Rightarrow> db \<Rightarrow> api_outcome" where
  "scheduled_event_cancel_view env user event_id d =
     changed_event False (cancel_user_scheduled_event event_id user None (re_clock env) d) d"

definition scheduled_event_reschedule_view ::
  "request_env \<Rightarrow> row_id \<Rightarrow> row_id \<Rightarrow> json \<Rightarrow> db \<Rightarrow> api_outcome" where
  "scheduled_event_reschedule_view env user event_id data d =
     (case reschedule_serializer (re_framework env) (re_clock env 0) data of
        Inl x \<Rightarrow> (Inl x, d)
      | Inr (Inl errors) \<Rightarrow> (bad_request errors, d)
      | Inr (Inr dt) \<Rightarrow> changed_event True
          (reschedule_user_scheduled_event event_id user (Some dt) None (\<lambda>n. re_clock env (n + 1)) d) d)"

definition scheduled_event_channel_view ::
  "request_env \<Rightarrow> row_id \<Rightarrow> row_id \<Rightarrow> json \<Rightarrow> db \<Rightarrow> api_outcome" where
  "scheduled_event_channel_view env user event_id data d =
     (case channel_serializer (re_framework env) data of
        Inl x \<Rightarrow> (Inl x, d)
      | Inr (Inl errors) \<Rightarrow> (bad_request errors, d)
      | Inr (Inr chan) \<Rightarrow> changed_event True
          (change_user_scheduled_event_channel event_id user chan (re_clock env) d) d)"

text \<open>
  \<open>PageNumberPagination\<close> with the configured \<open>PAGE_SIZE\<close>: the total count and the page's objects; a page that
  does not exist is a 404, but the first one always does.
\<close>

definition PAGE_SIZE :: nat where
  "PAGE_SIZE = 50"

definition paginated :: "nat \<Rightarrow> ('a \<Rightarrow> representation) \<Rightarrow> 'a list \<Rightarrow> exn + api_answer" where
  "paginated number show xs =
     (if number = 0 \<or> (1 < number \<and> length xs \<le> (number - 1) * PAGE_SIZE) then not_found
      else answer 200 (List_Body (length xs) (map show (take PAGE_SIZE (drop ((number - 1) * PAGE_SIZE) xs)))))"

definition scheduled_event_list :: "row_id \<Rightarrow> nat \<Rightarrow> db \<Rightarrow> exn + api_answer" where
  "scheduled_event_list user number d = paginated number event_representation (events_of_user user d)"

definition scheduled_event_detail :: "row_id \<Rightarrow> row_id \<Rightarrow> db \<Rightarrow> exn + api_answer" where
  "scheduled_event_detail user event_id d =
     (case event_for_user event_id user d of
        None \<Rightarrow> not_found
      | Some row \<Rightarrow> answer 200 (Object_Body (event_representation (fst row))))"

text \<open>\<open>ScheduledEventSerializer.create\<close> behind the generic create view.\<close>

definition scheduled_event_create :: "request_env \<Rightarrow> row_id \<Rightarrow> json \<Rightarrow> db \<Rightarrow> api_outcome" where
  "scheduled_event_create env user data d =
     (case scheduled_event_serializer (re_framework env) user d (re_clock env 0) data of
        Inl x \<Rightarrow> (Inl x, d)
      | Inr (Inl errors) \<Rightarrow> (bad_request errors, d)
      | Inr (Inr input) \<Rightarrow>
          (case create_scheduled_event user (in_phone input) (in_zip_code input) (in_scheduled_for input)
                  (in_channel input) (\<lambda>n. re_clock env (n + 1)) (re_before env d) of
             Inl x \<Rightarrow> (if is_validation_error (exn_class x) then bad_request (validation_detail x) else Inl x,
                 re_before env d)
           | Inr (event, d') \<Rightarrow> (answer 201 (Object_Body (event_representation event)), d')))"

section \<open>The administrator's bulk cancellation\<close>

text \<open>
  The selected identifiers are read first, then each is cancelled in its own transaction; a row that is gone
  or no longer scheduled is skipped. The number at the end is the one in the message.
\<close>

fun cancel_each :: "row_id list \<Rightarrow> clock \<Rightarrow> nat \<Rightarrow> db \<Rightarrow> (exn + nat) \<times> db" where
  "cancel_each [] clk cancelled_count d = (Inr cancelled_count, d)"
| "cancel_each (i # is) clk cancelled_count d =
     (case cancel_scheduled_event i None clk d of
        Inl x \<Rightarrow> if exn_class x = DoesNotExist \<or> is_validation_error (exn_class x)
          then cancel_each is (\<lambda>n. clk (n + 2)) cancelled_count d
          else (Inl x, d)
      | Inr (_, d') \<Rightarrow> cancel_each is (\<lambda>n. clk (n + 2)) (cancelled_count + 1) d')"

definition cancel_selected_scheduled_events ::
  "(scheduled_event \<Rightarrow> bool) \<Rightarrow> clock \<Rightarrow> db \<Rightarrow> (exn + nat) \<times> db" where
  "cancel_selected_scheduled_events selected clk d =
     cancel_each (map ev_id (events_where (\<lambda>e. selected e \<and> ev_status e = E_SCHEDULED) d)) clk 0 d"

end
