(* ===== verification/Account_Views.thy ===== *)
theory Account_Views
  imports Event_Views
begin

text \<open>
  \<open>apps/accounts/web_views.py\<close> and \<open>apps/accounts/views.py\<close>: enrolling a phone and verifying it, as pages and
  as API. An outcome also lists the calls made on the verification gateway.
\<close>

type_synonym 'a gateway_outcome = "(exn + 'a) \<times> db \<times> gateway_call list"

section \<open>The listed errors\<close>

definition VERIFICATION_API_ERRORS :: "verification_error list" where
  "VERIFICATION_API_ERRORS =
     [PhoneAlreadyVerified, PhoneNumberChanged, VerificationAuthenticationError, VerificationBlocked,
      VerificationConfigurationError, VerificationExpired, VerificationInputInvalid,
      VerificationMalformedResponse, VerificationProviderTimeout, VerificationProviderUnavailable,
      VerificationRateLimited]"

fun listed_error :: "exn_class \<Rightarrow> bool" where
  "listed_error (VerificationExn e) = (e \<in> set VERIFICATION_API_ERRORS)"
| "listed_error _ = False"

definition provider_error_response :: "exn \<Rightarrow> exn + api_answer" where
  "provider_error_response x =
     (case exn_class x of
        VerificationExn e \<Rightarrow>
          if e \<in> {VerificationRateLimited, VerificationBlocked}
          then answer 429 (Detail_Body ''Verification is temporarily unavailable. Try again later.'')
          else if e \<in> {VerificationInputInvalid, VerificationExpired}
          then answer 400 (Detail_Body ''The verification challenge or code is invalid.'')
          else if e \<in> {PhoneAlreadyVerified, PhoneNumberChanged}
          then answer 409 (Detail_Body (exn_text x))
          else if e \<in> {VerificationAuthenticationError, VerificationConfigurationError,
            VerificationMalformedResponse, VerificationProviderTimeout, VerificationProviderUnavailable}
          then answer 503 (Detail_Body ''Verification is temporarily unavailable.'')
          else Inl x
      | _ \<Rightarrow> Inl x)"

definition verification_error_message :: "exn \<Rightarrow> string" where
  "verification_error_message x =
     (if exn_class x = VerificationExn PhoneAlreadyVerified then ''This phone number is already verified.''
      else ''Verification could not be completed. Please try again later.'')"

text \<open>\<open>None if phone.is_verified else get_phone_verification_gateway()\<close>.\<close>

definition gateway_for :: "request_env \<Rightarrow> phone_number \<Rightarrow> exn + verification_gateway option" where
  "gateway_for env p = (if is_verified p then Inr None else map_sum id Some (re_gateway env))"

text \<open>
  The two verification services, called on the phone the view has read: the gateway is built first, then
  the service reads the phone again. Clock readings and interference as in the services.
\<close>

definition start_on :: "request_env \<Rightarrow> row_id \<Rightarrow> phone_number \<Rightarrow> db \<Rightarrow> verification_outcome" where
  "start_on env user phone d =
     (case gateway_for env phone of
        Inl x \<Rightarrow> (Inl x, d, [])
      | Inr gateway \<Rightarrow>
          (case start_user_phone_verification (ph_id phone) user gateway (re_before env d) of
             (r, calls) \<Rightarrow> (r, re_before env d, calls)))"

definition check_on :: "request_env \<Rightarrow> row_id \<Rightarrow> phone_number \<Rightarrow> string \<Rightarrow> db \<Rightarrow> verification_outcome" where
  "check_on env user phone given d =
     (case gateway_for env phone of
        Inl x \<Rightarrow> (Inl x, d, [])
      | Inr gateway \<Rightarrow>
          check_user_phone_verification (ph_id phone) (Some given) user gateway None (re_during env)
            (re_clock env) (re_before env d))"

section \<open>API\<close>

definition phones_of_user :: "row_id \<Rightarrow> db \<Rightarrow> phone_number list" where
  "phones_of_user user d =
     order_by (\<lambda>p. map code (ph_number p)) (filter (\<lambda>p. ph_user p = user) (rows (db_phones d)))"

definition phone_number_list :: "row_id \<Rightarrow> nat \<Rightarrow> db \<Rightarrow> exn + api_answer" where
  "phone_number_list user number d = paginated number phone_representation (phones_of_user user d)"

definition phone_number_create :: "request_env \<Rightarrow> row_id \<Rightarrow> json \<Rightarrow> db \<Rightarrow> api_outcome" where
  "phone_number_create env user data d =
     (case phone_number_serializer (re_framework env) data of
        Inl x \<Rightarrow> (Inl x, d)
      | Inr (Inl errors) \<Rightarrow> (bad_request errors, d)
      | Inr (Inr number) \<Rightarrow>
          (case create_phone_number user number (re_clock env) d of
             Inl x \<Rightarrow> (if is_validation_error (exn_class x) then bad_request (validation_detail x) else Inl x, d)
           | Inr (p, d') \<Rightarrow> (answer 201 (Object_Body (phone_representation p)), d')))"

text \<open>
  What both verification views do with the outcome of the service: the phone is read once more for the
  answer, a phone that is gone is a 404, and the listed errors have their own answers.
\<close>

definition safe_phone_data :: "row_id \<Rightarrow> row_id \<Rightarrow> db \<Rightarrow> exn + representation" where
  "safe_phone_data phone_number_id user d =
     bind_res (get_user_phone phone_number_id user d) (\<lambda>p. Inr (phone_representation p))"

definition verification_answer ::
  "row_id \<Rightarrow> row_id \<Rightarrow> verification_outcome \<Rightarrow> api_answer gateway_outcome" where
  "verification_answer phone_number_id user outcome =
     (case outcome of (r, d, calls) \<Rightarrow>
        (case bind_res r (\<lambda>result. bind_res (safe_phone_data phone_number_id user d) (\<lambda>phone. Inr (result, phone))) of
           Inr (result, phone) \<Rightarrow>
             answer 200 (Verification_Body (verification_status_value (vr_status result)) phone)
         | Inl x \<Rightarrow> if exn_class x = DoesNotExist then not_found
             else if listed_error (exn_class x) then provider_error_response x
             else Inl x, d, calls))"

definition throttled_answer :: "exn + api_answer" where
  "throttled_answer = answer 429 (Detail_Body ''Request was throttled.'')"

definition phone_verification_start_view ::
  "request_env \<Rightarrow> row_id \<Rightarrow> row_id \<Rightarrow> db \<Rightarrow> api_answer gateway_outcome" where
  "phone_verification_start_view env user phone_number_id d =
     (if \<not> re_allowed env then (throttled_answer, d, [])
      else verification_answer phone_number_id user
        (case get_user_phone phone_number_id user d of
           Inl x \<Rightarrow> (Inl x, d, [])
         | Inr phone \<Rightarrow> start_on env user phone d))"

definition phone_verification_check_view ::
  "request_env \<Rightarrow> row_id \<Rightarrow> row_id \<Rightarrow> json \<Rightarrow> db \<Rightarrow> api_answer gateway_outcome" where
  "phone_verification_check_view env user phone_number_id data d =
     (if \<not> re_allowed env then (throttled_answer, d, [])
      else case verification_check_serializer (re_framework env) data of
        Inl x \<Rightarrow> (Inl x, d, [])
      | Inr (Inl errors) \<Rightarrow> (bad_request errors, d, [])
      | Inr (Inr given) \<Rightarrow> verification_answer phone_number_id user
          (case get_user_phone phone_number_id user d of
             Inl x \<Rightarrow> (Inl x, d, [])
           | Inr phone \<Rightarrow> check_on env user phone given d))"

section \<open>Pages\<close>

definition phone_list :: "row_id \<Rightarrow> db \<Rightarrow> page" where
  "phone_list user d =
     Phone_List_Page (map (\<lambda>p. (p, serializer_mask_phone_number (ph_number p))) (phones_of_user user d))"

definition phone_enroll :: "request_env \<Rightarrow> row_id \<Rightarrow> bool \<Rightarrow> form_params \<Rightarrow> db \<Rightarrow> page_outcome" where
  "phone_enroll env user posted post d =
     (if \<not> posted then (Inr (Phone_Form_Page 200 []), d)
      else if post = [] then (Inr (Phone_Form_Page 400 []), d)
      else case phone_enrollment_form (re_framework env) post of
        Inl x \<Rightarrow> (Inl x, d)
      | Inr (Inl errors) \<Rightarrow> (Inr (Phone_Form_Page 400 errors), d)
      | Inr (Inr number) \<Rightarrow>
          (case create_phone_number user number (re_clock env) d of
             Inl x \<Rightarrow> if is_validation_error (exn_class x)
               then (Inr (Phone_Form_Page 400 [(''number'', ''This phone number cannot be enrolled.'')]), d)
               else (Inl x, d)
           | Inr (p, d') \<Rightarrow> (Inr (Redirect ''accounts_web:phone-verify'' (Some (ph_id p))
               (Some (''success'', ''Phone enrolled. Verify it before scheduling.''))), d')))"

text \<open>The page shown unless a redirect or a 404 ended the view: the phone is read again.\<close>

definition render_phone_verify ::
  "row_id \<Rightarrow> nat \<Rightarrow> field_errors \<Rightarrow> db \<Rightarrow> gateway_call list \<Rightarrow> page gateway_outcome" where
  "render_phone_verify phone_number_id status errors d calls =
     (case get_phone phone_number_id d of
        None \<Rightarrow> (Inl phone_missing, d, calls)
      | Some p \<Rightarrow> (Inr (Phone_Verify_Page status p (serializer_mask_phone_number (ph_number p)) errors), d, calls))"

definition phone_verify ::
  "request_env \<Rightarrow> row_id \<Rightarrow> bool \<Rightarrow> row_id \<Rightarrow> form_params \<Rightarrow> db \<Rightarrow> page gateway_outcome" where
  "phone_verify env user posted phone_number_id post d =
     (case get_user_phone phone_number_id user d of
        Inl x \<Rightarrow> (Inr No_Such_Page, d, [])
      | Inr phone \<Rightarrow>
          if \<not> posted then render_phone_verify phone_number_id 200 [] d []
          else if post = [] then render_phone_verify phone_number_id 400 [] d []
          else case verification_code_form post of
            Inl x \<Rightarrow> (Inl x, d, [])
          | Inr (Inl errors) \<Rightarrow> render_phone_verify phone_number_id 400 errors d []
          | Inr (Inr given) \<Rightarrow>
              if \<not> re_allowed env
              then render_phone_verify phone_number_id 400
                (non_field_error ''Too many verification attempts. Try again later.'') d []
              else case check_on env user phone given d of
                (Inl x, d', calls) \<Rightarrow>
                  if exn_class x = DoesNotExist then (Inr No_Such_Page, d', calls)
                  else if listed_error (exn_class x)
                  then render_phone_verify phone_number_id 400
                    (non_field_error (verification_error_message x)) d' calls
                  else (Inl x, d', calls)
              | (Inr result, d', calls) \<Rightarrow>
                  if vr_status result = V_APPROVED
                  then (Inr (Redirect ''accounts_web:phone-list'' None
                    (Some (''success'', ''Phone verified and ready to schedule.''))), d', calls)
                  else render_phone_verify phone_number_id 400
                    (non_field_error ''That code was not approved. Check it and try again.'') d' calls)"

definition phone_verification_start ::
  "request_env \<Rightarrow> row_id \<Rightarrow> row_id \<Rightarrow> db \<Rightarrow> page gateway_outcome" where
  "phone_verification_start env user phone_number_id d =
     (let back = (\<lambda>level text. Inr (Redirect ''accounts_web:phone-verify'' (Some phone_number_id) (Some (level, text))))
      in case get_user_phone phone_number_id user d of
        Inl x \<Rightarrow> (Inr No_Such_Page, d, [])
      | Inr phone \<Rightarrow>
          if \<not> re_allowed env
          then (back ''error'' ''Too many verification starts. Try again later.'', d, [])
          else case start_on env user phone d of
            (Inl x, d', calls) \<Rightarrow>
              (if exn_class x = DoesNotExist then Inr No_Such_Page
               else if listed_error (exn_class x) then back ''error'' (verification_error_message x)
               else Inl x, d', calls)
          | (Inr result, d', calls) \<Rightarrow>
              (if vr_status result = V_PENDING then back ''success'' ''Verification code requested.''
               else back ''info'' ''Verification request completed.'', d', calls))"

end
