(* ===== verification/Urls.thy ===== *)
theory Urls
  imports Account_Views
begin

text \<open>
  \<open>config/urls.py\<close> with the URL files it includes, and the dispatch of a request to the views: the decorators
  and permission classes in front of them (who is logged in, which methods a view takes) and the view itself.
  The administration site behind \<open>admin/\<close> is Django's and not routed here.
\<close>

section \<open>Routes\<close>

datatype user_route =
    Home
  | Event_List
  | Event_New
  | Event_Detail row_id
  | Event_Reschedule row_id
  | Event_Channel row_id
  | Event_Cancel row_id
  | Phone_List
  | Phone_New
  | Phone_Verify row_id
  | Phone_Verification_Start row_id
  | Api_Phones
  | Api_Verification_Start row_id
  | Api_Verification_Check row_id
  | Api_Events
  | Api_Event row_id
  | Api_Event_Cancel row_id
  | Api_Event_Reschedule row_id
  | Api_Event_Channel row_id

datatype route =
    User_Route user_route
  | Login_Route
  | Logout_Route
  | Health_Route
  | Voice_Status_Route
  | Voice_Action_Route
  | Inbound_Sms_Route

text \<open>A pattern is its segments between slashes; \<open>Int_Segment\<close> is \<open><int:...>\<close>, and no pattern has two of them.\<close>

datatype segment = Fixed string | Int_Segment

record url_pattern =
  up_segments :: "segment list"
  up_route :: "row_id \<Rightarrow> route"
  up_name :: string

definition pattern :: "segment list \<Rightarrow> (row_id \<Rightarrow> route) \<Rightarrow> string \<Rightarrow> url_pattern" where
  "pattern segs r name = \<lparr>up_segments = segs, up_route = r, up_name = name\<rparr>"

definition accounts_api_urls :: "url_pattern list" where
  "accounts_api_urls =
     [pattern [Fixed ''api'', Fixed ''phones'', Fixed ''''] (\<lambda>_. User_Route Api_Phones) ''accounts:phone-list'',
      pattern [Fixed ''api'', Fixed ''phones'', Int_Segment, Fixed ''verification'', Fixed ''start'', Fixed '''']
        (\<lambda>i. User_Route (Api_Verification_Start i)) ''accounts:phone-verification-start'',
      pattern [Fixed ''api'', Fixed ''phones'', Int_Segment, Fixed ''verification'', Fixed ''check'', Fixed '''']
        (\<lambda>i. User_Route (Api_Verification_Check i)) ''accounts:phone-verification-check'']"

definition scheduling_api_urls :: "url_pattern list" where
  "scheduling_api_urls =
     [pattern [Fixed ''api'', Fixed ''events'', Fixed ''''] (\<lambda>_. User_Route Api_Events) ''scheduling:event-list'',
      pattern [Fixed ''api'', Fixed ''events'', Int_Segment, Fixed '''']
        (\<lambda>i. User_Route (Api_Event i)) ''scheduling:event-detail'',
      pattern [Fixed ''api'', Fixed ''events'', Int_Segment, Fixed ''cancel'', Fixed '''']
        (\<lambda>i. User_Route (Api_Event_Cancel i)) ''scheduling:event-cancel'',
      pattern [Fixed ''api'', Fixed ''events'', Int_Segment, Fixed ''reschedule'', Fixed '''']
        (\<lambda>i. User_Route (Api_Event_Reschedule i)) ''scheduling:event-reschedule'',
      pattern [Fixed ''api'', Fixed ''events'', Int_Segment, Fixed ''channel'', Fixed '''']
        (\<lambda>i. User_Route (Api_Event_Channel i)) ''scheduling:event-channel'']"

definition accounts_web_urls :: "url_pattern list" where
  "accounts_web_urls =
     [pattern [Fixed ''phones'', Fixed ''''] (\<lambda>_. User_Route Phone_List) ''accounts_web:phone-list'',
      pattern [Fixed ''phones'', Fixed ''new'', Fixed ''''] (\<lambda>_. User_Route Phone_New) ''accounts_web:phone-enroll'',
      pattern [Fixed ''phones'', Int_Segment, Fixed ''verify'', Fixed '''']
        (\<lambda>i. User_Route (Phone_Verify i)) ''accounts_web:phone-verify'',
      pattern [Fixed ''phones'', Int_Segment, Fixed ''verification'', Fixed ''start'', Fixed '''']
        (\<lambda>i. User_Route (Phone_Verification_Start i)) ''accounts_web:phone-verification-start'']"

definition scheduling_web_urls :: "url_pattern list" where
  "scheduling_web_urls =
     [pattern [Fixed ''''] (\<lambda>_. User_Route Home) ''scheduling_web:home'',
      pattern [Fixed ''events'', Fixed ''''] (\<lambda>_. User_Route Event_List) ''scheduling_web:event-list'',
      pattern [Fixed ''events'', Fixed ''new'', Fixed ''''] (\<lambda>_. User_Route Event_New) ''scheduling_web:event-create'',
      pattern [Fixed ''events'', Int_Segment, Fixed '''']
        (\<lambda>i. User_Route (Event_Detail i)) ''scheduling_web:event-detail'',
      pattern [Fixed ''events'', Int_Segment, Fixed ''reschedule'', Fixed '''']
        (\<lambda>i. User_Route (Event_Reschedule i)) ''scheduling_web:event-reschedule'',
      pattern [Fixed ''events'', Int_Segment, Fixed ''channel'', Fixed '''']
        (\<lambda>i. User_Route (Event_Channel i)) ''scheduling_web:event-channel'',
      pattern [Fixed ''events'', Int_Segment, Fixed ''cancel'', Fixed '''']
        (\<lambda>i. User_Route (Event_Cancel i)) ''scheduling_web:event-cancel'']"

definition urlpatterns :: "url_pattern list" where
  "urlpatterns =
     [pattern [Fixed ''login'', Fixed ''''] (\<lambda>_. Login_Route) ''login'',
      pattern [Fixed ''logout'', Fixed ''''] (\<lambda>_. Logout_Route) ''logout'']
     @ accounts_api_urls @ scheduling_api_urls @ accounts_web_urls @ scheduling_web_urls
     @ [pattern [Fixed ''health'', Fixed ''''] (\<lambda>_. Health_Route) ''health'',
        pattern [Fixed ''twilio'', Fixed ''voice'', Fixed ''status'', Fixed '''']
          (\<lambda>_. Voice_Status_Route) ''twilio-voice-status'',
        pattern [Fixed ''twilio'', Fixed ''voice'', Fixed ''action'', Fixed '''']
          (\<lambda>_. Voice_Action_Route) ''twilio-voice-action'',
        pattern [Fixed ''twilio'', Fixed ''sms'', Fixed ''inbound'', Fixed '''']
          (\<lambda>_. Inbound_Sms_Route) ''twilio-inbound-sms'']"

section \<open>Resolving a path, and building one\<close>

fun split_slash :: "string \<Rightarrow> string list" where
  "split_slash [] = [[]]"
| "split_slash (c # s) =
     (if c = CHR ''/'' then [] # split_slash s
      else case split_slash s of [] \<Rightarrow> [[c]] | seg # segs \<Rightarrow> (c # seg) # segs)"

fun join_slash :: "string list \<Rightarrow> string" where
  "join_slash [] = []"
| "join_slash [s] = s"
| "join_slash (s # t # ss) = s @ CHR ''/'' # join_slash (t # ss)"

text \<open>The converter \<open>int\<close> takes one or more decimal digits; the last argument is the value captured so far.\<close>

fun match_segments :: "segment list \<Rightarrow> string list \<Rightarrow> row_id \<Rightarrow> row_id option" where
  "match_segments [] [] i = Some i"
| "match_segments (Fixed f # ps) (s # ss) i = (if f = s then match_segments ps ss i else None)"
| "match_segments (Int_Segment # ps) (s # ss) i =
     (if s \<noteq> [] \<and> all_digits s then match_segments ps ss (digits_value 0 s) else None)"
| "match_segments _ _ i = None"

fun resolve_in :: "url_pattern list \<Rightarrow> string list \<Rightarrow> route option" where
  "resolve_in [] segs = None"
| "resolve_in (p # ps) segs =
     (case match_segments (up_segments p) segs 0 of
        Some i \<Rightarrow> Some (up_route p i)
      | None \<Rightarrow> resolve_in ps segs)"

text \<open>A path is given without its leading slash.\<close>

definition resolve :: "string \<Rightarrow> route option" where
  "resolve path = resolve_in urlpatterns (split_slash path)"

fun fill_segment :: "row_id \<Rightarrow> segment \<Rightarrow> string" where
  "fill_segment i (Fixed s) = s"
| "fill_segment i Int_Segment = decimal (nat i)"

definition reverse_url :: "string \<Rightarrow> row_id \<Rightarrow> string option" where
  "reverse_url name i =
     map_option (\<lambda>p. join_slash (map (fill_segment i) (up_segments p))) (find (\<lambda>p. up_name p = name) urlpatterns)"

section \<open>Dispatch\<close>

text \<open>
  The body of a request is its form parameters or its JSON object, \<open>ur_page\<close> the page number of a list;
  \<open>Page_Bad_Method\<close> is the 405 of the method decorators.
\<close>

datatype http_method = GET | POST

record user_request =
  ur_method :: http_method
  ur_post :: form_params
  ur_data :: json
  ur_page :: nat

datatype user_answer = Page page | Login_Page | Page_Bad_Method | Api api_answer

type_synonym user_outcome = "(exn + user_answer) \<times> db \<times> gateway_call list"

definition as_page :: "page_outcome \<Rightarrow> user_outcome" where
  "as_page o' = (case o' of (r, d) \<Rightarrow> (map_sum id Page r, d, []))"

definition as_called_page :: "page gateway_outcome \<Rightarrow> user_outcome" where
  "as_called_page o' = (case o' of (r, d, calls) \<Rightarrow> (map_sum id Page r, d, calls))"

definition as_api :: "api_outcome \<Rightarrow> user_outcome" where
  "as_api o' = (case o' of (r, d) \<Rightarrow> (map_sum id Api r, d, []))"

definition as_called_api :: "api_answer gateway_outcome \<Rightarrow> user_outcome" where
  "as_called_api o' = (case o' of (r, d, calls) \<Rightarrow> (map_sum id Api r, d, calls))"

definition bad_method_answer :: "exn + api_answer" where
  "bad_method_answer = answer 405 (Detail_Body ''Method not allowed.'')"

fun serve_page :: "request_env \<Rightarrow> row_id \<Rightarrow> user_request \<Rightarrow> user_route \<Rightarrow> db \<Rightarrow> user_outcome" where
  "serve_page env user req Home d =
     (if ur_method req = GET then (Inr (Page (Redirect ''scheduling_web:event-list'' None None)), d, [])
      else (Inr Page_Bad_Method, d, []))"
| "serve_page env user req Event_List d =
     (if ur_method req = GET then (Inr (Page (event_list user d)), d, []) else (Inr Page_Bad_Method, d, []))"
| "serve_page env user req Event_New d =
     as_page (event_create env user (ur_method req = POST) (ur_post req) d)"
| "serve_page env user req (Event_Detail i) d =
     (if ur_method req = GET then (Inr (Page (event_detail user i d)), d, []) else (Inr Page_Bad_Method, d, []))"
| "serve_page env user req (Event_Reschedule i) d =
     (if ur_method req = POST then as_page (event_reschedule env user i (ur_post req) d)
      else (Inr Page_Bad_Method, d, []))"
| "serve_page env user req (Event_Channel i) d =
     (if ur_method req = POST then as_page (event_channel env user i (ur_post req) d)
      else (Inr Page_Bad_Method, d, []))"
| "serve_page env user req (Event_Cancel i) d =
     (if ur_method req = POST then as_page (event_cancel env user i d) else (Inr Page_Bad_Method, d, []))"
| "serve_page env user req Phone_List d =
     (if ur_method req = GET then (Inr (Page (phone_list user d)), d, []) else (Inr Page_Bad_Method, d, []))"
| "serve_page env user req Phone_New d =
     as_page (phone_enroll env user (ur_method req = POST) (ur_post req) d)"
| "serve_page env user req (Phone_Verify i) d =
     as_called_page (phone_verify env user (ur_method req = POST) i (ur_post req) d)"
| "serve_page env user req (Phone_Verification_Start i) d =
     (if ur_method req = POST then as_called_page (phone_verification_start env user i d)
      else (Inr Page_Bad_Method, d, []))"
| "serve_page env user req Api_Phones d =
     (if ur_method req = GET then (map_sum id Api (phone_number_list user (ur_page req) d), d, [])
      else as_api (phone_number_create env user (ur_data req) d))"
| "serve_page env user req (Api_Verification_Start i) d =
     (if ur_method req = POST then as_called_api (phone_verification_start_view env user i d)
      else (map_sum id Api (if re_allowed env then bad_method_answer else throttled_answer), d, []))"
| "serve_page env user req (Api_Verification_Check i) d =
     (if ur_method req = POST then as_called_api (phone_verification_check_view env user i (ur_data req) d)
      else (map_sum id Api (if re_allowed env then bad_method_answer else throttled_answer), d, []))"
| "serve_page env user req Api_Events d =
     (if ur_method req = GET then (map_sum id Api (scheduled_event_list user (ur_page req) d), d, [])
      else as_api (scheduled_event_create env user (ur_data req) d))"
| "serve_page env user req (Api_Event i) d =
     (map_sum id Api (if ur_method req = GET then scheduled_event_detail user i d else bad_method_answer), d, [])"
| "serve_page env user req (Api_Event_Cancel i) d =
     (if ur_method req = POST then as_api (scheduled_event_cancel_view env user i d)
      else (map_sum id Api bad_method_answer, d, []))"
| "serve_page env user req (Api_Event_Reschedule i) d =
     (if ur_method req = POST then as_api (scheduled_event_reschedule_view env user i (ur_data req) d)
      else (map_sum id Api bad_method_answer, d, []))"
| "serve_page env user req (Api_Event_Channel i) d =
     (if ur_method req = POST then as_api (scheduled_event_channel_view env user i (ur_data req) d)
      else (map_sum id Api bad_method_answer, d, []))"

fun is_api :: "user_route \<Rightarrow> bool" where
  "is_api Api_Phones = True"
| "is_api (Api_Verification_Start _) = True"
| "is_api (Api_Verification_Check _) = True"
| "is_api Api_Events = True"
| "is_api (Api_Event _) = True"
| "is_api (Api_Event_Cancel _) = True"
| "is_api (Api_Event_Reschedule _) = True"
| "is_api (Api_Event_Channel _) = True"
| "is_api _ = False"

text \<open>\<open>login_required\<close> redirects to the login page, \<open>IsAuthenticated\<close> answers 401.\<close>

definition serve ::
  "request_env \<Rightarrow> row_id option \<Rightarrow> user_request \<Rightarrow> user_route \<Rightarrow> db \<Rightarrow> user_outcome" where
  "serve env logged_in req r d =
     (case logged_in of
        Some user \<Rightarrow> serve_page env user req r d
      | None \<Rightarrow>
          if is_api r
          then (map_sum id Api (answer 401 (Detail_Body ''Authentication credentials were not provided.'')), d, [])
          else (Inr Login_Page, d, []))"

section \<open>Paths and routes\<close>

lemma split_slash_no_slash: "CHR ''/'' \<notin> set s \<Longrightarrow> split_slash s = [s]"
  by (induction s) auto

lemma split_slash_append: "CHR ''/'' \<notin> set s \<Longrightarrow> split_slash (s @ CHR ''/'' # t) = s # split_slash t"
  by (induction s) auto

lemma split_join:
  "ss \<noteq> [] \<Longrightarrow> \<forall>s \<in> set ss. CHR ''/'' \<notin> set s \<Longrightarrow> split_slash (join_slash ss) = ss"
  by (induction ss rule: join_slash.induct) (auto simp: split_slash_no_slash split_slash_append)

fun valid_segment :: "segment \<Rightarrow> bool" where
  "valid_segment (Fixed s) = (CHR ''/'' \<notin> set s)"
| "valid_segment Int_Segment = True"

end
