(* ===== verification/View_Isolation.thy ===== *)
theory View_Isolation
  imports Urls Processes
begin

text \<open>
  Users cannot reach each other's rows: what one request writes is a change of the user's own rows, and what
  it answers depends on no other user's rows.
\<close>

section \<open>Own changes\<close>

text \<open>The writing transactions behind the views, run for one user.\<close>

inductive own_step :: "row_id \<Rightarrow> db \<Rightarrow> db \<Rightarrow> bool" where
  stay: "own_step user d d"
| create: "create_scheduled_event user i z dt ch clk d = Inr (e, d') \<Longrightarrow> own_step user d d'"
| cancel: "cancel_user_scheduled_event i user t clk d = Inr (e, d') \<Longrightarrow> own_step user d d'"
| reschedule: "reschedule_user_scheduled_event i user w now clk d = Inr (e, d') \<Longrightarrow> own_step user d d'"
| change_channel: "change_user_scheduled_event_channel i user ch clk d = Inr (e, d') \<Longrightarrow> own_step user d d'"
| enrol: "create_phone_number user number clk d = Inr (p, d') \<Longrightarrow> own_step user d d'"
| verify: "get_phone i d = Some p \<Longrightarrow> ph_user p = user \<Longrightarrow> ph_verified_at p = None \<Longrightarrow>
    own_step user d (put_phone i (\<lambda>r. r\<lparr>ph_verified_at := Some v, ph_updated_at := now\<rparr>) d)"

definition others_unchanged :: "row_id \<Rightarrow> db \<Rightarrow> db \<Rightarrow> bool" where
  "others_unchanged user d d' \<longleftrightarrow>
     events_where (\<lambda>e. ev_user e \<noteq> user) d' = events_where (\<lambda>e. ev_user e \<noteq> user) d \<and>
     filter (\<lambda>p. ph_user p \<noteq> user) (rows (db_phones d')) = filter (\<lambda>p. ph_user p \<noteq> user) (rows (db_phones d)) \<and>
     db_attempts d' = db_attempts d \<and> db_commands d' = db_commands d"

lemma others_unchanged_refl [simp]: "others_unchanged user d d"
  by (simp add: others_unchanged_def)

lemma filter_map_row:
  assumes "\<And>r. r \<in> set rs \<Longrightarrow> key r = i \<Longrightarrow> \<not> P r \<and> \<not> P (f r)"
  shows "filter P (map (\<lambda>r. if key r = i then f r else r) rs) = filter P rs"
  using assms by (induction rs) auto

lemma others_unchanged_put_event:
  assumes wf: "wf_db d" and e: "get_event i d = Some e" "ev_user e = user" "ev_user (f e) = user"
  shows "others_unchanged user d (put_event i f d)"
proof -
  have "r = e" if "r \<in> set (rows (db_events d))" "ev_id r = i" for r
    using wf_get_event_of_member [OF wf that(1)] that(2) e(1) by simp
  then show ?thesis
    using e unfolding others_unchanged_def events_where_def
    by (auto simp: rows_update_row intro!: filter_map_row)
qed

lemma wf_get_phone_of_member: "wf_db d \<Longrightarrow> p \<in> set (rows (db_phones d)) \<Longrightarrow> get_phone (ph_id p) d = Some p"
  by (simp add: wf_db_def get_phone_def find_row_of_member)

lemma others_unchanged_put_phone:
  assumes wf: "wf_db d" and p: "get_phone i d = Some p" "ph_user p = user" "ph_user (f p) = user"
  shows "others_unchanged user d (put_phone i f d)"
proof -
  have "r = p" if "r \<in> set (rows (db_phones d))" "ph_id r = i" for r
    using wf_get_phone_of_member [OF wf that(1)] that(2) p(1) by simp
  then show ?thesis
    using p unfolding others_unchanged_def events_where_def
    by (auto simp: rows_update_row intro!: filter_map_row)
qed

context pending_change
begin

lemma keeps_others:
  assumes "wf_db d" and "change i user d = Inr (e', d')"
  shows "others_unchanged user d d'"
proof -
  obtain e where e: "get_event i d = Some e" "ev_user e = user" using owned_and_scheduled [OF assms(2)] by blast
  obtain f where f: "\<forall>r. ev_id (f r) = ev_id r" "d' = put_event i f d" using only_this_event [OF assms(2)] by blast
  have "f e = e'" using row_returned [OF assms(2)] e f by (simp add: events.get_put)
  then have "ev_user (f e) = user" using row_returned [OF assms(2)] by simp
  with others_unchanged_put_event [OF assms(1) e] f(2) show ?thesis by simp
qed

end

lemma own_step_safe:
  assumes "own_step user d d'" and wf: "wf_db d"
  shows "others_unchanged user d d' \<and> wf_db d'"
  using assms(1)
proof cases
  case (create i z dt ch clk e)
  have user: "ev_user e = user" using create by (cases rule: create_scheduled_event_Inr) simp
  have "others_unchanged user d d'" using create user
    by (cases rule: create_scheduled_event_Inr) (simp add: others_unchanged_def events_where_def insert_row_simps)
  then show ?thesis using create_scheduled_event_wf [OF wf create] by blast
next
  case (enrol number clk p)
  then show ?thesis using create_phone_number_wf [OF wf enrol]
    by (auto simp: create_phone_number_def Let_def insert_row_def others_unchanged_def events_where_def)
next
  case (verify i p v now)
  have "wf_db d'" unfolding verify(1) by (rule wf_put_phone [OF wf]) (auto simp: is_verified_def)
  then show ?thesis using others_unchanged_put_phone [OF wf verify(2,3)] verify(1,3) by simp
next
  case (cancel i t clk e)
  with wf show ?thesis using cancelling.keeps_others cancelling.keeps_wf by blast
next
  case (reschedule i w now clk e)
  with wf show ?thesis using rescheduling.keeps_others rescheduling.keeps_wf by blast
next
  case (change_channel i ch clk e)
  with wf show ?thesis using channel_change.keeps_others channel_change.keeps_wf by blast
qed (use wf in simp)

text \<open>It is a step of the concurrent system, so what holds of its schedules holds with these requests in them.\<close>

lemma own_step_user_step:
  assumes "own_step user d d'"
  shows "d' = d \<or> user_step d d'"
  using assms
proof cases
  case (verify i p v now)
  then have "\<exists>v now. mark_phone_verified i (ph_number p) v now d = Inr ((), d')"
    by (auto simp: mark_phone_verified_def bind_require)
  then show ?thesis by (blast intro: user_step.verify_phone)
qed (auto intro: user_step.intros)

section \<open>Interference\<close>

text \<open>What the others commit meanwhile keeps the database well-formed and takes nobody's phone away.\<close>

definition keeps_owners :: "(db \<Rightarrow> db) \<Rightarrow> bool" where
  "keeps_owners others \<longleftrightarrow>
     (\<forall>d. wf_db d \<longrightarrow> wf_db (others d)) \<and>
     (\<forall>d i p. get_phone i d = Some p \<longrightarrow>
        (\<exists>q. get_phone i (others d) = Some q \<and> ph_user q = ph_user p))"

definition interference_ok :: "request_env \<Rightarrow> bool" where
  "interference_ok env \<longleftrightarrow> keeps_owners (re_before env) \<and> keeps_owners (re_during env)"

lemma keeps_owners_id [simp]: "keeps_owners (\<lambda>d. d)"
  by (simp add: keeps_owners_def)

text \<open>
  A view's effect: at one of the points where it may write, one transaction of the user. The calls it makes
  are for a phone of the user.
\<close>

definition own_effect :: "request_env \<Rightarrow> row_id \<Rightarrow> db \<Rightarrow> db \<Rightarrow> bool" where
  "own_effect env user d d' \<longleftrightarrow>
     own_step user d d' \<or> own_step user (re_before env d) d' \<or>
     own_step user (re_during env (re_before env d)) d'"

fun called_number :: "gateway_call \<Rightarrow> string" where
  "called_number (Start_Call n) = n"
| "called_number (Check_Call n s) = n"

definition calls_own :: "request_env \<Rightarrow> row_id \<Rightarrow> db \<Rightarrow> gateway_call list \<Rightarrow> bool" where
  "calls_own env user d calls \<longleftrightarrow>
     length calls \<le> 1 \<and>
     (\<forall>c \<in> set calls. \<exists>i p. get_phone i (re_before env d) = Some p \<and> ph_user p = user \<and>
        \<not> is_verified p \<and> ph_number p = called_number c)"

lemma calls_own_Nil [simp]: "calls_own env user d []"
  by (simp add: calls_own_def)

lemma own_effect_stay [simp]: "own_effect env user d d" "own_effect env user d (re_before env d)"
  by (auto simp: own_effect_def intro: own_step.stay)

lemma own_effectI:
  "own_step user d d' \<Longrightarrow> own_effect env user d d'"
  "own_step user (re_before env d) d' \<Longrightarrow> own_effect env user d d'"
  "own_step user (re_during env (re_before env d)) d' \<Longrightarrow> own_effect env user d d'"
  by (simp_all add: own_effect_def)

text \<open>The pages and API calls that change events.\<close>

lemmas change_view_defs = event_create_def event_reschedule_def event_channel_def event_cancel_def
  scheduled_event_create_def scheduled_event_cancel_view_def scheduled_event_reschedule_view_def
  scheduled_event_channel_view_def phone_number_create_def phone_enroll_def changed_event_def render_refreshed_def

lemmas own_effect_intros = own_effectI [OF own_step.create] own_effectI [OF own_step.cancel]
  own_effectI [OF own_step.reschedule] own_effectI [OF own_step.change_channel] own_effectI [OF own_step.enrol]

lemma event_views_own:
  "event_create env user posted post d = (r, d') \<Longrightarrow> own_effect env user d d'"
  "event_reschedule env user i post d = (r, d') \<Longrightarrow> own_effect env user d d'"
  "event_channel env user i post d = (r, d') \<Longrightarrow> own_effect env user d d'"
  "event_cancel env user i d = (r, d') \<Longrightarrow> own_effect env user d d'"
  "scheduled_event_create env user data d = (a, d') \<Longrightarrow> own_effect env user d d'"
  "scheduled_event_cancel_view env user i d = (a, d') \<Longrightarrow> own_effect env user d d'"
  "scheduled_event_reschedule_view env user i data d = (a, d') \<Longrightarrow> own_effect env user d d'"
  "scheduled_event_channel_view env user i data d = (a, d') \<Longrightarrow> own_effect env user d d'"
  "phone_number_create env user data d = (a, d') \<Longrightarrow> own_effect env user d d'"
  "phone_enroll env user posted post d = (r, d') \<Longrightarrow> own_effect env user d d'"
  unfolding change_view_defs by (auto split: if_splits sum.splits option.splits intro: own_effect_intros)

text \<open>The verification services behind the views.\<close>

lemma start_on_own:
  assumes "start_on env user phone d = (r, d', calls)"
  shows "own_effect env user d d' \<and> calls_own env user d calls"
  using assms
  by (auto simp: start_on_def start_user_phone_verification_def calls_own_def
      split: sum.splits prod.splits if_splits option.splits) blast

lemma check_on_own:
  assumes "interference_ok env" and "check_on env user phone given d = (r, d', calls)"
  shows "own_effect env user d d' \<and> calls_own env user d calls"
proof (cases "gateway_for env phone")
  case (Inl x)
  with assms show ?thesis by (simp add: check_on_def)
next
  case (Inr g)
  let ?d = "re_before env d"
  have run: "check_user_phone_verification (ph_id phone) (Some given) user g None (re_during env) (re_clock env) ?d
      = (r, d', calls)"
    using assms(2) Inr by (simp add: check_on_def)
  show ?thesis
  proof (cases "bind_res (require_code (Some given)) (\<lambda>s. bind_res (get_user_phone (ph_id phone) user ?d) (\<lambda>p. Inr (s, p)))")
    case (Inl x)
    with run have "d' = re_before env d \<and> calls = []" by (simp add: check_user_phone_verification_def)
    then show ?thesis by simp
  next
    case sp: (Inr sp)
    then obtain p where p: "sp = (given, p)" "get_phone (ph_id phone) ?d = Some p" "ph_user p = user" by auto
    show ?thesis
    proof (cases "is_verified p \<or> g = None")
      case True
      with run sp p have "d' = re_before env d \<and> calls = []"
        by (auto simp: check_user_phone_verification_def split: if_splits)
      then show ?thesis by simp
    next
      case False
      then obtain gw where fin: "finish_check gw p given None (re_during env) (re_clock env) ?d = (r, d', calls)"
        using run sp p(1) by (auto simp: check_user_phone_verification_def)
      have own: "calls = [Check_Call (ph_number p) given] \<Longrightarrow> calls_own env user d calls"
        using p(2,3) False by (auto simp: calls_own_def)
      have id: "ph_id p = ph_id phone" using phones.get_key [OF p(2)] .
      from fin show ?thesis
      proof (cases rule: finish_check_cases)
        case unchanged
        then show ?thesis using own by (auto simp: own_effect_def intro: own_step.stay)
      next
        case (marked v q)
        obtain q' where "get_phone (ph_id p) (re_during env ?d) = Some q'" "ph_user q' = user"
          using assms(1) p id unfolding interference_ok_def keeps_owners_def by metis
        then show ?thesis using own marked by (auto simp: own_effect_def intro!: own_step.verify [where p = q])
      qed
    qed
  qed
qed

lemma render_phone_verify_frame: "render_phone_verify i n es d calls = (r, d', calls') \<Longrightarrow> d' = d \<and> calls' = calls"
  by (auto simp: render_phone_verify_def split: option.splits)

lemma verification_answer_frame: "verification_answer i u o' = (r, d', calls) \<Longrightarrow> snd o' = (d', calls)"
  by (auto simp: verification_answer_def split: prod.splits)

definition good_effect :: "request_env \<Rightarrow> row_id \<Rightarrow> db \<Rightarrow> db \<times> gateway_call list \<Rightarrow> bool" where
  "good_effect env user d res \<longleftrightarrow> own_effect env user d (fst res) \<and> calls_own env user d (snd res)"

lemma good_effect_none [simp]: "good_effect env user d (d, [])"
  by (simp add: good_effect_def)

lemma services_good:
  "good_effect env user d (snd (start_on env user phone d))"
  "interference_ok env \<Longrightarrow> good_effect env user d (snd (check_on env user phone given d))"
  by (cases "start_on env user phone d", use start_on_own in \<open>force simp: good_effect_def\<close>)
    (cases "check_on env user phone given d", use check_on_own in \<open>force simp: good_effect_def\<close>)

lemma render_phone_verify_good:
  "good_effect env user d (d', calls) \<Longrightarrow> good_effect env user d (snd (render_phone_verify i n es d' calls))"
  by (cases "render_phone_verify i n es d' calls") (auto dest: render_phone_verify_frame)

lemma verification_answer_good:
  "good_effect env user d (snd o') \<Longrightarrow> good_effect env user d (snd (verification_answer i u o'))"
  by (cases "verification_answer i u o'") (auto dest: verification_answer_frame)

lemma phone_views_good:
  assumes "interference_ok env"
  shows "good_effect env user d (snd (phone_verification_start_view env user i d))"
    and "good_effect env user d (snd (phone_verification_check_view env user i data d))"
    and "good_effect env user d (snd (phone_verify env user posted i post d))"
    and "good_effect env user d (snd (phone_verification_start env user i d))"
proof -
  note services = services_good(1) services_good(2) [OF assms]
  show "good_effect env user d (snd (phone_verification_start_view env user i d))"
    unfolding phone_verification_start_view_def
    by (auto intro!: verification_answer_good services split: sum.split)
  show "good_effect env user d (snd (phone_verification_check_view env user i data d))"
    unfolding phone_verification_check_view_def
    by (auto intro!: verification_answer_good services split: sum.split)
  have check: "good_effect env u d (d', calls)" if "check_on env u p given d = (r, d', calls)" for u p given r d' calls
    using services(2) [of u d p given] that by simp
  show "good_effect env user d (snd (phone_verify env user posted i post d))"
    unfolding phone_verify_def
    by (auto intro!: render_phone_verify_good dest: check split: sum.split prod.split)
  have start: "good_effect env u d (d', calls)" if "start_on env u p d = (r, d', calls)" for u p r d' calls
    using services(1) [of env u d p] that by simp
  show "good_effect env user d (snd (phone_verification_start env user i d))"
    unfolding phone_verification_start_def Let_def
    by (auto dest: start split: sum.split prod.split)
qed

lemma as_page_good: "own_effect env user d (snd o') \<Longrightarrow> good_effect env user d (snd (as_page o'))"
  by (cases o') (simp add: as_page_def good_effect_def)

lemma as_api_good: "own_effect env user d (snd o') \<Longrightarrow> good_effect env user d (snd (as_api o'))"
  by (cases o') (simp add: as_api_def good_effect_def)

lemma as_called_good:
  "good_effect env user d (snd o') \<Longrightarrow> good_effect env user d (snd (as_called_page o'))"
  "good_effect env user d (snd q) \<Longrightarrow> good_effect env user d (snd (as_called_api q))"
  by (cases o', simp add: as_called_page_def) (cases q, simp add: as_called_api_def)

lemma serve_page_good:
  assumes "interference_ok env"
  shows "good_effect env user d (snd (serve_page env user req r d))"
  by (cases r)
    (auto intro!: as_page_good as_api_good as_called_good phone_views_good [OF assms]
      event_views_own [OF surjective_pairing])


section \<open>What a user can change\<close>

lemma interference_wf: "interference_ok env \<Longrightarrow> wf_db d \<Longrightarrow> wf_db (re_before env d) \<and> wf_db (re_during env (re_before env d))"
  by (simp add: interference_ok_def keeps_owners_def)

definition effect_points :: "request_env \<Rightarrow> db \<Rightarrow> db set" where
  "effect_points env d = {d, re_before env d, re_during env (re_before env d)}"

lemma own_effect_point: "own_effect env user d d' \<Longrightarrow> \<exists>d1 \<in> effect_points env d. own_step user d1 d'"
  by (auto simp: own_effect_def effect_points_def)

text \<open>C33. A request changes nothing but rows of the user who is logged in. Whatever others commit while it
  runs (keeping the database well-formed and the phones with their owners), the request ends with at most one
  transaction of that user, a step of the concurrent system, and that transaction leaves every event and phone
  of every other user, all attempts and all message records as they were; it makes at most one call on the
  verification gateway, for an unverified phone of the user. A request of nobody changes nothing and calls
  nobody. The database stays well-formed.\<close>

theorem requests_stay_with_owner:
  assumes "wf_db d" and "interference_ok env" and "serve env logged_in req r d = (a, d', calls)"
  shows "wf_db d' \<and>
    (case logged_in of
       None \<Rightarrow> d' = d \<and> calls = []
     | Some user \<Rightarrow> calls_own env user d calls \<and>
         (\<exists>d1 \<in> effect_points env d. (d' = d1 \<or> user_step d1 d') \<and> others_unchanged user d1 d'))"
proof (cases logged_in)
  case None
  with assms show ?thesis by (auto simp: serve_def split: if_splits)
next
  case (Some user)
  have "good_effect env user d (d', calls)"
    using serve_page_good [OF assms(2), of user d req r] assms(3) Some by (simp add: serve_def)
  then have "own_effect env user d d'" and calls: "calls_own env user d calls" by (simp_all add: good_effect_def)
  from own_effect_point [OF this(1)] obtain d1
    where d1: "d1 \<in> effect_points env d" "own_step user d1 d'" by blast
  have "wf_db d1" using d1(1) assms(1) interference_wf [OF assms(2,1)] by (auto simp: effect_points_def)
  with own_step_safe [OF d1(2)] own_step_user_step [OF d1(2)] d1(1) calls Some show ?thesis by auto
qed

end
