(* ===== verification/View_Agreement.thy ===== *)
theory View_Agreement
  imports View_Isolation
begin

text \<open>
  Confidentiality of the pages and the API: two databases that look the same to a user (the same own rows,
  the same next free identifiers and the same set of enrolled numbers) give that user the same answers, and
  look the same afterwards.
\<close>

section \<open>What a user's requests can depend on\<close>

definition own_events :: "row_id \<Rightarrow> db \<Rightarrow> scheduled_event list" where
  "own_events user d = events_where (\<lambda>e. ev_user e = user) d"

definition own_phones :: "row_id \<Rightarrow> db \<Rightarrow> phone_number list" where
  "own_phones user d = filter (\<lambda>p. ph_user p = user) (rows (db_phones d))"

definition looks_same :: "row_id \<Rightarrow> db \<Rightarrow> db \<Rightarrow> bool" where
  "looks_same user d1 d2 \<longleftrightarrow>
     own_events user d1 = own_events user d2 \<and> own_phones user d1 = own_phones user d2 \<and>
     next_id (db_events d1) = next_id (db_events d2) \<and> next_id (db_phones d1) = next_id (db_phones d2) \<and>
     ph_number ` set (rows (db_phones d1)) = ph_number ` set (rows (db_phones d2))"

lemma find_filter_key:
  assumes "distinct (map key rs)"
  shows "find (\<lambda>r. key r = i) (filter P rs) =
    (case find (\<lambda>r. key r = i) rs of None \<Rightarrow> None | Some r \<Rightarrow> if P r then Some r else None)"
  using assms
proof (induction rs)
  case Nil
  then show ?case by simp
next
  case (Cons r rs)
  have "key s \<noteq> i" if "key r = i" "s \<in> set rs" for s
  proof -
    have "key s \<in> set (map key rs)" using that(2) by simp
    then show ?thesis using Cons.prems that(1) by (metis distinct.simps(2) list.map(2))
  qed
  then have "find (\<lambda>r. key r = i) (filter P rs) = None" if "key r = i"
    unfolding find_None_iff using that by auto
  with Cons show ?case by auto
qed

lemma wf_distinct_keys: "wf_db d \<Longrightarrow> distinct (map ev_id (rows (db_events d))) \<and> distinct (map ph_id (rows (db_phones d)))"
  by (simp add: wf_db_def wf_table_def)

text \<open>Every lookup the views make for a user, on the user's own rows.\<close>

lemma get_user_event_own:
  "wf_db d \<Longrightarrow> get_user_event i user d = or_raise (find (\<lambda>e. ev_id e = i) (own_events user d)) event_missing"
  by (simp add: get_user_event_def own_events_def events_where_def get_event_def find_row_def
      find_filter_key wf_distinct_keys split: option.split)

lemma get_user_phone_own:
  "wf_db d \<Longrightarrow> get_user_phone i user d = or_raise (find (\<lambda>p. ph_id p = i) (own_phones user d)) phone_missing"
  by (simp add: get_user_phone_def own_phones_def get_phone_def find_row_def
      find_filter_key wf_distinct_keys split: option.split)

lemma own_verified_phones_own: "own_verified_phones user d = filter is_verified (own_phones user d)"
  by (simp add: own_verified_phones_def own_phones_def conj_commute)

lemma phones_of_user_own: "phones_of_user user d = order_by (\<lambda>p. map code (ph_number p)) (own_phones user d)"
  by (simp add: phones_of_user_def own_phones_def)

lemma events_of_user_own: "events_of_user user d = order_by event_order (own_events user d)"
  by (simp add: events_of_user_def own_events_def)

lemma get_verified_phone_own:
  "get_verified_phone i user d =
    (case get_user_phone i user d of
       Inr p \<Rightarrow> if is_verified p then Inr p
         else Inl (field_error ValidationError ''phone_number_id'' ''Select a verified phone number you own.'')
     | Inl x \<Rightarrow> Inl (field_error ValidationError ''phone_number_id'' ''Select a verified phone number you own.''))"
  by (simp add: get_verified_phone_def get_user_phone_def split: option.split)

lemma own_event_phone:
  assumes wf: "wf_db d" and e: "e \<in> set (own_events user d)"
  shows "with_phone d e =
    map_option (\<lambda>p. (e, ph_number p)) (find (\<lambda>p. ph_id p = ev_phone_number e) (own_phones user d))"
proof -
  from e have mem: "e \<in> set (rows (db_events d))" and user: "ev_user e = user"
    by (auto simp: own_events_def events_where_def)
  from wf mem obtain p where p: "p \<in> set (rows (db_phones d))" "ph_id p = ev_phone_number e" "ph_user p = ev_user e"
    by (auto simp: wf_db_def event_ok_def)
  have "get_phone (ev_phone_number e) d = Some p"
    using wf_get_phone_of_member [OF wf p(1)] p(2) by simp
  then show ?thesis
    using p(3) user wf_distinct_keys [OF wf]
    by (simp add: with_phone_def own_phones_def find_filter_key get_phone_def find_row_def)
qed

lemma event_for_user_own:
  assumes "wf_db d"
  shows "event_for_user i user d =
    Option.bind (find (\<lambda>e. ev_id e = i) (own_events user d)) (\<lambda>e.
      map_option (\<lambda>p. (e, ph_number p)) (find (\<lambda>p. ph_id p = ev_phone_number e) (own_phones user d)))"
proof -
  have "event_for_user i user d = Option.bind (find (\<lambda>e. ev_id e = i) (own_events user d)) (with_phone d)"
    using wf_distinct_keys [OF assms]
    by (simp add: event_for_user_def own_events_def events_where_def find_filter_key get_event_def find_row_def
        split: option.split)
  moreover have "e \<in> set (own_events user d)" if "find (\<lambda>e. ev_id e = i) (own_events user d) = Some e" for e
    using that by (auto simp: find_Some_iff)
  ultimately show ?thesis
    using own_event_phone [OF assms, of _ user]
    by (cases "find (\<lambda>e. ev_id e = i) (own_events user d)") simp_all
qed

lemma event_list_own:
  assumes "wf_db d"
  shows "event_list user d = Event_List_Page (map (\<lambda>(e, number). (e, serializer_mask_phone_number number))
    (List.map_filter (\<lambda>e. map_option (\<lambda>p. (e, ph_number p))
        (find (\<lambda>p. ph_id p = ev_phone_number e) (own_phones user d)))
      (order_by event_order (own_events user d))))"
proof -
  have "List.map_filter (with_phone d) es = List.map_filter (\<lambda>e. map_option (\<lambda>p. (e, ph_number p))
      (find (\<lambda>p. ph_id p = ev_phone_number e) (own_phones user d))) es"
    if "set es \<subseteq> set (own_events user d)" for es
    using that own_event_phone [OF assms, of _ user]
    by (induction es) (auto simp: List.map_filter_simps split: option.split)
  then show ?thesis by (simp add: event_list_def events_of_user_own)
qed

lemmas own_reads = get_user_event_own get_user_phone_own own_verified_phones_own phones_of_user_own events_of_user_own
  get_verified_phone_own event_for_user_own event_list_own

section \<open>Reads agree\<close>

lemma reads_agree:
  assumes "looks_same user d1 d2" and "wf_db d1" and "wf_db d2"
  shows "get_user_event i user d1 = get_user_event i user d2"
    and "get_user_phone i user d1 = get_user_phone i user d2"
    and "get_verified_phone i user d1 = get_verified_phone i user d2"
    and "event_for_user i user d1 = event_for_user i user d2"
    and "own_verified_phones user d1 = own_verified_phones user d2"
    and "phones_of_user user d1 = phones_of_user user d2"
    and "events_of_user user d1 = events_of_user user d2"
    and "event_list user d1 = event_list user d2"
    and "phone_list user d1 = phone_list user d2"
    and "event_detail user i d1 = event_detail user i d2"
    and "scheduled_event_list user n d1 = scheduled_event_list user n d2"
    and "scheduled_event_detail user i d1 = scheduled_event_detail user i d2"
    and "phone_number_list user n d1 = phone_number_list user n d2"
    and "scheduled_event_create_form fw user d1 now post = scheduled_event_create_form fw user d2 now post"
    and "scheduled_event_serializer fw user d1 now data = scheduled_event_serializer fw user d2 now data"
    and "safe_phone_data i user d1 = safe_phone_data i user d2"
    and "start_user_phone_verification i user gw d1 = start_user_phone_verification i user gw d2"
  using assms
  by (simp_all add: looks_same_def own_reads event_detail_def scheduled_event_list_def scheduled_event_detail_def
      phone_number_list_def phone_list_def scheduled_event_create_form_def scheduled_event_serializer_def
      phone_choice_field_def related_phone_def safe_phone_data_def start_user_phone_verification_def
      related_phone_def [abs_def])

text \<open>A read by primary key alone, of a row the user owns.\<close>

lemma own_row_agrees:
  assumes "looks_same user d1 d2" and "wf_db d1" and "wf_db d2"
  shows "get_phone i d1 = Some p \<Longrightarrow> ph_user p = user \<Longrightarrow> get_phone i d2 = Some p"
    and "get_event i d1 = Some e \<Longrightarrow> ev_user e = user \<Longrightarrow> get_event i d2 = Some e"
    and "ev_user e = user \<Longrightarrow> get_event i d1 = Some e \<Longrightarrow> with_phone d1 e = with_phone d2 e"
proof -
  assume "get_phone i d1 = Some p" "ph_user p = user"
  then have "get_user_phone i user d1 = Inr p" by (simp add: get_user_phone_def)
  then have "get_user_phone i user d2 = Inr p" by (simp only: reads_agree(2) [OF assms])
  then show "get_phone i d2 = Some p" by simp
next
  assume "get_event i d1 = Some e" "ev_user e = user"
  then have "get_user_event i user d1 = Inr e" by simp
  then have "get_user_event i user d2 = Inr e" by (simp only: reads_agree(1) [OF assms])
  then show "get_event i d2 = Some e" by simp
next
  assume "ev_user e = user" "get_event i d1 = Some e"
  then have "e \<in> set (own_events user d1)" by (auto simp: own_events_def events_where_def dest: get_event_member)
  moreover from this have "e \<in> set (own_events user d2)" using assms(1) by (simp add: looks_same_def)
  ultimately show "with_phone d1 e = with_phone d2 e"
    using own_event_phone [OF assms(2), of e user] own_event_phone [OF assms(3), of e user] assms(1)
    by (simp add: looks_same_def)
qed

section \<open>Writes agree\<close>

definition same_transaction :: "row_id \<Rightarrow> exn + 'a \<times> db \<Rightarrow> exn + 'a \<times> db \<Rightarrow> bool" where
  "same_transaction user r1 r2 \<longleftrightarrow>
     (\<exists>x. r1 = Inl x \<and> r2 = Inl x) \<or>
     (\<exists>a d1 d2. r1 = Inr (a, d1) \<and> r2 = Inr (a, d2) \<and> looks_same user d1 d2 \<and> wf_db d1 \<and> wf_db d2)"

lemma looks_same_put_event:
  assumes "looks_same user d1 d2" and "\<And>r. ev_user (f r) = ev_user r"
  shows "looks_same user (put_event i f d1) (put_event i f d2)"
proof -
  have "own_events user (put_event i f d) = map (\<lambda>r. if ev_id r = i then f r else r) (own_events user d)" for d
    using assms(2) by (simp add: own_events_def events_where_def rows_update_row filter_map o_def if_distrib cong: if_cong)
  then show ?thesis using assms(1) by (simp add: looks_same_def own_phones_def)
qed

lemma looks_same_put_phone:
  assumes "looks_same user d1 d2" and "\<And>r. ph_user (f r) = ph_user r" and "\<And>r. ph_number (f r) = ph_number r"
  shows "looks_same user (put_phone i f d1) (put_phone i f d2)"
proof -
  have "own_phones user (put_phone i f d) = map (\<lambda>r. if ph_id r = i then f r else r) (own_phones user d)" for d
    using assms(2) by (simp add: own_phones_def rows_update_row filter_map o_def if_distrib cong: if_cong)
  moreover have "ph_number ` set (rows (db_phones (put_phone i f d))) = ph_number ` set (rows (db_phones d))" for d
  proof -
    have "set (map ph_number (map (\<lambda>r. if ph_id r = i then f r else r) rs)) = set (map ph_number rs)" for rs
      using assms(3) by (intro arg_cong [where f = set]) simp
    then show ?thesis by (simp only: set_map rows_update_row tables_put)
  qed
  ultimately show ?thesis using assms(1) by (simp add: looks_same_def own_events_def events_where_def)
qed

lemma save_event_agrees:
  assumes "looks_same user d1 d2"
  shows "fst (save_event fs now e d1) = fst (save_event fs now e d2)"
    and "looks_same user (snd (save_event fs now e d1)) (snd (save_event fs now e d2))"
  using looks_same_put_event [OF assms, of "write_event_fields fs now e"]
  by (simp_all add: save_event_def write_event_fields_def)

text \<open>An event service that loads the user's row, computes, and saves.\<close>

lemma same_transaction_save:
  assumes same: "looks_same user d1 d2" and wf: "wf_db d1" "wf_db d2"
    and run: "\<And>d. wf_db d \<Longrightarrow> change d =
      bind_res (get_user_event i user d) (\<lambda>e. bind_res (body e) (\<lambda>e'. Inr (save_event fs now e' d)))"
    and keeps: "\<And>d e d'. wf_db d \<Longrightarrow> change d = Inr (e, d') \<Longrightarrow> wf_db d'"
  shows "same_transaction user (change d1) (change d2)"
proof (cases "bind_res (get_user_event i user d1) body")
  case (Inl x)
  then have "change d1 = Inl x" "change d2 = Inl x"
    using run [OF wf(1)] run [OF wf(2)] reads_agree(1) [OF same wf, of i]
    by (auto simp: bind_res_Inl_iff)
  then show ?thesis by (simp add: same_transaction_def)
next
  case (Inr e')
  then have eq: "change d1 = Inr (save_event fs now e' d1)" "change d2 = Inr (save_event fs now e' d2)"
    using run [OF wf(1)] run [OF wf(2)] reads_agree(1) [OF same wf, of i] by auto
  show ?thesis
    using save_event_agrees [OF same, of fs now e'] keeps [OF wf(1)] keeps [OF wf(2)] eq
    unfolding same_transaction_def by (metis prod.collapse)
qed

lemma changes_agree:
  assumes same: "looks_same user d1 d2" and wf: "wf_db d1" "wf_db d2"
  shows "same_transaction user (cancel_user_scheduled_event i user t clk d1) (cancel_user_scheduled_event i user t clk d2)"
    and "same_transaction user (reschedule_user_scheduled_event i user w now clk d1)
      (reschedule_user_scheduled_event i user w now clk d2)"
    and "same_transaction user (change_user_scheduled_event_channel i user ch clk d1)
      (change_user_scheduled_event_channel i user ch clk d2)"
proof -
  have bind_assoc: "bind_res (bind_res r f) g = bind_res r (\<lambda>x. bind_res (f x) g)"
    for r :: "exn + 'x" and f :: "'x \<Rightarrow> exn + 'y" and g :: "'y \<Rightarrow> exn + 'z" by (cases r) simp_all
  have cases_res: "bind_res (case m of None \<Rightarrow> r | Some v \<Rightarrow> if b v then r else s v) k =
    (case m of None \<Rightarrow> bind_res r k | Some v \<Rightarrow> if b v then bind_res r k else bind_res (s v) k)"
    for m :: "'x option" and b r s and k :: "'y \<Rightarrow> exn + 'z" by (simp split: option.split)
  show "same_transaction user (cancel_user_scheduled_event i user t clk d1) (cancel_user_scheduled_event i user t clk d2)"
  proof (rule same_transaction_save [OF same wf])
    show "cancel_user_scheduled_event i user t clk d =
      bind_res (get_user_event i user d) (\<lambda>e. bind_res
        (bind_res (require_scheduled e ''cancelled'') (\<lambda>_. transition_event E_CANCELLED (or_now t (clk 0)) e))
        (\<lambda>e'. Inr (save_event [F_status, F_completed_at, F_updated_at] (clk 1) e' d)))" for d
      by (simp only: cancel_user_scheduled_event_def cancel_locked_event_def bind_assoc)
  qed (rule cancelling.keeps_wf)
  show "same_transaction user (reschedule_user_scheduled_event i user w now clk d1)
      (reschedule_user_scheduled_event i user w now clk d2)"
  proof (rule same_transaction_save [OF same wf])
    show "reschedule_user_scheduled_event i user w now clk d =
      bind_res (get_user_event i user d) (\<lambda>event. bind_res
        (bind_res (require_scheduled event ''rescheduled'') (\<lambda>_. bind_res
          (case w of
             None \<Rightarrow> Inl (field_error ValidationError ''scheduled_for''
               ''Include an explicit UTC offset, such as Z or +00:00.'')
           | Some dt \<Rightarrow> if is_naive dt
               then Inl (field_error ValidationError ''scheduled_for''
                 ''Include an explicit UTC offset, such as Z or +00:00.'')
               else Inr dt) (\<lambda>dt. bind_res (require (\<not> instant dt \<le> or_now now (clk 0))
                 (field_error ValidationError ''scheduled_for'' ''The scheduled time must be in the future.'')) (\<lambda>_.
               bind_res (astimezone_utc dt) (\<lambda>utc. Inr (event\<lparr>ev_scheduled_for := utc\<rparr>))))))
        (\<lambda>e'. Inr (save_event [F_scheduled_for, F_updated_at] (clk 1) e' d)))" for d
      by (simp only: reschedule_user_scheduled_event_def bind_assoc bind_res.simps)
  qed (rule rescheduling.keeps_wf)
  show "same_transaction user (change_user_scheduled_event_channel i user ch clk d1)
      (change_user_scheduled_event_channel i user ch clk d2)"
  proof (rule same_transaction_save [OF same wf])
    show "change_user_scheduled_event_channel i user ch clk d =
      bind_res (get_user_event i user d) (\<lambda>event. bind_res
        (bind_res (require_scheduled event ''changed'') (\<lambda>_. bind_res (or_raise (channel_of ch)
          (field_error ValidationError ''channel'' ''Select a valid choice.''))
          (\<lambda>c. Inr (event\<lparr>ev_channel := c\<rparr>))))
        (\<lambda>e'. Inr (save_event [F_channel, F_updated_at] (clk 1) e' d)))" for d
      by (simp only: change_user_scheduled_event_channel_def bind_assoc bind_res.simps)
  qed (rule channel_change.keeps_wf)
qed

lemma own_events_insert:
  "own_events user (d\<lparr>db_events := snd (insert_row mk (db_events d))\<rparr>) =
    own_events user d @ (if ev_user (mk (next_id (db_events d))) = user then [mk (next_id (db_events d))] else [])"
  by (simp add: own_events_def events_where_def insert_row_simps)

lemma own_phones_insert:
  "own_phones user (d\<lparr>db_phones := snd (insert_row mk (db_phones d))\<rparr>) =
    own_phones user d @ (if ph_user (mk (next_id (db_phones d))) = user then [mk (next_id (db_phones d))] else [])"
  by (simp add: own_phones_def insert_row_simps)

lemma creations_agree:
  assumes same: "looks_same user d1 d2" and wf: "wf_db d1" "wf_db d2"
  shows "same_transaction user (create_scheduled_event user i z w ch clk d1) (create_scheduled_event user i z w ch clk d2)"
    and "same_transaction user (create_phone_number user number clk d1) (create_phone_number user number clk d2)"
proof -
  have next_ids: "next_id (db_events d1) = next_id (db_events d2)" "next_id (db_phones d1) = next_id (db_phones d2)"
    and numbers: "ph_number ` set (rows (db_phones d1)) = ph_number ` set (rows (db_phones d2))"
    using same by (simp_all add: looks_same_def)
  show "same_transaction user (create_scheduled_event user i z w ch clk d1) (create_scheduled_event user i z w ch clk d2)"
  proof (cases "create_scheduled_event user i z w ch clk d1")
    case (Inl x)
    then have "create_scheduled_event user i z w ch clk d2 = Inl x"
      by (auto simp: create_scheduled_event_def bind_res_Inl_iff reads_agree(3) [OF same wf] split: prod.splits)
    with Inl show ?thesis by (simp add: same_transaction_def)
  next
    case (Inr r)
    then obtain e d1' where r1: "create_scheduled_event user i z w ch clk d1 = Inr (e, d1')" by (cases r) simp
    then obtain d2' where r2: "create_scheduled_event user i z w ch clk d2 = Inr (e, d2')"
      by (fastforce simp: create_scheduled_event_def reads_agree(3) [OF same wf] insert_row_def Let_def next_ids)
    have d': "d1' = d1\<lparr>db_events := snd (insert_row (\<lambda>n. e\<lparr>ev_id := n\<rparr>) (db_events d1))\<rparr>"
      "d2' = d2\<lparr>db_events := snd (insert_row (\<lambda>n. e\<lparr>ev_id := n\<rparr>) (db_events d2))\<rparr>"
      using r1 r2 by (metis create_scheduled_event_Inr)+
    have "looks_same user d1' d2'"
      using same by (simp add: d' looks_same_def own_events_insert) (simp add: own_phones_def insert_row_simps)
    with r1 r2 create_scheduled_event_wf [OF wf(1) r1] create_scheduled_event_wf [OF wf(2) r2] show ?thesis
      by (simp add: same_transaction_def)
  qed
  show "same_transaction user (create_phone_number user number clk d1) (create_phone_number user number clk d2)"
  proof (cases "create_phone_number user number clk d1")
    case (Inl x)
    then have "create_phone_number user number clk d2 = Inl x"
      by (auto simp: create_phone_number_def bind_res_Inl_iff numbers Let_def split: prod.splits)
    with Inl show ?thesis by (simp add: same_transaction_def)
  next
    case (Inr r)
    then obtain p d1' where r1: "create_phone_number user number clk d1 = Inr (p, d1')" by (cases r) simp
    let ?d = "\<lambda>d. d\<lparr>db_phones := \<lparr>rows = rows (db_phones d) @ [p], next_id = next_id (db_phones d) + 1\<rparr>\<rparr>"
    have d1': "d1' = ?d d1" and r2: "create_phone_number user number clk d2 = Inr (p, ?d d2)"
      using r1 by (auto simp: create_phone_number_def insert_row_def Let_def next_ids numbers)
    have "looks_same user d1' (?d d2)"
      using same by (simp add: d1' looks_same_def own_phones_def) (simp add: own_events_def events_where_def)
    with r1 r2 create_phone_number_wf [OF wf(1) r1] create_phone_number_wf [OF wf(2) r2] show ?thesis
      by (simp add: same_transaction_def)
  qed
qed

section \<open>Answers agree\<close>

definition same_outcome :: "row_id \<Rightarrow> 'r \<times> db \<Rightarrow> 'r \<times> db \<Rightarrow> bool" where
  "same_outcome user o1 o2 \<longleftrightarrow> fst o1 = fst o2 \<and> looks_same user (snd o1) (snd o2)"

definition same_called :: "row_id \<Rightarrow> 'r \<times> db \<times> 'c \<Rightarrow> 'r \<times> db \<times> 'c \<Rightarrow> bool" where
  "same_called user o1 o2 \<longleftrightarrow>
     fst o1 = fst o2 \<and> snd (snd o1) = snd (snd o2) \<and> looks_same user (fst (snd o1)) (fst (snd o2))"

lemma same_pair [simp]: "same_outcome user (r, d1) (q, d2) \<longleftrightarrow> r = q \<and> looks_same user d1 d2"
  by (simp add: same_outcome_def)

lemma same_triple [simp]: "same_called user (r, d1, c) (q, d2, b) \<longleftrightarrow> r = q \<and> c = b \<and> looks_same user d1 d2"
  by (auto simp: same_called_def)

lemma same_transaction_cases:
  assumes "same_transaction user r1 r2"
  obtains (raised) x where "r1 = Inl x" "r2 = Inl x"
    | (committed) a d1 d2 where "r1 = Inr (a, d1)" "r2 = Inr (a, d2)" "looks_same user d1 d2"
  using assms by (auto simp: same_transaction_def)

lemma render_refreshed_own:
  assumes "event_for_user i user d = Some row"
  shows "render_refreshed i errors d = (Inr (render_event_detail 409 row errors), d)"
  using assms by (auto simp: event_for_user_def render_refreshed_def split: option.splits if_splits)

definition quiet :: "request_env \<Rightarrow> bool" where
  "quiet env \<longleftrightarrow> re_before env = (\<lambda>d. d) \<and> re_during env = (\<lambda>d. d)"

lemma changed_event_agrees:
  assumes "same_transaction user r1 r2" and "looks_same user d1 d2"
  shows "same_outcome user (changed_event b r1 d1) (changed_event b r2 d2)"
  using assms(1) by (cases rule: same_transaction_cases) (simp_all add: changed_event_def assms(2))

lemma event_create_agrees:
  assumes same: "looks_same user d1 d2" and wf: "wf_db d1" "wf_db d2" and quiet: "quiet env"
  shows "same_outcome user (event_create env user posted post d1) (event_create env user posted post d2)"
proof (cases "scheduled_event_create_form (re_framework env) user d2 (re_clock env 0) post")
  case (Inr v)
  then show ?thesis
  proof (cases v)
    case input: (Inr input)
    from creations_agree(1) [OF same wf, of "in_phone input" "in_zip_code input" "in_scheduled_for input"
        "in_channel input" "\<lambda>n. re_clock env (n + 1)"] Inr input
    show ?thesis
      by (cases rule: same_transaction_cases)
        (simp_all add: event_create_def quiet [unfolded quiet_def, THEN conjunct1] reads_agree [OF same wf] same)
  qed (simp add: event_create_def reads_agree [OF same wf] same)
qed (simp add: event_create_def reads_agree [OF same wf] same)

lemma event_reschedule_agrees:
  assumes same: "looks_same user d1 d2" and wf: "wf_db d1" "wf_db d2" and quiet: "quiet env"
  shows "same_outcome user (event_reschedule env user i post d1) (event_reschedule env user i post d2)"
proof (cases "event_for_user i user d2")
  case (Some row)
  note row = Some reads_agree(4) [OF same wf, of i, unfolded Some]
  show ?thesis
  proof (cases "reschedule_event_form (re_framework env) (re_clock env 0) post")
    case (Inr v)
    then show ?thesis
    proof (cases v)
      case t: (Inr t)
      from changes_agree(2) [OF same wf, of i "Some (utc_datetime t)" None "\<lambda>n. re_clock env (n + 1)"] Inr t
      show ?thesis
        by (cases rule: same_transaction_cases)
          (simp_all add: event_reschedule_def quiet [unfolded quiet_def, THEN conjunct1] row render_refreshed_own [OF row(1)] render_refreshed_own [OF row(2)] same)
    qed (simp add: event_reschedule_def row same)
  qed (simp add: event_reschedule_def row same)
qed (simp add: event_reschedule_def reads_agree(4) [OF same wf] same)

lemma event_channel_agrees:
  assumes same: "looks_same user d1 d2" and wf: "wf_db d1" "wf_db d2" and quiet: "quiet env"
  shows "same_outcome user (event_channel env user i post d1) (event_channel env user i post d2)"
proof (cases "event_for_user i user d2")
  case (Some row)
  note row = Some reads_agree(4) [OF same wf, of i, unfolded Some]
  show ?thesis
  proof (cases "change_event_channel_form post")
    case (Inr v)
    then show ?thesis
    proof (cases v)
      case c: (Inr c)
      from changes_agree(3) [OF same wf, of i c "re_clock env"] Inr c
      show ?thesis
        by (cases rule: same_transaction_cases)
          (simp_all add: event_channel_def quiet [unfolded quiet_def, THEN conjunct1] row render_refreshed_own [OF row(1)] render_refreshed_own [OF row(2)] same)
    qed (simp add: event_channel_def row same)
  qed (simp add: event_channel_def row same)
qed (simp add: event_channel_def reads_agree(4) [OF same wf] same)

lemma event_cancel_agrees:
  assumes same: "looks_same user d1 d2" and wf: "wf_db d1" "wf_db d2" and quiet: "quiet env"
  shows "same_outcome user (event_cancel env user i d1) (event_cancel env user i d2)"
proof (cases "event_for_user i user d2")
  case (Some row)
  note row = Some reads_agree(4) [OF same wf, of i, unfolded Some]
  from changes_agree(1) [OF same wf, of i None "re_clock env"] show ?thesis
    by (cases rule: same_transaction_cases) (simp_all add: event_cancel_def quiet [unfolded quiet_def, THEN conjunct1] row same)
qed (simp add: event_cancel_def reads_agree(4) [OF same wf] same)

lemmas event_pages_agree = event_create_agrees event_reschedule_agrees event_channel_agrees event_cancel_agrees

lemma event_api_agrees:
  assumes same: "looks_same user d1 d2" and wf: "wf_db d1" "wf_db d2" and quiet: "quiet env"
  shows "same_outcome user (scheduled_event_create env user data d1) (scheduled_event_create env user data d2)"
    and "same_outcome user (scheduled_event_cancel_view env user i d1) (scheduled_event_cancel_view env user i d2)"
    and "same_outcome user (scheduled_event_reschedule_view env user i data d1)
      (scheduled_event_reschedule_view env user i data d2)"
    and "same_outcome user (scheduled_event_channel_view env user i data d1)
      (scheduled_event_channel_view env user i data d2)"
proof -
  note before = quiet [unfolded quiet_def, THEN conjunct1]
  show "same_outcome user (scheduled_event_create env user data d1) (scheduled_event_create env user data d2)"
  proof (cases "scheduled_event_serializer (re_framework env) user d2 (re_clock env 0) data")
    case (Inr v)
    then show ?thesis
    proof (cases v)
      case input: (Inr input)
      from creations_agree(1) [OF same wf, of "in_phone input" "in_zip_code input" "in_scheduled_for input"
          "in_channel input" "\<lambda>n. re_clock env (n + 1)"] Inr input
      show ?thesis
        by (cases rule: same_transaction_cases)
          (simp_all add: scheduled_event_create_def before reads_agree [OF same wf] same)
    qed (simp add: scheduled_event_create_def reads_agree [OF same wf] same)
  qed (simp add: scheduled_event_create_def reads_agree [OF same wf] same)
  show "same_outcome user (scheduled_event_cancel_view env user i d1) (scheduled_event_cancel_view env user i d2)"
    unfolding scheduled_event_cancel_view_def by (rule changed_event_agrees [OF changes_agree(1) [OF same wf] same])
  show "same_outcome user (scheduled_event_reschedule_view env user i data d1)
      (scheduled_event_reschedule_view env user i data d2)"
    unfolding scheduled_event_reschedule_view_def
    using changed_event_agrees [OF changes_agree(2) [OF same wf] same] same by (simp split: sum.split)
  show "same_outcome user (scheduled_event_channel_view env user i data d1)
      (scheduled_event_channel_view env user i data d2)"
    unfolding scheduled_event_channel_view_def
    using changed_event_agrees [OF changes_agree(3) [OF same wf] same] same by (simp split: sum.split)
qed

lemma phone_creation_agrees:
  assumes same: "looks_same user d1 d2" and wf: "wf_db d1" "wf_db d2"
  shows "same_outcome user (phone_number_create env user data d1) (phone_number_create env user data d2)"
    and "same_outcome user (phone_enroll env user posted post d1) (phone_enroll env user posted post d2)"
proof -
  have api: "same_outcome user
      (case create_phone_number user number (re_clock env) d1 of
         Inl x \<Rightarrow> (if is_validation_error (exn_class x) then bad_request (validation_detail x) else Inl x, d1)
       | Inr (p, d') \<Rightarrow> (answer 201 (Object_Body (phone_representation p)), d'))
      (case create_phone_number user number (re_clock env) d2 of
         Inl x \<Rightarrow> (if is_validation_error (exn_class x) then bad_request (validation_detail x) else Inl x, d2)
       | Inr (p, d') \<Rightarrow> (answer 201 (Object_Body (phone_representation p)), d'))" for number
    using creations_agree(2) [OF same wf, of number "re_clock env"]
    by (cases rule: same_transaction_cases) (simp_all add: same)
  show "same_outcome user (phone_number_create env user data d1) (phone_number_create env user data d2)"
    unfolding phone_number_create_def using api same by (simp split: sum.split)
  show "same_outcome user (phone_enroll env user posted post d1) (phone_enroll env user posted post d2)"
  proof (cases "phone_enrollment_form (re_framework env) post")
    case (Inr v)
    then show ?thesis
    proof (cases v)
      case n: (Inr number)
      from creations_agree(2) [OF same wf, of number "re_clock env"] Inr n same show ?thesis
        by (cases rule: same_transaction_cases) (simp_all add: phone_enroll_def)
    qed (simp add: phone_enroll_def same)
  qed (simp add: phone_enroll_def same)
qed

section \<open>Verification\<close>

lemma quiet_interference: "quiet env \<Longrightarrow> interference_ok env"
  by (simp add: quiet_def interference_ok_def)

lemma quiet_own_effect: "quiet env \<Longrightarrow> own_effect env user d d' \<Longrightarrow> own_step user d d'"
  by (auto simp: quiet_def own_effect_def)

lemma good_effect_wf:
  "quiet env \<Longrightarrow> wf_db d \<Longrightarrow> good_effect env user d res \<Longrightarrow> wf_db (fst res)"
  unfolding good_effect_def by (blast dest: quiet_own_effect own_step_safe)

lemma own_step_keeps_phone:
  assumes "own_step user d d'" and "wf_db d" and "get_phone i d = Some p"
  shows "\<exists>q. get_phone i d' = Some q \<and> ph_user q = ph_user p"
  using assms(1)
proof cases
  case (create j z w ch clk e)
  then show ?thesis using assms(3) by (cases rule: create_scheduled_event_Inr) (simp add: get_phone_def)
next
  case (enrol number clk q)
  have append: "find P xs = Some y \<Longrightarrow> find P (xs @ ys) = Some y" for P xs ys and y :: phone_number
    by (induction xs) auto
  have "rows (db_phones d') = rows (db_phones d) @ [q]"
    using enrol by (auto simp: create_phone_number_def Let_def insert_row_def)
  then have "get_phone i d' = Some p"
    using assms(3) append unfolding get_phone_def find_row_def by simp
  then show ?thesis by simp
next
  case (verify j q v now)
  then show ?thesis using assms(3) by (auto simp: phones.get_put)
next
  case (cancel j t clk e)
  then show ?thesis using assms(3) cancelling.other_tables(3) by (simp add: get_phone_def)
next
  case (reschedule j w now clk e)
  then show ?thesis using assms(3) rescheduling.other_tables(3) by (simp add: get_phone_def)
next
  case (change_channel j ch clk e)
  then show ?thesis using assms(3) channel_change.other_tables(3) by (simp add: get_phone_def)
qed (use assms(3) in simp)

lemma mark_agrees:
  assumes same: "looks_same user d1 d2" and wf: "wf_db d1" "wf_db d2"
    and p: "get_phone i d1 = Some p" "ph_user p = user"
  shows "(\<exists>x. mark_phone_verified i n v now d1 = Inl x \<and> mark_phone_verified i n v now d2 = Inl x) \<or>
    (\<exists>d1' d2'. mark_phone_verified i n v now d1 = Inr ((), d1') \<and> mark_phone_verified i n v now d2 = Inr ((), d2') \<and>
       looks_same user d1' d2')"
proof -
  have "get_phone i d2 = Some p" by (rule own_row_agrees(1) [OF same wf p])
  then show ?thesis
    using p(1) same by (auto simp: mark_phone_verified_def bind_require intro!: looks_same_put_phone)
qed

lemma finish_check_agrees:
  assumes same: "looks_same user d1 d2" and wf: "wf_db d1" "wf_db d2"
    and p: "get_phone (ph_id p) d1 = Some p" "ph_user p = user"
  shows "same_called user (finish_check g p s t (\<lambda>d. d) clk d1) (finish_check g p s t (\<lambda>d. d) clk d2)"
  using mark_agrees [OF same wf p, of "ph_number p" "or_now t (clk 0)" "clk 1"] same
  by (cases "check_verification g (ph_number p) s") (auto simp: finish_check_def Let_def simp del: One_nat_def)

lemma services_agree:
  assumes same: "looks_same user d1 d2" and wf: "wf_db d1" "wf_db d2" and quiet: "quiet env"
  shows "same_called user (start_on env user phone d1) (start_on env user phone d2)"
    and "same_called user (check_on env user phone given d1) (check_on env user phone given d2)"
proof -
  have env: "re_before env = (\<lambda>d. d)" "re_during env = (\<lambda>d. d)" using quiet by (simp_all add: quiet_def)
  show "same_called user (start_on env user phone d1) (start_on env user phone d2)"
    using same by (auto simp: start_on_def env reads_agree(17) [OF same wf] split: sum.split prod.split)
  show "same_called user (check_on env user phone given d1) (check_on env user phone given d2)"
  proof (cases "gateway_for env phone")
    case gw: (Inr g)
    show ?thesis
    proof (cases "bind_res (require_code (Some given)) (\<lambda>s. bind_res (get_user_phone (ph_id phone) user d1) (\<lambda>p. Inr (s, p)))")
      case (Inl x)
      moreover from this have "bind_res (require_code (Some given)) (\<lambda>s. bind_res (get_user_phone (ph_id phone) user d2)
          (\<lambda>p. Inr (s, p))) = Inl x"
        by (simp only: reads_agree(2) [OF same wf])
      ultimately show ?thesis using same by (simp add: check_on_def gw check_user_phone_verification_def env)
    next
      case (Inr sp)
      then obtain s p where sp: "sp = (s, p)" "get_phone (ph_id phone) d1 = Some p" "ph_user p = user" by auto
      have Inr2: "bind_res (require_code (Some given)) (\<lambda>s. bind_res (get_user_phone (ph_id phone) user d2)
          (\<lambda>p. Inr (s, p))) = Inr (s, p)"
        using Inr sp(1) by (simp only: reads_agree(2) [OF same wf])
      have "get_phone (ph_id p) d1 = Some p" using sp(2) phones.get_key by metis
      from finish_check_agrees [OF same wf this sp(3)] show ?thesis
        unfolding check_on_def gw sum.case check_user_phone_verification_def env Inr Inr2 sp(1)
        using same by (simp split: option.split)
    qed
  qed (simp add: check_on_def same)
qed

lemma same_called_cases:
  assumes "same_called user o1 o2"
  obtains r d1 d2 c where "o1 = (r, d1, c)" "o2 = (r, d2, c)" "looks_same user d1 d2"
proof -
  obtain r d1 c r' d2 c' where "o1 = (r, d1, c)" "o2 = (r', d2, c')" by (metis prod_cases3)
  with assms show thesis by (intro that) auto
qed

lemma verification_answer_agrees:
  assumes "same_called user o1 o2" and "wf_db (fst (snd o1))" and "wf_db (fst (snd o2))"
  shows "same_called user (verification_answer i user o1) (verification_answer i user o2)"
  using assms(1)
proof (cases rule: same_called_cases)
  case (1 r d1 d2 c)
  with assms(2,3) have "safe_phone_data i user d1 = safe_phone_data i user d2" by (simp add: reads_agree(16))
  with 1 show ?thesis by (simp add: verification_answer_def)
qed

lemma render_phone_verify_agrees:
  assumes same: "looks_same user d1 d2" and wf: "wf_db d1" "wf_db d2" and p: "get_phone i d1 = Some p" "ph_user p = user"
  shows "same_called user (render_phone_verify i n es d1 c) (render_phone_verify i n es d2 c)"
  using own_row_agrees(1) [OF same wf p] p(1) same by (simp add: render_phone_verify_def)

lemma verification_api_agrees:
  assumes same: "looks_same user d1 d2" and wf: "wf_db d1" "wf_db d2" and quiet: "quiet env"
  shows "same_called user (phone_verification_start_view env user i d1) (phone_verification_start_view env user i d2)"
    and "same_called user (phone_verification_check_view env user i data d1)
      (phone_verification_check_view env user i data d2)"
proof -
  note io = quiet_interference [OF quiet]
  note phone = reads_agree(2) [OF same wf]
  have wf_start: "wf_db (fst (snd (start_on env user p d)))" if "wf_db d" for p d
    by (rule good_effect_wf [OF quiet that services_good(1)])
  have wf_check: "wf_db (fst (snd (check_on env user p s d)))" if "wf_db d" for p s d
    by (rule good_effect_wf [OF quiet that services_good(2) [OF io]])
  note starts = services_agree(1) [OF same wf quiet] and checks = services_agree(2) [OF same wf quiet]
  show "same_called user (phone_verification_start_view env user i d1) (phone_verification_start_view env user i d2)"
    unfolding phone_verification_start_view_def phone
    by (cases "re_allowed env"; cases "get_user_phone i user d2")
      (auto intro!: verification_answer_agrees simp: same wf starts wf_start simp del: get_user_phone_Inr_iff)
  show "same_called user (phone_verification_check_view env user i data d1)
      (phone_verification_check_view env user i data d2)"
    unfolding phone_verification_check_view_def phone
    by (cases "re_allowed env"; cases "get_user_phone i user d2")
      (auto intro!: verification_answer_agrees simp: same wf checks wf_check split: sum.split
        simp del: get_user_phone_Inr_iff)
qed

lemma phone_verification_start_agrees:
  assumes same: "looks_same user d1 d2" and wf: "wf_db d1" "wf_db d2" and quiet: "quiet env"
  shows "same_called user (phone_verification_start env user i d1) (phone_verification_start env user i d2)"
proof (cases "get_user_phone i user d2")
  case (Inr p)
  from services_agree(1) [OF same wf quiet, of p] show ?thesis
    by (cases rule: same_called_cases)
      (auto simp: phone_verification_start_def reads_agree(2) [OF same wf] Inr same Let_def split: sum.split)
qed (simp add: phone_verification_start_def reads_agree(2) [OF same wf] same)

lemma render_after_check_agrees:
  assumes quiet: "quiet env" and wf: "wf_db d1" "wf_db d2" and p1: "get_phone i d1 = Some p" "ph_user p = user"
    and run: "check_on env user p s d1 = (r1, d1', c1)" "check_on env user p s d2 = (r2, d2', c2)"
    and sm: "looks_same user d1' d2'"
  shows "same_called user (render_phone_verify i n es d1' c) (render_phone_verify i n es d2' c)"
proof -
  note io = quiet_interference [OF quiet]
  have wf_check: "wf_db (fst (snd (check_on env user p s d)))" if "wf_db d" for d
    by (rule good_effect_wf [OF quiet that services_good(2) [OF io]])
  have w: "wf_db d1'" "wf_db d2'"
    using wf_check [OF wf(1)] wf_check [OF wf(2)] run by simp_all
  have "own_step user d1 d1'"
    using check_on_own [OF io run(1)] quiet_own_effect [OF quiet] by blast
  then obtain q where "get_phone i d1' = Some q" "ph_user q = user"
    using own_step_keeps_phone [OF _ wf(1) p1(1)] p1(2) by blast
  then show ?thesis by (rule render_phone_verify_agrees [OF sm w])
qed

lemma phone_verify_agrees:
  assumes same: "looks_same user d1 d2" and wf: "wf_db d1" "wf_db d2" and quiet: "quiet env"
  shows "same_called user (phone_verify env user posted i post d1) (phone_verify env user posted i post d2)"
proof (cases "get_user_phone i user d2")
  case (Inr p)
  then have "get_user_phone i user d1 = Inr p" by (simp only: reads_agree(2) [OF same wf])
  then have p1: "get_phone i d1 = Some p" "ph_user p = user" by simp_all
  note shown = render_phone_verify_agrees [OF same wf p1]
  show ?thesis
  proof (cases "verification_code_form post")
    case form: (Inr v)
    show ?thesis
    proof (cases v)
      case (Inr s)
      from services_agree(2) [OF same wf quiet, of p s] show ?thesis
      proof (cases rule: same_called_cases)
        case (1 r d1' d2' c)
        note render = render_after_check_agrees [OF quiet wf p1 1]
        show ?thesis
          using 1 render shown
          by (cases r) (auto simp: phone_verify_def reads_agree(2) [OF same wf] \<open>get_user_phone i user d2 = Inr p\<close> form Inr)
      qed
    qed (use shown in \<open>auto simp: phone_verify_def reads_agree(2) [OF same wf] Inr form\<close>)
  qed (use shown same in \<open>auto simp: phone_verify_def reads_agree(2) [OF same wf] Inr\<close>)
qed (simp add: phone_verify_def reads_agree(2) [OF same wf] same)

lemmas verification_views_agree =
  verification_api_agrees phone_verification_start_agrees phone_verify_agrees

section \<open>The answers of the whole site\<close>

lemma as_outcomes_agree:
  "same_outcome user o1 o2 \<Longrightarrow> same_called user (as_page o1) (as_page o2)"
  "same_outcome user q1 q2 \<Longrightarrow> same_called user (as_api q1) (as_api q2)"
  "same_called user r1 r2 \<Longrightarrow> same_called user (as_called_page r1) (as_called_page r2)"
  "same_called user s1 s2 \<Longrightarrow> same_called user (as_called_api s1) (as_called_api s2)"
  by (auto simp: same_outcome_def same_called_def as_page_def as_api_def as_called_page_def as_called_api_def
      split: prod.split)

lemma serve_page_agrees:
  assumes same: "looks_same user d1 d2" and wf: "wf_db d1" "wf_db d2" and quiet: "quiet env"
  shows "same_called user (serve_page env user req r d1) (serve_page env user req r d2)"
  by (cases r)
    (auto intro!: as_outcomes_agree event_pages_agree [OF same wf quiet] event_api_agrees [OF same wf quiet]
      phone_creation_agrees [OF same wf] verification_views_agree [OF same wf quiet]
      simp: same reads_agree [OF same wf])

text \<open>C34. What a user is told depends on no other user. Take two well-formed databases that look the same to the
  user: the same own events and phones, the same next free identifiers and the same set of enrolled numbers,
  whatever the other users' rows, all attempts and all message records are. A request that runs undisturbed
  gets the same answer on both, makes the same calls on the gateway, and leaves databases that again look the
  same to the user. (The set of enrolled numbers is there because enrolling a taken number is refused.)\<close>

theorem answers_depend_on_own_rows:
  assumes "looks_same user d1 d2" and "wf_db d1" and "wf_db d2" and "quiet env"
    and "serve env (Some user) req r d1 = (a1, d1', calls1)"
    and "serve env (Some user) req r d2 = (a2, d2', calls2)"
  shows "a1 = a2 \<and> calls1 = calls2 \<and> looks_same user d1' d2' \<and> wf_db d1' \<and> wf_db d2'"
proof -
  have "same_called user (a1, d1', calls1) (a2, d2', calls2)"
    using serve_page_agrees [OF assms(1-4), of req r] assms(5,6) by (simp add: serve_def)
  moreover have "wf_db d'" if "serve env (Some user) req r d = (a, d', c)" "wf_db d" for a d d' c
    using good_effect_wf [OF assms(4) that(2) serve_page_good [OF quiet_interference [OF assms(4)]], of user req r] that(1)
    by (simp add: serve_def)
  ultimately show ?thesis using assms(2,3,5,6) by auto
qed

section \<open>The theorems on a sample\<close>

text \<open>
  A framework whose conversions know a few values, and an undisturbed request. User 7 has two scheduled events,
  user 8 an unverified phone.
\<close>

definition sample_framework :: framework where
  "sample_framework = \<lparr>fw_form_text = strip, fw_form_pk = python_int,
     fw_parse_datetime = (\<lambda>s. if s = ''2026-02-30T10:00:00Z'' then Inl (raise ValueError ''day is out of range for month'')
       else if s = ''late'' then Inr (Some \<lparr>dt_local = MAX_DATETIME, dt_offset = Some (- 1)\<rparr>)
       else if s = ''soon'' then Inr (Some \<lparr>dt_local = seconds 9000, dt_offset = Some 0\<rparr>)
       else Inr None),
     fw_json_text = (\<lambda>v. case v of JString s \<Rightarrow> Inr s | _ \<Rightarrow> invalid ''Not a valid string.''),
     fw_json_pk = (\<lambda>v. case v of JInt i \<Rightarrow> Inr (Some i)
       | JFloat PosInf \<Rightarrow> Inl (raise OverflowError ''cannot convert float infinity to integer'') | _ \<Rightarrow> Inr None),
     fw_json_datetime = (\<lambda>v. case v of JString s \<Rightarrow> if s = ''soon'' then Inr \<lparr>dt_local = seconds 9000, dt_offset = Some 0\<rparr>
       else invalid ''Datetime has wrong format.'' | _ \<Rightarrow> invalid ''Datetime has wrong format.''),
     fw_str = (\<lambda>v. case v of JString s \<Rightarrow> s | _ \<Rightarrow> '''')\<rparr>"

definition sample_request_env :: request_env where
  "sample_request_env = \<lparr>re_framework = sample_framework, re_before = (\<lambda>d. d), re_during = (\<lambda>d. d),
     re_gateway = Inr sample_gateway, re_allowed = True, re_clock = (\<lambda>n. seconds 100 + int n)\<rparr>"

lemma sample_request_quiet: "quiet sample_request_env"
  by (simp add: quiet_def sample_request_env_def)

definition post_request :: "form_params \<Rightarrow> user_request" where
  "post_request ps = \<lparr>ur_method = POST, ur_post = ps, ur_data = JNull, ur_page = 1\<rparr>"

lemma requests_stay_with_owner_witness:
  "wf_db (fst (snd (serve sample_request_env (Some 7) (post_request [(''channel'', ''voice'')]) (Event_Channel 1) sample_db))) \<and>
   wf_db (fst (snd (serve sample_request_env None (post_request []) (Event_Cancel 1) sample_db)))"
proof -
  have io: "interference_ok sample_request_env" by (rule quiet_interference [OF sample_request_quiet])
  obtain a d' c where run: "serve sample_request_env (Some 7) (post_request [(''channel'', ''voice'')]) (Event_Channel 1) sample_db = (a, d', c)"
    by (metis prod_cases3)
  obtain b e' k where run2: "serve sample_request_env None (post_request []) (Event_Cancel 1) sample_db = (b, e', k)"
    by (metis prod_cases3)
  show ?thesis
    using requests_stay_with_owner [OF wf_sample_db io run] requests_stay_with_owner [OF wf_sample_db io run2] run run2
      wf_sample_db by simp
qed

text \<open>To user 8 the sample looks the same without the events of user 7.\<close>

definition sample_without_events :: db where
  "sample_without_events = sample_db\<lparr>db_events := \<lparr>rows = [], next_id = 4\<rparr>, db_attempts := empty_table\<rparr>"

lemma answers_depend_on_own_rows_witness:
  "fst (serve sample_request_env (Some 8) (post_request []) (Event_Cancel 1) sample_db) =
   fst (serve sample_request_env (Some 8) (post_request []) (Event_Cancel 1) sample_without_events)"
proof -
  have same: "looks_same 8 sample_db sample_without_events"
    by (simp add: looks_same_def own_events_def own_phones_def events_where_def sample_without_events_def sample_defs)
  have wf: "wf_db sample_without_events"
    using wf_sample_db by (simp add: wf_db_def sample_without_events_def) (simp add: wf_table_def empty_table_def)
  obtain a d' c where run: "serve sample_request_env (Some 8) (post_request []) (Event_Cancel 1) sample_db = (a, d', c)"
    by (metis prod_cases3)
  obtain b e' k where run2: "serve sample_request_env (Some 8) (post_request []) (Event_Cancel 1) sample_without_events = (b, e', k)"
    by (metis prod_cases3)
  show ?thesis
    using answers_depend_on_own_rows [OF same wf_sample_db wf sample_request_quiet run run2] run run2 by simp
qed

text \<open>What these requests are told, evaluated.\<close>

lemma sample_answers:
  "fst (serve sample_request_env (Some 7) (post_request [(''channel'', ''voice'')]) (Event_Channel 1) sample_db) =
    Inr (Page (detail_redirect 1 ''success'' ''Delivery channel updated.''))"
  "fst (serve sample_request_env (Some 8) (post_request [(''channel'', ''voice'')]) (Event_Channel 1) sample_db) = Inr (Page No_Such_Page)"
  by code_simp+

end
