(* ===== verification/View_Properties.thy ===== *)
theory View_Properties
  imports View_Agreement
begin

text \<open>
  What requests are answered: addresses and redirects, the exceptions that escape, the error answers of the
  API, and the administrator's bulk cancellation.
\<close>

section \<open>Addresses\<close>

lemma decimal_no_slash: "CHR ''/'' \<notin> set (decimal n)"
  using decimal_digits [of n] by (fastforce simp: all_digits_def is_digit_def code_def)

text \<open>Two patterns are apart when no address built from the second matches the first.\<close>

fun apart :: "segment list \<Rightarrow> segment list \<Rightarrow> bool" where
  "apart [] [] = False"
| "apart (Fixed a # ps) (Fixed b # qs) = (a \<noteq> b \<or> apart ps qs)"
| "apart (Fixed a # ps) (Int_Segment # qs) = (a = [] \<or> \<not> all_digits a \<or> apart ps qs)"
| "apart (Int_Segment # ps) (Fixed b # qs) = (b = [] \<or> \<not> all_digits b \<or> apart ps qs)"
| "apart (Int_Segment # ps) (Int_Segment # qs) = apart ps qs"
| "apart _ _ = True"

lemma apart_no_match: "apart ps qs \<Longrightarrow> match_segments ps (map (fill_segment i) qs) j = None"
proof (induction ps qs arbitrary: j rule: apart.induct)
  case (3 a ps qs)
  then show ?case using decimal_digits [of "nat i"] by auto
qed auto

lemma match_own:
  "0 \<le> i \<Longrightarrow> match_segments ps (map (fill_segment i) ps) j = Some (if Int_Segment \<in> set ps then i else j)"
proof (induction ps arbitrary: j)
  case (Cons p ps)
  then show ?case
    using decimal_digits [of "nat i"] digits_value_decimal [of "nat i"] by (cases p) auto
qed simp

text \<open>No entry shadows a later one, and an entry without an identifier ignores it.\<close>

fun each_apart :: "url_pattern list \<Rightarrow> bool" where
  "each_apart [] = True"
| "each_apart (p # ps) = (list_all (\<lambda>q. apart (up_segments p) (up_segments q)) ps \<and> each_apart ps)"

lemma urlpatterns_apart: "each_apart urlpatterns"
  by code_simp

lemma routes_without_id:
  "\<forall>p \<in> set urlpatterns. Int_Segment \<notin> set (up_segments p) \<longrightarrow> up_route p 0 = up_route p i"
  by (simp add: urlpatterns_def accounts_api_urls_def scheduling_api_urls_def accounts_web_urls_def
      scheduling_web_urls_def pattern_def)

lemma resolve_in_own:
  assumes "each_apart ps" and "p \<in> set ps" and "0 \<le> i"
    and "Int_Segment \<notin> set (up_segments p) \<longrightarrow> up_route p 0 = up_route p i"
  shows "resolve_in ps (map (fill_segment i) (up_segments p)) = Some (up_route p i)"
  using assms by (induction ps) (auto simp: match_own apart_no_match list_all_iff)

lemma patterns_have_no_slash:
  "list_all (\<lambda>p. up_segments p \<noteq> [] \<and> list_all valid_segment (up_segments p)) urlpatterns"
  by code_simp

lemma pattern_names_distinct: "distinct (map up_name urlpatterns)"
  by code_simp

lemma find_by_name:
  assumes "distinct (map f xs)" and "x \<in> set xs"
  shows "find (\<lambda>y. f y = f x) xs = Some x"
  using assms by (induction xs) auto

lemma filled_no_slash: "valid_segment s \<Longrightarrow> CHR ''/'' \<notin> set (fill_segment i s)"
  by (cases s) (simp_all add: decimal_no_slash)

text \<open>
  Every address is found again: for each entry of the URL table and each identifier, the address that
  \<open>reverse\<close> builds from the entry's name resolves to that entry's view with that identifier; no other entry
  shadows it.
\<close>

lemma address_resolves:
  assumes "p \<in> set urlpatterns" and "0 \<le> i"
  shows "\<exists>path. reverse_url (up_name p) i = Some path \<and> resolve path = Some (up_route p i)"
proof -
  let ?ss = "map (fill_segment i) (up_segments p)"
  have "?ss \<noteq> [] \<and> (\<forall>s \<in> set ?ss. CHR ''/'' \<notin> set s)"
    using patterns_have_no_slash assms(1) filled_no_slash by (auto simp: list_all_iff)
  then have "split_slash (join_slash ?ss) = ?ss" by (intro split_join) auto
  moreover have "reverse_url (up_name p) i = Some (join_slash ?ss)"
    using find_by_name [OF pattern_names_distinct assms(1)] by (simp add: reverse_url_def)
  moreover have "resolve_in urlpatterns ?ss = Some (up_route p i)"
    using resolve_in_own [OF urlpatterns_apart assms] routes_without_id assms(1) by blast
  ultimately show ?thesis by (simp add: resolve_def)
qed

section \<open>Escaping exceptions\<close>

text \<open>What the framework documents of the conversions, and what a gateway raises.\<close>

definition framework_ok :: "framework \<Rightarrow> bool" where
  "framework_ok fw \<longleftrightarrow>
     (\<forall>s x. fw_parse_datetime fw s = Inl x \<longrightarrow> exn_class x = ValueError) \<and>
     (\<forall>v x. fw_json_pk fw v = Inl x \<longrightarrow> exn_class x = OverflowError) \<and>
     (\<forall>v x. fw_json_text fw v = Inl x \<longrightarrow> exn_class x = ValidationError) \<and>
     (\<forall>v x. fw_json_datetime fw v = Inl x \<longrightarrow> exn_class x = ValidationError) \<and>
     (\<forall>v dt. fw_json_datetime fw v = Inr dt \<longrightarrow> \<not> is_naive dt \<and> in_datetime_range (instant dt))"

definition gateway_ok :: "exn + verification_gateway \<Rightarrow> bool" where
  "gateway_ok gw \<longleftrightarrow>
     (\<forall>x. gw = Inl x \<longrightarrow> listed_error (exn_class x)) \<and>
     (\<forall>g n s x. gw = Inr g \<longrightarrow> start_verification g n = Inl x \<or> check_verification g n s = Inl x \<longrightarrow>
        listed_error (exn_class x))"

text \<open>A text that is well formatted but names no date.\<close>

definition bad_date :: "framework \<Rightarrow> exn \<Rightarrow> bool" where
  "bad_date fw x \<longleftrightarrow> exn_class x = ValueError \<and> (\<exists>s. fw_parse_datetime fw s = Inl x)"

text \<open>A JSON number that is no key and whose conversion overflows.\<close>

definition bad_key :: "framework \<Rightarrow> exn \<Rightarrow> bool" where
  "bad_key fw x \<longleftrightarrow> exn_class x = OverflowError \<and> (\<exists>v. fw_json_pk fw v = Inl x)"

definition escape :: "framework \<Rightarrow> user_route \<Rightarrow> exn \<Rightarrow> bool" where
  "escape fw r x \<longleftrightarrow>
     bad_date fw x \<and> (r \<in> {Event_New, Api_Events} \<or> (\<exists>i. r = Event_Reschedule i \<or> r = Api_Event_Reschedule i)) \<or>
     bad_key fw x \<and> r = Api_Events \<or>
     exn_class x = OverflowError \<and> (r = Event_New \<or> (\<exists>i. r = Event_Reschedule i)) \<or>
     exn_class x = ValidationError \<and> (\<exists>i. r = Event_Reschedule i)"

lemma validators_raise: "run_validators vs s = Inl x \<Longrightarrow> exn_class x = ValidationError"
  by (auto simp: run_validators_def Let_def split: if_splits)

lemma offset_field_raises:
  assumes "framework_ok fw" and "under_name n (explicit_offset_field fw now raw) = Inl x"
  shows "bad_date fw x \<or> exn_class x = OverflowError"
  using assms
  by (auto simp: under_name_cases explicit_offset_field_def explicit_offset_to_python_def explicit_offset_validate_def
      bad_date_def framework_ok_def bind_res_Inl_iff Let_def astimezone_utc_def split: if_splits option.splits)

lemma map_sum_Inl_iff: "map_sum id f r = Inl x \<longleftrightarrow> r = Inl x"
  by (cases r) simp_all

lemma forms_raise:
  assumes "framework_ok fw"
  shows "scheduled_event_create_form fw user d now post = Inl x \<Longrightarrow> bad_date fw x \<or> exn_class x = OverflowError"
    and "reschedule_event_form fw now post = Inl x \<Longrightarrow> bad_date fw x \<or> exn_class x = OverflowError"
    and "change_event_channel_form post \<noteq> Inl x"
    and "phone_enrollment_form fw post \<noteq> Inl x"
    and "verification_code_form post \<noteq> Inl x"
proof -
  have choice: "under_name n (phone_choice_field fw user d raw) \<noteq> Inl x"
    "under_name n (zip_code_field fw raw) \<noteq> Inl x" "under_name n (channel_field raw) \<noteq> Inl x" for n raw
    by (auto simp: under_name_cases phone_choice_field_def zip_code_field_def channel_field_def Let_def
        dest: validators_raise split: if_splits option.splits)
  show "bad_date fw x \<or> exn_class x = OverflowError" if "scheduled_event_create_form fw user d now post = Inl x"
    using that unfolding scheduled_event_create_form_def map_sum_Inl_iff
    by (auto dest!: and_field_InlD offset_field_raises [OF assms] simp: choice)
  show "bad_date fw x \<or> exn_class x = OverflowError" if "reschedule_event_form fw now post = Inl x"
    using that unfolding reschedule_event_form_def by (rule offset_field_raises [OF assms])
  show "change_event_channel_form post \<noteq> Inl x" by (simp add: change_event_channel_form_def choice)
  show "phone_enrollment_form fw post \<noteq> Inl x" "verification_code_form post \<noteq> Inl x"
    by (auto simp: phone_enrollment_form_def verification_code_form_def under_name_cases Let_def
        dest: validators_raise split: if_splits)
qed

lemma serializer_field_raises:
  "serializer_field data n f = Inl x \<Longrightarrow> \<exists>v. f v = Inl x \<and> \<not> is_validation_error (exn_class x)"
  by (auto simp: serializer_field_def under_name_cases split: option.splits json.splits)

lemma scheduled_for_raises:
  assumes "framework_ok fw" and "scheduled_for_value fw now v = Inl x" and "\<not> is_validation_error (exn_class x)"
  shows "bad_date fw x"
  using assms
  by (auto simp: scheduled_for_value_def explicit_timezone_to_internal_value_def validate_scheduled_for_def
      bad_date_def framework_ok_def bind_res_Inl_iff split: if_splits option.splits json.splits)

lemma related_phone_raises:
  assumes "framework_ok fw" and "related_phone fw user d v = Inl x" and "\<not> is_validation_error (exn_class x)"
  shows "bad_key fw x"
  using assms by (auto simp: related_phone_def bad_key_def framework_ok_def bind_res_Inl_iff split: option.splits)

lemma serializers_raise:
  assumes "framework_ok fw"
  shows "scheduled_event_serializer fw user d now data = Inl x \<Longrightarrow> bad_date fw x \<or> bad_key fw x"
    and "reschedule_serializer fw now data = Inl x \<Longrightarrow> bad_date fw x"
    and "channel_serializer fw data \<noteq> Inl x"
    and "phone_number_serializer fw data \<noteq> Inl x"
    and "verification_check_serializer fw data \<noteq> Inl x"
proof -
  have choice: "serializer_field data n (zip_code_value fw) \<noteq> Inl x"
    "serializer_field data n (channel_choice fw) \<noteq> Inl x" for n
    using assms
    by (auto simp: zip_code_value_def channel_choice_def bind_res_Inl_iff framework_ok_def
        dest!: serializer_field_raises validators_raise split: option.splits if_splits)
  have key: "bad_key fw x" if "serializer_field data n (related_phone fw user d) = Inl x" for n
    using serializer_field_raises [OF that] related_phone_raises [OF assms] by blast
  have time: "bad_date fw x" if "serializer_field data n (scheduled_for_value fw now) = Inl x" for n
    using serializer_field_raises [OF that] scheduled_for_raises [OF assms] by blast
  show "bad_date fw x \<or> bad_key fw x" if "scheduled_event_serializer fw user d now data = Inl x"
    using that unfolding scheduled_event_serializer_def map_sum_Inl_iff
    by (auto dest!: and_field_InlD time key simp: choice)
  show "bad_date fw x" if "reschedule_serializer fw now data = Inl x"
    using that unfolding reschedule_serializer_def by (rule time)
  show "channel_serializer fw data \<noteq> Inl x" by (simp add: channel_serializer_def choice)
  show "phone_number_serializer fw data \<noteq> Inl x" "verification_check_serializer fw data \<noteq> Inl x"
    using assms
    by (auto simp: phone_number_serializer_def verification_check_serializer_def bind_res_Inl_iff framework_ok_def
        dest!: serializer_field_raises validators_raise)
qed

text \<open>What the services raise when a view has checked their arguments.\<close>

lemma create_scheduled_event_raises:
  "create_scheduled_event user i z dt ch clk d = Inl x \<Longrightarrow> \<not> is_naive dt \<Longrightarrow> is_validation_error (exn_class x)"
  by (auto simp: create_scheduled_event_def bind_res_Inl_iff get_verified_phone_def full_clean_event_def Let_def
      split: option.splits if_splits prod.splits)

lemma create_phone_number_raises:
  "create_phone_number user n clk d = Inl x \<Longrightarrow> is_validation_error (exn_class x)"
  by (auto simp: create_phone_number_def bind_res_Inl_iff Let_def split: prod.splits)

lemma changes_raise:
  "cancel_user_scheduled_event i user t clk d = Inl x \<Longrightarrow>
    exn_class x \<in> {DoesNotExist, ScheduledEventLifecycleConflict}"
  "reschedule_user_scheduled_event i user (Some dt) now clk d = Inl x \<Longrightarrow> in_datetime_range (instant dt) \<Longrightarrow>
    exn_class x \<in> {DoesNotExist, ScheduledEventLifecycleConflict, ValidationError}"
  "change_user_scheduled_event_channel i user ch clk d = Inl x \<Longrightarrow>
    exn_class x \<in> {DoesNotExist, ScheduledEventLifecycleConflict, ValidationError}"
  "change_user_scheduled_event_channel i user ch clk d = Inl x \<Longrightarrow> channel_of ch \<noteq> None \<Longrightarrow>
    exn_class x \<in> {DoesNotExist, ScheduledEventLifecycleConflict}"
  by (auto simp: change_refusals event_missing_def bind_res_Inl_iff split: option.splits if_splits)

lemma changes_find_own:
  assumes "event_for_user i user d = Some row"
  shows "cancel_user_scheduled_event i user t clk d = Inl x \<Longrightarrow> exn_class x \<noteq> DoesNotExist"
    and "reschedule_user_scheduled_event i user w now clk d = Inl x \<Longrightarrow> exn_class x \<noteq> DoesNotExist"
    and "change_user_scheduled_event_channel i user ch clk d = Inl x \<Longrightarrow> exn_class x \<noteq> DoesNotExist"
proof -
  obtain e where "get_event i d = Some e" "ev_user e = user"
    using assms by (auto simp: event_for_user_def split: option.splits if_splits)
  then have own: "get_user_event i user d = Inr e" by simp
  show "cancel_user_scheduled_event i user t clk d = Inl x \<Longrightarrow> exn_class x \<noteq> DoesNotExist"
    and "reschedule_user_scheduled_event i user w now clk d = Inl x \<Longrightarrow> exn_class x \<noteq> DoesNotExist"
    and "change_user_scheduled_event_channel i user ch clk d = Inl x \<Longrightarrow> exn_class x \<noteq> DoesNotExist"
    unfolding cancel_user_scheduled_event_def reschedule_user_scheduled_event_def
      change_user_scheduled_event_channel_def own
    by (auto simp: change_refusals bind_res_Inl_iff split: option.splits if_splits)
qed

lemma offset_field_range:
  "explicit_offset_field fw now raw = Inr t \<Longrightarrow> in_datetime_range t"
  by (auto simp: explicit_offset_field_def explicit_offset_to_python_def explicit_offset_validate_def Let_def
      split: if_splits option.splits)

lemma map_sum_Inr_iff: "map_sum id (map_sum id f) r = Inr (Inr v) \<longleftrightarrow> (\<exists>w. r = Inr (Inr w) \<and> v = f w)"
proof (cases r)
  case (Inr w)
  then show ?thesis by (cases w) auto
qed simp

lemma scheduled_for_value_aware: "scheduled_for_value fw now v = Inr dt \<Longrightarrow> \<not> is_naive dt"
  by (auto simp: scheduled_for_value_def validate_scheduled_for_def split: if_splits)

lemma serializer_field_value: "serializer_field data n f = Inr (Inr v) \<Longrightarrow> \<exists>j. f j = Inr v"
  by (auto simp: serializer_field_def under_name_cases split: option.splits json.splits)

lemma cleaned_inputs:
  "reschedule_event_form fw now post = Inr (Inr t) \<Longrightarrow> in_datetime_range t"
  "change_event_channel_form post = Inr (Inr ch) \<Longrightarrow> channel_of ch \<noteq> None"
  "scheduled_event_create_form fw user d now post = Inr (Inr input) \<Longrightarrow> \<not> is_naive (in_scheduled_for input)"
  "scheduled_event_serializer fw user d now data = Inr (Inr input) \<Longrightarrow> \<not> is_naive (in_scheduled_for input)"
proof -
  show "in_datetime_range t" if "reschedule_event_form fw now post = Inr (Inr t)"
    using that by (auto simp: reschedule_event_form_def under_name_cases dest: offset_field_range)
  show "channel_of ch \<noteq> None" if "change_event_channel_form post = Inr (Inr ch)"
    using that by (auto simp: change_event_channel_form_def under_name_cases channel_field_def split: if_splits)
  show "\<not> is_naive (in_scheduled_for input)" if "scheduled_event_create_form fw user d now post = Inr (Inr input)"
    using that unfolding scheduled_event_create_form_def map_sum_Inr_iff
    by (auto simp: is_naive_def split: prod.splits)
  show "\<not> is_naive (in_scheduled_for input)" if "scheduled_event_serializer fw user d now data = Inr (Inr input)"
  proof -
    have "\<exists>dt. serializer_field data ''scheduled_for'' (scheduled_for_value fw now) = Inr (Inr dt) \<and>
        in_scheduled_for input = dt"
      using that unfolding scheduled_event_serializer_def map_sum_Inr_iff and_field_Inr_iff by (auto split: prod.splits)
    then show ?thesis using serializer_field_value scheduled_for_value_aware by metis
  qed
qed

lemma serialized_range:
  assumes "framework_ok fw" and "reschedule_serializer fw now data = Inr (Inr dt)"
  shows "in_datetime_range (instant dt)"
proof -
  obtain v where "scheduled_for_value fw now v = Inr dt"
    using serializer_field_value [OF assms(2) [unfolded reschedule_serializer_def]] by blast
  then have "fw_json_datetime fw v = Inr dt"
    by (auto simp: scheduled_for_value_def explicit_timezone_to_internal_value_def validate_scheduled_for_def
        split: if_splits)
  then show ?thesis using assms(1) by (simp add: framework_ok_def)
qed

text \<open>The views.\<close>

lemma event_create_raises:
  assumes fw: "framework_ok (re_framework env)" and quiet: "quiet env"
    and run: "fst (event_create env user posted post d) = Inl x"
  shows "escape (re_framework env) Event_New x"
proof (cases "scheduled_event_create_form (re_framework env) user d (re_clock env 0) post")
  case (Inl y)
  with run forms_raise(1) [OF fw Inl] show ?thesis by (auto simp: event_create_def escape_def split: if_splits)
next
  case (Inr v)
  with run cleaned_inputs(3) show ?thesis
    by (auto simp: event_create_def quiet [unfolded quiet_def, THEN conjunct1] split: if_splits sum.splits dest: create_scheduled_event_raises)
qed

lemma event_reschedule_raises:
  assumes fw: "framework_ok (re_framework env)" and quiet: "quiet env"
    and run: "fst (event_reschedule env user i post d) = Inl x"
  shows "escape (re_framework env) (Event_Reschedule i) x"
proof (cases "event_for_user i user d")
  case (Some row)
  show ?thesis
  proof (cases "reschedule_event_form (re_framework env) (re_clock env 0) post")
    case (Inl y)
    with run Some forms_raise(2) [OF fw Inl] show ?thesis by (auto simp: event_reschedule_def escape_def)
  next
    case (Inr v)
    have "exn_class y \<in> {ScheduledEventLifecycleConflict, ValidationError}"
      if "v = Inr t" "reschedule_user_scheduled_event i user (Some (utc_datetime t)) None clk d = Inl y" for t clk y
      using changes_raise(2) [OF that(2)] changes_find_own(2) [OF Some that(2)] cleaned_inputs(1) [of _ _ post t] Inr that(1)
      by (auto simp: instant_def)
    with run Some Inr show ?thesis
      by (auto simp: event_reschedule_def quiet [unfolded quiet_def, THEN conjunct1] escape_def render_refreshed_own [OF Some] split: if_splits sum.splits)
  qed
qed (use run in \<open>simp add: event_reschedule_def\<close>)

lemma event_channel_returns:
  assumes fw: "framework_ok (re_framework env)" and quiet: "quiet env"
  shows "fst (event_channel env user i post d) \<noteq> Inl x"
proof (cases "event_for_user i user d")
  case (Some row)
  have "exn_class y = ScheduledEventLifecycleConflict"
    if "change_event_channel_form post = Inr (Inr ch)" "change_user_scheduled_event_channel i user ch clk d = Inl y" for ch clk y
    using changes_raise(4) [OF that(2) cleaned_inputs(2) [OF that(1)]] changes_find_own(3) [OF Some that(2)] by auto
  then show ?thesis
    using Some forms_raise(3) [OF fw]
    by (auto simp: event_channel_def quiet [unfolded quiet_def, THEN conjunct1] render_refreshed_own [OF Some] split: if_splits sum.split)
qed (simp add: event_channel_def)

lemma event_cancel_returns:
  assumes fw: "framework_ok (re_framework env)" and quiet: "quiet env"
  shows "fst (event_cancel env user i d) \<noteq> Inl x"
proof (cases "event_for_user i user d")
  case (Some row)
  have "exn_class y = ScheduledEventLifecycleConflict" if "cancel_user_scheduled_event i user t clk d = Inl y" for t clk y
    using changes_raise(1) [OF that] changes_find_own(1) [OF Some that] by auto
  then show ?thesis by (auto simp: event_cancel_def quiet [unfolded quiet_def, THEN conjunct1] Some split: sum.split)
qed (simp add: event_cancel_def)

lemmas event_pages_raise =
  event_create_raises event_reschedule_raises event_channel_returns event_cancel_returns

lemma changed_event_answers:
  assumes "\<And>x. r = Inl x \<Longrightarrow> exn_class x \<in> {DoesNotExist, ScheduledEventLifecycleConflict, ValidationError}"
    and "\<And>x. r = Inl x \<Longrightarrow> \<not> b \<Longrightarrow> exn_class x \<noteq> ValidationError"
  shows "\<exists>a. fst (changed_event b r d) = Inr a \<and> aa_status a \<in> {200, 400, 404, 409}"
proof (cases r)
  case (Inl x)
  then show ?thesis using assms [OF Inl] by (auto simp: changed_event_def answer_def not_found_def)
next
  case (Inr v)
  then show ?thesis by (auto simp: changed_event_def answer_def split: prod.split)
qed

text \<open>The statuses with which the API answers.\<close>

definition answered :: "framework \<Rightarrow> user_route \<Rightarrow> exn + api_answer \<Rightarrow> bool" where
  "answered fw r res \<longleftrightarrow>
     (case res of Inl x \<Rightarrow> escape fw r x
      | Inr a \<Rightarrow> aa_status a \<in> {200, 201, 400, 401, 404, 405, 409, 429, 503})"

lemma answered_answer [simp]:
  "answered fw r (answer n body) \<longleftrightarrow> n \<in> {200, 201, 400, 401, 404, 405, 409, 429, 503}" "answered fw r not_found"
  by (simp_all add: answered_def answer_def not_found_def)

lemma event_api_answered:
  assumes fw: "framework_ok (re_framework env)" and quiet: "quiet env"
  shows "answered (re_framework env) Api_Events (fst (scheduled_event_create env user data d))"
    and "answered fw' r (fst (scheduled_event_cancel_view env user i d))"
    and "answered (re_framework env) (Api_Event_Reschedule i) (fst (scheduled_event_reschedule_view env user i data d))"
    and "answered fw' r (fst (scheduled_event_channel_view env user i data d))"
    and "answered fw' r (fst (phone_number_create env user data d))"
    and "answered fw' r (paginated n show xs)"
    and "answered fw' r (scheduled_event_detail user i d)"
proof -
  note before = quiet [unfolded quiet_def, THEN conjunct1]
  have changed: "answered fw' r (fst (changed_event b res d))"
    if "\<And>x. res = Inl x \<Longrightarrow> exn_class x \<in> {DoesNotExist, ScheduledEventLifecycleConflict, ValidationError}"
      and "\<And>x. res = Inl x \<Longrightarrow> \<not> b \<Longrightarrow> exn_class x \<noteq> ValidationError" for fw' r b res
  proof -
    note raises = that
    obtain a where "fst (changed_event b res d) = Inr a" "aa_status a \<in> {200, 400, 404, 409}"
      using changed_event_answers [of res b d, OF raises] by blast
    then show ?thesis by (auto simp: answered_def)
  qed
  have date: "answered (re_framework env) r (Inl x)" if "bad_date (re_framework env) x"
    and "r = Api_Events \<or> r = Api_Event_Reschedule i" for x r
    using that by (auto simp: answered_def escape_def)
  have key: "answered (re_framework env) Api_Events (Inl x)" if "bad_key (re_framework env) x" for x
    using that by (simp add: answered_def escape_def)
  show "answered (re_framework env) Api_Events (fst (scheduled_event_create env user data d))"
    using cleaned_inputs(4) create_scheduled_event_raises serializers_raise(1) [OF fw] date key
    by (fastforce simp: scheduled_event_create_def before split: sum.split)
  show "answered fw' r (fst (scheduled_event_cancel_view env user i d))"
    unfolding scheduled_event_cancel_view_def by (rule changed) (auto dest: changes_raise(1))
  show "answered (re_framework env) (Api_Event_Reschedule i) (fst (scheduled_event_reschedule_view env user i data d))"
    unfolding scheduled_event_reschedule_view_def
    by (auto split: sum.split intro!: changed date dest: serializers_raise(2) [OF fw] changes_raise(2)
        serialized_range [OF fw])
  show "answered fw' r (fst (scheduled_event_channel_view env user i data d))"
    unfolding scheduled_event_channel_view_def
    by (auto split: sum.split intro!: changed dest: changes_raise(3) simp: serializers_raise(3) [OF fw])
  show "answered fw' r (fst (phone_number_create env user data d))"
    unfolding phone_number_create_def
    by (auto split: sum.split dest: create_phone_number_raises simp: serializers_raise(4) [OF fw])
  show "answered fw' r (paginated n show xs)" by (simp add: paginated_def)
  show "answered fw' r (scheduled_event_detail user i d)" by (simp add: scheduled_event_detail_def split: option.split)
qed

text \<open>Every listed error has an answer of its own.\<close>

lemma provider_error_answers:
  assumes "listed_error (exn_class x)"
  shows "\<exists>n body. provider_error_response x = answer n body \<and> n \<in> {400, 409, 429, 503}"
proof -
  obtain e where "exn_class x = VerificationExn e" "e \<in> set VERIFICATION_API_ERRORS"
    using assms by (cases "exn_class x") simp_all
  then show ?thesis
    by (cases e) (simp_all add: provider_error_response_def VERIFICATION_API_ERRORS_def, blast+)
qed

lemma services_raise_listed:
  assumes gw: "gateway_ok (re_gateway env)" and quiet: "quiet env" and phone: "get_user_phone i user d = Inr phone"
  shows "fst (start_on env user phone d) = Inl x \<Longrightarrow> listed_error (exn_class x)"
    and "fst (check_on env user phone given d) = Inl x \<Longrightarrow> listed_error (exn_class x)"
proof -
  have env: "re_before env = (\<lambda>d. d)" "re_during env = (\<lambda>d. d)" using quiet by (simp_all add: quiet_def)
  have p: "get_user_phone (ph_id phone) user d = Inr phone" "get_phone (ph_id phone) d = Some phone"
    using phone phones.get_key by auto
  have listed: "listed_error (VerificationExn PhoneAlreadyVerified)" "listed_error (VerificationExn VerificationInputInvalid)"
    by (simp_all add: VERIFICATION_API_ERRORS_def)
  have gateway: "listed_error (exn_class y)"
    if "re_gateway env = Inl y \<or> (\<exists>g n s. re_gateway env = Inr g \<and> (start_verification g n = Inl y \<or> check_verification g n s = Inl y))" for y
    using gw that unfolding gateway_ok_def by blast
  show "listed_error (exn_class x)" if "fst (start_on env user phone d) = Inl x"
    using that gateway listed
    by (cases "re_gateway env") (auto simp: start_on_def gateway_for_def start_user_phone_verification_def p(1) env split: if_splits)
  show "listed_error (exn_class x)" if run: "fst (check_on env user phone given d) = Inl x"
  proof (cases "valid_code given \<and> \<not> is_verified phone")
    case False
    then show ?thesis using run gateway listed
      by (cases "re_gateway env")
        (auto simp: check_on_def gateway_for_def check_user_phone_verification_def p(1) env require_code_def split: if_splits)
  next
    case True
    have marked: "mark_phone_verified (ph_id phone) (ph_number phone) v now d = Inr r \<or> True" for v now r by simp
    show ?thesis
    proof (cases "re_gateway env")
      case (Inr g)
      have "fst (finish_check g phone given None (\<lambda>d. d) (re_clock env) d) = Inl x"
        using run True Inr by (simp add: check_on_def gateway_for_def check_user_phone_verification_def p(1) env require_code_def)
      then have "check_verification g (ph_number phone) given = Inl x"
        using p(2) by (auto simp: finish_check_def mark_phone_verified_def Let_def bind_require split: sum.splits if_splits)
      with Inr gateway show ?thesis by blast
    qed (use run True gateway in \<open>auto simp: check_on_def gateway_for_def\<close>)
  qed
qed

lemma verification_answer_answered:
  assumes "\<And>x. fst o' = Inl x \<Longrightarrow> listed_error (exn_class x) \<or> exn_class x = DoesNotExist"
  shows "answered fw r (fst (verification_answer i user o'))"
proof -
  obtain res d calls where o': "o' = (res, d, calls)" by (metis prod_cases3)
  show ?thesis
  proof (cases "bind_res res (\<lambda>result. bind_res (safe_phone_data i user d) (\<lambda>phone. Inr (result, phone)))")
    case (Inl x)
    then have "listed_error (exn_class x) \<or> exn_class x = DoesNotExist"
      using assms o' by (auto simp: bind_res_Inl_iff safe_phone_data_def get_user_phone_def phone_missing_def
          split: option.splits if_splits)
    then show ?thesis
      using provider_error_answers [of x] by (auto simp: verification_answer_def o' Inl)
  next
    case (Inr v)
    obtain result phone where "v = (result, phone)" by (cases v)
    with Inr show ?thesis by (simp add: verification_answer_def o')
  qed
qed

lemma verification_views_answered:
  assumes gw: "gateway_ok (re_gateway env)" and quiet: "quiet env" and fw: "framework_ok (re_framework env)" and wf: "wf_db d"
  shows "answered fw' r (fst (phone_verification_start_view env user i d))"
    and "answered fw' r (fst (phone_verification_check_view env user i data d))"
    and "fst (phone_verification_start env user i d) \<noteq> Inl x"
    and "fst (phone_verify env user posted i post d) \<noteq> Inl x"
proof -
  note listed = services_raise_listed [OF gw quiet]
  have missing: "get_user_phone i user d = Inl y \<Longrightarrow> exn_class y = DoesNotExist" for y
    by (auto simp: get_user_phone_def phone_missing_def split: option.splits if_splits)
  show "answered fw' r (fst (phone_verification_start_view env user i d))"
    by (cases "get_user_phone i user d")
      (auto simp: phone_verification_start_view_def throttled_answer_def dest: missing listed simp del: get_user_phone_Inr_iff
        intro!: verification_answer_answered)
  show "answered fw' r (fst (phone_verification_check_view env user i data d))"
    by (cases "get_user_phone i user d")
      (auto simp: phone_verification_check_view_def throttled_answer_def serializers_raise(5) [OF fw]
        dest: missing listed simp del: get_user_phone_Inr_iff intro!: verification_answer_answered split: sum.split)
  show "fst (phone_verification_start env user i d) \<noteq> Inl x"
  proof (cases "get_user_phone i user d")
    case (Inr p)
    obtain res d' c where run: "start_on env user p d = (res, d', c)" by (metis prod_cases3)
    show ?thesis using listed(1) [OF Inr] by (auto simp: phone_verification_start_def Inr run Let_def split: sum.split)
  qed (simp add: phone_verification_start_def)
  show "fst (phone_verify env user posted i post d) \<noteq> Inl x"
  proof (cases "get_user_phone i user d")
    case (Inr p)
    have shown: "fst (render_phone_verify i n es d' c) \<noteq> Inl x" if "own_step user d d'" for n es d' c
      using own_step_keeps_phone [OF that wf, of i p] Inr by (auto simp: render_phone_verify_def)
    note now = shown [OF own_step.stay]
    show ?thesis
    proof (cases "verification_code_form post")
      case form: (Inr v)
      show ?thesis
      proof (cases v)
        case code: (Inr s)
        obtain res d' c where run: "check_on env user p s d = (res, d', c)" by (metis prod_cases3)
        have "own_step user d d'"
          using check_on_own [OF quiet_interference [OF quiet] run] quiet_own_effect [OF quiet] by blast
        note later = shown [OF this]
        show ?thesis
          using now later listed(2) [OF Inr, of s] run
          by (cases res) (simp_all add: phone_verify_def Inr form code)
      qed (use now in \<open>simp add: phone_verify_def Inr form\<close>)
    qed (use forms_raise(5) [OF fw] in simp)
  qed (simp add: phone_verify_def)
qed

text \<open>The HTTP status of every answer, and the statuses that pages and the API answer with.\<close>

fun page_status :: "page \<Rightarrow> nat" where
  "page_status (Redirect _ _ _) = 302"
| "page_status No_Such_Page = 404"
| "page_status (Event_List_Page _) = 200"
| "page_status (Event_Detail_Page n _ _ _ _) = n"
| "page_status (Event_Form_Page n _) = n"
| "page_status (Phone_List_Page _) = 200"
| "page_status (Phone_Form_Page n _) = n"
| "page_status (Phone_Verify_Page n _ _ _) = n"

fun answer_status :: "user_answer \<Rightarrow> nat" where
  "answer_status (Page p) = page_status p"
| "answer_status Login_Page = 302"
| "answer_status Page_Bad_Method = 405"
| "answer_status (Api a) = aa_status a"

definition answer_ok :: "user_route \<Rightarrow> user_answer \<Rightarrow> bool" where
  "answer_ok r a \<longleftrightarrow>
     (case a of
        Api b \<Rightarrow> is_api r \<and> answer_status a \<in> {200, 201, 400, 401, 404, 405, 409, 429, 503}
      | _ \<Rightarrow> \<not> is_api r \<and> answer_status a \<in> {200, 302, 400, 404, 405, 409})"

definition page_ok :: "page \<Rightarrow> bool" where
  "page_ok p \<longleftrightarrow> page_status p \<in> {200, 302, 400, 404, 409}"

lemma page_ok_Redirect [simp]: "page_ok (Redirect name i flash)"
  by (simp add: page_ok_def)

lemma render_refreshed_status: "fst (render_refreshed i errors d) = Inr p \<Longrightarrow> page_ok p"
  by (auto simp: page_ok_def render_refreshed_def render_event_detail_def split: option.splits)

lemma render_phone_verify_status:
  "n \<in> {200, 400} \<Longrightarrow> fst (render_phone_verify i n errors d calls) = Inr p \<Longrightarrow> page_ok p"
  by (auto simp: page_ok_def render_phone_verify_def split: option.splits)

lemma event_page_statuses:
  "fst (event_create env user posted post d) = Inr p \<Longrightarrow> page_ok p"
  "page_ok (event_detail user i d)" "page_ok (event_list user d)"
  "fst (event_reschedule env user i post d) = Inr p \<Longrightarrow> page_ok p"
  "fst (event_channel env user i post d) = Inr p \<Longrightarrow> page_ok p"
  "fst (event_cancel env user i d) = Inr p \<Longrightarrow> page_ok p"
  by (auto simp: event_create_def event_detail_def event_list_def event_reschedule_def event_channel_def event_cancel_def
      detail_redirect_def render_event_detail_def page_ok_def dest!: render_refreshed_status
      split: if_splits sum.splits option.splits prod.splits)

lemma phone_page_statuses:
  "fst (phone_enroll env user posted post d) = Inr p \<Longrightarrow> page_ok p"
  "page_ok (phone_list user d)"
  "fst (phone_verify env user posted i post d) = Inr p \<Longrightarrow> page_ok p"
  "fst (phone_verification_start env user i d) = Inr p \<Longrightarrow> page_ok p"
  by (auto simp: phone_enroll_def phone_list_def phone_verify_def phone_verification_start_def Let_def page_ok_def
      dest!: render_phone_verify_status [rotated] split: if_splits sum.splits prod.splits)

text \<open>C35. Every request is answered, with four known exceptions. Let the framework's conversions raise what they
  are documented to raise, the gateway only the listed errors, and let the request run undisturbed on a
  well-formed database. Then an exception escapes only when a submitted time is well formatted but names no
  date (both reschedule views, both create views); when a phone key in the API's create view is an infinite
  JSON number; when a time in a form has no UTC equivalent in Python's range; or when the new time of a
  rescheduling form passes between the form's check and the service's. Every answer has a listed status: a
  page 200, 302 (also to the login page), 400, 404, 405 or 409, an API answer one of nine: a missing object
  404, a lifecycle conflict 409, a refused value 400, and so on.\<close>

theorem requests_are_answered:
  assumes "wf_db d" and "quiet env" and "framework_ok (re_framework env)" and "gateway_ok (re_gateway env)"
    and "serve env logged_in req r d = (res, d', calls)"
  shows "case res of Inl x \<Rightarrow> escape (re_framework env) r x | Inr a \<Rightarrow> answer_ok r a"
proof -
  note pages = event_pages_raise [OF assms(3,2)] and api = event_api_answered [OF assms(3,2)]
    and verification = verification_views_answered [OF assms(4,2,3,1)]
  define ok where "ok q \<longleftrightarrow> (case q of Inl x \<Rightarrow> escape (re_framework env) r x | Inr a \<Rightarrow> answer_ok r a)" for q
  have page: "ok (fst (as_page o'))" if "\<not> is_api r" and "\<And>x. fst o' = Inl x \<Longrightarrow> escape (re_framework env) r x"
    and "\<And>p. fst o' = Inr p \<Longrightarrow> page_ok p" for o'
    using that by (cases o'; cases "fst o'") (auto simp: ok_def as_page_def answer_ok_def page_ok_def)
  have called_page: "ok (fst (as_called_page o'))" if "\<not> is_api r" and "\<And>x. fst o' \<noteq> Inl x"
    and "\<And>p. fst o' = Inr p \<Longrightarrow> page_ok p" for o' :: "page gateway_outcome"
    using that by (cases o'; cases "fst o'") (auto simp: ok_def as_called_page_def answer_ok_def page_ok_def)
  have answers: "ok (map_sum id Api a)" if "is_api r" "answered (re_framework env) r a" for a
    using that by (cases a) (auto simp: ok_def answered_def answer_ok_def)
  have as_api: "ok (fst (as_api o'))" if "is_api r" "answered (re_framework env) r (fst o')" for o'
    using answers [OF that] by (cases o') (simp add: as_api_def)
  have called_api: "ok (fst (as_called_api o'))" if "is_api r" "answered (re_framework env) r (fst o')" for o'
    using answers [OF that] by (cases o') (simp add: as_called_api_def)
  have enrol: "fst (phone_enroll env user posted post d) \<noteq> Inl x" for user posted post x
    using forms_raise(4) [OF assms(3)]
    by (auto simp: phone_enroll_def dest: create_phone_number_raises split: sum.split)
  have plain: "\<not> is_api r \<Longrightarrow> page_ok p \<Longrightarrow> ok (Inr (Page p))" "\<not> is_api r \<Longrightarrow> ok (Inr Page_Bad_Method)"
    "\<not> is_api r \<Longrightarrow> ok (Inr Login_Page)" for p by (auto simp: ok_def answer_ok_def page_ok_def)
  have "ok (fst (serve_page env user req r d))" for user
    by (cases r)
      (auto intro!: page called_page answers as_api called_api plain pages(1,2) api verification
        intro: event_page_statuses phone_page_statuses
        simp: pages(3,4) enrol verification(3,4) scheduled_event_list_def phone_number_list_def bad_method_answer_def
          throttled_answer_def)
  moreover have "ok (fst (serve env None req r d))"
    by (auto simp: serve_def plain intro!: answers)
  ultimately have "ok res" using assms(5) by (cases logged_in) (metis fst_conv serve_def option.simps(4,5))+
  then show ?thesis by (simp add: ok_def)
qed

definition sample_form :: "string \<Rightarrow> form_params" where
  "sample_form t = [(''phone_number'', ''1''), (''zip_code'', ''94107''), (''scheduled_for'', t), (''channel'', ''sms'')]"

lemma requests_are_answered_witness:
  "\<exists>x. fst (serve sample_request_env (Some 7) (post_request (sample_form ''2026-02-30T10:00:00Z'')) Event_New sample_db) = Inl x \<and>
     escape sample_framework Event_New x"
proof -
  have fw: "framework_ok (re_framework sample_request_env)"
    by (auto simp: framework_ok_def sample_request_env_def sample_framework_def is_naive_def instant_def
        in_datetime_range_def MAX_DATETIME_def split: if_splits json.splits pyfloat.splits)
  have gw: "gateway_ok (re_gateway sample_request_env)"
    by (simp add: gateway_ok_def sample_request_env_def sample_gateway_def)
  obtain x d' c where run: "serve sample_request_env (Some 7) (post_request (sample_form ''2026-02-30T10:00:00Z'')) Event_New
      sample_db = (Inl x, d', c)"
  proof -
    have "\<not> isl (fst (serve sample_request_env (Some 7) (post_request (sample_form ''2026-02-30T10:00:00Z'')) Event_New
        sample_db)) \<longleftrightarrow> False"
      by code_simp
    then show thesis using that by (metis isl_def prod.collapse)
  qed
  with requests_are_answered [OF wf_sample_db sample_request_quiet fw gw run] show ?thesis
    by (simp add: sample_request_env_def)
qed

text \<open>The other escapes, and a form that is accepted.\<close>

lemma sample_escapes:
  "map_sum exn_class id (fst (serve sample_request_env (Some 7) (post_request (sample_form ''late'')) Event_New sample_db)) =
    Inl OverflowError"
  "map_sum exn_class id (fst (serve (sample_request_env\<lparr>re_clock := (\<lambda>n. seconds (8999 + int n))\<rparr>) (Some 7)
      (post_request (sample_form ''soon'')) (Event_Reschedule 1) sample_db)) = Inl ValidationError"
  "map_sum exn_class id (fst (serve sample_request_env (Some 7) \<lparr>ur_method = POST, ur_post = [],
      ur_data = JObject [(''phone_number_id'', JFloat PosInf)], ur_page = 1\<rparr> Api_Events sample_db)) = Inl OverflowError"
  "fst (serve sample_request_env (Some 7) (post_request (sample_form ''soon'')) Event_New sample_db) =
    Inr (Page (detail_redirect 4 ''success'' ''Demo wake-up event scheduled.''))"
  by code_simp+

section \<open>Redirects\<close>

lemma event_for_user_exists:
  assumes "wf_db d" and "get_event i d = Some e" and "ev_user e = user"
  shows "\<exists>row. event_for_user i user d = Some row"
proof -
  obtain p where p: "p \<in> set (rows (db_phones d))" "ph_id p = ev_phone_number e"
    using wf_db_event [OF assms(1,2)] by (auto simp: event_ok_def)
  then have "get_phone (ev_phone_number e) d = Some p" using wf_get_phone_of_member [OF assms(1)] by metis
  with assms show ?thesis by (simp add: event_for_user_def with_phone_def)
qed

lemma event_id_positive: "wf_db d \<Longrightarrow> get_event i d = Some e \<Longrightarrow> 0 < i"
  using events.get_key get_event_member by (fastforce simp: wf_db_def wf_table_def)

lemma phone_id_positive: "wf_db d \<Longrightarrow> get_phone i d = Some p \<Longrightarrow> 0 < i"
  using phones.get_key find_phone_member by (fastforce simp: wf_db_def wf_table_def)

text \<open>The object a redirect names is there, and the user's.\<close>

definition redirect_ok :: "row_id \<Rightarrow> db \<Rightarrow> page \<Rightarrow> bool" where
  "redirect_ok user d p \<longleftrightarrow>
     (\<forall>name obj msg. p = Redirect name obj msg \<longrightarrow>
        (name, obj) \<in> {(''scheduling_web:event-list'', None), (''accounts_web:phone-list'', None)} \<or>
        (\<exists>i e. (name, obj) = (''scheduling_web:event-detail'', Some i) \<and> get_event i d = Some e \<and> ev_user e = user) \<or>
        (\<exists>i q. (name, obj) = (''accounts_web:phone-verify'', Some i) \<and> get_phone i d = Some q \<and> ph_user q = user))"

lemma redirect_ok_simps [simp]:
  "redirect_ok user d No_Such_Page" "redirect_ok user d (Event_Form_Page n es)" "redirect_ok user d (Phone_Form_Page n es)"
  "redirect_ok user d (render_event_detail n row es)" "redirect_ok user d (Phone_Verify_Page n p m es)"
  "redirect_ok user d (event_list user d)" "redirect_ok user d (phone_list user d)" "redirect_ok user d (event_detail user i d)"
  "redirect_ok user d (detail_redirect i l t) \<longleftrightarrow> (\<exists>e. get_event i d = Some e \<and> ev_user e = user)"
  by (auto simp: redirect_ok_def render_event_detail_def event_list_def phone_list_def event_detail_def detail_redirect_def
      split: option.split)

lemma redirect_ok_cases:
  assumes "redirect_ok user d (Redirect name obj msg)"
  obtains (events) "name = ''scheduling_web:event-list''" "obj = None"
    | (phones) "name = ''accounts_web:phone-list''" "obj = None"
    | (event) i e where "name = ''scheduling_web:event-detail''" "obj = Some i" "get_event i d = Some e" "ev_user e = user"
    | (phone) i q where "name = ''accounts_web:phone-verify''" "obj = Some i" "get_phone i d = Some q" "ph_user q = user"
  using assms [unfolded redirect_ok_def, rule_format, OF refl] by (elim disjE exE conjE insertE emptyE) (auto simp only: prod.inject)

lemma redirect_ok_phone [simp]:
  "redirect_ok user d (Redirect ''accounts_web:phone-verify'' (Some i) m) \<longleftrightarrow> (\<exists>q. get_phone i d = Some q \<and> ph_user q = user)"
  "redirect_ok user d (Redirect ''accounts_web:phone-list'' None m)"
  "redirect_ok user d (Redirect ''scheduling_web:event-list'' None m)"
  by (auto simp: redirect_ok_def)

lemma event_pages_redirect:
  assumes wf: "wf_db d" and quiet: "quiet env"
  shows "event_create env user posted post d = (Inr p, d') \<Longrightarrow> redirect_ok user d' p"
    and "event_reschedule env user i post d = (Inr p, d') \<Longrightarrow> redirect_ok user d' p"
    and "event_channel env user i post d = (Inr p, d') \<Longrightarrow> redirect_ok user d' p"
    and "event_cancel env user i d = (Inr p, d') \<Longrightarrow> redirect_ok user d' p"
proof -
  note before = quiet [unfolded quiet_def, THEN conjunct1]
  have found: "\<exists>e. get_event i d = Some e \<and> ev_user e = user" if "event_for_user i user d = Some row" for row
    using that by (auto simp: event_for_user_def split: option.splits if_splits)
  have refreshed: "redirect_ok user d' p" if "render_refreshed i es d1 = (Inr p, d')" for es d1
    using that by (auto simp: render_refreshed_def split: option.splits)
  show "redirect_ok user d' p" if run: "event_create env user posted post d = (Inr p, d')"
  proof -
    have row: "get_event (ev_id e) d' = Some e \<and> ev_user e = user"
      if "create_scheduled_event user j z w ch clk d = Inr (e, d')" for j z w ch clk e
    proof -
      have "e \<in> set (rows (db_events d'))" "ev_user e = user"
        using that by (cases rule: create_scheduled_event_Inr, simp add: insert_row_simps)+
      then show ?thesis using wf_get_event_of_member [OF create_scheduled_event_wf [OF wf that]] by simp
    qed
    show ?thesis using run row by (auto simp: event_create_def before split: if_splits sum.splits)
  qed
  show "redirect_ok user d' p" if "event_reschedule env user i post d = (Inr p, d')"
    using that rescheduling.row_returned events.get_key refreshed
    by (fastforce simp: event_reschedule_def before split: option.splits sum.splits if_splits)
  show "redirect_ok user d' p" if "event_channel env user i post d = (Inr p, d')"
    using that channel_change.row_returned events.get_key refreshed
    by (fastforce simp: event_channel_def before split: option.splits sum.splits if_splits)
  show "redirect_ok user d' p" if "event_cancel env user i d = (Inr p, d')"
    using that cancelling.row_returned found
    by (fastforce simp: event_cancel_def before split: option.splits sum.splits if_splits)
qed

lemma phone_enroll_redirects:
  assumes wf: "wf_db d" and run: "phone_enroll env user posted post d = (Inr p, d')"
  shows "redirect_ok user d' p"
proof -
  have redirect: "redirect_ok user d' (Redirect ''accounts_web:phone-verify'' (Some (ph_id q)) m)"
    if "create_phone_number user number (re_clock env) d = Inr (q, d')" for number q m
  proof -
    have "q \<in> set (rows (db_phones d'))" "ph_user q = user"
      using that by (auto simp: create_phone_number_def Let_def insert_row_def)
    then show ?thesis using wf_get_phone_of_member [OF create_phone_number_wf [OF wf that]] by simp
  qed
  show ?thesis
  proof (cases "phone_enrollment_form (re_framework env) post")
    case form: (Inr v)
    show ?thesis
    proof (cases v)
      case number: (Inr number)
      show ?thesis
      proof (cases "create_phone_number user number (re_clock env) d")
        case (Inr w)
        then show ?thesis using run form number redirect
          by (cases w) (auto simp: phone_enroll_def split: if_splits)
      qed (use run form number in \<open>auto simp: phone_enroll_def split: if_splits\<close>)
    qed (use run form in \<open>auto simp: phone_enroll_def split: if_splits\<close>)
  qed (use run in \<open>auto simp: phone_enroll_def split: if_splits\<close>)
qed

lemma phone_verify_redirects:
  assumes run: "phone_verify env user posted i post d = (Inr p, d', calls)"
  shows "redirect_ok user d' p"
proof -
  have page: "fst (render_phone_verify j n es d1 c) = Inr q \<Longrightarrow> redirect_ok user d' q" for j n es d1 c q
    by (auto simp: render_phone_verify_def split: option.splits)
  have listed: "redirect_ok user d' (Redirect ''accounts_web:phone-list'' None m)" for m by simp
  have "fst (phone_verify env user posted i post d) = Inr p" using run by simp
  then show ?thesis
  proof (cases "get_user_phone i user d")
    case (Inr q)
    assume run: "fst (phone_verify env user posted i post d) = Inr p"
    show ?thesis
    proof (cases "verification_code_form post")
      case form: (Inr v)
      show ?thesis
      proof (cases v)
        case code: (Inr given)
        obtain res d1 c where checked: "check_on env user q given d = (res, d1, c)" by (metis prod_cases3)
        show ?thesis
        proof (cases res)
          case (Inl x)
          with run checked page show ?thesis
            by (auto simp: phone_verify_def \<open>get_user_phone i user d = Inr q\<close> form code split: if_splits)
        next
          case res: (Inr v')
          with run checked page listed show ?thesis
            by (auto simp: phone_verify_def \<open>get_user_phone i user d = Inr q\<close> form code split: if_splits)
        qed
      qed (use run page in \<open>auto simp: phone_verify_def Inr form split: if_splits\<close>)
    qed (use run page in \<open>auto simp: phone_verify_def Inr split: if_splits\<close>)
  qed (auto simp: phone_verify_def)
qed

lemma phone_verification_start_redirects:
  assumes wf: "wf_db d" and quiet: "quiet env" and run: "phone_verification_start env user i d = (Inr p, d', calls)"
  shows "redirect_ok user d' p"
proof (cases "get_user_phone i user d")
  case (Inr q)
  obtain res d1 c where s: "start_on env user q d = (res, d1, c)" by (metis prod_cases3)
  have "own_step user d d1" using start_on_own [OF s] quiet_own_effect [OF quiet] by blast
  then obtain q1 where "get_phone i d1 = Some q1" "ph_user q1 = user"
    using own_step_keeps_phone [OF _ wf, of user d1 i q] Inr by auto
  then have there: "redirect_ok user d1 (Redirect ''accounts_web:phone-verify'' (Some i) m)" for m by simp
  from Inr have here: "redirect_ok user d (Redirect ''accounts_web:phone-verify'' (Some i) m)" for m by simp
  from run [unfolded phone_verification_start_def Inr, simplified] s there here show ?thesis
    by (cases res) (simp_all add: Let_def del: redirect_ok_phone split: if_splits, (metis redirect_ok_simps(1))+)
qed (use run in \<open>simp add: phone_verification_start_def\<close>)

text \<open>Where the redirects of an answer lead.\<close>

definition get_request :: user_request where
  "get_request = \<lparr>ur_method = GET, ur_post = [], ur_data = JNull, ur_page = 1\<rparr>"

definition shows_page :: "exn + user_answer \<Rightarrow> bool" where
  "shows_page a \<longleftrightarrow> (\<exists>p. a = Inr (Page p) \<and> p \<noteq> No_Such_Page)"

lemma page_outcomes:
  "as_page o' = (Inr (Page p), d', c) \<longleftrightarrow> o' = (Inr p, d') \<and> c = []"
  "as_called_page o'' = (Inr (Page p), d', c) \<longleftrightarrow> o'' = (Inr p, d', c)"
  by (cases o'; cases "fst o'"; auto simp: as_page_def)
    (cases o''; cases "fst o''"; auto simp: as_called_page_def)

lemma api_outcomes:
  "as_api o' \<noteq> (Inr (Page p), d', c)" "as_called_api o'' \<noteq> (Inr (Page p), d', c)"
  "map_sum id Api a \<noteq> Inr (Page p)"
proof -
  have api: "map_sum id Api q \<noteq> Inr (Page p)" for q :: "'x + api_answer" by (cases q) simp_all
  then show "map_sum id Api a \<noteq> Inr (Page p)" .
  have "map_sum id Api q \<noteq> Inr (Page p)" for q :: "exn + api_answer" by (cases q) simp_all
  then show "as_api o' \<noteq> (Inr (Page p), d', c)" "as_called_api o'' \<noteq> (Inr (Page p), d', c)"
    by (auto simp: as_api_def as_called_api_def split: prod.splits)
qed

lemma serve_redirect_ok:
  assumes wf: "wf_db d" and quiet: "quiet env" and run: "serve env (Some user) req r d = (Inr (Page p), d', calls)"
  shows "redirect_ok user d' p"
proof -
  note pages = event_pages_redirect [OF wf quiet] phone_enroll_redirects [OF wf] phone_verify_redirects
    phone_verification_start_redirects [OF wf quiet]
  from run show ?thesis
    by (cases r) (auto simp: serve_def page_outcomes api_outcomes split: if_splits dest: pages)
qed

text \<open>C36. A redirect leads to a page. When a request that runs undisturbed on a well-formed database is answered
  with a redirect, the address of the redirect resolves to a view of the site, and fetching it as the same user
  shows a page: the list, or the event or phone that the redirect names, which exists and is the user's.\<close>

theorem redirects_lead_to_pages:
  assumes "wf_db d" and "quiet env"
    and "serve env (Some user) req r d = (Inr (Page (Redirect name obj msg)), d', calls)"
  shows "\<exists>path r'. reverse_url name (case obj of None \<Rightarrow> 0 | Some i \<Rightarrow> i) = Some path \<and>
    resolve path = Some (User_Route r') \<and> shows_page (fst (serve env (Some user) get_request r' d'))"
proof -
  have wf: "wf_db d'"
    using good_effect_wf [OF assms(2,1) serve_page_good [OF quiet_interference [OF assms(2)]], of user req r] assms(3)
    by (simp add: serve_def)
  have address: "\<exists>path. reverse_url (up_name q) i = Some path \<and> resolve path = Some (up_route q i)"
    if q: "q \<in> set urlpatterns" and i: "0 \<le> i" for q i
    by (rule address_resolves [OF q i])
  have known:
    "pattern [Fixed ''events'', Fixed ''''] (\<lambda>_. User_Route Event_List) ''scheduling_web:event-list'' \<in> set urlpatterns"
    "pattern [Fixed ''phones'', Fixed ''''] (\<lambda>_. User_Route Phone_List) ''accounts_web:phone-list'' \<in> set urlpatterns"
    "pattern [Fixed ''events'', Int_Segment, Fixed ''''] (\<lambda>i. User_Route (Event_Detail i)) ''scheduling_web:event-detail''
      \<in> set urlpatterns"
    "pattern [Fixed ''phones'', Int_Segment, Fixed ''verify'', Fixed ''''] (\<lambda>i. User_Route (Phone_Verify i))
      ''accounts_web:phone-verify'' \<in> set urlpatterns"
    by (simp_all add: urlpatterns_def scheduling_web_urls_def accounts_web_urls_def)
  note addresses = known [THEN address, unfolded pattern_def url_pattern.simps]
  from serve_redirect_ok [OF assms] show ?thesis
  proof (cases rule: redirect_ok_cases)
    case events
    then show ?thesis using addresses(1) [of 0]
      by (auto simp: shows_page_def serve_def get_request_def event_list_def)
  next
    case phones
    then show ?thesis using addresses(2) [of 0]
      by (auto simp: shows_page_def serve_def get_request_def phone_list_def)
  next
    case (event i e)
    obtain row where "event_for_user i user d' = Some row" using event_for_user_exists [OF wf event(3,4)] by blast
    then show ?thesis using event addresses(3) [of i] event_id_positive [OF wf event(3)]
      by (auto simp: shows_page_def serve_def get_request_def event_detail_def render_event_detail_def)
  next
    case (phone i q)
    then show ?thesis using addresses(4) [of i] phone_id_positive [OF wf phone(3)]
      by (auto simp: shows_page_def serve_def get_request_def as_called_page_def phone_verify_def get_user_phone_def
          render_phone_verify_def)
  qed
qed

lemma redirects_lead_to_pages_witness:
  "\<exists>path r'. reverse_url ''scheduling_web:event-detail'' 1 = Some path \<and> resolve path = Some (User_Route r') \<and>
    shows_page (fst (serve sample_request_env (Some 7) get_request r'
      (fst (snd (serve sample_request_env (Some 7) (post_request [(''channel'', ''voice'')]) (Event_Channel 1) sample_db)))))"
proof -
  obtain a d' c where run: "serve sample_request_env (Some 7) (post_request [(''channel'', ''voice'')]) (Event_Channel 1) sample_db
      = (a, d', c)" by (metis prod_cases3)
  with sample_answers(1) have "a = Inr (Page (detail_redirect 1 ''success'' ''Delivery channel updated.''))" by simp
  with redirects_lead_to_pages [OF wf_sample_db sample_request_quiet run [unfolded this detail_redirect_def]] run show ?thesis
    by simp
qed

section \<open>The administrator's cancellation\<close>

text \<open>The bulk action never raises; it keeps the database well-formed, and it cancels at most the selected rows.\<close>

lemma cancel_each_result:
  assumes "wf_db d" and "cancel_each is clk n d = (r, d')"
  shows "wf_db d' \<and> (\<exists>m. r = Inr m \<and> n \<le> m \<and> m \<le> n + length is) \<and>
    (\<forall>j. j \<notin> set is \<longrightarrow> get_event j d' = get_event j d)"
  using assms
proof (induction "is" arbitrary: clk n d)
  case (Cons i "is")
  show ?case
  proof (cases "cancel_scheduled_event i None clk d")
    case (Inl x)
    then have "exn_class x = DoesNotExist \<or> is_validation_error (exn_class x)"
      by (auto simp: cancel_scheduled_event_def cancel_locked_event_def require_scheduled_def event_missing_def
          bind_res_Inl_iff transition_event_scheduled)
    with Inl Cons.prems Cons.IH [OF Cons.prems(1), of "\<lambda>k. clk (k + 2)" n] show ?thesis by force
  next
    case (Inr v)
    then obtain e d1 where v: "v = (e, d1)" "cancel_scheduled_event i None clk d = Inr (e, d1)" by (cases v) simp
    have wf: "wf_db d1" by (rule cancel_scheduled_event_wf [OF Cons.prems(1) v(2)])
    have "get_event j d1 = get_event j d" if "j \<noteq> i" for j
      using v(2) that events.get_key
      by (auto simp: cancel_scheduled_event_def cancel_locked_event_Inr_iff save_event_def events.get_put)
    with Inr v Cons.prems(2) Cons.IH [OF wf, of "\<lambda>k. clk (k + 2)" "n + 1"] show ?thesis by force
  qed
qed auto

end
