(* ===== verification/Seed.thy ===== *)
theory Seed
  imports Delivery_Outcomes Json_Text Samples
begin

text \<open>
  The management command of \<open>seed_scheduling_scenarios.py\<close>: one transaction that replaces the events of a
  reserved user by a fixed matrix of scenarios, driven through the models' own transitions. The user that
  \<open>get_or_create(username=...)\<close> returns is an argument, like every user of the model a primary key; the line
  the command prints is left out.
\<close>

section \<open>The scenarios\<close>

definition SEED_PHONE_NUMBER :: string where
  "SEED_PHONE_NUMBER = ''+15555550199''"

record event_scenario =
  es_timing :: string
  es_status :: event_status
  es_channel :: channel
  es_is_demo :: bool

definition event_scenarios ::
  "string \<Rightarrow> event_status \<Rightarrow> bool \<Rightarrow> channel list \<Rightarrow> event_scenario list" where
  "event_scenarios timing status is_demo channels =
     map (\<lambda>c. \<lparr>es_timing = timing, es_status = status, es_channel = c, es_is_demo = is_demo\<rparr>) channels"

definition build_scenarios :: "exn + event_scenario list" where
  "build_scenarios =
     (let scenarios =
        event_scenarios ''due'' E_SCHEDULED True (concat (replicate 3 [SMS, VOICE]))
        @ event_scenarios ''future'' E_SCHEDULED True (concat (replicate 2 [SMS, VOICE]))
        @ event_scenarios ''missed'' E_SCHEDULED True (concat (replicate 2 [SMS, VOICE]))
        @ event_scenarios ''due'' E_SCHEDULED False (concat (replicate 2 [SMS, VOICE]))
        @ event_scenarios ''past'' E_SUPPRESSED True [SMS, VOICE, SMS]
        @ event_scenarios ''past'' E_SUBMITTED False [SMS, VOICE, SMS]
        @ event_scenarios ''past'' E_FAILED True [VOICE, SMS, VOICE]
        @ event_scenarios ''past'' E_CANCELLED True [SMS, VOICE]
        @ event_scenarios ''stale'' E_PROCESSING True [SMS]
      in if length scenarios \<noteq> 30
         then Inl (raise (OtherExn ''RuntimeError'' False) ''The scheduling seed must contain exactly 30 scenarios.'')
         else Inr scenarios)"

section \<open>Times and identifiers\<close>

text \<open>\<open>now + delta\<close> and \<open>now - delta\<close> raise where the result has no \<open>datetime\<close>.\<close>

definition datetime_plus :: "time \<Rightarrow> time \<Rightarrow> exn + time" where
  "datetime_plus now delta =
     (if in_datetime_range (now + delta) then Inr (now + delta)
      else Inl (raise OverflowError ''date value out of range''))"

definition scheduled_time :: "time \<Rightarrow> string \<Rightarrow> nat \<Rightarrow> exn + time" where
  "scheduled_time now timing index =
     (let jitter = seconds (int index) in
      if timing = ''future'' then bind_res (datetime_plus now (minutes 30)) (\<lambda>t. datetime_plus t jitter)
      else if timing = ''missed'' then bind_res (datetime_minus now (minutes 30)) (\<lambda>t. datetime_plus t jitter)
      else if timing = ''stale'' then bind_res (datetime_minus now (minutes 120)) (\<lambda>t. datetime_plus t jitter)
      else bind_res (datetime_minus now (minutes 5)) (\<lambda>t. datetime_plus t jitter))"

text \<open>\<open>now.replace(second=0, microsecond=0)\<close>, and \<open>f"{prefix}{index:032x}"\<close>.\<close>

definition whole_minute :: "time \<Rightarrow> time" where
  "whole_minute t = t - t mod minutes 1"

fun hexadecimal :: "nat \<Rightarrow> string" where
  "hexadecimal n = (if n < 16 then [hex_digit n] else hexadecimal (n div 16) @ [hex_digit (n mod 16)])"

declare hexadecimal.simps [simp del]

definition seed_provider_sid :: "channel \<Rightarrow> nat \<Rightarrow> string" where
  "seed_provider_sid c index =
     (if c = SMS then ''SM'' else ''CA'')
     @ replicate (32 - length (hexadecimal index)) (CHR ''0'') @ hexadecimal index"

definition seed_snapshot :: "time \<Rightarrow> snapshot" where
  "seed_snapshot now =
     [(''location'', SText ''ZIP 94107''), (''temperature_f'', SFloat (Fin 72)),
      (''condition'', SText ''clear skies''), (''observed_at'', SText (isoformat_utc now))]"

section \<open>Putting an event in its status\<close>

text \<open>The attempt status with a given value; \<open>None\<close> is one the attempt's \<open>transition_to\<close> refuses.\<close>

fun attempt_status_of :: "event_status \<Rightarrow> attempt_status option" where
  "attempt_status_of E_SUBMITTED = Some A_SUBMITTED"
| "attempt_status_of E_FAILED = Some A_FAILED"
| "attempt_status_of E_SUPPRESSED = Some A_SUPPRESSED"
| "attempt_status_of E_PROCESSING = Some A_PROCESSING"
| "attempt_status_of _ = None"

text \<open>\<open>DeliveryAttempt.objects.create(event=event, attempt_number=1)\<close>.\<close>

definition create_first_attempt :: "scheduled_event \<Rightarrow> time \<Rightarrow> delivery_attempt transaction" where
  "create_first_attempt event started_at d =
     (if 1 \<in> set (map at_attempt_number (attempts_of (ev_id event) d))
      then Inl (raise IntegrityError ''unique_delivery_attempt_number'')
      else Inr (add_attempt (new_attempt (ev_id event) 1 started_at) d))"

text \<open>
  \<open>_apply_status\<close>. Readings of the clock: 0 the first save of the event, 1 the attempt's creation, 2 the
  second save of the event.
\<close>

definition seeded_outcome :: "scheduled_event \<Rightarrow> event_status \<Rightarrow> time \<Rightarrow> nat \<Rightarrow> delivery_attempt \<Rightarrow> delivery_attempt" where
  "seeded_outcome event status now index attempt =
     (let attempt = attempt\<lparr>at_rendered_message := ''Seeded weather announcement.'',
            at_weather_snapshot := seed_snapshot now\<rparr>
      in if status = E_SUBMITTED
         then attempt\<lparr>at_provider_sid := Some (seed_provider_sid (ev_channel event) index)\<rparr>
         else if status = E_FAILED
         then attempt\<lparr>at_error_code := ''SeededFailure'', at_error_message := ''Deterministic seeded failure.''\<rparr>
         else attempt)"

definition apply_status :: "scheduled_event \<Rightarrow> event_status \<Rightarrow> time \<Rightarrow> nat \<Rightarrow> clock \<Rightarrow> unit transaction" where
  "apply_status event status now index clk d =
     (if status = E_SCHEDULED then Inr ((), d)
      else if status = E_CANCELLED then
        bind_res (transition_event status now event) (\<lambda>event.
          Inr ((), snd (save_event [F_status, F_completed_at, F_updated_at] (clk 0) event d)))
      else
        bind_res (if status = E_PROCESSING then datetime_minus now (minutes 60) else Inr now) (\<lambda>processing_at.
        bind_res (transition_event E_PROCESSING processing_at event) (\<lambda>event.
        case save_event [F_status, F_processing_started_at, F_updated_at] (clk 0) event d of (event, d) \<Rightarrow>
        bind_res (create_first_attempt event (clk 1) d) (\<lambda>(attempt, d).
        if status = E_PROCESSING then Inr ((), d)
        else
          bind_res (case attempt_status_of status of
              Some s \<Rightarrow> transition_attempt s now attempt
            | None \<Rightarrow> Inl (field_error ValidationError ''status''
                (''Cannot transition from '' @ attempt_status_value (at_status attempt) @ '' to ''
                  @ event_status_value status @ ''.''))) (\<lambda>attempt.
          let attempt = seeded_outcome event status now index attempt in
          bind_res (require (sid_free (at_provider_sid attempt) d)
            (raise IntegrityError ''duplicate key value violates unique constraint'')) (\<lambda>_.
          let d = save_attempt [G_status, G_rendered_message, G_weather_snapshot, G_provider_sid,
                G_error_code, G_error_message, G_completed_at] attempt d in
          bind_res (transition_event status now event) (\<lambda>event.
            Inr ((), snd (save_event [F_status, F_completed_at, F_updated_at] (clk 2) event d)))))))))"

section \<open>The command\<close>

text \<open>
  \<open>PhoneNumber.objects.update_or_create(number=..., defaults=...)\<close>: readings 0 for \<open>verified_at\<close>, 1 and 2 for
  the columns the model fills in.
\<close>

definition seed_phone :: "row_id \<Rightarrow> clock \<Rightarrow> db \<Rightarrow> phone_number \<times> db" where
  "seed_phone user clk d =
     (case find (\<lambda>p. ph_number p = SEED_PHONE_NUMBER) (rows (db_phones d)) of
        Some p \<Rightarrow>
          (let change = (\<lambda>r. r\<lparr>ph_user := user, ph_verified_at := Some (clk 0), ph_updated_at := clk 1\<rparr>)
           in (change p, put_phone (ph_id p) change d))
      | None \<Rightarrow>
          (case insert_row (\<lambda>i. \<lparr>ph_id = i, ph_user = user, ph_number = SEED_PHONE_NUMBER,
                ph_verified_at = Some (clk 0), ph_created_at = clk 1, ph_updated_at = clk 2\<rparr>) (db_phones d)
           of (p, t) \<Rightarrow> (p, d\<lparr>db_phones := t\<rparr>)))"

text \<open>\<open>ScheduledEvent.objects.filter(user=user).delete()\<close>, which deletes the events' attempts with them.\<close>

definition delete_events_of :: "row_id \<Rightarrow> db \<Rightarrow> db" where
  "delete_events_of user d =
     (let doomed = set (map ev_id (events_where (\<lambda>e. ev_user e = user) d))
      in d\<lparr>db_events := delete_rows (\<lambda>e. ev_user e = user) (db_events d),
           db_attempts := delete_rows (\<lambda>a. at_event a \<in> doomed) (db_attempts d)\<rparr>)"

text \<open>One round of the loop; readings 0 and 1 are the new row's, the rest \<open>_apply_status\<close>'s.\<close>

definition seed_event ::
  "row_id \<Rightarrow> phone_number \<Rightarrow> time \<Rightarrow> nat \<Rightarrow> event_scenario \<Rightarrow> clock \<Rightarrow> unit transaction" where
  "seed_event user phone now index scenario clk d =
     bind_res (scheduled_time now (es_timing scenario) index) (\<lambda>scheduled_for.
       case insert_row (\<lambda>i. \<lparr>
           ev_id = i, ev_user = user, ev_phone_number = ph_id phone, ev_zip_code = ''94107'',
           ev_scheduled_for = scheduled_for, ev_channel = es_channel scenario, ev_status = E_SCHEDULED,
           ev_is_demo = es_is_demo scenario, ev_processing_started_at = None, ev_completed_at = None,
           ev_created_at = clk 0, ev_updated_at = clk 1\<rparr>) (db_events d)
       of (event, t) \<Rightarrow> apply_status event (es_status scenario) now index (\<lambda>n. clk (n + 2)) (d\<lparr>db_events := t\<rparr>))"

fun seed_events ::
  "row_id \<Rightarrow> phone_number \<Rightarrow> time \<Rightarrow> nat \<Rightarrow> event_scenario list \<Rightarrow> clock \<Rightarrow> unit transaction" where
  "seed_events user phone now index [] clk d = Inr ((), d)"
| "seed_events user phone now index (s # ss) clk d =
     bind_res (seed_event user phone now index s clk d) (\<lambda>(_, d).
       seed_events user phone now (index + 1) ss (\<lambda>n. clk (n + 5)) d)"

definition seed_scheduling_scenarios :: "row_id \<Rightarrow> clock \<Rightarrow> unit transaction" where
  "seed_scheduling_scenarios user clk d =
     (case seed_phone user clk d of (phone, d) \<Rightarrow>
        let d = delete_events_of user d; now = whole_minute (clk 3) in
        bind_res build_scenarios (\<lambda>scenarios.
          seed_events user phone now 1 scenarios (\<lambda>n. clk (n + 4)) d))"

section \<open>What one round adds\<close>

text \<open>The row and the attempts a scenario ends with, and the database with them appended.\<close>

definition seeded_row :: "scheduled_event \<Rightarrow> event_status \<Rightarrow> time \<Rightarrow> clock \<Rightarrow> scheduled_event" where
  "seeded_row e status now clk =
     (if status = E_SCHEDULED then e
      else if status = E_CANCELLED
      then e\<lparr>ev_status := status, ev_completed_at := Some now, ev_updated_at := clk 0\<rparr>
      else if status = E_PROCESSING
      then e\<lparr>ev_status := status, ev_processing_started_at := Some (now - minutes 60), ev_updated_at := clk 0\<rparr>
      else e\<lparr>ev_status := status, ev_processing_started_at := Some now, ev_completed_at := Some now,
             ev_updated_at := clk 2\<rparr>)"

definition seeded_attempts ::
  "scheduled_event \<Rightarrow> event_status \<Rightarrow> time \<Rightarrow> nat \<Rightarrow> clock \<Rightarrow> row_id \<Rightarrow> delivery_attempt list" where
  "seeded_attempts e status now index clk i =
     (let a = new_attempt (ev_id e) 1 (clk 1) i
      in case status of
           E_SCHEDULED \<Rightarrow> []
         | E_CANCELLED \<Rightarrow> []
         | E_PROCESSING \<Rightarrow> [a]
         | _ \<Rightarrow> [seeded_outcome e status now index
                (a\<lparr>at_status := the (attempt_status_of status), at_completed_at := Some now\<rparr>)])"

definition appended :: "scheduled_event \<Rightarrow> delivery_attempt list \<Rightarrow> db \<Rightarrow> db" where
  "appended e as d = d\<lparr>
     db_events := \<lparr>rows = rows (db_events d) @ [e], next_id = next_id (db_events d) + 1\<rparr>,
     db_attempts := \<lparr>rows = rows (db_attempts d) @ as, next_id = next_id (db_attempts d) + int (length as)\<rparr>\<rparr>"

lemma appended_simps [simp]:
  "db_phones (appended e as d) = db_phones d" "db_commands (appended e as d) = db_commands d"
  "rows (db_events (appended e as d)) = rows (db_events d) @ [e]"
  "rows (db_attempts (appended e as d)) = rows (db_attempts d) @ as"
  "next_id (db_events (appended e as d)) = next_id (db_events d) + 1"
  by (simp_all add: appended_def)

lemma insert_row_appends:
  "insert_row mk t = (mk (next_id t), \<lparr>rows = rows t @ [mk (next_id t)], next_id = next_id t + 1\<rparr>)"
  by (cases t) (simp add: insert_row_def Let_def)

lemma update_last_row:
  assumes "wf_table key t" and "key e = next_id t"
  shows "update_row key (next_id t) f \<lparr>rows = rows t @ [e], next_id = n\<rparr> = \<lparr>rows = rows t @ [f e], next_id = n\<rparr>"
  using assms by (force simp: update_row_def wf_table_def intro!: map_idI)

lemma apply_status_appends:
  assumes wf: "wf_table ev_id (db_events d)" "wf_table at_id (db_attempts d)"
    and owned: "attempts_of (ev_id e) d = []"
    and e: "ev_id e = next_id (db_events d)" "ev_status e = E_SCHEDULED"
      "ev_processing_started_at e = None" "ev_completed_at e = None"
    and now: "in_datetime_range (now - minutes 60)"
    and sid: "status = E_SUBMITTED \<Longrightarrow> sid_free (Some (seed_provider_sid (ev_channel e) index)) d"
  shows "apply_status e status now index clk
      (d\<lparr>db_events := \<lparr>rows = rows (db_events d) @ [e], next_id = next_id (db_events d) + 1\<rparr>\<rparr>) =
    Inr ((), appended (seeded_row e status now clk)
      (seeded_attempts e status now index clk (next_id (db_attempts d))) d)"
proof -
  have none: "{x \<in> set (rows (db_attempts d)). at_event x = next_id (db_events d)} = {}"
    using owned e(1) by (auto simp: attempts_of_def filter_empty_conv)
  note ue = update_last_row [OF wf(1)] and ua = update_last_row [OF wf(2)]
  note eval = apply_status_def transition_event_def save_event_def put_event_def write_event_fields_def
    seeded_row_def seeded_attempts_def appended_def e ue
  note eval_attempt = create_first_attempt_def add_attempt_def insert_row_appends attempts_of_def
    datetime_minus_def now [simplified] none transition_attempt_def TERMINAL_STATUSES_def save_attempt_def put_attempt_def
    write_attempt_fields_def seeded_outcome_def ua sid_free_def
  show ?thesis
  proof (cases status)
    case E_SCHEDULED
    then show ?thesis by (simp add: eval)
  next
    case E_CANCELLED
    then show ?thesis by (simp add: eval)
  next
    case E_PROCESSING
    then show ?thesis using owned e by (simp add: eval eval_attempt Let_def)
  next
    case E_SUBMITTED
    then show ?thesis using owned e sid by (simp add: eval eval_attempt Let_def)
  next
    case E_FAILED
    then show ?thesis using owned e by (simp add: eval eval_attempt Let_def)
  next
    case E_SUPPRESSED
    then show ?thesis using owned e by (simp add: eval eval_attempt Let_def)
  qed
qed

text \<open>Appending an event with its attempts keeps the invariant.\<close>

lemma wf_appended:
  assumes wf: "wf_db d" and e: "ev_id e = next_id (db_events d)" "wf_event e"
    and p: "p \<in> set (rows (db_phones d))" "ph_id p = ev_phone_number e" "ph_user p = ev_user e" "is_verified p"
    and as: "as = [] \<or> (\<exists>a. as = [a] \<and> at_id a = next_id (db_attempts d))" "\<forall>a \<in> set as. at_event a = ev_id e"
      "attempts_ok (ev_status e) as" "\<forall>a \<in> set as. sid_free (at_provider_sid a) d"
  shows "wf_db (appended e as d)"
proof -
  let ?d = "appended e as d"
  have new: "ev_id r \<noteq> ev_id e" if "r \<in> set (rows (db_events d))" for r
    using wf that e(1) by (fastforce simp: wf_db_def wf_table_def)
  have atts: "attempts_of k ?d = attempts_of k d @ (if k = ev_id e then as else [])" for k
    using as(2) by (auto simp: attempts_of_def filter_empty_conv intro: filter_True)
  have none: "attempts_of (ev_id e) d = []"
    using wf new by (fastforce simp: wf_db_def attempts_of_def filter_empty_conv)
  have "event_ok ?d e"
    using e p as(3) none by (auto simp: event_ok_def atts)
  moreover have "event_ok ?d r" if "r \<in> set (rows (db_events d))" for r
    using wf that new [OF that] by (simp add: event_ok_def atts wf_db_def)
  moreover have "wf_table ev_id (db_events ?d)" "wf_table at_id (db_attempts ?d)"
    using wf e(1) as(1) by (fastforce simp: wf_db_def wf_table_def appended_def)+
  moreover have "unique_on at_provider_sid (rows (db_attempts ?d))"
    using wf as(1,4) by (fastforce simp: wf_db_def unique_on_append sid_free_def image_iff)
  ultimately show ?thesis
    using wf as(2) by (auto simp: wf_db_def)
qed

lemma seeded_row_simps [simp]:
  "ev_id (seeded_row e s now clk) = ev_id e" "ev_user (seeded_row e s now clk) = ev_user e"
  "ev_phone_number (seeded_row e s now clk) = ev_phone_number e"
  "ev_scheduled_for (seeded_row e s now clk) = ev_scheduled_for e"
  "ev_channel (seeded_row e s now clk) = ev_channel e" "ev_is_demo (seeded_row e s now clk) = ev_is_demo e"
  "ev_status e = E_SCHEDULED \<Longrightarrow> ev_status (seeded_row e s now clk) = s"
  by (simp_all add: seeded_row_def)

lemma seeded_row_wf:
  "wf_event e \<Longrightarrow> ev_status e = E_SCHEDULED \<Longrightarrow> wf_event (seeded_row e s now clk)"
  by (cases s) (simp_all add: seeded_row_def wf_event_def)

lemma seeded_attempts_ok:
  assumes "as = seeded_attempts e s now index clk i"
  shows "as = [] \<or> (\<exists>a. as = [a] \<and> at_id a = i)" and "\<forall>a \<in> set as. at_event a = ev_id e"
    and "attempts_ok s as"
    and "\<forall>a \<in> set as. at_provider_sid a =
      (if s = E_SUBMITTED then Some (seed_provider_sid (ev_channel e) index) else None)"
  unfolding assms
  by (cases s; simp add: seeded_attempts_def seeded_outcome_def Let_def attempts_ok_def numbered_def
      wf_attempt_def)+

section \<open>The whole matrix\<close>

text \<open>The event a scenario asks for, and the provider identifiers the scenarios use.\<close>

definition realises :: "row_id \<Rightarrow> phone_number \<Rightarrow> time \<Rightarrow> nat \<times> event_scenario \<Rightarrow> scheduled_event \<Rightarrow> bool" where
  "realises user phone now indexed e \<longleftrightarrow> (case indexed of (index, s) \<Rightarrow>
     ev_user e = user \<and> ev_phone_number e = ph_id phone \<and> ev_status e = es_status s \<and>
     ev_channel e = es_channel s \<and> ev_is_demo e = es_is_demo s \<and>
     scheduled_time now (es_timing s) index = Inr (ev_scheduled_for e))"

lemma realises_owner: "list_all2 (realises user p now) ss es \<Longrightarrow> \<forall>e \<in> set es. ev_user e = user"
  by (induction rule: list_all2_induct) (auto simp: realises_def)

fun seed_sids :: "nat \<Rightarrow> event_scenario list \<Rightarrow> string list" where
  "seed_sids index [] = []"
| "seed_sids index (s # ss) =
     (if es_status s = E_SUBMITTED then [seed_provider_sid (es_channel s) index] else []) @ seed_sids (index + 1) ss"

lemma scheduled_time_defined:
  assumes "minutes 120 \<le> now" and "now + minutes 30 + seconds (int index) \<le> MAX_DATETIME"
  shows "\<exists>t. scheduled_time now timing index = Inr t"
  using assms by (auto simp: scheduled_time_def datetime_plus_def datetime_minus_def in_datetime_range_def Let_def)

lemma seed_event_appends:
  assumes wf: "wf_db d" and p: "p \<in> set (rows (db_phones d))" "ph_user p = user" "is_verified p"
    and now: "minutes 120 \<le> now" "now + minutes 30 + seconds (int index) \<le> MAX_DATETIME"
    and sids: "\<forall>sid \<in> set (seed_sids index [s]). sid_free (Some sid) d"
  obtains e as where "seed_event user p now index s clk d = Inr ((), appended e as d)"
    "wf_db (appended e as d)" "realises user p now (index, s) e"
    "\<forall>a \<in> set as. at_event a = ev_id e \<and> at_provider_sid a \<in> insert None (Some ` set (seed_sids index [s]))"
proof -
  obtain t where t: "scheduled_time now (es_timing s) index = Inr t"
    using scheduled_time_defined [OF now] by blast
  let ?e = "\<lparr>ev_id = next_id (db_events d), ev_user = user, ev_phone_number = ph_id p, ev_zip_code = ''94107'',
           ev_scheduled_for = t, ev_channel = es_channel s, ev_status = E_SCHEDULED,
           ev_is_demo = es_is_demo s, ev_processing_started_at = None, ev_completed_at = None,
           ev_created_at = clk 0, ev_updated_at = clk 1\<rparr>"
  let ?clk = "\<lambda>n. clk (n + 2)" and ?i = "next_id (db_attempts d)"
  let ?r = "seeded_row ?e (es_status s) now ?clk" and ?as = "seeded_attempts ?e (es_status s) now index ?clk ?i"
  have none: "attempts_of (ev_id ?e) d = []"
    using wf by (fastforce simp: wf_db_def wf_table_def attempts_of_def filter_empty_conv)
  have range: "in_datetime_range (now - minutes 60)"
    using now by (simp add: in_datetime_range_def MAX_DATETIME_def)
  have "apply_status ?e (es_status s) now index ?clk
      (d\<lparr>db_events := \<lparr>rows = rows (db_events d) @ [?e], next_id = next_id (db_events d) + 1\<rparr>\<rparr>) =
    Inr ((), appended ?r ?as d)"
    using wf none sids by (intro apply_status_appends [OF _ _ _ _ _ _ _ range]) (simp_all add: wf_db_def)
  then have run: "seed_event user p now index s clk d = Inr ((), appended ?r ?as d)"
    by (simp add: seed_event_def t insert_row_appends)
  have ok: "wf_db (appended ?r ?as d)"
  proof (rule wf_appended [OF wf _ _ p(1)])
    show "wf_event ?r" by (rule seeded_row_wf) (simp_all add: wf_event_def)
    show "\<forall>a \<in> set ?as. sid_free (at_provider_sid a) d"
      using sids seeded_attempts_ok(4) [of ?as, OF refl]
      by (fastforce simp: sid_free_def split: if_splits)
  qed (use p seeded_attempts_ok(1-3) [of ?as, OF refl] in simp_all)
  have "realises user p now (index, s) ?r" by (simp add: realises_def t)
  moreover have "\<forall>a \<in> set ?as. at_event a = ev_id ?r \<and>
      at_provider_sid a \<in> insert None (Some ` set (seed_sids index [s]))"
    using seeded_attempts_ok(2,4) [of ?as, OF refl] by auto
  ultimately show thesis using that [OF run ok] by blast
qed

text \<open>The loop: what it appends, in the order of the scenarios.\<close>

lemma seed_events_append:
  assumes "wf_db d" and "p \<in> set (rows (db_phones d))" and "ph_user p = user" and "is_verified p"
    and "minutes 120 \<le> now" and "now + minutes 30 + seconds (int (index + length ss)) \<le> MAX_DATETIME"
    and "\<forall>sid \<in> set (seed_sids index ss). sid_free (Some sid) d" and "distinct (seed_sids index ss)"
  shows "\<exists>d' es as. seed_events user p now index ss clk d = Inr ((), d') \<and> wf_db d' \<and>
    db_phones d' = db_phones d \<and> db_commands d' = db_commands d \<and>
    rows (db_events d') = rows (db_events d) @ es \<and> rows (db_attempts d') = rows (db_attempts d) @ as \<and>
    list_all2 (realises user p now) (enumerate index ss) es \<and>
    (\<forall>a \<in> set as. at_event a \<in> ev_id ` set es \<and>
       at_provider_sid a \<in> insert None (Some ` set (seed_sids index ss)))"
  using assms
proof (induction ss arbitrary: index clk d)
  case Nil
  then show ?case by simp
next
  case (Cons s ss)
  have now: "now + minutes 30 + seconds (int index) \<le> MAX_DATETIME" using Cons.prems(6) by simp
  obtain e as where e: "seed_event user p now index s clk d = Inr ((), appended e as d)"
      "wf_db (appended e as d)" "realises user p now (index, s) e"
    and as: "\<forall>a \<in> set as. at_event a = ev_id e \<and> at_provider_sid a \<in> insert None (Some ` set (seed_sids index [s]))"
    using seed_event_appends [OF Cons.prems(1-5) now, of s clk] Cons.prems(7) by auto
  have later: "\<forall>sid \<in> set (seed_sids (index + 1) ss). sid_free (Some sid) (appended e as d)"
    using Cons.prems(7,8) as by (fastforce simp: sid_free_def image_iff split: if_splits)
  obtain d' es bs where rest:
    "seed_events user p now (index + 1) ss (\<lambda>n. clk (n + 5)) (appended e as d) = Inr ((), d')" "wf_db d'"
    "db_phones d' = db_phones d" "db_commands d' = db_commands d"
    "rows (db_events d') = rows (db_events d) @ e # es" "rows (db_attempts d') = rows (db_attempts d) @ as @ bs"
    "list_all2 (realises user p now) (enumerate (index + 1) ss) es"
    "\<forall>a \<in> set bs. at_event a \<in> ev_id ` set es \<and>
       at_provider_sid a \<in> insert None (Some ` set (seed_sids (index + 1) ss))"
    using Cons.IH [OF e(2), of "index + 1" "\<lambda>n. clk (n + 5)"] Cons.prems later by auto
  have "seed_events user p now index (s # ss) clk d = Inr ((), d')"
    using e(1) rest(1) by simp
  moreover have "list_all2 (realises user p now) (enumerate index (s # ss)) (e # es)"
    using e(3) rest(7) by simp
  moreover have "\<forall>a \<in> set (as @ bs). at_event a \<in> ev_id ` set (e # es) \<and>
      at_provider_sid a \<in> insert None (Some ` set (seed_sids index (s # ss)))"
    using as rest(8) by auto
  ultimately show ?case using rest(2-6)
    by (intro exI [of _ d'] exI [of _ "e # es"] exI [of _ "as @ bs"]) simp
qed

section \<open>Running the command\<close>

text \<open>
  What the command relies on: the reserved number is not another user's phone, and the reserved provider
  identifiers are on no attempt of another user's event.
\<close>

definition scenarios_of :: "exn + event_scenario list \<Rightarrow> event_scenario list" where
  "scenarios_of r = (case r of Inl _ \<Rightarrow> [] | Inr ss \<Rightarrow> ss)"

definition seedable :: "row_id \<Rightarrow> db \<Rightarrow> bool" where
  "seedable user d \<longleftrightarrow> wf_db d \<and>
     list_all (\<lambda>p. ph_number p = SEED_PHONE_NUMBER \<longrightarrow> ph_user p = user) (rows (db_phones d)) \<and>
     list_all (\<lambda>a. at_provider_sid a \<in> Some ` set (seed_sids 1 (scenarios_of build_scenarios)) \<longrightarrow>
       at_event a \<in> ev_id ` set (events_where (\<lambda>e. ev_user e = user) d)) (rows (db_attempts d))"

lemma build_scenarios_Inr:
  "build_scenarios = Inr (scenarios_of build_scenarios)" "length (scenarios_of build_scenarios) = 30"
  by (simp_all add: build_scenarios_def event_scenarios_def scenarios_of_def Let_def eval_nat_numeral)

lemma seed_sids_distinct: "distinct (seed_sids 1 (scenarios_of build_scenarios))"
  by code_simp

lemma event_ok_phones:
  assumes "event_ok d e" and "db_attempts d' = db_attempts d"
    and "\<And>p. p \<in> set (rows (db_phones d)) \<Longrightarrow> is_verified p \<Longrightarrow>
      \<exists>q \<in> set (rows (db_phones d')). ph_id q = ph_id p \<and> ph_user q = ph_user p \<and> is_verified q"
  shows "event_ok d' e"
  using assms unfolding event_ok_def attempts_of_def by metis

abbreviation other_phones :: "db \<Rightarrow> phone_number list" where
  "other_phones d \<equiv> filter (\<lambda>p. ph_number p \<noteq> SEED_PHONE_NUMBER) (rows (db_phones d))"

text \<open>The reserved phone after \<open>seed_phone\<close>: enrolled, or taken up again.\<close>

definition seed_phone_ready :: "row_id \<Rightarrow> db \<Rightarrow> phone_number \<Rightarrow> db \<Rightarrow> bool" where
  "seed_phone_ready user d p d' \<longleftrightarrow>
     wf_db d' \<and> list_all (\<lambda>p. ph_number p = SEED_PHONE_NUMBER \<longrightarrow> ph_user p = user) (rows (db_phones d')) \<and>
     p \<in> set (rows (db_phones d')) \<and> ph_user p = user \<and> is_verified p \<and> ph_number p = SEED_PHONE_NUMBER \<and>
     db_events d' = db_events d \<and> db_attempts d' = db_attempts d \<and> db_commands d' = db_commands d \<and>
     other_phones d' = other_phones d"

lemma seed_phone_enrolled:
  assumes wf: "wf_db d" and new: "\<forall>q \<in> set (rows (db_phones d)). ph_number q \<noteq> SEED_PHONE_NUMBER"
    and p: "ph_id p = next_id (db_phones d)" "ph_user p = user" "is_verified p" "ph_number p = SEED_PHONE_NUMBER"
  shows "seed_phone_ready user d p
    (d\<lparr>db_phones := \<lparr>rows = rows (db_phones d) @ [p], next_id = next_id (db_phones d) + 1\<rparr>\<rparr>)"
    (is "seed_phone_ready user d p ?d")
proof -
  have "event_ok ?d e" if "event_ok d e" for e
    using that by (rule event_ok_phones) auto
  moreover have "wf_table ph_id (db_phones ?d)"
    using wf p(1) by (fastforce simp: wf_db_def wf_table_def)
  ultimately have "wf_db ?d" using wf new p(4) by (auto simp: wf_db_def)
  with new p show ?thesis by (simp add: seed_phone_ready_def list_all_iff)
qed

lemma seed_phone_taken_up:
  assumes ok: "seedable user d" and q: "q \<in> set (rows (db_phones d))" "ph_number q = SEED_PHONE_NUMBER"
    and change: "\<And>r. ph_id (change r) = ph_id r" "\<And>r. ph_number (change r) = ph_number r"
      "\<And>r. ph_user (change r) = user" "\<And>r. is_verified (change r)"
  shows "seed_phone_ready user d (change q) (put_phone (ph_id q) change d)" (is "seed_phone_ready user d _ ?d")
proof -
  have wf: "wf_db d" and user: "ph_user q = user" using ok q by (auto simp: seedable_def list_all_iff)
  have rows': "rows (db_phones ?d) = map (\<lambda>r. if ph_id r = ph_id q then change r else r) (rows (db_phones d))"
    by (simp add: rows_update_row)
  have same: "r = q" if "r \<in> set (rows (db_phones d))" "ph_id r = ph_id q" for r
    using wf that q(1) by (auto simp: wf_db_def wf_table_def distinct_map inj_on_def)
  have "event_ok ?d e" if "event_ok d e" for e
  proof (rule event_ok_phones [OF that])
    show "\<exists>p' \<in> set (rows (db_phones ?d)). ph_id p' = ph_id r \<and> ph_user p' = ph_user r \<and> is_verified p'"
      if "r \<in> set (rows (db_phones d))" "is_verified r" for r
      using that same [OF that(1)] user unfolding rows'
      by (intro bexI [of _ "if ph_id r = ph_id q then change r else r"]) (auto simp: change)
  qed simp
  moreover have "map ph_number (rows (db_phones ?d)) = map ph_number (rows (db_phones d))"
    unfolding rows' by (simp add: change)
  ultimately have "wf_db ?d" using wf change(1) by (simp add: wf_db_def)
  moreover have "filter (\<lambda>p. ph_number p \<noteq> SEED_PHONE_NUMBER) (map (\<lambda>r. if ph_id r = ph_id q then change r else r) rs) =
      filter (\<lambda>p. ph_number p \<noteq> SEED_PHONE_NUMBER) rs" if "set rs \<subseteq> set (rows (db_phones d))" for rs
    using that same q(2) by (induction rs) (auto simp: change)
  then have "other_phones ?d = other_phones d" unfolding rows' by simp
  moreover have "change q \<in> set (rows (db_phones ?d))" using q(1) unfolding rows' by force
  ultimately show ?thesis
    using ok q(2) unfolding seed_phone_ready_def list_all_iff rows' by (auto simp: seedable_def change list_all_iff)
qed

lemma seed_phone_result:
  assumes ok: "seedable user d" and run: "seed_phone user clk d = (p, d')"
  shows "seed_phone_ready user d p d'"
proof (cases "find (\<lambda>p. ph_number p = SEED_PHONE_NUMBER) (rows (db_phones d))")
  case None
  with ok run show ?thesis
    by (auto simp: seed_phone_def insert_row_appends find_None_iff seedable_def is_verified_def
        intro!: seed_phone_enrolled)
next
  case (Some q)
  with ok run show ?thesis
    by (auto simp: seed_phone_def Let_def find_Some_iff is_verified_def intro!: seed_phone_taken_up)
qed

lemma unique_on_filter: "unique_on k xs \<Longrightarrow> unique_on k (filter p xs)"
  by (induction xs) auto

lemma delete_events_of_result:
  assumes wf: "wf_db d"
  shows "wf_db (delete_events_of user d)"
    and "rows (db_events (delete_events_of user d)) = events_where (\<lambda>e. ev_user e \<noteq> user) d"
    and "e \<in> set (events_where (\<lambda>e. ev_user e \<noteq> user) d) \<Longrightarrow>
      attempts_of (ev_id e) (delete_events_of user d) = attempts_of (ev_id e) d"
    and "a \<in> set (rows (db_attempts (delete_events_of user d))) \<longleftrightarrow>
      a \<in> set (rows (db_attempts d)) \<and> at_event a \<notin> ev_id ` set (events_where (\<lambda>e. ev_user e = user) d)"
    and "db_phones (delete_events_of user d) = db_phones d" and "db_commands (delete_events_of user d) = db_commands d"
proof -
  let ?d = "delete_events_of user d"
  have same: "e = e'" if "e \<in> set (rows (db_events d))" "e' \<in> set (rows (db_events d))" "ev_id e = ev_id e'" for e e'
    using wf that by (auto simp: wf_db_def wf_table_def distinct_map inj_on_def)
  show rows: "rows (db_events ?d) = events_where (\<lambda>e. ev_user e \<noteq> user) d"
    and phones: "db_phones ?d = db_phones d" and commands: "db_commands ?d = db_commands d"
    by (simp_all add: delete_events_of_def delete_rows_def events_where_def Let_def)
  show attempt_rows: "a \<in> set (rows (db_attempts ?d)) \<longleftrightarrow>
      a \<in> set (rows (db_attempts d)) \<and> at_event a \<notin> ev_id ` set (events_where (\<lambda>e. ev_user e = user) d)" for a
    by (simp add: delete_events_of_def delete_rows_def Let_def)
  show atts: "attempts_of (ev_id e) ?d = attempts_of (ev_id e) d"
    if "e \<in> set (events_where (\<lambda>e. ev_user e \<noteq> user) d)" for e
  proof -
    have "ev_id e \<notin> ev_id ` set (events_where (\<lambda>e. ev_user e = user) d)"
      using that by (auto simp: events_where_def dest: same)
    then show ?thesis
      by (auto simp: attempts_of_def delete_events_of_def delete_rows_def Let_def intro!: filter_cong)
        (metis image_eqI)
  qed
  have "event_ok ?d e" if "e \<in> set (rows (db_events ?d))" for e
    using wf that atts [of e] by (auto simp: rows phones event_ok_def wf_db_def events_where_def)
  moreover have "at_event a \<in> ev_id ` set (rows (db_events ?d))" if "a \<in> set (rows (db_attempts ?d))" for a
    using wf that unfolding attempt_rows rows by (fastforce simp: wf_db_def events_where_def)
  moreover have "wf_table ev_id (db_events ?d)" "wf_table at_id (db_attempts ?d)"
      "unique_on at_provider_sid (rows (db_attempts ?d))"
    using wf by (simp_all add: delete_events_of_def wf_db_def Let_def wf_delete_rows)
      (simp add: delete_rows_def unique_on_filter)
  ultimately show "wf_db ?d" using wf by (simp add: wf_db_def phones commands)
qed

lemma seeding_run:
  assumes ok: "seedable user d" and now: "minutes 121 \<le> clk 3" "clk 3 + minutes 31 \<le> MAX_DATETIME"
  obtains p d1 d' es as where "seed_scheduling_scenarios user clk d = Inr ((), d')" "wf_db d'"
    "seed_phone_ready user d p d1" "db_phones d' = db_phones d1" "db_commands d' = db_commands d"
    "rows (db_events d') = events_where (\<lambda>e. ev_user e \<noteq> user) d @ es"
    "rows (db_attempts d') = rows (db_attempts (delete_events_of user d1)) @ as"
    "list_all2 (realises user p (whole_minute (clk 3))) (enumerate 1 (scenarios_of build_scenarios)) es"
    "\<forall>a \<in> set as. at_event a \<in> ev_id ` set es"
proof -
  let ?ss = "scenarios_of build_scenarios" and ?now = "whole_minute (clk 3)"
  obtain p d1 where run1: "seed_phone user clk d = (p, d1)" by fastforce
  have ready: "seed_phone_ready user d p d1" by (rule seed_phone_result [OF ok run1])
  then have phone: "wf_db d1" "p \<in> set (rows (db_phones d1))" "ph_user p = user" "is_verified p"
      "db_events d1 = db_events d" "db_attempts d1 = db_attempts d" "db_commands d1 = db_commands d"
    by (simp_all add: seed_phone_ready_def)
  let ?d2 = "delete_events_of user d1"
  note cleared = delete_events_of_result [OF phone(1), where user = user]
  have now': "minutes 120 \<le> ?now" "?now + minutes 30 + seconds (int (1 + length ?ss)) \<le> MAX_DATETIME"
    using now build_scenarios_Inr(2) pos_mod_bound [of "minutes 1" "clk 3"]
      pos_mod_sign [of "minutes 1" "clk 3"] by (simp_all add: whole_minute_def)
  have sids: "\<forall>sid \<in> set (seed_sids 1 ?ss). sid_free (Some sid) ?d2"
  proof
    fix sid assume sid: "sid \<in> set (seed_sids 1 ?ss)"
    have "at_provider_sid a \<noteq> Some sid" if "a \<in> set (rows (db_attempts ?d2))" for a
    proof -
      have "at_provider_sid a \<in> Some ` set (seed_sids 1 ?ss) \<longrightarrow>
          at_event a \<in> ev_id ` set (events_where (\<lambda>e. ev_user e = user) d1)"
        using ok that phone(5,6) unfolding seedable_def list_all_iff cleared(4) events_where_def by metis
      with sid that show ?thesis unfolding cleared(4) by auto
    qed
    then show "sid_free (Some sid) ?d2" unfolding sid_free_def by (metis imageE)
  qed
  obtain d' es as where run: "seed_events user p ?now 1 ?ss (\<lambda>n. clk (n + 4)) ?d2 = Inr ((), d')"
    and d': "wf_db d'" "db_phones d' = db_phones d1" "db_commands d' = db_commands d1"
      "rows (db_events d') = events_where (\<lambda>e. ev_user e \<noteq> user) d1 @ es"
      "rows (db_attempts d') = rows (db_attempts ?d2) @ as"
    and es: "list_all2 (realises user p ?now) (enumerate 1 ?ss) es"
    and as: "\<forall>a \<in> set as. at_event a \<in> ev_id ` set es"
    using seed_events_append [OF cleared(1) _ phone(3,4) now' sids seed_sids_distinct, of "\<lambda>n. clk (n + 4)"]
      phone(2) cleared by auto
  have "seed_scheduling_scenarios user clk d = Inr ((), d')"
    using run run1 build_scenarios_Inr(1) by (simp add: seed_scheduling_scenarios_def Let_def) blast
  then show thesis
    using d' es as phone(5,7) by (intro that [OF _ d'(1) ready]) (auto simp: events_where_def)
qed

text \<open>C37. Reseeding replaces the scenarios. When the reserved number is not another user's phone, the reserved
  provider identifiers are on no attempt of another user's event, and the clock is not within hours of the ends of
  \<open>datetime\<close>'s range, the command succeeds and keeps the database well-formed. Afterwards the reserved user has
  exactly one event for each of the 30 scenarios, in their order, each with the scenario's status, channel,
  kind and time, on a verified phone with the reserved number. The events of every other user and their
  attempts, every other phone and the recorded commands are what they were. The conditions hold again, so
  the command can be repeated.\<close>

theorem reseeding_replaces_scenarios:
  assumes "seedable user d"
    and "minutes 121 \<le> clk 3" and "clk 3 + minutes 31 \<le> MAX_DATETIME"
  shows "\<exists>phone d'. seed_scheduling_scenarios user clk d = Inr ((), d') \<and>
    phone \<in> set (rows (db_phones d')) \<and> ph_user phone = user \<and> is_verified phone \<and>
    ph_number phone = SEED_PHONE_NUMBER \<and> length (scenarios_of build_scenarios) = 30 \<and>
    list_all2 (realises user phone (whole_minute (clk 3))) (enumerate 1 (scenarios_of build_scenarios))
      (events_where (\<lambda>e. ev_user e = user) d') \<and>
    events_where (\<lambda>e. ev_user e \<noteq> user) d' = events_where (\<lambda>e. ev_user e \<noteq> user) d \<and>
    list_all (\<lambda>e. attempts_of (ev_id e) d' = attempts_of (ev_id e) d) (events_where (\<lambda>e. ev_user e \<noteq> user) d) \<and>
    filter (\<lambda>p. ph_number p \<noteq> SEED_PHONE_NUMBER) (rows (db_phones d')) =
      filter (\<lambda>p. ph_number p \<noteq> SEED_PHONE_NUMBER) (rows (db_phones d)) \<and>
    db_commands d' = db_commands d \<and> seedable user d'"
proof -
  obtain p d1 d' es as where run: "seed_scheduling_scenarios user clk d = Inr ((), d')"
    and wf: "wf_db d'" and ready: "seed_phone_ready user d p d1"
    and d': "db_phones d' = db_phones d1" "db_commands d' = db_commands d"
      "rows (db_events d') = events_where (\<lambda>e. ev_user e \<noteq> user) d @ es"
      "rows (db_attempts d') = rows (db_attempts (delete_events_of user d1)) @ as"
    and es: "list_all2 (realises user p (whole_minute (clk 3))) (enumerate 1 (scenarios_of build_scenarios)) es"
    and as: "\<forall>a \<in> set as. at_event a \<in> ev_id ` set es"
    by (rule seeding_run [where clk = clk, OF assms])
  have phone: "wf_db d1" "db_events d1 = db_events d" "db_attempts d1 = db_attempts d"
    using ready by (simp_all add: seed_phone_ready_def)
  have d1: "seedable user d1"
    using ready assms(1) by (auto simp: seed_phone_ready_def seedable_def events_where_def)
  note cleared = delete_events_of_result [OF phone(1), where user = user]
  have mine: "events_where (\<lambda>e. ev_user e = user) d' = es"
    and others: "events_where (\<lambda>e. ev_user e \<noteq> user) d' = events_where (\<lambda>e. ev_user e \<noteq> user) d"
    using realises_owner [OF es] by (auto simp: events_where_def d' filter_empty_conv filter_id_conv)
  have "attempts_of (ev_id e) d' = attempts_of (ev_id e) d"
    if e: "e \<in> set (events_where (\<lambda>e. ev_user e \<noteq> user) d)" for e
  proof -
    have "ev_id e \<notin> ev_id ` set es"
      using wf e by (auto simp: d' wf_db_def wf_table_def events_where_def)
    with as have "filter (\<lambda>a. at_event a = ev_id e) as = []" unfolding filter_empty_conv by metis
    then have "attempts_of (ev_id e) d' = attempts_of (ev_id e) (delete_events_of user d1)"
      by (simp add: attempts_of_def d')
    then show ?thesis using cleared(3) [of e] e phone(2,3) by (simp add: events_where_def attempts_of_def)
  qed
  moreover have "seedable user d'"
    using wf as ready d1 unfolding seedable_def mine
    by (auto simp: d' cleared(4) list_all_iff)
  ultimately show ?thesis
    using run ready d' es mine others build_scenarios_Inr(2) by (auto simp: list_all_iff seed_phone_ready_def)
qed

lemma reseeding_replaces_scenarios_witness:
  "\<exists>d'. seed_scheduling_scenarios 9 (\<lambda>n. minutes (200 + int n)) sample_db = Inr ((), d') \<and>
    length (events_where (\<lambda>e. ev_user e = 9) d') = 30 \<and>
    events_where (\<lambda>e. ev_user e \<noteq> 9) d' = [sample_demo, sample_real, sample_done] \<and> wf_db d'"
proof -
  have "Some ''CA1'' \<notin> Some ` set (seed_sids 1 (scenarios_of build_scenarios))" by code_simp
  then have "seedable 9 sample_db"
    by (simp add: seedable_def wf_sample_db)
      (simp add: sample_defs SEED_PHONE_NUMBER_def)
  moreover have "events_where (\<lambda>e. ev_user e \<noteq> 9) sample_db = [sample_demo, sample_real, sample_done]"
    by (simp add: events_where_def sample_defs)
  ultimately obtain p d' where
    "seed_scheduling_scenarios 9 (\<lambda>n. minutes (200 + int n)) sample_db = Inr ((), d')"
    "length (scenarios_of build_scenarios) = 30"
    "list_all2 (realises 9 p (whole_minute (minutes 203))) (enumerate 1 (scenarios_of build_scenarios))
      (events_where (\<lambda>e. ev_user e = 9) d')"
    "events_where (\<lambda>e. ev_user e \<noteq> 9) d' = [sample_demo, sample_real, sample_done]" "seedable 9 d'"
    using reseeding_replaces_scenarios [of 9 sample_db "\<lambda>n. minutes (200 + int n)"]
    by (auto simp: MAX_DATETIME_def)
  then show ?thesis
    by (intro exI [of _ d']) (auto simp: seedable_def dest!: list_all2_lengthD)
qed

text \<open>
  Without the first condition the command takes the reserved number away from its owner, whose events
  are then on another user's phone.
\<close>

lemma event_phone_owner:
  assumes wf: "wf_db d" and e: "e \<in> set (rows (db_events d))" and p: "get_phone (ev_phone_number e) d = Some p"
  shows "ph_user p = ev_user e"
proof -
  obtain q where q: "q \<in> set (rows (db_phones d))" "ph_id q = ev_phone_number e" "ph_user q = ev_user e"
    using wf e by (auto simp: wf_db_def event_ok_def)
  have "get_phone (ev_phone_number e) d = Some q"
    unfolding get_phone_def q(2) [symmetric] using wf q(1) by (intro find_row_of_member) (simp_all add: wf_db_def)
  with p q(3) show ?thesis by simp
qed

lemma seeding_takes_a_used_number:
  assumes wf: "wf_db d" and e: "e \<in> set (rows (db_events d))" "get_phone (ev_phone_number e) d = Some p"
    and p: "ph_number p = SEED_PHONE_NUMBER" "ph_user p \<noteq> user"
  shows "get_phone (ev_phone_number e) (snd (seed_phone user clk d)) = Some (fst (seed_phone user clk d))"
    and "ph_user (fst (seed_phone user clk d)) = user" and "\<not> wf_db (snd (seed_phone user clk d))"
proof -
  let ?change = "\<lambda>r. r\<lparr>ph_user := user, ph_verified_at := Some (clk 0), ph_updated_at := clk 1\<rparr> :: phone_number"
  have p_row: "p \<in> set (rows (db_phones d))" and id: "ph_id p = ev_phone_number e"
    using e(2) by (auto simp: get_phone_def dest: find_row_in_rows find_row_key)
  have "find (\<lambda>p. ph_number p = SEED_PHONE_NUMBER) (rows (db_phones d)) = Some p"
  proof (cases "find (\<lambda>p. ph_number p = SEED_PHONE_NUMBER) (rows (db_phones d))")
    case None
    with p(1) p_row show ?thesis by (auto simp: find_None_iff)
  next
    case (Some q)
    then have "q \<in> set (rows (db_phones d))" "ph_number q = SEED_PHONE_NUMBER" by (auto simp: find_Some_iff)
    with wf p(1) p_row have "q = p" by (auto simp: wf_db_def distinct_map inj_on_def)
    with Some show ?thesis by simp
  qed
  then have run: "seed_phone user clk d = (?change p, put_phone (ph_id p) ?change d)"
    by (simp add: seed_phone_def Let_def)
  then show now: "get_phone (ev_phone_number e) (snd (seed_phone user clk d)) = Some (fst (seed_phone user clk d))"
    and user: "ph_user (fst (seed_phone user clk d)) = user"
    using e(2) id by (simp_all add: phones.get_put)
  show "\<not> wf_db (snd (seed_phone user clk d))"
  proof
    assume wf': "wf_db (snd (seed_phone user clk d))"
    have "e \<in> set (rows (db_events (snd (seed_phone user clk d))))" using e(1) run by simp
    from event_phone_owner [OF wf' this now] event_phone_owner [OF wf e] user p(2) show False by simp
  qed
qed

end
