(* ===== verification/Queue_Delivery.thy ===== *)
theory Queue_Delivery
  imports Worker_Properties
begin

text \<open>
  The queue path from end to end: a dispatcher tick publishes the due events, and the messages it published,
  received in any order and any number of times, deliver each event once.
\<close>

section \<open>The states an event passes through\<close>

definition awaiting :: "time \<Rightarrow> row_id \<Rightarrow> db \<Rightarrow> bool" where
  "awaiting t i d \<longleftrightarrow>
     (\<exists>e. get_event i d = Some e \<and> ev_is_demo e \<and> ev_status e = E_SCHEDULED \<and> ev_scheduled_for e \<le> t)"

definition delivered :: "row_id \<Rightarrow> db \<Rightarrow> bool" where
  "delivered i d \<longleftrightarrow>
     (\<exists>e a. get_event i d = Some e \<and> ev_status e = E_SUPPRESSED \<and> attempts_of i d = [a] \<and> at_status a = A_SUPPRESSED)"

definition missed :: "row_id \<Rightarrow> db \<Rightarrow> bool" where
  "missed i d \<longleftrightarrow> (\<exists>a. at_event a = i \<and> missed_in d a)"

lemma states_frame:
  assumes "only_event j d d'" and "i \<noteq> j"
  shows "awaiting t i d' = awaiting t i d" and "delivered i d' = delivered i d" and "missed i d' = missed i d"
  using assms by (auto simp: only_events_def awaiting_def delivered_def missed_def missed_in_def)

lemma states_exclusive:
  "awaiting t i d \<Longrightarrow> \<not> delivered i d" "awaiting t i d \<Longrightarrow> \<not> missed i d" "delivered i d \<Longrightarrow> \<not> missed i d"
  by (auto simp: awaiting_def delivered_def missed_def missed_in_def)

text \<open>An environment that answers: the weather is known and its snapshot can be stored, demo sends are logged.\<close>

definition answers :: "delivery_env \<Rightarrow> bool" where
  "answers env \<longleftrightarrow> env_demo_sender env = None \<and>
     (\<forall>z. \<exists>w. env_weather env z = Inr w \<and> storable (as_snapshot w))"

section \<open>One message\<close>

lemma finished_acknowledged:
  assumes wf: "wf_db d" and ended: "delivered i d \<or> missed i d"
    and args: "1 \<le> rc" "1 \<le> m" "0 \<le> grace"
  shows "process_queued_delivery i rc m env None grace allow clk d = (Inr ACKNOWLEDGE, d, [])"
proof -
  let ?dec = "decide_queued (clk 0) grace allow (get_event i d) (attempts_of i d)"
  have dec: "?dec = D_Acknowledge" and found: "\<not> claimable (clk 0) allow (get_event i d)"
    using ended by (auto simp: delivered_def missed_def missed_in_def decide_queued_def claimable_def starts_with_def)
  obtain qc d' where run: "claim_queued_event i (clk 0) grace allow (\<lambda>n. clk (n + 1)) d = Inr (qc, d')"
    and impl: "implements_decision ?dec i (clk 0) d qc d'"
    using claim_queued_implements [OF wf args(3), of "clk 0" allow i "\<lambda>n. clk (n + 1)"] found by blast
  have "qc = act ACKNOWLEDGE" "d' = d" using impl dec by (simp_all add: implements_decision_def)
  with run process_act_eq [of rc m i None clk grace allow d ACKNOWLEDGE d env] args show ?thesis by simp
qed

lemma awaiting_processed:
  assumes wf: "wf_db d" and wait: "awaiting t i d" and t: "t \<le> clk 0" and env: "answers env"
    and args: "1 \<le> rc" "1 \<le> m" "0 \<le> grace" "in_datetime_range (clk 0 - grace)"
  obtains d' calls where
    "process_queued_delivery i rc m env None grace False clk d = (Inr ACKNOWLEDGE, d', calls)"
    "wf_db d'" "only_event i d d'" "real_sends calls = []"
    "missed i d' \<and> demo_sends calls = [] \<and> (\<exists>e. get_event i d = Some e \<and> ev_scheduled_for e < clk 0 - grace) \<or>
     delivered i d' \<and> length (demo_sends calls) = 1"
proof -
  obtain e where e: "get_event i d = Some e" "ev_is_demo e" "ev_status e = E_SCHEDULED" "ev_scheduled_for e \<le> clk 0"
    using wait t by (auto simp: awaiting_def)
  let ?late = "ev_scheduled_for e < clk 0 - grace"
  obtain qc d1 where claim: "claim_queued_event i (clk 0) grace False (\<lambda>n. clk (n + 1)) d = Inr (qc, d1)"
    and d1: "wf_db d1" "only_event i d d1"
    and impl: "implements_decision (if ?late then D_Miss else D_Claim) i (clk 0) d qc d1"
    using claim_queued_scheduled [OF wf e(1,3,4) _ args(3,4), of False "\<lambda>n. clk (n + 1)"] e(2) by auto
  show thesis
  proof (cases ?late)
    case True
    then have "qc = act ACKNOWLEDGE" "missed i d1"
      using impl by (auto simp: implements_decision_def missed_def)
    with True claim process_act_eq [of rc m i None clk grace False d ACKNOWLEDGE d1 env] args d1 e(1) show thesis
      by (intro that [of d1 "[]"]) auto
  next
    case False
    then obtain c u where c: "qc = proceed c" "holds_claim c d1" "cl_event c = claimed_row (clk 0) u e"
        "at_attempt_number (cl_attempt c) = 1"
      using impl e(1) by (auto simp: implements_decision_def claim_of_def with_phone_def)
    have id: "ev_id (cl_event c) = i" and demo: "ev_is_demo (cl_event c)"
      using c(3) e(2) events.get_key [OF e(1)] by (simp_all add: claimed_row_def)
    have held: "get_event i d1 = Some (cl_event c)" "attempts_of i d1 \<noteq> []" "last (attempts_of i d1) = cl_attempt c"
      using c(2) id by (simp_all add: holds_claim_def)
    have "numbered (attempts_of i d1)"
      using wf_db_attempts_ok [OF d1(1) held(1)] by (simp add: attempts_ok_def)
    with numbered_last [OF _ held(2)] held(3) c(4) have "length (attempts_of i d1) = 1" by simp
    then have one: "butlast (attempts_of i d1) = []" by (auto simp: length_Suc_conv)
    obtain w where w: "env_weather env (ev_zip_code (cl_event c)) = Inr w" "storable (as_snapshot w)"
      using env by (auto simp: answers_def)
    obtain calls where tried: "attempt_delivery env c = (Delivered w None, calls)"
      and sends: "real_sends calls = []" "length (demo_sends calls) = 1"
      using env w demo by (simp add: attempt_delivery_def answers_def select_sender_def demo_message_sender_def Let_def)
    have "recordable (as_snapshot w) None d1" using w(2) by (simp add: recordable_def sid_free_def)
    then obtain d' where fin: "finish_queued rc m clk c (Delivered w None) calls d1 = (Inr ACKNOWLEDGE, d', calls)"
      and ended: "ended_delivered c w None clk 4 d1 d'"
      by (rule finish_delivered [OF d1(1) c(2)])
    have "process_queued_delivery i rc m env None grace False clk d = (Inr ACKNOWLEDGE, d', calls)"
      using process_eq [of rc m i None clk grace False d c d1 env] claim c(1) args tried fin by simp
    moreover have "wf_db d'" "only_event i d1 d'" "delivered i d'"
      using ended one id demo
      by (auto simp: ended_delivered_def closed_with_def delivered_def terminal_status_def)
    moreover have "only_event i d d'"
      using only_events_trans [OF d1(2) calculation(3), of "{i}"] by simp
    ultimately show thesis using sends by (intro that) auto
  qed
qed

section \<open>The messages of a tick\<close>

text \<open>The messages for some identifiers, however often received.\<close>

definition carries :: "row_id list \<Rightarrow> received_queue_message list \<Rightarrow> bool" where
  "carries ids ms \<longleftrightarrow>
     list_all2 (\<lambda>i m. rm_body m = envelope_to_json (delivery_envelope i) \<and> 1 \<le> rm_receive_count m) ids ms"

text \<open>A worker for demo events whose configuration is in range.\<close>

definition demo_config :: "worker_config \<Rightarrow> bool" where
  "demo_config config \<longleftrightarrow>
     \<not> wc_allow_real config \<and> 1 \<le> wc_batch_size config \<and> wc_batch_size config \<le> 100 \<and>
     1 \<le> wc_max_receive_count config \<and> 0 \<le> wc_grace_period config \<and> 1 \<le> wc_retry_base_seconds config \<and>
     wc_retry_base_seconds config \<le> wc_retry_max_seconds config \<and> wc_retry_max_seconds config \<le> 43200"

lemma decide_delivery:
  assumes "0 < jr_limit rt" and "0 < i" and "i < 2 ^ 63" and "rm_body m = envelope_to_json (delivery_envelope i)"
  shows "decide_message config rt queue env clk m d q =
    (case process_queued_delivery i (rm_receive_count m) (wc_max_receive_count config) env None
        (wc_grace_period config) (wc_allow_real config) clk d of
       (Inl x, d, calls) \<Rightarrow> (Inl x, d, q, calls)
     | (Inr action, d, calls) \<Rightarrow> (Inr (action, 0, False), d, q, calls))"
proof -
  have "DELIVER_SCHEDULED_EVENT \<noteq> DISPATCH_DUE_EVENTS"
    by (simp add: DELIVER_SCHEDULED_EVENT_def DISPATCH_DUE_EVENTS_def)
  then show ?thesis
    using delivery_read_back [OF assms(2,3,1), of "jr_floats rt"] assms(4)
    by (simp add: decide_message_def delivery_envelope_def)
qed

lemma decide_tick:
  assumes wf: "wf_db d" and config: "demo_config config" and limit: "0 < jr_limit rt"
    and body: "rm_body m = envelope_to_json dispatch_tick"
  shows "decide_message config rt recording_queue env clk m d q =
    (let ids = due_event_ids (clk 0) (wc_batch_size config) False d
     in (Inr (ACKNOWLEDGE, length ids, False), d, q @ map (\<lambda>i. Published (delivery_envelope i)) ids, []))"
proof -
  let ?ids = "due_event_ids (clk 0) (wc_batch_size config) False d"
  have "\<forall>i \<in> set ?ids. 0 < i" using due_event_ids_mem [OF wf] by blast
  then have "publish_each recording_queue ?ids 0 q =
      (Inr (length ?ids), q @ map (\<lambda>i. Published (delivery_envelope i)) ?ids)"
    using publish_each_recorded by simp
  then show ?thesis
    using tick_read_back [OF limit, of "jr_floats rt"] config body
    by (simp add: decide_message_def publish_due_event_messages_def Let_def demo_config_def MAX_BATCH_SIZE_def
        dispatch_tick_def)
qed

text \<open>
  What some messages do to the database: the events \<open>I\<close> end delivered or missed, each missed one because it was
  too late when its message came, one demo message is sent per event delivered now, and what had ended stays.
\<close>

definition delivers ::
  "time \<Rightarrow> (scheduled_event \<Rightarrow> bool) \<Rightarrow> row_id set \<Rightarrow> db \<Rightarrow> db \<Rightarrow> call_made list \<Rightarrow> bool" where
  "delivers t late I d d' calls \<longleftrightarrow> wf_db d' \<and> only_events I d d' \<and> real_sends calls = [] \<and>
     (\<forall>i \<in> I. delivered i d' \<or> missed i d') \<and>
     (\<forall>i. (delivered i d \<longrightarrow> delivered i d') \<and> (missed i d \<longrightarrow> missed i d')) \<and>
     (\<forall>i. missed i d' \<longrightarrow> missed i d \<or> (\<exists>e. get_event i d = Some e \<and> late e)) \<and>
     length (demo_sends calls) = card {i \<in> I. awaiting t i d \<and> delivered i d'}"

lemma delivers_none: "wf_db d \<Longrightarrow> delivers t late {} d d []"
  by (simp add: delivers_def)

lemma delivers_frame: "delivers t late {i} d d' calls \<Longrightarrow> only_event i d d'"
  by (simp add: delivers_def)

lemma delivers_sends:
  assumes one: "delivers t late {i} d d1 cs1" and rest: "delivers t late I d1 d2 cs2" and fin: "finite I"
  shows "length (demo_sends (cs1 @ cs2)) = card {j \<in> insert i I. awaiting t j d \<and> delivered j d2}"
proof -
  let ?A = "{j \<in> I. awaiting t j d1 \<and> delivered j d2}"
  have ended: "delivered i d1 \<or> missed i d1" using one by (simp add: delivers_def)
  then have i: "i \<notin> ?A" and same: "delivered i d2 \<longleftrightarrow> delivered i d1"
    using rest states_exclusive unfolding delivers_def by blast+
  note frame = states_frame [OF delivers_frame [OF one]]
  have mem: "awaiting t x d \<and> delivered x d2 \<longleftrightarrow>
      (if x = i then awaiting t i d \<and> delivered i d1 else awaiting t x d1 \<and> delivered x d2)" for x
    using frame [where i = x] same by auto
  have "{j \<in> insert i I. awaiting t j d \<and> delivered j d2} =
      (if awaiting t i d \<and> delivered i d1 then insert i ?A else ?A)"
    unfolding mem using i by auto
  moreover have "{j \<in> {i}. awaiting t j d \<and> delivered j d1} = (if awaiting t i d \<and> delivered i d1 then {i} else {})"
    by auto
  then have "length (demo_sends cs1) = (if awaiting t i d \<and> delivered i d1 then 1 else 0)"
    using one unfolding delivers_def by simp
  moreover have "length (demo_sends cs2) = card ?A" "finite ?A" using rest fin by (simp_all add: delivers_def)
  ultimately show ?thesis using i by (simp del: mem_Collect_eq)
qed

lemma delivers_then:
  assumes one: "delivers t late {i} d d1 cs1" and rest: "delivers t late I d1 d2 cs2" and fin: "finite I"
  shows "delivers t late (insert i I) d d2 (cs1 @ cs2)"
proof -
  have d1: "delivered i d1 \<or> missed i d1" "real_sends cs1 = []" "delivered i d \<Longrightarrow> delivered i d1" "missed i d \<Longrightarrow> missed i d1"
    "missed i d1 \<Longrightarrow> missed i d \<or> (\<exists>e. get_event i d = Some e \<and> late e)"
    using one by (auto simp: delivers_def)
  have d2: "wf_db d2" "only_events I d1 d2" "real_sends cs2 = []" "\<forall>j \<in> I. delivered j d2 \<or> missed j d2"
    "\<And>j. delivered j d1 \<Longrightarrow> delivered j d2" "\<And>j. missed j d1 \<Longrightarrow> missed j d2"
    "\<And>j. missed j d2 \<Longrightarrow> missed j d1 \<or> (\<exists>e. get_event j d1 = Some e \<and> late e)"
    using rest by (auto simp: delivers_def)
  note frame = states_frame [OF delivers_frame [OF one]]
  have "only_events (insert i I) d d2"
    by (rule only_events_trans [OF delivers_frame [OF one] d2(2)]) auto
  moreover have "(delivered j d \<longrightarrow> delivered j d2) \<and> (missed j d \<longrightarrow> missed j d2)" for j
    using frame [where i = j] d1(3,4) d2(5,6) by (cases "j = i") auto
  moreover have "missed j d \<or> (\<exists>e. get_event j d = Some e \<and> late e)" if late: "missed j d2" for j
  proof (cases "j = i")
    case True
    then have "missed i d1" using d1(1) d2(5,6) late states_exclusive by blast
    with d1(5) True show ?thesis by blast
  next
    case False
    then have "get_event j d1 = get_event j d" using delivers_frame [OF one] by (simp add: only_events_def)
    with False d2(7) late frame show ?thesis by fastforce
  qed
  ultimately show ?thesis
    using delivers_sends [OF assms] d1 d2 unfolding delivers_def by auto
qed

text \<open>How a message for one of the events is decided: acknowledged, and the event delivered or missed.\<close>

lemma decide_once:
  assumes wf: "wf_db d" and config: "demo_config config" and limit: "0 < jr_limit rt"
    and id: "0 < i" "i < 2 ^ 63" and m: "rm_body m = envelope_to_json (delivery_envelope i)" "1 \<le> rm_receive_count m"
    and state: "awaiting t i d \<or> delivered i d \<or> missed i d" and env: "answers env" and t: "t \<le> clk 0"
    and range: "in_datetime_range (clk 0 - wc_grace_period config)"
    and late: "\<forall>e. ev_scheduled_for e < clk 0 - wc_grace_period config \<longrightarrow> late e"
  obtains d' calls where "decide_message config rt queue env clk m d q = (Inr (ACKNOWLEDGE, 0, False), d', q, calls)"
    "delivers t late {i} d d' calls"
proof -
  have args: "1 \<le> wc_max_receive_count config" "0 \<le> wc_grace_period config" "\<not> wc_allow_real config"
    using config by (simp_all add: demo_config_def)
  note decide = decide_delivery [OF limit id m(1), of config queue env clk d q]
  show thesis
  proof (cases "awaiting t i d")
    case True
    obtain d' calls where run: "process_queued_delivery i (rm_receive_count m) (wc_max_receive_count config) env None
        (wc_grace_period config) False clk d = (Inr ACKNOWLEDGE, d', calls)"
      "wf_db d'" "only_event i d d'" "real_sends calls = []"
      "missed i d' \<and> demo_sends calls = [] \<and>
         (\<exists>e. get_event i d = Some e \<and> ev_scheduled_for e < clk 0 - wc_grace_period config) \<or>
       delivered i d' \<and> length (demo_sends calls) = 1"
      by (rule awaiting_processed [where clk = clk and grace = "wc_grace_period config",
          OF wf True t env m(2) args(1,2) range])
    have one: "{j \<in> {i}. awaiting t j d \<and> delivered j d'} = (if delivered i d' then {i} else {})"
      using True by auto
    have "delivers t late {i} d d' calls"
      unfolding delivers_def one
      using run(2-5) True states_exclusive states_frame [OF run(3)] late by (auto; metis)
    with decide run(1) args(3) show thesis by (intro that) auto
  next
    case False
    with state have ended: "delivered i d \<or> missed i d" by simp
    have "delivers t late {i} d d []" using False wf ended by (auto simp: delivers_def)
    with finished_acknowledged [OF wf ended m(2) args(1,2)] decide show thesis by (intro that) auto
  qed
qed

text \<open>The loop over the messages.\<close>

lemma deliveries_finish:
  assumes "wf_db d" and config: "demo_config config" and limit: "0 < jr_limit rt"
    and ids: "\<forall>i \<in> set ids. 0 < i \<and> i < 2 ^ 63" and "carries ids ms"
    and "\<forall>i \<in> set ids. awaiting t i d \<or> delivered i d \<or> missed i d"
    and "\<forall>n. answers (envs n) \<and> t \<le> clks n 0 \<and> in_datetime_range (clks n 0 - wc_grace_period config)"
    and "\<forall>n e. ev_scheduled_for e < clks n 0 - wc_grace_period config \<longrightarrow> late e"
  shows "\<exists>c d' calls. process_messages config rt recording_queue envs clks ms counts d q =
      (Inr c, d', q @ map Deleted ms, calls) \<and>
    qb_acknowledged_count c = qb_acknowledged_count counts + length ms \<and> delivers t late (set ids) d d' calls"
  using assms(1) ids assms(5-8)
proof (induction ids arbitrary: ms envs clks counts d q)
  case Nil
  then show ?case by (simp add: carries_def delivers_none)
next
  case (Cons i ids)
  obtain m ms' where ms: "ms = m # ms'" and m: "rm_body m = envelope_to_json (delivery_envelope i)" "1 \<le> rm_receive_count m"
    and rest: "carries ids ms'"
    using Cons.prems(3) by (auto simp: carries_def list_all2_Cons1)
  obtain d1 cs1 where dec: "decide_message config rt recording_queue (envs 0) (clks 0) m d q =
      (Inr (ACKNOWLEDGE, 0, False), d1, q, cs1)" and one: "delivers t late {i} d d1 cs1"
    by (rule decide_once [where late = late and clk = "clks 0" and env = "envs 0" and q = q and t = t and queue = recording_queue,
        OF Cons.prems(1) config limit _ _ m]) (use Cons.prems(2,4,5,6) in auto)
  have d1: "wf_db d1" "delivered i d1 \<or> missed i d1" using one by (auto simp: delivers_def)
  have states: "\<forall>j \<in> set ids. awaiting t j d1 \<or> delivered j d1 \<or> missed j d1"
  proof
    fix j assume "j \<in> set ids"
    with Cons.prems(4) states_frame [OF delivers_frame [OF one], where i = j] d1(2)
    show "awaiting t j d1 \<or> delivered j d1 \<or> missed j d1" by (cases "j = i") auto
  qed
  let ?counts = "counts\<lparr>qb_acknowledged_count := qb_acknowledged_count counts + 1,
      qb_retry_count := qb_retry_count counts, qb_published_count := qb_published_count counts,
      qb_malformed_count := qb_malformed_count counts\<rparr>"
  obtain c d2 cs2 where run: "process_messages config rt recording_queue (\<lambda>n. envs (n + 1)) (\<lambda>n. clks (n + 1)) ms'
      ?counts d1 (q @ [Deleted m]) = (Inr c, d2, (q @ [Deleted m]) @ map Deleted ms', cs2)"
    and c: "qb_acknowledged_count c = qb_acknowledged_count ?counts + length ms'" and d2: "delivers t late (set ids) d1 d2 cs2"
    using Cons.IH [OF d1(1) _ rest states, of "\<lambda>n. envs (n + 1)" "\<lambda>n. clks (n + 1)" ?counts "q @ [Deleted m]"]
      Cons.prems(2,5,6) by auto
  have "process_messages config rt recording_queue envs clks ms counts d q =
      (Inr c, d2, q @ map Deleted ms, cs1 @ cs2)"
    using dec run by (simp add: ms settle_message_def recording_queue_def)
  with c delivers_then [OF one d2] show ?case by (simp add: ms)
qed

section \<open>The queue path from end to end\<close>

text \<open>C6. A tick delivers what is due, each event once. Let a worker that is configured for demo events process a
  dispatcher tick and then messages for exactly the events it published, in any order and each any positive
  number of times, with a weather provider that answers and clocks that do not run back. The tick changes
  no row, publishes the oldest due demo events and is acknowledged; afterwards every message is
  acknowledged, every published event is suppressed with one suppressed attempt or recorded as missed, the
  latter only when its time was more than the grace period before the clock of some message, exactly one demo
  message is sent per suppressed event and no real one, and every other event is as it was.\<close>

theorem tick_delivers_due_events:
  assumes "wf_db d" and "next_id (db_events d) \<le> 2 ^ 63" and "demo_config config" and "0 < jr_limit rt"
    and "ids = due_event_ids (clk 0) (wc_batch_size config) False d"
    and "rm_body tick = envelope_to_json dispatch_tick"
    and "carries js ms" and "set js = set ids"
    and "\<forall>n. answers (envs n) \<and> clk 0 \<le> clks n 0 \<and> in_datetime_range (clks n 0 - wc_grace_period config)"
  shows "\<exists>c1 c2 d' calls.
    process_queue_batch config rt recording_queue tick_envs (\<lambda>_. clk) [tick] d [] =
      (Inr c1, d, map (\<lambda>i. Published (delivery_envelope i)) ids @ [Deleted tick], []) \<and>
    process_queue_batch config rt recording_queue envs clks ms d [] = (Inr c2, d', map Deleted ms, calls) \<and>
    qb_acknowledged_count c1 = 1 \<and> qb_published_count c1 = length ids \<and>
    qb_acknowledged_count c2 = length ms \<and> wf_db d' \<and> only_events (set ids) d d' \<and>
    (\<forall>i \<in> set ids. delivered i d' \<or> missed i d') \<and>
    (\<forall>i \<in> set ids. missed i d' \<longrightarrow>
       (\<exists>e n. get_event i d = Some e \<and> ev_scheduled_for e < clks n 0 - wc_grace_period config)) \<and>
    length (demo_sends calls) = card {i \<in> set ids. delivered i d'} \<and> real_sends calls = []"
proof -
  have due: "\<exists>e. get_event i d = Some e \<and> due_candidate (clk 0) False e \<and> 0 < i \<and> i < 2 ^ 63"
    if i: "i \<in> set ids" for i
  proof -
    obtain e where e: "get_event i d = Some e" "due_candidate (clk 0) False e" "0 < i"
      using due_event_ids_mem [OF assms(1) i [unfolded assms(5)]] by blast
    have "i < next_id (db_events d)"
      using assms(1) get_event_member [OF e(1)] events.get_key [OF e(1)] by (auto simp: wf_db_def wf_table_def)
    with e assms(2) show ?thesis by auto
  qed
  have range: "\<forall>i \<in> set js. 0 < i \<and> i < 2 ^ 63" using due assms(8) by blast
  have wait: "awaiting (clk 0) i d" if "i \<in> set ids" for i
    using due [OF that] by (auto simp: awaiting_def due_candidate_def)
  have args: "1 \<le> wc_max_receive_count config" "1 \<le> wc_retry_base_seconds config"
    "wc_retry_base_seconds config \<le> wc_retry_max_seconds config" "wc_retry_max_seconds config \<le> 43200"
    using assms(3) by (simp_all add: demo_config_def)
  obtain c1 where tick: "process_queue_batch config rt recording_queue tick_envs (\<lambda>_. clk) [tick] d [] =
      (Inr c1, d, map (\<lambda>i. Published (delivery_envelope i)) ids @ [Deleted tick], [])"
    "qb_acknowledged_count c1 = 1" "qb_published_count c1 = length ids"
    using decide_tick [OF assms(1,3,4,6), of "tick_envs 0" clk "[]"] assms(5) args
    by (simp add: process_queue_batch_def settle_message_def Let_def recording_queue_def)
  have states: "\<forall>i \<in> set js. awaiting (clk 0) i d \<or> delivered i d \<or> missed i d"
    using wait assms(8) by blast
  let ?late = "\<lambda>e. \<exists>n. ev_scheduled_for e < clks n 0 - wc_grace_period config"
  have late: "\<forall>n e. ev_scheduled_for e < clks n 0 - wc_grace_period config \<longrightarrow> ?late e" by blast
  obtain c2 d' calls where run: "process_queue_batch config rt recording_queue envs clks ms d [] =
      (Inr c2, d', map Deleted ms, calls)" "qb_acknowledged_count c2 = length ms"
    and delivers: "delivers (clk 0) ?late (set ids) d d' calls"
    using deliveries_finish [where t = "clk 0" and clks = clks and envs = envs and q = "[]" and late = ?late,
        OF assms(1,3,4) range assms(7) states assms(9) late, of
        "\<lparr>qb_received_count = length ms, qb_acknowledged_count = 0, qb_retry_count = 0,
          qb_published_count = 0, qb_malformed_count = 0\<rparr>"] assms(8) args
    by (auto simp: process_queue_batch_def)
  have "{i \<in> set ids. awaiting (clk 0) i d \<and> delivered i d'} = {i \<in> set ids. delivered i d'}"
    using wait by auto
  with delivers have "wf_db d'" "only_events (set ids) d d'" "\<forall>i \<in> set ids. delivered i d' \<or> missed i d'"
      "real_sends calls = []" "length (demo_sends calls) = card {i \<in> set ids. delivered i d'}"
    and "\<forall>i \<in> set ids. missed i d' \<longrightarrow> (\<exists>e. get_event i d = Some e \<and> ?late e)"
    using wait states_exclusive unfolding delivers_def by (simp_all, blast)
  with run tick show ?thesis by blast
qed

text \<open>A message received twice delivers the sample's demo event once.\<close>

definition sample_message :: "queue_envelope \<Rightarrow> int \<Rightarrow> received_queue_message" where
  "sample_message e n = \<lparr>rm_body = envelope_to_json e, rm_receipt_handle = ''r'', rm_receive_count = n, rm_message_id = None\<rparr>"

definition sunny_env :: delivery_env where
  "sunny_env = \<lparr>env_weather = (\<lambda>_. fake_get_current_weather 0 ''94107''), env_message_sender = None,
     env_demo_sender = None\<rparr>"

lemma tick_delivers_due_events_witness:
  "\<exists>c d' calls. process_queue_batch sample_config \<lparr>jr_limit = 100, jr_floats = sample_floats\<rparr> recording_queue
      (\<lambda>_. sunny_env) (\<lambda>_ _. seconds 1600)
      [sample_message (delivery_envelope 1) 1, sample_message (delivery_envelope 1) 2] sample_db [] =
    (Inr c, d', map Deleted [sample_message (delivery_envelope 1) 1, sample_message (delivery_envelope 1) 2], calls) \<and>
    delivered 1 d' \<and> length (demo_sends calls) = 1"
proof -
  let ?rt = "\<lparr>jr_limit = 100, jr_floats = sample_floats\<rparr>"
  let ?ms = "[sample_message (delivery_envelope 1) 1, sample_message (delivery_envelope 1) 2]"
  have ids: "due_event_ids (seconds 1500) (wc_batch_size sample_config) False sample_db = [1]" by code_simp
  have "text_storable ''ZIP 94107'' \<and> text_storable ''clear skies'' \<and> text_storable (isoformat_utc 0)" by code_simp
  then have env: "answers sunny_env"
    by (simp add: answers_def sunny_env_def fake_get_current_weather_def as_snapshot_def storable_def)
  have carried: "carries [1, 1] ?ms" by (simp add: carries_def sample_message_def)
  have config: "demo_config sample_config" "next_id (db_events sample_db) \<le> 2 ^ 63" "0 < jr_limit ?rt"
    "rm_body (sample_message dispatch_tick 1) = envelope_to_json dispatch_tick" "set [1 :: int, 1] = set [1]"
    by (simp_all add: demo_config_def sample_config_def sample_defs sample_message_def)
  have clks: "\<forall>n. answers sunny_env \<and> seconds 1500 \<le> seconds 1600 \<and>
      in_datetime_range (seconds 1600 - wc_grace_period sample_config)"
    using env by (simp add: sample_config_def in_datetime_range_def MAX_DATETIME_def)
  obtain c d' calls where run: "process_queue_batch sample_config ?rt recording_queue (\<lambda>_. sunny_env)
      (\<lambda>_ _. seconds 1600) ?ms sample_db [] = (Inr c, d', map Deleted ?ms, calls)"
    and "delivered 1 d' \<or> missed 1 d'"
    and late: "missed 1 d' \<longrightarrow> (\<exists>e. get_event 1 sample_db = Some e \<and>
      ev_scheduled_for e < seconds 1600 - wc_grace_period sample_config)"
    and sends: "length (demo_sends calls) = card {i \<in> set [1]. delivered i d'}"
    using tick_delivers_due_events [where clk = "\<lambda>_. seconds 1500" and clks = "\<lambda>_ _. seconds 1600"
        and envs = "\<lambda>_. sunny_env" and tick_envs = "\<lambda>_. sunny_env" and js = "[1, 1]", OF wf_sample_db config(2,1,3) ids [symmetric] config(4)
        carried config(5) clks] by auto
  then have done': "delivered 1 d'"
    by (auto simp: sample_events) (simp add: sample_demo_def sample_config_def)
  then have "{i \<in> set [1 :: int]. delivered i d'} = {1}" by auto
  with sends have "length (demo_sends calls) = 1" by simp
  with run done' show ?thesis by blast
qed

end
