(* ===== verification/Choices.thy ===== *)
theory Choices
  imports Delivery_Model
begin

text \<open>
  Django's \<open>TextChoices\<close>: an enumeration whose members have distinct texts, which is what a column stores. The
  program's enumerations are instances of the library's class \<open>enum\<close>, and the locale \<open>text_choices\<close> is the
  contract between a member and its text, interpreted on each of them.
\<close>

section \<open>The enumerations\<close>

instantiation channel :: enum
begin

definition enum_channel :: "channel list" where
  "enum_channel =
     [SMS, VOICE]"

definition enum_all_channel :: "(channel \<Rightarrow> bool) \<Rightarrow> bool" where
  "enum_all_channel p = list_all p (enum_class.enum :: channel list)"

definition enum_ex_channel :: "(channel \<Rightarrow> bool) \<Rightarrow> bool" where
  "enum_ex_channel p = list_ex p (enum_class.enum :: channel list)"

instance
proof
  show all: "(UNIV :: channel set) = set enum_class.enum"
    by (auto simp: enum_channel_def intro: channel.exhaust)
  show "distinct (enum_class.enum :: channel list)" by (simp add: enum_channel_def)
  show "enum_class.enum_all p = Ball UNIV p" for p :: "channel \<Rightarrow> bool"
    unfolding all enum_all_channel_def list_all_iff ..
  show "enum_class.enum_ex p = Bex UNIV p" for p :: "channel \<Rightarrow> bool"
    unfolding all enum_ex_channel_def list_ex_iff ..
qed

end

instantiation event_status :: enum
begin

definition enum_event_status :: "event_status list" where
  "enum_event_status =
     [E_SCHEDULED, E_PROCESSING, E_SUBMITTED, E_FAILED,
     E_SUPPRESSED, E_CANCELLED]"

definition enum_all_event_status :: "(event_status \<Rightarrow> bool) \<Rightarrow> bool" where
  "enum_all_event_status p = list_all p (enum_class.enum :: event_status list)"

definition enum_ex_event_status :: "(event_status \<Rightarrow> bool) \<Rightarrow> bool" where
  "enum_ex_event_status p = list_ex p (enum_class.enum :: event_status list)"

instance
proof
  show all: "(UNIV :: event_status set) = set enum_class.enum"
    by (auto simp: enum_event_status_def intro: event_status.exhaust)
  show "distinct (enum_class.enum :: event_status list)" by (simp add: enum_event_status_def)
  show "enum_class.enum_all p = Ball UNIV p" for p :: "event_status \<Rightarrow> bool"
    unfolding all enum_all_event_status_def list_all_iff ..
  show "enum_class.enum_ex p = Bex UNIV p" for p :: "event_status \<Rightarrow> bool"
    unfolding all enum_ex_event_status_def list_ex_iff ..
qed

end

instantiation attempt_status :: enum
begin

definition enum_attempt_status :: "attempt_status list" where
  "enum_attempt_status =
     [A_PROCESSING, A_SUBMITTED, A_FAILED, A_SUPPRESSED]"

definition enum_all_attempt_status :: "(attempt_status \<Rightarrow> bool) \<Rightarrow> bool" where
  "enum_all_attempt_status p = list_all p (enum_class.enum :: attempt_status list)"

definition enum_ex_attempt_status :: "(attempt_status \<Rightarrow> bool) \<Rightarrow> bool" where
  "enum_ex_attempt_status p = list_ex p (enum_class.enum :: attempt_status list)"

instance
proof
  show all: "(UNIV :: attempt_status set) = set enum_class.enum"
    by (auto simp: enum_attempt_status_def intro: attempt_status.exhaust)
  show "distinct (enum_class.enum :: attempt_status list)" by (simp add: enum_attempt_status_def)
  show "enum_class.enum_all p = Ball UNIV p" for p :: "attempt_status \<Rightarrow> bool"
    unfolding all enum_all_attempt_status_def list_all_iff ..
  show "enum_class.enum_ex p = Bex UNIV p" for p :: "attempt_status \<Rightarrow> bool"
    unfolding all enum_ex_attempt_status_def list_ex_iff ..
qed

end

instantiation provider_status :: enum
begin

definition enum_provider_status :: "provider_status list" where
  "enum_provider_status =
     [P_QUEUED, P_INITIATED, P_RINGING, P_IN_PROGRESS, P_COMPLETED,
     P_BUSY, P_NO_ANSWER, P_FAILED, P_CANCELED]"

definition enum_all_provider_status :: "(provider_status \<Rightarrow> bool) \<Rightarrow> bool" where
  "enum_all_provider_status p = list_all p (enum_class.enum :: provider_status list)"

definition enum_ex_provider_status :: "(provider_status \<Rightarrow> bool) \<Rightarrow> bool" where
  "enum_ex_provider_status p = list_ex p (enum_class.enum :: provider_status list)"

instance
proof
  show all: "(UNIV :: provider_status set) = set enum_class.enum"
    by (auto simp: enum_provider_status_def intro: provider_status.exhaust)
  show "distinct (enum_class.enum :: provider_status list)" by (simp add: enum_provider_status_def)
  show "enum_class.enum_all p = Ball UNIV p" for p :: "provider_status \<Rightarrow> bool"
    unfolding all enum_all_provider_status_def list_all_iff ..
  show "enum_class.enum_ex p = Bex UNIV p" for p :: "provider_status \<Rightarrow> bool"
    unfolding all enum_ex_provider_status_def list_ex_iff ..
qed

end

instantiation voice_action_result :: enum
begin

definition enum_voice_action_result :: "voice_action_result list" where
  "enum_voice_action_result =
     [V_CANCELLED, V_SWITCHED_TO_SMS, V_NO_PENDING_EVENT]"

definition enum_all_voice_action_result :: "(voice_action_result \<Rightarrow> bool) \<Rightarrow> bool" where
  "enum_all_voice_action_result p = list_all p (enum_class.enum :: voice_action_result list)"

definition enum_ex_voice_action_result :: "(voice_action_result \<Rightarrow> bool) \<Rightarrow> bool" where
  "enum_ex_voice_action_result p = list_ex p (enum_class.enum :: voice_action_result list)"

instance
proof
  show all: "(UNIV :: voice_action_result set) = set enum_class.enum"
    by (auto simp: enum_voice_action_result_def intro: voice_action_result.exhaust)
  show "distinct (enum_class.enum :: voice_action_result list)" by (simp add: enum_voice_action_result_def)
  show "enum_class.enum_all p = Ball UNIV p" for p :: "voice_action_result \<Rightarrow> bool"
    unfolding all enum_all_voice_action_result_def list_all_iff ..
  show "enum_class.enum_ex p = Bex UNIV p" for p :: "voice_action_result \<Rightarrow> bool"
    unfolding all enum_ex_voice_action_result_def list_ex_iff ..
qed

end

instantiation sms_command :: enum
begin

definition enum_sms_command :: "sms_command list" where
  "enum_sms_command =
     [C_STOP, C_SMS, C_TIME, C_INVALID]"

definition enum_all_sms_command :: "(sms_command \<Rightarrow> bool) \<Rightarrow> bool" where
  "enum_all_sms_command p = list_all p (enum_class.enum :: sms_command list)"

definition enum_ex_sms_command :: "(sms_command \<Rightarrow> bool) \<Rightarrow> bool" where
  "enum_ex_sms_command p = list_ex p (enum_class.enum :: sms_command list)"

instance
proof
  show all: "(UNIV :: sms_command set) = set enum_class.enum"
    by (auto simp: enum_sms_command_def intro: sms_command.exhaust)
  show "distinct (enum_class.enum :: sms_command list)" by (simp add: enum_sms_command_def)
  show "enum_class.enum_all p = Ball UNIV p" for p :: "sms_command \<Rightarrow> bool"
    unfolding all enum_all_sms_command_def list_all_iff ..
  show "enum_class.enum_ex p = Bex UNIV p" for p :: "sms_command \<Rightarrow> bool"
    unfolding all enum_ex_sms_command_def list_ex_iff ..
qed

end

instantiation sms_result :: enum
begin

definition enum_sms_result :: "sms_result list" where
  "enum_sms_result =
     [R_CANCELLED, R_SWITCHED_TO_SMS, R_RESCHEDULED, R_NO_PENDING_EVENT, R_UNKNOWN_SENDER,
     R_INVALID_COMMAND, R_INVALID_TIME, R_LIFECYCLE_CONFLICT]"

definition enum_all_sms_result :: "(sms_result \<Rightarrow> bool) \<Rightarrow> bool" where
  "enum_all_sms_result p = list_all p (enum_class.enum :: sms_result list)"

definition enum_ex_sms_result :: "(sms_result \<Rightarrow> bool) \<Rightarrow> bool" where
  "enum_ex_sms_result p = list_ex p (enum_class.enum :: sms_result list)"

instance
proof
  show all: "(UNIV :: sms_result set) = set enum_class.enum"
    by (auto simp: enum_sms_result_def intro: sms_result.exhaust)
  show "distinct (enum_class.enum :: sms_result list)" by (simp add: enum_sms_result_def)
  show "enum_class.enum_all p = Ball UNIV p" for p :: "sms_result \<Rightarrow> bool"
    unfolding all enum_all_sms_result_def list_all_iff ..
  show "enum_class.enum_ex p = Bex UNIV p" for p :: "sms_result \<Rightarrow> bool"
    unfolding all enum_ex_sms_result_def list_ex_iff ..
qed

end

section \<open>Their texts\<close>

fun voice_action_result_value :: "voice_action_result \<Rightarrow> string" where
  "voice_action_result_value V_CANCELLED = ''cancelled''"
| "voice_action_result_value V_SWITCHED_TO_SMS = ''switched_to_sms''"
| "voice_action_result_value V_NO_PENDING_EVENT = ''no_pending_event''"

fun sms_command_value :: "sms_command \<Rightarrow> string" where
  "sms_command_value C_STOP = ''stop''"
| "sms_command_value C_SMS = ''sms''"
| "sms_command_value C_TIME = ''time''"
| "sms_command_value C_INVALID = ''invalid''"

fun sms_result_value :: "sms_result \<Rightarrow> string" where
  "sms_result_value R_CANCELLED = ''cancelled''"
| "sms_result_value R_SWITCHED_TO_SMS = ''switched_to_sms''"
| "sms_result_value R_RESCHEDULED = ''rescheduled''"
| "sms_result_value R_NO_PENDING_EVENT = ''no_pending_event''"
| "sms_result_value R_UNKNOWN_SENDER = ''unknown_sender''"
| "sms_result_value R_INVALID_COMMAND = ''invalid_command''"
| "sms_result_value R_INVALID_TIME = ''invalid_time''"
| "sms_result_value R_LIFECYCLE_CONFLICT = ''lifecycle_conflict''"

text \<open>\<open>Choices.values\<close>, and the member a stored text names.\<close>

definition choice_values :: "('a::enum \<Rightarrow> string) \<Rightarrow> string list" where
  "choice_values text_of = map text_of enum_class.enum"

definition choice_of :: "('a::enum \<Rightarrow> string) \<Rightarrow> string \<Rightarrow> 'a option" where
  "choice_of text_of s = find (\<lambda>c. text_of c = s) enum_class.enum"

locale text_choices =
  fixes text_of :: "'a::enum \<Rightarrow> string"
  assumes distinct_values: "distinct (choice_values text_of)"
begin

lemma text_eq_iff [simp]: "text_of a = text_of b \<longleftrightarrow> a = b"
  using distinct_values by (auto simp: choice_values_def distinct_map inj_on_def enum_UNIV)

lemma choice_of_Some_iff: "choice_of text_of s = Some c \<longleftrightarrow> s = text_of c"
proof
  assume "choice_of text_of s = Some c"
  then show "s = text_of c" by (auto simp: choice_of_def find_Some_iff)
next
  assume s: "s = text_of c"
  have "find (\<lambda>c. text_of c = s) enum_class.enum \<noteq> None"
    using s by (auto simp: find_None_iff enum_UNIV)
  then obtain b where b: "find (\<lambda>c. text_of c = s) enum_class.enum = Some b" by blast
  then have "text_of b = s" by (auto simp: find_Some_iff)
  with b s show "choice_of text_of s = Some c" by (simp add: choice_of_def)
qed

lemma choice_of_None_iff: "choice_of text_of s = None \<longleftrightarrow> s \<notin> set (choice_values text_of)"
  by (auto simp: choice_of_def choice_values_def find_None_iff)

end

interpretation channels: text_choices channel_value
  by unfold_locales code_simp

interpretation event_statuses: text_choices event_status_value
  by unfold_locales code_simp

interpretation attempt_statuses: text_choices attempt_status_value
  by unfold_locales code_simp

interpretation provider_choices: text_choices provider_status_value
  by unfold_locales code_simp

interpretation voice_results: text_choices voice_action_result_value
  by unfold_locales code_simp

interpretation sms_commands: text_choices sms_command_value
  by unfold_locales code_simp

interpretation sms_results: text_choices sms_result_value
  by unfold_locales code_simp

text \<open>The two conversions the models use are the general one.\<close>

lemma channel_of_choice: "channel_of s = choice_of channel_value s"
  by (auto simp: channel_of_def choice_of_def enum_channel_def)

lemma provider_status_of_choice: "provider_status_of s = choice_of provider_status_value s"
  by (simp add: provider_status_of_def choice_of_def provider_statuses_def enum_provider_status_def)

lemma channel_of_iff: "channel_of s = Some c \<longleftrightarrow> s = channel_value c"
  unfolding channel_of_choice by (rule channels.choice_of_Some_iff)

lemma provider_status_of_iff: "provider_status_of s = Some p \<longleftrightarrow> s = provider_status_value p"
  unfolding provider_status_of_choice by (rule provider_choices.choice_of_Some_iff)

end
