(* ===== verification/Schema.thy ===== *)
theory Schema
  imports Choices "HOL-Library.AList" "HOL-Library.Multiset"
begin

text \<open>
  The tables: what the three \<open>models.py\<close> declare, what the migrations create step by step, and the agreement of
  the two. Of a field the model keeps what its column depends on (type, width, null, uniqueness, reference) and
  the choices and default; validators, verbose names, related names and the names of indexes are left out. The
  fields of \<open>User\<close> are Django's \<open>AbstractUser\<close>, so only its migration states them here; the tables of Django's
  \<open>auth\<close> application that it refers to, and that application's own migration, are given.
\<close>

section \<open>Fields and tables\<close>

datatype on_delete = Cascade | Protect

datatype column_type =
    Big_Auto
  | Char_Field nat
  | Text_Field
  | Json_Field
  | Date_Time
  | Boolean
  | Positive_Small_Integer
  | Positive_Integer
  | Positive_Big_Integer
  | Email_Field nat
  | Foreign_Key string on_delete
  | Many_To_Many string

datatype field_default =
    No_Default
  | Default_Text string
  | Default_True
  | Default_False
  | Default_Empty
  | Default_Now
  | Set_On_Creation
  | Set_On_Save

record field =
  fd_name :: string
  fd_type :: column_type
  fd_null :: bool
  fd_blank :: bool
  fd_unique :: bool
  fd_choices :: "string list"
  fd_default :: field_default

definition plain :: "string \<Rightarrow> column_type \<Rightarrow> field" where
  "plain name type = \<lparr>fd_name = name, fd_type = type, fd_null = False, fd_blank = False, fd_unique = False,
     fd_choices = [], fd_default = No_Default\<rparr>"

definition optional :: "string \<Rightarrow> column_type \<Rightarrow> field" where
  "optional name type = (plain name type)\<lparr>fd_null := True, fd_blank := True\<rparr>"

definition blank :: "string \<Rightarrow> column_type \<Rightarrow> field" where
  "blank name type = (plain name type)\<lparr>fd_blank := True\<rparr>"

record model_state =
  ms_fields :: "field list"
  ms_ordering :: "string list"
  ms_indexes :: "string list list"
  ms_unique :: "(string \<times> string list) list"

type_synonym schema = "(string \<times> model_state) list"

section \<open>The models\<close>

text \<open>\<open>DEFAULT_AUTO_FIELD\<close>.\<close>

definition id_field :: field where
  "id_field = plain ''id'' Big_Auto"

definition phone_number_model :: model_state where
  "phone_number_model = \<lparr>
     ms_fields = [id_field, plain ''user'' (Foreign_Key ''accounts.user'' Cascade),
       (plain ''number'' (Char_Field 16))\<lparr>fd_unique := True\<rparr>, optional ''verified_at'' Date_Time,
       (plain ''created_at'' Date_Time)\<lparr>fd_default := Set_On_Creation\<rparr>,
       (plain ''updated_at'' Date_Time)\<lparr>fd_default := Set_On_Save\<rparr>],
     ms_ordering = [''number''], ms_indexes = [], ms_unique = []\<rparr>"

definition scheduled_event_model :: model_state where
  "scheduled_event_model = \<lparr>
     ms_fields = [id_field, plain ''user'' (Foreign_Key ''accounts.user'' Cascade),
       plain ''phone_number'' (Foreign_Key ''accounts.phonenumber'' Protect), plain ''zip_code'' (Char_Field 5),
       plain ''scheduled_for'' Date_Time,
       (plain ''channel'' (Char_Field 10))\<lparr>fd_choices := choice_values channel_value\<rparr>,
       (plain ''status'' (Char_Field 12))\<lparr>fd_choices := choice_values event_status_value,
         fd_default := Default_Text (event_status_value E_SCHEDULED)\<rparr>,
       (plain ''is_demo'' Boolean)\<lparr>fd_default := Default_True\<rparr>,
       optional ''processing_started_at'' Date_Time, optional ''completed_at'' Date_Time,
       (plain ''created_at'' Date_Time)\<lparr>fd_default := Set_On_Creation\<rparr>,
       (plain ''updated_at'' Date_Time)\<lparr>fd_default := Set_On_Save\<rparr>],
     ms_ordering = [''scheduled_for''],
     ms_indexes = [[''status'', ''scheduled_for''], [''user'', ''scheduled_for'']], ms_unique = []\<rparr>"

definition delivery_attempt_model :: model_state where
  "delivery_attempt_model = \<lparr>
     ms_fields = [id_field, plain ''event'' (Foreign_Key ''scheduling.scheduledevent'' Cascade),
       plain ''attempt_number'' Positive_Small_Integer,
       (plain ''status'' (Char_Field 12))\<lparr>fd_choices := choice_values attempt_status_value,
         fd_default := Default_Text (attempt_status_value A_PROCESSING)\<rparr>,
       blank ''rendered_message'' Text_Field, (blank ''weather_snapshot'' Json_Field)\<lparr>fd_default := Default_Empty\<rparr>,
       (optional ''provider_sid'' (Char_Field 64))\<lparr>fd_unique := True\<rparr>,
       (blank ''provider_status'' (Char_Field 12))\<lparr>fd_choices := choice_values provider_status_value\<rparr>,
       optional ''provider_status_sequence'' Positive_Integer, optional ''provider_status_updated_at'' Date_Time,
       blank ''voice_action_digit'' (Char_Field 1),
       (blank ''voice_action_result'' (Char_Field 20))\<lparr>fd_choices := choice_values voice_action_result_value\<rparr>,
       optional ''voice_action_target_event_id'' Positive_Big_Integer,
       optional ''voice_action_completed_at'' Date_Time,
       blank ''error_code'' (Char_Field 64), blank ''error_message'' Text_Field,
       (plain ''started_at'' Date_Time)\<lparr>fd_default := Set_On_Creation\<rparr>, optional ''completed_at'' Date_Time],
     ms_ordering = [''event'', ''attempt_number''], ms_indexes = [],
     ms_unique = [(''unique_delivery_attempt_number'', [''event'', ''attempt_number''])]\<rparr>"

definition inbound_sms_command_model :: model_state where
  "inbound_sms_command_model = \<lparr>
     ms_fields = [id_field, (plain ''provider_sid'' (Char_Field 64))\<lparr>fd_unique := True\<rparr>,
       (plain ''command'' (Char_Field 12))\<lparr>fd_choices := choice_values sms_command_value\<rparr>,
       (plain ''result'' (Char_Field 24))\<lparr>fd_choices := choice_values sms_result_value\<rparr>,
       optional ''target_event_id'' Positive_Big_Integer,
       (plain ''completed_at'' Date_Time)\<lparr>fd_default := Default_Now\<rparr>],
     ms_ordering = [''-completed_at'', ''-id''], ms_indexes = [], ms_unique = []\<rparr>"

definition models_schema :: schema where
  "models_schema =
     [(''accounts.phonenumber'', phone_number_model), (''scheduling.scheduledevent'', scheduled_event_model),
      (''delivery.deliveryattempt'', delivery_attempt_model), (''delivery.inboundsmscommand'', inbound_sms_command_model)]"

section \<open>Migrations\<close>

datatype operation = Create_Model string model_state | Add_Field string field

record migration =
  mg_name :: string
  mg_dependencies :: "string list"
  mg_operations :: "operation list"

definition accounts_0001 :: migration where
  "accounts_0001 = \<lparr>mg_name = ''accounts.0001_initial'',
     mg_dependencies = [''auth.0012_alter_user_first_name_max_length''],
     mg_operations = [Create_Model ''accounts.user'' \<lparr>
       ms_fields = [plain ''id'' Big_Auto, plain ''password'' (Char_Field 128), optional ''last_login'' Date_Time,
         (plain ''is_superuser'' Boolean)\<lparr>fd_default := Default_False\<rparr>,
         (plain ''username'' (Char_Field 150))\<lparr>fd_unique := True\<rparr>,
         blank ''first_name'' (Char_Field 150), blank ''last_name'' (Char_Field 150),
         blank ''email'' (Email_Field 254),
         (plain ''is_staff'' Boolean)\<lparr>fd_default := Default_False\<rparr>,
         (plain ''is_active'' Boolean)\<lparr>fd_default := Default_True\<rparr>,
         (plain ''date_joined'' Date_Time)\<lparr>fd_default := Default_Now\<rparr>,
         blank ''groups'' (Many_To_Many ''auth.group''),
         blank ''user_permissions'' (Many_To_Many ''auth.permission'')],
       ms_ordering = [], ms_indexes = [], ms_unique = []\<rparr>]\<rparr>"

definition accounts_0002 :: migration where
  "accounts_0002 = \<lparr>mg_name = ''accounts.0002_phonenumber'', mg_dependencies = [''accounts.0001_initial''],
     mg_operations = [Create_Model ''accounts.phonenumber'' \<lparr>
       ms_fields = [plain ''id'' Big_Auto, (plain ''number'' (Char_Field 16))\<lparr>fd_unique := True\<rparr>,
         optional ''verified_at'' Date_Time, (plain ''created_at'' Date_Time)\<lparr>fd_default := Set_On_Creation\<rparr>,
         (plain ''updated_at'' Date_Time)\<lparr>fd_default := Set_On_Save\<rparr>,
         plain ''user'' (Foreign_Key ''accounts.user'' Cascade)],
       ms_ordering = [''number''], ms_indexes = [], ms_unique = []\<rparr>]\<rparr>"

definition scheduling_0001 :: migration where
  "scheduling_0001 = \<lparr>mg_name = ''scheduling.0001_initial'',
     mg_dependencies = [''accounts.0002_phonenumber'', ''accounts.0001_initial''],
     mg_operations = [Create_Model ''scheduling.scheduledevent'' \<lparr>
       ms_fields = [plain ''id'' Big_Auto, plain ''zip_code'' (Char_Field 5), plain ''scheduled_for'' Date_Time,
         (plain ''channel'' (Char_Field 10))\<lparr>fd_choices := [''sms'', ''voice'']\<rparr>,
         (plain ''status'' (Char_Field 12))\<lparr>fd_choices :=
           [''scheduled'', ''processing'', ''submitted'', ''failed'', ''suppressed'', ''cancelled''],
           fd_default := Default_Text ''scheduled''\<rparr>,
         (plain ''is_demo'' Boolean)\<lparr>fd_default := Default_True\<rparr>,
         optional ''processing_started_at'' Date_Time, optional ''completed_at'' Date_Time,
         (plain ''created_at'' Date_Time)\<lparr>fd_default := Set_On_Creation\<rparr>,
         (plain ''updated_at'' Date_Time)\<lparr>fd_default := Set_On_Save\<rparr>,
         plain ''phone_number'' (Foreign_Key ''accounts.phonenumber'' Protect),
         plain ''user'' (Foreign_Key ''accounts.user'' Cascade)],
       ms_ordering = [''scheduled_for''],
       ms_indexes = [[''status'', ''scheduled_for''], [''user'', ''scheduled_for'']], ms_unique = []\<rparr>]\<rparr>"

definition delivery_0001 :: migration where
  "delivery_0001 = \<lparr>mg_name = ''delivery.0001_initial'', mg_dependencies = [''scheduling.0001_initial''],
     mg_operations = [Create_Model ''delivery.deliveryattempt'' \<lparr>
       ms_fields = [plain ''id'' Big_Auto, plain ''attempt_number'' Positive_Small_Integer,
         (plain ''status'' (Char_Field 12))\<lparr>fd_choices := [''processing'', ''submitted'', ''failed'', ''suppressed''],
           fd_default := Default_Text ''processing''\<rparr>,
         blank ''rendered_message'' Text_Field, (blank ''weather_snapshot'' Json_Field)\<lparr>fd_default := Default_Empty\<rparr>,
         (optional ''provider_sid'' (Char_Field 64))\<lparr>fd_unique := True\<rparr>,
         blank ''error_code'' (Char_Field 64), blank ''error_message'' Text_Field,
         (plain ''started_at'' Date_Time)\<lparr>fd_default := Set_On_Creation\<rparr>, optional ''completed_at'' Date_Time,
         plain ''event'' (Foreign_Key ''scheduling.scheduledevent'' Cascade)],
       ms_ordering = [''event'', ''attempt_number''], ms_indexes = [],
       ms_unique = [(''unique_delivery_attempt_number'', [''event'', ''attempt_number''])]\<rparr>]\<rparr>"

definition delivery_0002 :: migration where
  "delivery_0002 = \<lparr>mg_name = ''delivery.0002_deliveryattempt_provider_status'',
     mg_dependencies = [''delivery.0001_initial''],
     mg_operations =
       [Add_Field ''delivery.deliveryattempt'' ((blank ''provider_status'' (Char_Field 12))\<lparr>fd_choices :=
          [''queued'', ''initiated'', ''ringing'', ''in_progress'', ''completed'', ''busy'', ''no_answer'', ''failed'',
           ''canceled'']\<rparr>),
        Add_Field ''delivery.deliveryattempt'' (optional ''provider_status_sequence'' Positive_Integer),
        Add_Field ''delivery.deliveryattempt'' (optional ''provider_status_updated_at'' Date_Time)]\<rparr>"

definition delivery_0003 :: migration where
  "delivery_0003 = \<lparr>mg_name = ''delivery.0003_deliveryattempt_voice_action_completed_at_and_more'',
     mg_dependencies = [''delivery.0002_deliveryattempt_provider_status''],
     mg_operations =
       [Add_Field ''delivery.deliveryattempt'' (optional ''voice_action_completed_at'' Date_Time),
        Add_Field ''delivery.deliveryattempt'' (blank ''voice_action_digit'' (Char_Field 1)),
        Add_Field ''delivery.deliveryattempt'' ((blank ''voice_action_result'' (Char_Field 20))\<lparr>fd_choices :=
          [''cancelled'', ''switched_to_sms'', ''no_pending_event'']\<rparr>),
        Add_Field ''delivery.deliveryattempt'' (optional ''voice_action_target_event_id'' Positive_Big_Integer)]\<rparr>"

definition delivery_0004 :: migration where
  "delivery_0004 = \<lparr>mg_name = ''delivery.0004_inboundsmscommand'',
     mg_dependencies = [''delivery.0003_deliveryattempt_voice_action_completed_at_and_more''],
     mg_operations = [Create_Model ''delivery.inboundsmscommand'' \<lparr>
       ms_fields = [plain ''id'' Big_Auto, (plain ''provider_sid'' (Char_Field 64))\<lparr>fd_unique := True\<rparr>,
         (plain ''command'' (Char_Field 12))\<lparr>fd_choices := [''stop'', ''sms'', ''time'', ''invalid'']\<rparr>,
         (plain ''result'' (Char_Field 24))\<lparr>fd_choices :=
           [''cancelled'', ''switched_to_sms'', ''rescheduled'', ''no_pending_event'', ''unknown_sender'',
            ''invalid_command'', ''invalid_time'', ''lifecycle_conflict'']\<rparr>,
         optional ''target_event_id'' Positive_Big_Integer,
         (plain ''completed_at'' Date_Time)\<lparr>fd_default := Default_Now\<rparr>],
       ms_ordering = [''-completed_at'', ''-id''], ms_indexes = [], ms_unique = []\<rparr>]\<rparr>"

definition migrations :: "migration list" where
  "migrations = [accounts_0001, accounts_0002, scheduling_0001, delivery_0001, delivery_0002, delivery_0003,
     delivery_0004]"

section \<open>Applying them\<close>

text \<open>
  What an operation does to the state of the tables. It fails where the database would: a table or column that
  already exists, a column for a missing table, a reference to a table that is not there yet.
\<close>

datatype schema_error = Table_Exists string | No_Table string | Column_Exists string string | No_Reference string

definition given_tables :: "string list" where
  "given_tables = [''auth.group'', ''auth.permission'']"

fun references :: "column_type \<Rightarrow> string option" where
  "references (Foreign_Key t _) = Some t"
| "references (Many_To_Many t) = Some t"
| "references _ = None"

definition check_fields :: "string list \<Rightarrow> field list \<Rightarrow> schema_error option" where
  "check_fields tables fs =
     (case find (\<lambda>t. t \<notin> set tables) (List.map_filter (\<lambda>f. references (fd_type f)) fs) of
        Some t \<Rightarrow> Some (No_Reference t) | None \<Rightarrow> None)"

fun apply_operation :: "operation \<Rightarrow> schema \<Rightarrow> schema_error + schema" where
  "apply_operation (Create_Model t m) sch =
     (if t \<in> set (map fst sch) then Inl (Table_Exists t)
      else case check_fields (t # map fst sch @ given_tables) (ms_fields m) of
        Some e \<Rightarrow> Inl e
      | None \<Rightarrow> Inr (sch @ [(t, m)]))"
| "apply_operation (Add_Field t f) sch =
     (case map_of sch t of
        None \<Rightarrow> Inl (No_Table t)
      | Some m \<Rightarrow>
          if fd_name f \<in> set (map fd_name (ms_fields m)) then Inl (Column_Exists t (fd_name f))
          else case check_fields (map fst sch @ given_tables) [f] of
            Some e \<Rightarrow> Inl e
          | None \<Rightarrow> Inr (AList.update t (m\<lparr>ms_fields := ms_fields m @ [f]\<rparr>) sch))"

fun apply_operations :: "operation list \<Rightarrow> schema \<Rightarrow> schema_error + schema" where
  "apply_operations [] sch = Inr sch"
| "apply_operations (o1 # os) sch =
     (case apply_operation o1 sch of Inl e \<Rightarrow> Inl e | Inr sch' \<Rightarrow> apply_operations os sch')"

definition migrate :: "migration list \<Rightarrow> schema_error + schema" where
  "migrate ms = apply_operations (concat (map mg_operations ms)) []"

text \<open>An order in which every migration comes after those it depends on.\<close>

fun dependency_order :: "string set \<Rightarrow> migration list \<Rightarrow> bool" where
  "dependency_order applied [] \<longleftrightarrow> True"
| "dependency_order applied (m # ms) \<longleftrightarrow>
     set (mg_dependencies m) \<subseteq> applied \<and> dependency_order (insert (mg_name m) applied) ms"

definition given_migrations :: "string set" where
  "given_migrations = {''auth.0012_alter_user_first_name_max_length''}"

text \<open>Tables agree when they have the same columns, in any order, and the same ordering, indexes and constraints.\<close>

definition same_table :: "model_state \<Rightarrow> model_state \<Rightarrow> bool" where
  "same_table a b \<longleftrightarrow>
     mset (ms_fields a) = mset (ms_fields b) \<and> ms_ordering a = ms_ordering b \<and>
     set (ms_indexes a) = set (ms_indexes b) \<and> set (ms_unique a) = set (ms_unique b)"

definition fits :: "field \<Rightarrow> bool" where
  "fits f \<longleftrightarrow>
     (case fd_type f of Char_Field n \<Rightarrow> \<forall>c \<in> set (fd_choices f). length c \<le> n | _ \<Rightarrow> fd_choices f = []) \<and>
     (case fd_default f of Default_Text s \<Rightarrow> s \<in> set (fd_choices f) | _ \<Rightarrow> True)"

section \<open>The migrations build the models\<close>

text \<open>Whether the dependencies leave one order: at every step only the next migration has its dependencies done.\<close>

fun only_order :: "string set \<Rightarrow> migration list \<Rightarrow> bool" where
  "only_order applied [] \<longleftrightarrow> True"
| "only_order applied (m # ms) \<longleftrightarrow>
     (\<forall>x \<in> set ms. \<not> set (mg_dependencies x) \<subseteq> applied) \<and> only_order (insert (mg_name m) applied) ms"

lemma only_order_unique:
  "only_order applied ms \<Longrightarrow> dependency_order applied ns \<Longrightarrow> mset ns = mset ms \<Longrightarrow> ns = ms"
proof (induction ms arbitrary: applied ns)
  case Nil
  then show ?case by simp
next
  case (Cons m ms)
  then obtain n ns' where ns: "ns = n # ns'" by (cases ns) auto
  with Cons.prems have "n \<in> set (m # ms)" and "set (mg_dependencies n) \<subseteq> applied"
    using mset_eq_setD[OF Cons.prems(3)] by auto
  with Cons.prems(1) have n: "n = m" by auto
  have "ns' = ms"
    by (rule Cons.IH[of "insert (mg_name m) applied"]) (use Cons.prems ns n in auto)
  with ns n show ?case by simp
qed

lemma migrations_only_order: "only_order given_migrations migrations"
  by (simp add: migrations_def accounts_0001_def accounts_0002_def scheduling_0001_def delivery_0001_def
      delivery_0002_def delivery_0003_def delivery_0004_def given_migrations_def)

text \<open>Applying the migrations builds the models. In whatever order that respects their dependencies the seven
  migrations are applied, none fails (no table or column is created twice, no reference is to a table still
  missing), and the tables that result are the user's and, column for column, those the four models declare, with
  their orderings, indexes and constraints; the members of every enumeration fit the column they are stored in, and
  every default is one of them.\<close>

theorem migrations_build_models:
  assumes "mset ms = mset migrations" and "dependency_order given_migrations ms"
  shows "\<exists>user built. migrate ms = Inr ((''accounts.user'', user) # built) \<and>
    list_all2 (\<lambda>a b. fst a = fst b \<and> same_table (snd a) (snd b)) built models_schema \<and>
    (\<forall>(t, m) \<in> set built. \<forall>f \<in> set (ms_fields m). fits f)"
proof -
  have "ms = migrations" using assms migrations_only_order by (blast intro: only_order_unique)
  moreover have "case migrate migrations of
      Inl e \<Rightarrow> False
    | Inr sch \<Rightarrow> fst (hd sch) = ''accounts.user'' \<and> sch \<noteq> [] \<and>
        list_all2 (\<lambda>a b. fst a = fst b \<and> same_table (snd a) (snd b)) (tl sch) models_schema \<and>
        (\<forall>(t, m) \<in> set (tl sch). \<forall>f \<in> set (ms_fields m). fits f)"
    by code_simp
  ultimately show ?thesis
    by (auto split: sum.splits simp: neq_Nil_conv)
qed

theorem migrations_build_models_witness:
  "\<exists>user built. migrate migrations = Inr ((''accounts.user'', user) # built) \<and>
    list_all2 (\<lambda>a b. fst a = fst b \<and> same_table (snd a) (snd b)) built models_schema \<and>
    (\<forall>(t, m) \<in> set built. \<forall>f \<in> set (ms_fields m). fits f)"
  by (rule migrations_build_models)
    (simp_all add: migrations_def accounts_0001_def accounts_0002_def scheduling_0001_def delivery_0001_def
      delivery_0002_def delivery_0003_def delivery_0004_def given_migrations_def)

end
