(* ===== verification/Administration.thy ===== *)
theory Administration
  imports Schema
begin

text \<open>
  The three \<open>admin.py\<close>: what each class shows, searches and leaves editable, checked against the tables of
  \<open>Schema\<close>. Which columns a change form has is the documented behaviour of Django's \<open>ModelAdmin\<close>: the editable ones
  that are not read-only. What Django's views do with a submitted form is not code of the program and not modelled.
\<close>

section \<open>The classes\<close>

record model_admin =
  list_display :: "string list"
  list_filter :: "string list"
  search_fields :: "string list"
  list_select_related :: "string list"
  readonly_fields :: "string list"
  admin_actions :: "string list"
  has_add_permission :: bool

definition phone_number_admin :: model_admin where
  "phone_number_admin = \<lparr>
     list_display = [''number'', ''user'', ''verified_at'', ''created_at''],
     list_filter = [''verified_at''],
     search_fields = [''number'', ''user__username'', ''user__email''],
     list_select_related = [''user''],
     readonly_fields = [''created_at'', ''updated_at''],
     admin_actions = [], has_add_permission = True\<rparr>"

definition scheduled_event_admin :: model_admin where
  "scheduled_event_admin = \<lparr>
     list_display = [''id'', ''user'', ''channel'', ''scheduled_for'', ''status'', ''is_demo''],
     list_filter = [''status'', ''channel'', ''is_demo''],
     search_fields = [''user__username'', ''phone_number__number'', ''zip_code''],
     list_select_related = [''user'', ''phone_number''],
     readonly_fields = [''status'', ''processing_started_at'', ''completed_at'', ''created_at'', ''updated_at''],
     admin_actions = [''cancel_selected_scheduled_events''], has_add_permission = True\<rparr>"

definition delivery_attempt_admin :: model_admin where
  "delivery_attempt_admin = \<lparr>
     list_display = [''id'', ''event'', ''attempt_number'', ''status'', ''provider_status'', ''provider_sid'',
       ''started_at''],
     list_filter = [''status'', ''provider_status''],
     search_fields = [''event__id'', ''provider_sid'', ''event__phone_number__number''],
     list_select_related = [''event'', ''event__phone_number''],
     readonly_fields = [''event'', ''attempt_number'', ''status'', ''rendered_message'', ''weather_snapshot'',
       ''provider_sid'', ''provider_status'', ''provider_status_sequence'', ''provider_status_updated_at'',
       ''voice_action_digit'', ''voice_action_result'', ''voice_action_target_event_id'',
       ''voice_action_completed_at'', ''error_code'', ''error_message'', ''started_at'', ''completed_at''],
     admin_actions = [], has_add_permission = False\<rparr>"

definition inbound_sms_command_admin :: model_admin where
  "inbound_sms_command_admin = \<lparr>
     list_display = [''id'', ''command'', ''result'', ''target_event_id'', ''completed_at''],
     list_filter = [''command'', ''result''],
     search_fields = [''provider_sid'', ''target_event_id''],
     list_select_related = [],
     readonly_fields = [''provider_sid'', ''command'', ''result'', ''target_event_id'', ''completed_at''],
     admin_actions = [], has_add_permission = False\<rparr>"

definition model_admins :: "(string \<times> model_admin) list" where
  "model_admins =
     [(''accounts.phonenumber'', phone_number_admin), (''scheduling.scheduledevent'', scheduled_event_admin),
      (''delivery.deliveryattempt'', delivery_attempt_admin), (''delivery.inboundsmscommand'', inbound_sms_command_admin)]"

section \<open>What the names refer to\<close>

text \<open>A lookup path is split at double underscores and followed through the references of the tables.\<close>

fun split_lookup :: "string \<Rightarrow> string \<Rightarrow> string list" where
  "split_lookup acc [] = [acc]"
| "split_lookup acc [c] = [acc @ [c]]"
| "split_lookup acc (c # c' # cs) =
     (if c = CHR ''_'' \<and> c' = CHR ''_'' then acc # split_lookup [] cs else split_lookup (acc @ [c]) (c' # cs))"

definition column :: "schema \<Rightarrow> string \<Rightarrow> string \<Rightarrow> field option" where
  "column sch table name =
     (case map_of sch table of None \<Rightarrow> None | Some m \<Rightarrow> find (\<lambda>f. fd_name f = name) (ms_fields m))"

fun lookup_type :: "schema \<Rightarrow> string \<Rightarrow> string list \<Rightarrow> column_type option" where
  "lookup_type sch table [] = None"
| "lookup_type sch table (name # names) =
     (case column sch table name of
        None \<Rightarrow> None
      | Some f \<Rightarrow>
          if names = [] then Some (fd_type f)
          else case fd_type f of Foreign_Key t _ \<Rightarrow> lookup_type sch t names | _ \<Rightarrow> None)"

definition admin_names :: "model_admin \<Rightarrow> string list" where
  "admin_names a = list_display a @ list_filter a @ search_fields a @ list_select_related a @ readonly_fields a"

definition is_reference :: "column_type option \<Rightarrow> bool" where
  "is_reference t \<longleftrightarrow> (case t of Some (Foreign_Key _ _) \<Rightarrow> True | _ \<Rightarrow> False)"

text \<open>Every name the classes use is a column of the migrated tables; what they join is a reference.\<close>

lemma admin_names_resolve:
  "case migrate migrations of
     Inl _ \<Rightarrow> False
   | Inr sch \<Rightarrow> \<forall>(table, a) \<in> set model_admins.
       (\<forall>n \<in> set (admin_names a). lookup_type sch table (split_lookup [] n) \<noteq> None) \<and>
       (\<forall>n \<in> set (list_select_related a). is_reference (lookup_type sch table (split_lookup [] n)))"
  by code_simp

text \<open>The columns of the change form.\<close>

definition form_columns :: "model_admin \<Rightarrow> model_state \<Rightarrow> string list" where
  "form_columns a m =
     map fd_name (filter (\<lambda>f. fd_type f \<noteq> Big_Auto \<and> fd_default f \<notin> {Set_On_Creation, Set_On_Save} \<and>
       fd_name f \<notin> set (readonly_fields a)) (ms_fields m))"

text \<open>
  An attempt and a recorded command cannot be added or changed by hand, and an event's status and the times that
  belong to it cannot be changed; the verification of a phone can.
\<close>

lemma admin_form_columns:
  "form_columns delivery_attempt_admin delivery_attempt_model = []"
  "form_columns inbound_sms_command_admin inbound_sms_command_model = []"
  "form_columns scheduled_event_admin scheduled_event_model =
     [''user'', ''phone_number'', ''zip_code'', ''scheduled_for'', ''channel'', ''is_demo'']"
  "form_columns phone_number_admin phone_number_model = [''user'', ''number'', ''verified_at'']"
  by code_simp+

end
