(* ===== verification/Site_Configuration.thy ===== *)
theory Site_Configuration
  imports Command_Properties Urls Schema
begin

text \<open>
  What \<open>config/settings/base.py\<close> says without reading the environment, the four \<open>apps.py\<close>, and the entry points
  \<open>manage.py\<close>, \<open>asgi.py\<close> and \<open>wsgi.py\<close>; and that these lists fit each other, the URLs and the tables.
\<close>

section \<open>Applications and middleware\<close>

record app_config =
  ac_default_auto_field :: string
  ac_name :: string
  ac_label :: string

definition accounts_config :: app_config where
  "accounts_config = \<lparr>ac_default_auto_field = ''django.db.models.BigAutoField'', ac_name = ''apps.accounts'',
     ac_label = ''accounts''\<rparr>"

definition scheduling_config :: app_config where
  "scheduling_config = \<lparr>ac_default_auto_field = ''django.db.models.BigAutoField'', ac_name = ''apps.scheduling'',
     ac_label = ''scheduling''\<rparr>"

definition delivery_config :: app_config where
  "delivery_config = \<lparr>ac_default_auto_field = ''django.db.models.BigAutoField'', ac_name = ''apps.delivery'',
     ac_label = ''delivery''\<rparr>"

definition weather_config :: app_config where
  "weather_config = \<lparr>ac_default_auto_field = ''django.db.models.BigAutoField'', ac_name = ''apps.weather'',
     ac_label = ''weather''\<rparr>"

definition INSTALLED_APPS :: "string list" where
  "INSTALLED_APPS = [''django.contrib.admin'', ''django.contrib.auth'', ''django.contrib.contenttypes'',
     ''django.contrib.sessions'', ''django.contrib.messages'', ''django.contrib.staticfiles'', ''corsheaders'',
     ''rest_framework'', ''apps.accounts.apps.AccountsConfig'', ''apps.scheduling.apps.SchedulingConfig'',
     ''apps.delivery.apps.DeliveryConfig'', ''apps.weather.apps.WeatherConfig'']"

definition MIDDLEWARE :: "string list" where
  "MIDDLEWARE = [''config.middleware.LoadBalancerHealthCheckMiddleware'',
     ''django.middleware.security.SecurityMiddleware'', ''whitenoise.middleware.WhiteNoiseMiddleware'',
     ''corsheaders.middleware.CorsMiddleware'', ''django.contrib.sessions.middleware.SessionMiddleware'',
     ''django.middleware.common.CommonMiddleware'', ''django.middleware.csrf.CsrfViewMiddleware'',
     ''django.contrib.auth.middleware.AuthenticationMiddleware'',
     ''django.contrib.messages.middleware.MessageMiddleware'',
     ''django.middleware.clickjacking.XFrameOptionsMiddleware'']"

definition AUTH_PASSWORD_VALIDATORS :: "string list" where
  "AUTH_PASSWORD_VALIDATORS =
     [''django.contrib.auth.password_validation.UserAttributeSimilarityValidator'',
      ''django.contrib.auth.password_validation.MinimumLengthValidator'',
      ''django.contrib.auth.password_validation.CommonPasswordValidator'',
      ''django.contrib.auth.password_validation.NumericPasswordValidator'']"

record template_engine =
  te_backend :: string
  te_dirs :: "string list"
  te_app_dirs :: bool
  te_context_processors :: "string list"

definition TEMPLATES :: "template_engine list" where
  "TEMPLATES = [\<lparr>te_backend = ''django.template.backends.django.DjangoTemplates'', te_dirs = [], te_app_dirs = True,
     te_context_processors = [''django.template.context_processors.request'',
       ''django.contrib.auth.context_processors.auth'', ''django.contrib.messages.context_processors.messages'']\<rparr>]"

definition AUTH_USER_MODEL :: string where
  "AUTH_USER_MODEL = ''accounts.User''"

definition LOGIN_URL :: string where
  "LOGIN_URL = ''login''"

definition LOGIN_REDIRECT_URL :: string where
  "LOGIN_REDIRECT_URL = ''scheduling_web:event-list''"

definition LOGOUT_REDIRECT_URL :: string where
  "LOGOUT_REDIRECT_URL = ''login''"

definition STORAGES :: "(string \<times> string) list" where
  "STORAGES = [(''default'', ''django.core.files.storage.FileSystemStorage''),
     (''staticfiles'', ''whitenoise.storage.CompressedManifestStaticFilesStorage'')]"

text \<open>Times are aware and shown in UTC, which the times of the model, instants, rely on.\<close>

record localisation =
  LANGUAGE_CODE :: string
  TIME_ZONE :: string
  USE_I18N :: bool
  USE_TZ :: bool

definition localisation_settings :: localisation where
  "localisation_settings = \<lparr>LANGUAGE_CODE = ''en-us'', TIME_ZONE = ''UTC'', USE_I18N = True, USE_TZ = True\<rparr>"

section \<open>The API framework\<close>

record rest_framework =
  DEFAULT_AUTHENTICATION_CLASSES :: "string list"
  DEFAULT_PERMISSION_CLASSES :: "string list"
  DEFAULT_PAGINATION_CLASS :: string
  DEFAULT_PAGE_SIZE :: int
  DEFAULT_THROTTLE_RATES :: "(string \<times> string) list"

definition REST_FRAMEWORK :: "settings \<Rightarrow> rest_framework" where
  "REST_FRAMEWORK s = \<lparr>
     DEFAULT_AUTHENTICATION_CLASSES = [''rest_framework.authentication.BasicAuthentication'',
       ''rest_framework.authentication.SessionAuthentication''],
     DEFAULT_PERMISSION_CLASSES = [''rest_framework.permissions.IsAuthenticated''],
     DEFAULT_PAGINATION_CLASS = ''rest_framework.pagination.PageNumberPagination'',
     DEFAULT_PAGE_SIZE = int PAGE_SIZE,
     DEFAULT_THROTTLE_RATES = [(''phone_verification_start'', fst (PHONE_VERIFICATION_RATES s)),
       (''phone_verification_check'', snd (PHONE_VERIFICATION_RATES s))]\<rparr>"

section \<open>Logging\<close>

text \<open>
  \<open>dictConfig\<close>'s dictionary, and what \<open>logging\<close> makes of it: a record takes its level from the nearest configured
  logger among the ancestors of its name, and goes to the handlers of all of them up to the first that does not
  propagate. The handlers of this configuration have no level of their own.
\<close>

record logger_config =
  lg_handlers :: "string list"
  lg_level :: string
  lg_propagate :: bool

record logging_config =
  lc_disable_existing_loggers :: bool
  lc_formatters :: "(string \<times> string \<times> string) list"
  lc_handlers :: "(string \<times> string \<times> string) list"
  lc_root :: logger_config
  lc_loggers :: "(string \<times> logger_config) list"

definition LOGGING :: "env_reader \<Rightarrow> logging_config" where
  "LOGGING env = \<lparr>
     lc_disable_existing_loggers = False,
     lc_formatters = [(''console'', ''{asctime} {levelname} {name}: {message}'', ''{'')],
     lc_handlers = [(''console'', ''logging.StreamHandler'', ''console'')],
     lc_root = \<lparr>lg_handlers = [''console''], lg_level = env_str env ''DJANGO_LOG_LEVEL'' ''INFO'', lg_propagate = False\<rparr>,
     lc_loggers = [(''twilio'', \<lparr>lg_handlers = [''console''], lg_level = ''WARNING'', lg_propagate = False\<rparr>)]\<rparr>"

definition level_number :: "string \<Rightarrow> int" where
  "level_number l = (if l = ''DEBUG'' then 10 else if l = ''INFO'' then 20 else if l = ''WARNING'' then 30
     else if l = ''ERROR'' then 40 else if l = ''CRITICAL'' then 50 else 0)"

fun parent_names :: "string list \<Rightarrow> string list" where
  "parent_names [] = []"
| "parent_names (part # parts) = part # map (\<lambda>n. part @ CHR ''.'' # n) (parent_names parts)"

definition configured_loggers :: "logging_config \<Rightarrow> string list \<Rightarrow> logger_config list" where
  "configured_loggers cfg parts = List.map_filter (map_of (lc_loggers cfg)) (rev (parent_names parts))"

fun handlers_reached :: "logger_config list \<Rightarrow> logger_config \<Rightarrow> string list" where
  "handlers_reached [] base = lg_handlers base"
| "handlers_reached (l # ls) base = lg_handlers l @ (if lg_propagate l then handlers_reached ls base else [])"

text \<open>The handlers that get a record of a logger, given the parts of its dotted name.\<close>

definition handled_by :: "logging_config \<Rightarrow> string list \<Rightarrow> int \<Rightarrow> string list" where
  "handled_by cfg parts level =
     (let ls = configured_loggers cfg parts;
          threshold = level_number (lg_level (case ls of [] \<Rightarrow> lc_root cfg | l # _ \<Rightarrow> l))
      in if threshold \<le> level then handlers_reached ls (lc_root cfg) else [])"

lemma map_filter_all_None: "(\<And>x. x \<in> set xs \<Longrightarrow> f x = None) \<Longrightarrow> List.map_filter f xs = []"
  by (induction xs) (simp_all add: List.map_filter_simps)

text \<open>
  What Twilio's client logs below a warning, such as the parameters of its requests, is dropped at whatever level
  the root is set; a warning reaches the console once.
\<close>

lemma twilio_log_records:
  "handled_by (LOGGING env) (''twilio'' # parts) level = (if 30 \<le> level then [''console''] else [])"
proof -
  let ?cfg = "LOGGING env"
  have longer: "List.map_filter (map_of (lc_loggers ?cfg)) (rev (map (\<lambda>n. ''twilio'' @ CHR ''.'' # n) (parent_names parts))) = []"
    by (rule map_filter_all_None) (auto simp: LOGGING_def)
  have "configured_loggers ?cfg (''twilio'' # parts) =
      [\<lparr>lg_handlers = [''console''], lg_level = ''WARNING'', lg_propagate = False\<rparr>]"
    using longer by (simp add: configured_loggers_def List.map_filter_def LOGGING_def)
  then show ?thesis by (simp add: handled_by_def level_number_def)
qed

section \<open>Entry points\<close>

text \<open>
  All three entry points do \<open>os.environ.setdefault("DJANGO_SETTINGS_MODULE", ...)\<close> before Django imports the module
  that the variable names.
\<close>

definition manage_settings_module :: "(string \<Rightarrow> string option) \<Rightarrow> string" where
  "manage_settings_module environ = env_default (environ ''DJANGO_SETTINGS_MODULE'') ''config.settings.development''"

definition asgi_settings_module :: "(string \<Rightarrow> string option) \<Rightarrow> string" where
  "asgi_settings_module environ = env_default (environ ''DJANGO_SETTINGS_MODULE'') ''config.settings.development''"

definition wsgi_settings_module :: "(string \<Rightarrow> string option) \<Rightarrow> string" where
  "wsgi_settings_module environ = env_default (environ ''DJANGO_SETTINGS_MODULE'') ''config.settings.development''"

definition import_settings :: "string \<Rightarrow> env_reader \<Rightarrow> exn + settings" where
  "import_settings name env =
     (if name = ''config.settings.base'' then base_settings env
      else if name = ''config.settings.development'' then development_settings env
      else if name = ''config.settings.production''
      then bind_res (production_settings env) (\<lambda>p. Inr (settings.truncate p))
      else Inl (raise (OtherExn ''ModuleNotFoundError'' False) name))"

text \<open>
  A server debugs only when the variable \<open>DJANGO_DEBUG\<close> says so or it runs the development settings, and it runs
  these when nothing names another module: then an environment without variables gives debugging and the
  secret key of the source.
\<close>

lemma served_debug:
  assumes "import_settings (wsgi_settings_module environ) env = Inr s" and "DEBUG s"
  shows "er_bool env ''DJANGO_DEBUG'' = Some (Inr True) \<or>
    environ ''DJANGO_SETTINGS_MODULE'' \<in> {None, Some ''config.settings.development''}"
proof (cases "environ ''DJANGO_SETTINGS_MODULE''")
  case (Some name)
  have base: "er_bool env ''DJANGO_DEBUG'' = Some (Inr True)" if "base_settings env = Inr s" "DEBUG s" for s
    using base_settings_flags(5) [OF that(1)] that(2) by (simp add: env_bool_def env_default_def split: option.splits)
  have "\<not> DEBUG (settings.truncate p)" if "production_settings env = Inr p" for p
    using that by (auto simp: production_settings_def settings.defs production_settings.defs split: if_splits)
  with assms Some base show ?thesis
    by (auto simp: import_settings_def wsgi_settings_module_def split: if_splits)
qed simp

lemma served_by_default:
  "wsgi_settings_module (\<lambda>_. None) = ''config.settings.development''"
  "\<exists>s. import_settings ''config.settings.development'' empty_environment = Inr s \<and> DEBUG s \<and>
     SECRET_KEY s = ''unsafe-development-only-key''"
  by (simp_all add: wsgi_settings_module_def import_settings_def development_settings_def base_settings_def
      empty_environment_def read_database_parts_def choose_database_def all_database_parts_def env_defs Let_def)

section \<open>How the lists fit\<close>

definition comes_before :: "string \<Rightarrow> string \<Rightarrow> string list \<Rightarrow> bool" where
  "comes_before a b xs \<longleftrightarrow> a \<in> set xs \<and> b \<in> set (tl (dropWhile (\<lambda>x. x \<noteq> a) xs)) \<and> distinct xs"

text \<open>
  The health check answers before anything inspects the host or redirects to https, static files are served right
  behind the security headers, and the orders that Django, whitenoise and the CORS package document hold.
\<close>

lemma middleware_order:
  "hd MIDDLEWARE = ''config.middleware.LoadBalancerHealthCheckMiddleware''"
  "comes_before ''django.middleware.security.SecurityMiddleware'' ''whitenoise.middleware.WhiteNoiseMiddleware'' MIDDLEWARE"
  "comes_before ''corsheaders.middleware.CorsMiddleware'' ''django.middleware.common.CommonMiddleware'' MIDDLEWARE"
  "comes_before ''whitenoise.middleware.WhiteNoiseMiddleware'' ''django.contrib.sessions.middleware.SessionMiddleware''
     MIDDLEWARE"
  "comes_before ''django.contrib.sessions.middleware.SessionMiddleware''
     ''django.contrib.auth.middleware.AuthenticationMiddleware'' MIDDLEWARE"
  "comes_before ''django.middleware.csrf.CsrfViewMiddleware''
     ''django.contrib.auth.middleware.AuthenticationMiddleware'' MIDDLEWARE"
  "comes_before ''django.contrib.auth.middleware.AuthenticationMiddleware''
     ''django.contrib.messages.middleware.MessageMiddleware'' MIDDLEWARE"
  by code_simp+

definition app_of :: "string \<Rightarrow> string" where
  "app_of table = takeWhile (\<lambda>c. c \<noteq> CHR ''.'') table"

definition local_apps :: "app_config list" where
  "local_apps = [accounts_config, scheduling_config, delivery_config, weather_config]"

text \<open>Every table and migration belongs to an application of the project, which is installed with its own label.\<close>

lemma tables_are_installed:
  "\<forall>t \<in> set (map fst models_schema @ map mg_name migrations). app_of t \<in> set (map ac_label local_apps)"
  "\<forall>a \<in> set local_apps. list_ex (\<lambda>n. starts_with (ac_name a @ ''.apps.'') n) INSTALLED_APPS"
  "distinct (map ac_label local_apps)" "app_of AUTH_USER_MODEL \<in> set (map ac_label local_apps)"
  by code_simp+

text \<open>The names of the login settings are those of URLs, and after the login a user is sent to the event list.\<close>

lemma login_urls:
  "reverse_url LOGIN_URL i = Some ''login/''" "LOGOUT_REDIRECT_URL = LOGIN_URL"
  "reverse_url LOGIN_REDIRECT_URL i = Some ''events/''" "resolve ''events/'' = Some (User_Route Event_List)"
  by code_simp+

end
