(* ===== verification/Spec2Isabelle.thy ===== *)
theory Spec2Isabelle
  imports Scheduling_Properties Delivery_Properties Queue_Properties Callback_Properties
    Accounts_Properties Twilio_Properties Envelope_Properties Worker_Properties Webhook_Properties
    Command_Properties Processes View_Properties Seed
    Queue_Delivery Schema Administration Site_Configuration
begin

text \<open>
  A verification development for the wake-up call service, a Django project whose code is under
  \<open>src/apps\<close> (accounts, scheduling, delivery, weather) and \<open>src/config\<close>. A user enrols and verifies a phone,
  schedules an event; when the event is due the service looks up the weather, renders an announcement and
  sends it as a text message or a call; replies and status callbacks come back through Twilio's webhooks.

  \<^bold>\<open>How the program is modelled.\<close> The database (\<open>Store\<close>, record \<open>db\<close>) has one table per model, each the list
  of its rows and its next primary key; a user is its primary key. A function under \<open>transaction.atomic\<close> is
  \<open>db \<Rightarrow> exn + 'a \<times> db\<close>: an exception rolls back, so it has no new database. A service of several
  transactions returns its result or exception, the database after the last transaction, and the external
  calls it made. Exceptions are values: a class of the program's own hierarchies or of Python and Django,
  with the text and the fields (\<open>Failures\<close>). An instant is in microseconds since year 1, so that
  \<open>datetime\<close>'s range is a bound on it. Each operation takes a \<open>clock\<close>, one value per reading of
  \<open>timezone.now()\<close> in the order of the code, about which nothing is assumed. A partial save writes just the
  columns of its \<open>update_fields\<close> over the stored row.

  \<^bold>\<open>Which theory models what.\<close>
    \<^item> \<open>Prelude\<close>, \<open>Python_Text\<close>, \<open>Calendar\<close>, \<open>Json\<close>, \<open>Json_Text\<close>: results, tables with the interface \<open>row_store\<close>,
      Python's \<open>str\<close>, regular expressions with a final dollar, \<open>int()\<close>, \<open>isoformat\<close>, and the \<open>json\<close> module.
    \<^item> \<open>Accounts_Model\<close>, \<open>Scheduling_Model\<close>, \<open>Delivery_Model\<close>: the three \<open>models.py\<close>. \<open>Lifecycle\<close> is the contract of a
      status field (locale \<open>lifecycle\<close>), interpreted on the event's and the attempt's \<open>transition_to\<close>.
    \<^item> \<open>Choices\<close>, \<open>Schema\<close>: Django's \<open>TextChoices\<close> (locale \<open>text_choices\<close>, interpreted on every enumeration), the columns
      the models declare, the migrations, and that the one builds the other.
    \<^item> \<open>Invariant\<close>: \<open>wf_db\<close>, what every operation keeps of the tables: keys and unique columns, every event on a
      verified phone of its owner, the timestamps of a status, the attempts of an event numbered 1, 2, ...,
      all but the last failed for a retry, the last agreeing with the event.
    \<^item> \<open>Scheduling_Services\<close>: \<open>scheduling/services.py\<close>. \<open>Pending_Changes\<close> states what its three changes promise to
      the reply channels (locale \<open>pending_change\<close>, interpreted on each).
    \<^item> \<open>Accounts_Services\<close>: \<open>accounts/services.py\<close> and \<open>verification.py\<close>.
    \<^item> \<open>Weather\<close>: \<open>apps/weather\<close> and \<open>delivery/messages.py\<close>. \<open>Twilio\<close>, \<open>Twilio_Voice\<close>: \<open>twilio_verify.py\<close>,
      \<open>twilio_sms.py\<close>, \<open>twilio_voice.py\<close>, \<open>twilio_sender.py\<close>.
    \<^item> \<open>Delivery_Claims\<close>, \<open>Queued_Claims\<close>, \<open>Delivery_Outcomes\<close>, \<open>Delivery_Services\<close>, \<open>Delivery_Correctness\<close>:
      \<open>delivery/services.py\<close>, its transactions (claim, batch claim, queued claim, the recordings) and the services
      made of them. \<open>Voice_Callbacks\<close>, \<open>Inbound_Sms\<close>: the callbacks and text commands of the same file;
      \<open>Receivers\<close> is their contract (locale \<open>idempotent_receiver\<close>).
    \<^item> \<open>Queueing\<close>, \<open>Sqs\<close>, \<open>Queue_Services\<close>: \<open>queueing.py\<close> with the interface of a queue (locale
      \<open>queue_contract\<close>, interpreted on the SQS queue), \<open>sqs.py\<close>, \<open>queue_services.py\<close>. \<open>Queue_Delivery\<close>
      composes them: from a dispatcher's tick through its messages to the delivered events.
    \<^item> \<open>Webhooks\<close>: \<open>twilio_webhooks.py\<close> and \<open>delivery/views.py\<close>.
    \<^item> \<open>Settings\<close>, \<open>Commands\<close>, \<open>Seed\<close>: \<open>config/settings\<close>, the middleware and health view, the management commands.
    \<^item> \<open>Request_Forms\<close>, \<open>Event_Views\<close>, \<open>Account_Views\<close>, \<open>Urls\<close>: the forms, serializers, pages, API views, the
      administrator's bulk cancellation, the URL files and the dispatch of a request with its decorators.
    \<^item> \<open>Administration\<close>: the three \<open>admin.py\<close>, every name in them resolved against the tables of \<open>Schema\<close>, and the
      columns each leaves editable. \<open>Site_Configuration\<close>: the static lists of \<open>settings/base.py\<close>, the \<open>apps.py\<close>, the entry points.
    \<^item> \<open>Processes\<close>: all of this running concurrently on one database. A process is between two transactions of a
      delivery or waits for a provider; a step is one committed transaction, one external call, or a crash.
    \<^item> The \<open>..._Properties\<close> theories, \<open>View_Isolation\<close> and \<open>View_Agreement\<close>: the properties, numbered C1, C2, ...,
      each with a witness on the small database of \<open>Samples\<close>.

  \<^bold>\<open>What the properties show.\<close> Concurrency: whatever interleaves or crashes, the database stays well-formed
  and at most one message is sent per event (C1); each service run alone is a schedule of these steps (C2).
  Delivery: results on every branch, the selection and bookkeeping of batches, the decision of a queued claim,
  the end of retries, no second send. Replies: the status history is monotone, a menu digit and a text message
  act at most once. Queue: round trip and soundness of envelopes, each message settled as the outcome of its own
  processing asks, bounds of delays, what a worker may raise, delivery of every due event once whatever the order of the messages.
  Accounts: verification only by an approval for the row's number.
  Scheduling: the lifecycle and each service on every branch. Requests: unsigned webhooks change nothing;
  users change and see only their own rows; every request is answered but for named exceptions; redirects
  lead to pages. Commands and settings: no real send without its setting and its option; reseeding replaces
  exactly the reserved user's events. Beside the numbered properties \<open>Schema\<close> checks that the migrations build
  what the models declare, and \<open>Administration\<close> that its classes name existing columns.

  \<^bold>\<open>Parameters.\<close> What is not under \<open>src/\<close> is an argument: the HTTP session of the weather provider, Twilio's
  clients, signature validator and \<open>urlparse\<close>'s bracketed-host check, boto3's client, \<open>django-environ\<close>, the field
  conversions of Django and Django REST framework (record \<open>framework\<close>), the throttle's decision, the grammar of
  \<open>datetime.fromisoformat\<close>, conversions between floats and text, and what other transactions commit while a
  call is out (\<open>meanwhile\<close>, \<open>others\<close>, \<open>re_before\<close>, \<open>re_during\<close>). Properties that rely on documented behaviour of
  these name it as a hypothesis, and their witnesses instantiate it.

  \<^bold>\<open>Bounds and fuel.\<close> Services, parsers and loops over batches are total functions. The worker's endless loop
  takes as fuel the number of polls: its property holds for every fuel, \<open>None\<close> meaning that it is still
  running, and with \<open>--once\<close> any positive fuel gives a result. \<open>json.loads\<close> takes the interpreter's nesting limit
  as an argument, and the round trip of envelopes holds for every positive limit. Integers are Python's and
  unbounded; the widths of database columns appear where the code can exceed them (the status sequence
  number, provider identifiers, the exception class recorded as an error code, truncated error texts). So does
  PostgreSQL's refusal of the NUL character in texts that come from outside (\<open>text_storable\<close>, \<open>nul_refused\<close>).

  \<^bold>\<open>Not modelled.\<close> Characters are those of Latin-1. The login, sessions, CSRF and the templates are Django's or
  markup. The administration site is Django's; of it the classes and their action are modelled, its change
  views and deletions are not. Those saves are not steps of the processes: C1 says nothing about an event that
  an administrator edits or deletes by hand. The Docker and AWS files are configuration, of the entry
  points only the choice of the settings is modelled. The throttle's cache is a parameter.
  Rows with equal sort keys come in the order of their identifiers, where the database leaves it open.
  Log lines and the wording of framework messages have no effect on state. Row locks are not states of the
  model: a transaction is one step, \<open>SKIP LOCKED\<close> a predicate of the rows others hold.
\<close>

end
